(* ===== verification/Prelude.thy ===== *)
theory Prelude
  imports Main "HOL-Library.Word"
begin

text \<open>
  Shared vocabulary of the development: bytes and machine integers, the result type of
  fallible Rust code with its \<open>?\<close> operator, panics, big-endian bytes of a word, the
  \<open>as_chunks\<close> and decimal \<open>Display\<close> operations of the standard library.
\<close>

unbundle bit_operations_syntax

type_synonym u8 = "8 word"
type_synonym u16 = "16 word"
type_synonym u32 = "32 word"
type_synonym u64 = "64 word"
type_synonym bytes = "u8 list"

named_theorems read_write_simps \<open>a reader applied to what its writer produced\<close>
named_theorems read_iffs \<open>a successful read, as an equation on its input\<close>
named_theorems width_simps \<open>lengths of what the writers produce\<close>

section \<open>Definitions\<close>

subsection \<open>Results and panics\<close>

text \<open>
  \<open>Result<T, E>\<close> is \<open>'e + 'a\<close> with \<open>Inl\<close> for \<open>Err\<close>. A function that can panic returns
  \<open>panic + 'a\<close>. \<open>and_then\<close> is the \<open>?\<close> operator: the first error is returned.
\<close>

datatype panic = Panic string

definition and_then :: "'e + 'a \<Rightarrow> ('a \<Rightarrow> 'e + 'b) \<Rightarrow> 'e + 'b" where
  "and_then r f = (case r of Inl e \<Rightarrow> Inl e | Inr x \<Rightarrow> f x)"

definition map_err :: "('e \<Rightarrow> 'f) \<Rightarrow> 'e + 'a \<Rightarrow> 'f + 'a" where
  "map_err g r = (case r of Inl e \<Rightarrow> Inl (g e) | Inr x \<Rightarrow> Inr x)"

definition ok_or :: "'a option \<Rightarrow> 'e \<Rightarrow> 'e + 'a" where
  "ok_or x e = (case x of None \<Rightarrow> Inl e | Some v \<Rightarrow> Inr v)"

text \<open>
  A method on \<open>&mut self\<close> that returns a \<open>Result\<close> and may panic: the panic, or the result
  and the state it leaves. \<open>try_then\<close> is \<open>?\<close> in such a method: an error returns at once
  with the state reached so far.
\<close>

type_synonym ('e, 'a, 's) outcome = "panic + ('e + 'a) \<times> 's"

definition try_then ::
    "('e, 'a, 's) outcome \<Rightarrow> ('a \<Rightarrow> 's \<Rightarrow> ('e, 'b, 's) outcome) \<Rightarrow> ('e, 'b, 's) outcome" where
  "try_then m f =
     and_then m (\<lambda>(res, s). case res of Inl e \<Rightarrow> Inr (Inl e, s) | Inr x \<Rightarrow> f x s)"

subsection \<open>Big-endian bytes\<close>

fun be_of_nat :: "nat \<Rightarrow> nat \<Rightarrow> bytes" where
  "be_of_nat 0 x = []"
| "be_of_nat (Suc n) x = be_of_nat n (x div 256) @ [word_of_nat x]"

definition nat_of_be :: "bytes \<Rightarrow> nat" where
  "nat_of_be bs = foldl (\<lambda>a b. a * 256 + unat b) 0 bs"

text \<open>\<open>to_be_bytes\<close> and \<open>from_be_bytes\<close> of Rust's integers, at any width.\<close>

definition to_be_bytes :: "'a::len word \<Rightarrow> bytes" where
  "to_be_bytes w = be_of_nat (LENGTH('a) div 8) (unat w)"

definition from_be_bytes :: "bytes \<Rightarrow> 'a::len word" where
  "from_be_bytes bs = word_of_nat (nat_of_be bs)"

definition to_le_bytes :: "'a::len word \<Rightarrow> bytes" where
  "to_le_bytes w = rev (to_be_bytes w)"

subsection \<open>Slices\<close>

text \<open>
  \<open><[T]>::as_chunks::<N>()\<close>: as many whole chunks of \<open>N\<close> elements as fit, and the
  remainder.
\<close>

fun as_chunks_aux :: "nat \<Rightarrow> nat \<Rightarrow> 'a list \<Rightarrow> 'a list list" where
  "as_chunks_aux 0 n xs = []"
| "as_chunks_aux (Suc k) n xs = take n xs # as_chunks_aux k n (drop n xs)"

definition as_chunks :: "nat \<Rightarrow> 'a list \<Rightarrow> 'a list list \<times> 'a list" where
  "as_chunks n xs =
     (as_chunks_aux (length xs div n) n xs, drop (n * (length xs div n)) xs)"

text \<open>\<open>Iterator::position\<close> and \<open>Vec::insert\<close>.\<close>

fun position :: "('a \<Rightarrow> bool) \<Rightarrow> 'a list \<Rightarrow> nat option" where
  "position p [] = None"
| "position p (x # xs) = (if p x then Some 0 else map_option Suc (position p xs))"

definition vec_insert :: "nat \<Rightarrow> 'a \<Rightarrow> 'a list \<Rightarrow> 'a list" where
  "vec_insert i x xs = take i xs @ x # drop i xs"

text \<open>\<open>usize::try_from\<close> of a \<open>u64\<close>, on a target with 64-bit addresses.\<close>

definition usize_try_from :: "u64 \<Rightarrow> nat option" where
  "usize_try_from n = (if unat n < 2 ^ 64 then Some (unat n) else None)"

subsection \<open>Text\<close>

text \<open>
  A \<open>&str\<close> is its UTF-8 bytes. \<open>std::str::from_utf8\<close> accepts the well-formed sequences of
  one to four bytes, without overlong forms, surrogates or values above U+10FFFF.
\<close>

definition utf8_cont :: "u8 \<Rightarrow> bool" where
  "utf8_cont b \<longleftrightarrow> 0x80 \<le> b \<and> b \<le> 0xbf"

fun utf8_valid :: "bytes \<Rightarrow> bool" where
  "utf8_valid [] = True"
| "utf8_valid (a # bs) =
     (if a < 0x80 then utf8_valid bs
      else (case bs of
        [] \<Rightarrow> False
      | b # cs \<Rightarrow>
         if 0xc2 \<le> a \<and> a \<le> 0xdf then utf8_cont b \<and> utf8_valid cs
         else (case cs of
           [] \<Rightarrow> False
         | c # ds \<Rightarrow>
            if a = 0xe0 then 0xa0 \<le> b \<and> b \<le> 0xbf \<and> utf8_cont c \<and> utf8_valid ds
            else if a = 0xed then 0x80 \<le> b \<and> b \<le> 0x9f \<and> utf8_cont c \<and> utf8_valid ds
            else if 0xe1 \<le> a \<and> a \<le> 0xef then utf8_cont b \<and> utf8_cont c \<and> utf8_valid ds
            else (case ds of
              [] \<Rightarrow> False
            | d # es \<Rightarrow>
               (if a = 0xf0 then 0x90 \<le> b \<and> b \<le> 0xbf
                else if 0xf1 \<le> a \<and> a \<le> 0xf3 then utf8_cont b
                else a = 0xf4 \<and> 0x80 \<le> b \<and> b \<le> 0x8f) \<and>
               utf8_cont c \<and> utf8_cont d \<and> utf8_valid es))))"

declare utf8_valid.simps(2) [simp del]

definition str_from_utf8 :: "bytes \<Rightarrow> bytes option" where
  "str_from_utf8 bs = (if utf8_valid bs then Some bs else None)"

text \<open>\<open>Display\<close> of an unsigned integer: its decimal digits, no leading zero.\<close>

fun string_of_nat :: "nat \<Rightarrow> string" where
  "string_of_nat n =
     (if n < 10 then [char_of (48 + n)]
      else string_of_nat (n div 10) @ [char_of (48 + n mod 10)])"

declare string_of_nat.simps [simp del]

text \<open>\<open>str::contains\<close>.\<close>

fun contains :: "string \<Rightarrow> string \<Rightarrow> bool" where
  "contains [] pat = (pat = [])"
| "contains (c # s) pat = (take (length pat) (c # s) = pat \<or> contains s pat)"

text \<open>A byte string literal \<open>b"..."\<close>.\<close>

definition ascii :: "string \<Rightarrow> bytes" where
  "ascii s = map of_char s"

section \<open>Results\<close>

lemma and_then_simps [simp]:
  "and_then (Inl e) f = Inl e"
  "and_then (Inr x) f = f x"
  by (simp_all add: and_then_def)

lemma and_then_cong [fundef_cong]:
  "r = r' \<Longrightarrow> (\<And>x. r' = Inr x \<Longrightarrow> f x = g x) \<Longrightarrow> and_then r f = and_then r' g"
  by (simp add: and_then_def split: sum.split)

lemma and_then_Inr_iff [simp]:
  "and_then r f = Inr y \<longleftrightarrow> (\<exists>x. r = Inr x \<and> f x = Inr y)"
  by (cases r) auto

lemma and_then_Inl_iff:
  "and_then r f = Inl e \<longleftrightarrow> r = Inl e \<or> (\<exists>x. r = Inr x \<and> f x = Inl e)"
  by (cases r) auto

lemma map_err_simps [simp]:
  "map_err g (Inl e) = Inl (g e)"
  "map_err g (Inr x) = Inr x"
  by (simp_all add: map_err_def)

lemma map_err_Inr_iff [simp]: "map_err g r = Inr x \<longleftrightarrow> r = Inr x"
  by (cases r) auto

lemma ok_or_simps [simp]:
  "ok_or None e = Inl e"
  "ok_or (Some x) e = Inr x"
  by (simp_all add: ok_or_def)

lemma ok_or_Inr_iff [simp]: "ok_or x e = Inr v \<longleftrightarrow> x = Some v"
  by (cases x) auto

lemma try_then_simps [simp]:
  "try_then (Inl p) f = Inl p"
  "try_then (Inr (Inl e, s)) f = Inr (Inl e, s)"
  "try_then (Inr (Inr x, s)) f = f x s"
  by (simp_all add: try_then_def)

lemma try_then_ok_iff:
  "try_then m f = Inr (Inr y, s') \<longleftrightarrow> (\<exists>x s. m = Inr (Inr x, s) \<and> f x s = Inr (Inr y, s'))"
proof (cases m)
  case (Inr p)
  then show ?thesis by (cases p; cases "fst p") auto
qed simp

lemma try_then_total:
  assumes "\<exists>res s. m = Inr (res, s)" and "\<And>x s. \<exists>res s'. f x s = Inr (res, s')"
  shows "\<exists>res s. try_then m f = Inr (res, s)"
proof -
  obtain res s where m: "m = Inr (res, s)" using assms(1) by blast
  show ?thesis using assms(2) by (cases res) (auto simp: m)
qed

section \<open>Bytes of numbers\<close>

lemma length_be_of_nat [simp]: "length (be_of_nat n x) = n"
  by (induction n arbitrary: x) auto

lemma nat_of_be_Nil [simp]: "nat_of_be [] = 0"
  by (simp add: nat_of_be_def)

lemma nat_of_be_snoc [simp]: "nat_of_be (bs @ [b]) = nat_of_be bs * 256 + unat b"
  by (simp add: nat_of_be_def)

lemma unat_u8_less: "unat (b :: u8) < 256"
  using unsigned_less [of b] by simp

lemma unat_u64_less: "unat (w :: u64) < 2 ^ 64"
  using unsigned_less [of w] by simp

lemma unat_u64_of_nat: "n < 2 ^ 64 \<Longrightarrow> unat (word_of_nat n :: u64) = n"
  by (simp add: unsigned_of_nat take_bit_nat_eq_self)

lemma unat_word_of_nat_u8: "unat (word_of_nat x :: u8) = x mod 256"
  by (simp add: unsigned_of_nat take_bit_eq_mod)

lemma nat_of_be_be_of_nat [simp]: "nat_of_be (be_of_nat n x) = x mod 256 ^ n"
proof (induction n arbitrary: x)
  case 0
  then show ?case by simp
next
  case (Suc n)
  have "nat_of_be (be_of_nat (Suc n) x) = 256 * (x div 256 mod 256 ^ n) + x mod 256"
    by (simp add: Suc unat_word_of_nat_u8)
  also have "\<dots> = x mod (256 * 256 ^ n)"
    by (simp add: mod_mult2_eq)
  finally show ?case by simp
qed

lemma nat_of_be_less: "nat_of_be bs < 256 ^ length bs"
proof (induction bs rule: rev_induct)
  case Nil
  then show ?case by simp
next
  case (snoc b bs)
  have "nat_of_be bs * 256 + unat b < (nat_of_be bs + 1) * 256"
    using unat_u8_less [of b] by simp
  also have "\<dots> \<le> 256 ^ length bs * 256"
    using snoc by (intro mult_right_mono) auto
  finally show ?case by (simp add: mult.commute)
qed

lemma be_of_nat_nat_of_be [simp]: "be_of_nat (length bs) (nat_of_be bs) = bs"
proof (induction bs rule: rev_induct)
  case Nil
  then show ?case by simp
next
  case (snoc b bs)
  have "(word_of_nat (nat_of_be bs * 256 + unat b) :: u8) = b"
    using unat_u8_less [of b] by (intro word_unat_eq_iff [THEN iffD2])
      (simp add: unat_word_of_nat_u8 del: of_nat_add of_nat_mult)
  with snoc show ?case using unat_u8_less [of b] by simp
qed

lemma two_power_bytes: "8 dvd n \<Longrightarrow> (256::nat) ^ (n div 8) = 2 ^ n"
proof -
  assume "8 dvd n"
  then obtain k where "n = 8 * k" ..
  then show ?thesis by (simp add: power_mult)
qed

lemma length_to_be_bytes [simp]: "length (to_be_bytes (w :: 'a::len word)) = LENGTH('a) div 8"
  by (simp add: to_be_bytes_def)

lemma length_to_le_bytes [simp]: "length (to_le_bytes (w :: 'a::len word)) = LENGTH('a) div 8"
  by (simp add: to_le_bytes_def)

lemma from_to_be_bytes:
  "8 dvd LENGTH('a) \<Longrightarrow> from_be_bytes (to_be_bytes w) = (w :: 'a::len word)"
  by (simp add: from_be_bytes_def to_be_bytes_def two_power_bytes)

lemma to_from_be_bytes:
  assumes "8 dvd LENGTH('a)" and "length bs = LENGTH('a) div 8"
  shows "to_be_bytes (from_be_bytes bs :: 'a::len word) = bs"
proof -
  have "nat_of_be bs < 2 ^ LENGTH('a)"
    using nat_of_be_less [of bs] assms by (simp add: two_power_bytes)
  then have "unat (from_be_bytes bs :: 'a word) = nat_of_be bs"
    by (simp add: from_be_bytes_def unsigned_of_nat take_bit_nat_eq_self)
  then show ?thesis using be_of_nat_nat_of_be [of bs] assms by (simp add: to_be_bytes_def)
qed

section \<open>Slices and positions\<close>

lemma usize_try_from_u64 [simp]: "usize_try_from n = Some (unat n)"
  using unsigned_less [of n] by (simp add: usize_try_from_def)

lemma position_None_iff: "position p xs = None \<longleftrightarrow> (\<forall>x \<in> set xs. \<not> p x)"
  by (induction xs) auto

lemma position_Some:
  "position p xs = Some i \<Longrightarrow> i < length xs \<and> p (xs ! i) \<and> (\<forall>j < i. \<not> p (xs ! j))"
proof (induction xs arbitrary: i)
  case Nil
  then show ?case by simp
next
  case (Cons x xs)
  then show ?case by (cases i) (auto simp: less_Suc_eq_0_disj split: if_splits)
qed

lemma position_or_length:
  "(case position p xs of Some i \<Rightarrow> i | None \<Rightarrow> length xs) = length (takeWhile (\<lambda>x. \<not> p x) xs)"
  by (induction xs) (auto split: option.splits)

lemma vec_insert_takeWhile:
  "vec_insert (length (takeWhile q xs)) x xs = takeWhile q xs @ x # dropWhile q xs"
  by (simp add: vec_insert_def takeWhile_eq_take [symmetric] dropWhile_eq_drop [symmetric])

lemma nth_length_append: "ys \<noteq> [] \<Longrightarrow> (xs @ ys) ! length xs = hd ys"
  by (cases ys) auto

text \<open>\<open>as_chunks\<close> inverts the concatenation of whole chunks, and nothing else.\<close>

lemma length_concat_chunks: "\<forall>c \<in> set cs. length c = n \<Longrightarrow> length (concat cs) = n * length cs"
  by (induction cs) auto

lemma as_chunks_aux_concat:
  "\<forall>c \<in> set cs. length c = n \<Longrightarrow> as_chunks_aux (length cs) n (concat cs @ rest) = cs"
  by (induction cs) auto

lemma as_chunks_concat:
  assumes "0 < n" and "\<forall>c \<in> set cs. length c = n"
  shows "as_chunks n (concat cs) = (cs, [])"
  using assms as_chunks_aux_concat [of cs n "[]"] length_concat_chunks [OF assms(2)]
  by (simp add: as_chunks_def)

lemma as_chunks_aux_split:
  "k * n \<le> length xs \<Longrightarrow>
     length (as_chunks_aux k n xs) = k \<and> (\<forall>c \<in> set (as_chunks_aux k n xs). length c = n) \<and>
     concat (as_chunks_aux k n xs) = take (k * n) xs"
proof (induction k arbitrary: xs)
  case 0
  then show ?case by simp
next
  case (Suc k)
  then have "k * n \<le> length (drop n xs)" by simp
  from Suc.IH [OF this] Suc.prems show ?case by (simp add: take_add)
qed

lemma as_chunks_split:
  assumes "as_chunks n xs = (cs, rest)"
  shows "xs = concat cs @ rest" and "\<forall>c \<in> set cs. length c = n" and "length cs = length xs div n"
proof -
  let ?k = "length xs div n"
  have cs: "cs = as_chunks_aux ?k n xs" and rest: "rest = drop (?k * n) xs"
    using assms by (simp_all add: as_chunks_def mult.commute [of n])
  have "?k * n \<le> length xs" by simp
  from as_chunks_aux_split [OF this] have chunks: "length cs = ?k" "\<forall>c \<in> set cs. length c = n"
    "concat cs = take (?k * n) xs"
    unfolding cs by blast+
  from chunks(3) show "xs = concat cs @ rest" by (simp add: rest)
  from chunks(2) show "\<forall>c \<in> set cs. length c = n" .
  from chunks(1) show "length cs = ?k" .
qed

text \<open>Printable ASCII, and all of ASCII, is UTF-8.\<close>

lemma utf8_valid_ascii: "\<forall>b \<in> set bs. b < 0x80 \<Longrightarrow> utf8_valid bs"
proof (induction bs)
  case Nil
  then show ?case by simp
next
  case (Cons a bs)
  have "a < 0x80" using Cons.prems by (metis list.set_intros(1))
  moreover have "utf8_valid bs" using Cons by (metis list.set_intros(2))
  ultimately show ?case by (subst utf8_valid.simps) (simp only: if_True)
qed

section \<open>Step systems\<close>

text \<open>
  What the state machines of the program share: an invariant every step keeps holds in
  every state reached from one where it holds, and a measure no step lowers never goes
  down along a run.
\<close>

locale step_system =
  fixes step :: "'s \<Rightarrow> 's \<Rightarrow> bool"
    and inv :: "'s \<Rightarrow> bool"
    and rank :: "'s \<Rightarrow> nat"
  assumes inv_step: "inv s \<Longrightarrow> step s s' \<Longrightarrow> inv s'"
    and rank_step: "inv s \<Longrightarrow> step s s' \<Longrightarrow> rank s \<le> rank s'"
begin

lemma inv_reachable: "step\<^sup>*\<^sup>* s s' \<Longrightarrow> inv s \<Longrightarrow> inv s'"
  by (induction rule: rtranclp_induct) (auto intro: inv_step)

lemma rank_reachable: "step\<^sup>*\<^sup>* s s' \<Longrightarrow> inv s \<Longrightarrow> rank s \<le> rank s'"
proof (induction rule: rtranclp_induct)
  case (step t u)
  have "inv t" using inv_reachable step.hyps(1) step.prems .
  then show ?case using rank_step [OF _ step.hyps(2)] step.IH [OF step.prems] by simp
qed simp

end

end
