(* ===== verification/External.thy ===== *)
theory External
  imports Prelude
begin

text \<open>
  Third-party code the program calls, as parameters of the model. \<open>secp\<close> holds the
  operations of the crates \<open>bitcoin\<close> and \<open>secp256k1\<close>, \<open>noise_lib\<close> those of
  \<open>chacha20poly1305\<close>, \<open>hkdf\<close> and \<open>sha2\<close>; a definition that uses them takes the record as
  an argument. \<open>keys_lawful\<close>, \<open>sigs_lawful\<close>, \<open>sign_lawful\<close>, \<open>ecdh_lawful\<close> and \<open>noise_lawful\<close>
  state the documented behaviour of these crates that some properties rest on; no
  cryptographic strength is assumed anywhere.
\<close>

section \<open>The crates bitcoin and secp256k1\<close>

record ('pk, 'sk, 'sig) secp =
  pk_from_slice :: "bytes \<Rightarrow> 'pk option"
  pk_serialize :: "'pk \<Rightarrow> bytes"
  pk_of_sk :: "'sk \<Rightarrow> 'pk"
  pk_less :: "'pk \<Rightarrow> 'pk \<Rightarrow> bool"
  pk_display :: "'pk \<Rightarrow> string"
  sk_from_slice :: "bytes \<Rightarrow> 'sk option"
  sig_from_compact :: "bytes \<Rightarrow> 'sig option"
  sig_serialize_compact :: "'sig \<Rightarrow> bytes"
  sign_ecdsa :: "bytes \<Rightarrow> 'sk \<Rightarrow> 'sig"
  verify_ecdsa :: "bytes \<Rightarrow> 'sig \<Rightarrow> 'pk \<Rightarrow> bool"
  shared_secret :: "'pk \<Rightarrow> 'sk \<Rightarrow> bytes"
  sha256d :: "bytes \<Rightarrow> bytes"

text \<open>
  A public key serializes to 33 bytes and is parsed back from them, and a 33-byte string
  that parses is the serialization of the key it parses to; the same for compact
  signatures at 64 bytes. Signing with a secret key gives a signature that verifies under
  its public key, and a shared secret is the same on both sides.
\<close>

definition keys_lawful :: "('pk, 'sk, 'sig) secp \<Rightarrow> bool" where
  "keys_lawful S \<longleftrightarrow>
     (\<forall>k. length (pk_serialize S k) = 33 \<and> pk_from_slice S (pk_serialize S k) = Some k) \<and>
     (\<forall>bs k. length bs = 33 \<longrightarrow> pk_from_slice S bs = Some k \<longrightarrow> bs = pk_serialize S k)"

definition sigs_lawful :: "('pk, 'sk, 'sig) secp \<Rightarrow> bool" where
  "sigs_lawful S \<longleftrightarrow>
     (\<forall>s. length (sig_serialize_compact S s) = 64 \<and>
          sig_from_compact S (sig_serialize_compact S s) = Some s) \<and>
     (\<forall>bs s. length bs = 64 \<longrightarrow> sig_from_compact S bs = Some s \<longrightarrow>
          bs = sig_serialize_compact S s)"

definition codec_lawful :: "('pk, 'sk, 'sig) secp \<Rightarrow> bool" where
  "codec_lawful S \<longleftrightarrow> keys_lawful S \<and> sigs_lawful S"

definition sign_lawful :: "('pk, 'sk, 'sig) secp \<Rightarrow> bool" where
  "sign_lawful S \<longleftrightarrow> (\<forall>m sk. verify_ecdsa S m (sign_ecdsa S m sk) (pk_of_sk S sk))"

definition ecdh_lawful :: "('pk, 'sk, 'sig) secp \<Rightarrow> bool" where
  "ecdh_lawful S \<longleftrightarrow>
     (\<forall>a b. shared_secret S (pk_of_sk S b) a = shared_secret S (pk_of_sk S a) b)"

section \<open>The crates chacha20poly1305, hkdf and sha2\<close>

text \<open>
  \<open>aead_encrypt\<close> takes key, nonce, associated data and message; \<open>None\<close> is the \<open>Err\<close> of the
  crate. \<open>hkdf_expand\<close> takes salt, input key material and output length, the info being
  empty.
\<close>

record noise_lib =
  aead_encrypt :: "bytes \<Rightarrow> bytes \<Rightarrow> bytes \<Rightarrow> bytes \<Rightarrow> bytes option"
  aead_decrypt :: "bytes \<Rightarrow> bytes \<Rightarrow> bytes \<Rightarrow> bytes \<Rightarrow> bytes option"
  hkdf_expand :: "bytes \<Rightarrow> bytes \<Rightarrow> nat \<Rightarrow> bytes option"
  sha256 :: "bytes \<Rightarrow> bytes"

text \<open>
  Encryption of a message of at most 65535 bytes succeeds, adds a tag of 16 bytes and is
  undone by decryption under the same key, nonce and data; what decrypts is 16 bytes longer
  than its plaintext; HKDF yields the 64 bytes asked for.
\<close>

definition noise_lawful :: "noise_lib \<Rightarrow> bool" where
  "noise_lawful N \<longleftrightarrow>
     (\<forall>k n ad p. length p \<le> 65535 \<longrightarrow>
        (\<exists>c. aead_encrypt N k n ad p = Some c \<and> length c = length p + 16 \<and>
             aead_decrypt N k n ad c = Some p)) \<and>
     (\<forall>k n ad c p. aead_decrypt N k n ad c = Some p \<longrightarrow> length c = length p + 16) \<and>
     (\<forall>salt ikm. \<exists>out. hkdf_expand N salt ikm 64 = Some out \<and> length out = 64)"

section \<open>The crate hex\<close>

text \<open>\<open>hex::encode\<close> and \<open>hex::decode\<close>, with \<open>None\<close> for the \<open>Err\<close> of the latter.\<close>

record hex_lib =
  hex_encode :: "bytes \<Rightarrow> string"
  hex_decode :: "string \<Rightarrow> bytes option"

section \<open>Consequences of the laws\<close>

lemma codec_lawfulD:
  assumes "codec_lawful S"
  shows "keys_lawful S" and "sigs_lawful S"
  using assms by (simp_all add: codec_lawful_def)

lemma pk_laws:
  assumes "keys_lawful S"
  shows "length (pk_serialize S k) = 33"
    and "pk_from_slice S (pk_serialize S k) = Some k"
    and "length bs = 33 \<Longrightarrow> pk_from_slice S bs = Some k \<Longrightarrow> bs = pk_serialize S k"
  using assms by (auto simp: keys_lawful_def)

lemma sig_laws:
  assumes "sigs_lawful S"
  shows "length (sig_serialize_compact S s) = 64"
    and "sig_from_compact S (sig_serialize_compact S s) = Some s"
    and "length bs = 64 \<Longrightarrow> sig_from_compact S bs = Some s \<Longrightarrow> bs = sig_serialize_compact S s"
  using assms by (auto simp: sigs_lawful_def)

lemma ecdh_law:
  "ecdh_lawful S \<Longrightarrow> shared_secret S (pk_of_sk S b) a = shared_secret S (pk_of_sk S a) b"
  by (simp add: ecdh_lawful_def)

lemma sign_law: "sign_lawful S \<Longrightarrow> verify_ecdsa S m (sign_ecdsa S m sk) (pk_of_sk S sk)"
  by (simp add: sign_lawful_def)

end
