(* ===== verification/Bolt_Types.thy ===== *)
theory Bolt_Types
  imports External
begin

text \<open>
  The fundamental types of \<open>bolt/src/types.rs\<close> (sizes, \<open>ChannelId\<close>, \<open>BigSize\<close>) and the
  error type \<open>BoltError\<close> of \<open>bolt/src/lib.rs\<close>.
\<close>

section \<open>Sizes\<close>

definition MAX_MESSAGE_SIZE :: nat where "MAX_MESSAGE_SIZE = 65535"
definition CHANNEL_ID_SIZE :: nat where "CHANNEL_ID_SIZE = 32"
definition CHAIN_HASH_SIZE :: nat where "CHAIN_HASH_SIZE = 32"
definition TXID_SIZE :: nat where "TXID_SIZE = 32"
definition COMPACT_SIGNATURE_SIZE :: nat where "COMPACT_SIGNATURE_SIZE = 64"
definition PUBLIC_KEY_SIZE :: nat where "PUBLIC_KEY_SIZE = 33"

lemmas size_defs = MAX_MESSAGE_SIZE_def CHANNEL_ID_SIZE_def CHAIN_HASH_SIZE_def TXID_SIZE_def
  COMPACT_SIGNATURE_SIZE_def PUBLIC_KEY_SIZE_def

section \<open>ChannelId\<close>

text \<open>
  A fixed-size array \<open>[u8; N]\<close> is a list of bytes; the well-formedness predicates of the
  development say that its length is \<open>N\<close>.
\<close>

datatype channel_id = ChannelId (as_bytes: bytes)

definition channel_id_ALL :: channel_id where
  "channel_id_ALL = ChannelId (replicate CHANNEL_ID_SIZE 0)"

definition wf_channel_id :: "channel_id \<Rightarrow> bool" where
  "wf_channel_id c \<longleftrightarrow> length (as_bytes c) = CHANNEL_ID_SIZE"

section \<open>BigSize\<close>

datatype bigsize = BigSize (bigsize_value: u64)

definition bigsize_len :: "bigsize \<Rightarrow> nat" where
  "bigsize_len b =
     (if bigsize_value b < 0xfd then 1
      else if bigsize_value b < 0x10000 then 3
      else if bigsize_value b < 0x100000000 then 5
      else 9)"

section \<open>BoltError\<close>

datatype bolt_error =
    Truncated (expected: nat) (actual: nat)
  | UnknownEvenType u16
  | InvalidPublicKey bytes
  | InvalidSignature bytes
  | UnknownEncoding u8
  | BigSizeNotMinimal
  | BigSizeTruncated
  | TlvNotIncreasing (previous: u64) (current: u64)
  | TlvLengthOverflow
  | TlvUnknownEvenType u64

text \<open>\<open>Display\<close>, as the \<open>#[error]\<close> attributes give it.\<close>

fun bolt_error_str :: "hex_lib \<Rightarrow> bolt_error \<Rightarrow> string" where
  "bolt_error_str H (Truncated e a) =
     ''TRUNCATED expected '' @ string_of_nat e @ '' got '' @ string_of_nat a"
| "bolt_error_str H (UnknownEvenType t) = ''UNKNOWN_EVEN_TYPE '' @ string_of_nat (unat t)"
| "bolt_error_str H (InvalidPublicKey bs) = ''INVALID_PUBLIC_KEY '' @ hex_encode H bs"
| "bolt_error_str H (InvalidSignature bs) = ''INVALID_SIGNATURE '' @ hex_encode H bs"
| "bolt_error_str H (UnknownEncoding b) = ''UNKNOWN_ENCODING '' @ string_of_nat (unat b)"
| "bolt_error_str H BigSizeNotMinimal = ''BIGSIZE_NOT_MINIMAL''"
| "bolt_error_str H BigSizeTruncated = ''BIGSIZE_TRUNCATED''"
| "bolt_error_str H (TlvNotIncreasing p c) =
     ''TLV_NOT_INCREASING previous '' @ string_of_nat (unat p) @
     '' current '' @ string_of_nat (unat c)"
| "bolt_error_str H TlvLengthOverflow = ''TLV_LENGTH_OVERFLOW''"
| "bolt_error_str H (TlvUnknownEvenType t) = ''TLV_UNKNOWN_EVEN_TYPE '' @ string_of_nat (unat t)"

lemma wf_channel_id_ALL [simp]: "wf_channel_id channel_id_ALL"
  by (simp add: wf_channel_id_def channel_id_ALL_def)

end
