(* ===== verification/Wire.thy ===== *)
theory Wire
  imports Bolt_Types External
begin

text \<open>
  The trait \<open>WireFormat\<close> of \<open>bolt/src/wire.rs\<close> and its implementations. A reader takes the
  bytes under the cursor and returns the value with the bytes after it, or the error; on an
  error every caller of the program drops its cursor, so the model returns none. A writer
  returns the bytes that the code appends to \<open>out\<close>.
\<close>

section \<open>Readers and writers\<close>

type_synonym 'a reader = "bytes \<Rightarrow> bolt_error + 'a \<times> bytes"

definition read_array :: "nat \<Rightarrow> bytes reader" where
  "read_array n data =
     (if length data < n then Inl (Truncated n (length data))
      else Inr (take n data, drop n data))"

definition write_array :: "bytes \<Rightarrow> bytes" where
  "write_array a = a"

text \<open>The macro \<open>impl_wire_format_int\<close>, for every unsigned integer type.\<close>

definition read_int :: "('a::len word) reader" where
  "read_int data =
     and_then (read_array (LENGTH('a) div 8) data) (\<lambda>(bs, data). Inr (from_be_bytes bs, data))"

definition write_int :: "'a::len word \<Rightarrow> bytes" where
  "write_int w = write_array (to_be_bytes w)"

abbreviation read_u8 :: "u8 reader" where "read_u8 \<equiv> read_int"
abbreviation read_u16 :: "u16 reader" where "read_u16 \<equiv> read_int"
abbreviation read_u32 :: "u32 reader" where "read_u32 \<equiv> read_int"
abbreviation read_u64 :: "u64 reader" where "read_u64 \<equiv> read_int"
abbreviation write_u8 :: "u8 \<Rightarrow> bytes" where "write_u8 \<equiv> write_int"
abbreviation write_u16 :: "u16 \<Rightarrow> bytes" where "write_u16 \<equiv> write_int"
abbreviation write_u32 :: "u32 \<Rightarrow> bytes" where "write_u32 \<equiv> write_int"
abbreviation write_u64 :: "u64 \<Rightarrow> bytes" where "write_u64 \<equiv> write_int"

text \<open>The same macro at \<open>i64\<close>: two's complement, read as an integer.\<close>

definition read_i64 :: "int reader" where
  "read_i64 data =
     and_then (read_array 8 data) (\<lambda>(bs, data). Inr (sint (from_be_bytes bs :: u64), data))"

definition write_i64 :: "int \<Rightarrow> bytes" where
  "write_i64 v = write_array (to_be_bytes (word_of_int v :: u64))"

definition read_pubkey :: "('pk, 'sk, 'sig) secp \<Rightarrow> 'pk reader" where
  "read_pubkey S data =
     and_then (read_array PUBLIC_KEY_SIZE data) (\<lambda>(buf, data).
     and_then (ok_or (pk_from_slice S buf) (InvalidPublicKey buf)) (\<lambda>pubkey.
     Inr (pubkey, data)))"

definition write_pubkey :: "('pk, 'sk, 'sig) secp \<Rightarrow> 'pk \<Rightarrow> bytes" where
  "write_pubkey S k = write_array (pk_serialize S k)"

definition read_channel_id :: "channel_id reader" where
  "read_channel_id data =
     and_then (read_array CHANNEL_ID_SIZE data) (\<lambda>(bs, data). Inr (ChannelId bs, data))"

definition write_channel_id :: "channel_id \<Rightarrow> bytes" where
  "write_channel_id c = write_array (as_bytes c)"

definition read_bigsize :: "bigsize reader" where
  "read_bigsize data =
     and_then (map_err (\<lambda>_. BigSizeTruncated) (read_u8 data)) (\<lambda>(prefix, data).
     if prefix \<le> 0xfc then Inr (BigSize (ucast prefix), data)
     else if prefix = 0xfd then
       and_then (map_err (\<lambda>_. BigSizeTruncated) (read_u16 data)) (\<lambda>(v, data).
       let value = ucast v :: u64 in
       if value < 0xfd then Inl BigSizeNotMinimal else Inr (BigSize value, data))
     else if prefix = 0xfe then
       and_then (map_err (\<lambda>_. BigSizeTruncated) (read_u32 data)) (\<lambda>(v, data).
       let value = ucast v :: u64 in
       if value < 0x10000 then Inl BigSizeNotMinimal else Inr (BigSize value, data))
     else
       and_then (map_err (\<lambda>_. BigSizeTruncated) (read_u64 data)) (\<lambda>(value, data).
       if value < 0x100000000 then Inl BigSizeNotMinimal else Inr (BigSize value, data)))"

definition write_bigsize :: "bigsize \<Rightarrow> bytes" where
  "write_bigsize b =
     (let value = bigsize_value b in
      if value < 0xfd then write_u8 (ucast value)
      else if value < 0x10000 then write_u8 0xfd @ write_u16 (ucast value)
      else if value < 0x100000000 then write_u8 0xfe @ write_u32 (ucast value)
      else write_u8 0xff @ write_u64 value)"

text \<open>\<open>Vec<u8>\<close>: a 16-bit length, then the bytes. The writer casts the length with \<open>as u16\<close>.\<close>

definition read_vec :: "bytes reader" where
  "read_vec data =
     and_then (read_u16 data) (\<lambda>(l, data).
     let len = unat l in
     if length data < len then Inl (Truncated len (length data))
     else Inr (take len data, drop len data))"

definition write_vec :: "bytes \<Rightarrow> bytes" where
  "write_vec v = write_u16 (word_of_nat (length v)) @ v"

text \<open>A \<open>Txid\<close> is its 32 bytes.\<close>

definition read_txid :: "bytes reader" where
  "read_txid data = and_then (read_array TXID_SIZE data) (\<lambda>(buf, data). Inr (buf, data))"

definition write_txid :: "bytes \<Rightarrow> bytes" where
  "write_txid t = write_array t"

definition read_signature :: "('pk, 'sk, 'sig) secp \<Rightarrow> 'sig reader" where
  "read_signature S data =
     and_then (read_array COMPACT_SIGNATURE_SIZE data) (\<lambda>(buf, data).
     and_then (ok_or (sig_from_compact S buf) (InvalidSignature buf)) (\<lambda>sig.
     Inr (sig, data)))"

definition write_signature :: "('pk, 'sk, 'sig) secp \<Rightarrow> 'sig \<Rightarrow> bytes" where
  "write_signature S s = write_array (sig_serialize_compact S s)"

section \<open>The contract of the trait\<close>

text \<open>
  What every message decoder relies on: a reader takes exactly the bytes a writer made for
  a value, whatever follows, and accepts nothing else. \<open>ok\<close> is the range of values the
  writer can represent; \<open>law\<close> is the hypothesis on third-party code, \<open>True\<close> where none is
  used.
\<close>

locale wire_format =
  fixes wr :: "'a \<Rightarrow> bytes"
    and rd :: "'a reader"
    and ok :: "'a \<Rightarrow> bool"
    and law :: bool
  assumes read_write: "law \<Longrightarrow> ok v \<Longrightarrow> rd (wr v @ rest) = Inr (v, rest)"
    and write_read: "law \<Longrightarrow> rd bs = Inr (v, rest) \<Longrightarrow> ok v \<and> bs = wr v @ rest"
begin

lemma read_write_end: "law \<Longrightarrow> ok v \<Longrightarrow> rd (wr v) = Inr (v, [])"
  using read_write [of v "[]"] by simp

lemma read_iff: "law \<Longrightarrow> rd bs = Inr (v, rest) \<longleftrightarrow> ok v \<and> bs = wr v @ rest"
  using read_write write_read by blast

lemma read_append:
  "law \<Longrightarrow> rd bs = Inr (v, rest) \<Longrightarrow> rd (bs @ extra) = Inr (v, rest @ extra)"
  by (auto simp: read_iff)

text \<open>No encoding is a proper prefix of another, so concatenated fields are unambiguous.\<close>

lemma write_prefix_free:
  assumes law and "ok v" and "ok w" and "wr v @ r = wr w @ s"
  shows "v = w \<and> r = s"
proof -
  have "Inr (v, r) = rd (wr v @ r)"
    by (rule read_write [OF assms(1,2), symmetric])
  also have "\<dots> = rd (wr w @ s)"
    by (simp only: assms(4))
  also have "\<dots> = Inr (w, s)"
    by (rule read_write [OF assms(1,3)])
  finally show ?thesis by simp
qed

lemma read_consumes: "law \<Longrightarrow> rd bs = Inr (v, rest) \<Longrightarrow> length bs = length (wr v) + length rest"
  by (simp add: read_iff)

end

text \<open>The fields of a fixed size.\<close>

locale fixed_width_format = wire_format +
  fixes width :: nat
  assumes write_width: "law \<Longrightarrow> ok v \<Longrightarrow> length (wr v) = width"
    and read_short: "length bs < width \<Longrightarrow> rd bs = Inl (Truncated width (length bs))"
begin

lemma read_width: "law \<Longrightarrow> rd bs = Inr (v, rest) \<Longrightarrow> length bs = width + length rest"
  using read_consumes write_width write_read by fastforce

lemma read_ok_long: "law \<Longrightarrow> rd bs = Inr (v, rest) \<Longrightarrow> width \<le> length bs"
  using read_width by fastforce

end

section \<open>Arrays and integers\<close>

interpretation array_format: fixed_width_format write_array "read_array n" "\<lambda>a. length a = n" True n
  for n
  by unfold_locales (auto simp: read_array_def write_array_def split: if_splits)

lemma read_int_short:
  "length bs < LENGTH('a::len) div 8 \<Longrightarrow>
     (read_int :: 'a word reader) bs = Inl (Truncated (LENGTH('a) div 8) (length bs))"
  by (simp add: read_int_def read_array_def)

lemma read_write_int:
  "8 dvd LENGTH('a::len) \<Longrightarrow> read_int (write_int w @ rest) = Inr (w :: 'a word, rest)"
  by (simp add: read_int_def read_array_def write_int_def write_array_def from_to_be_bytes)

lemma write_read_int:
  assumes "8 dvd LENGTH('a::len)" and "read_int bs = Inr (w :: 'a word, rest)"
  shows "bs = write_int w @ rest"
proof -
  let ?n = "LENGTH('a) div 8"
  from assms(2) have len: "?n \<le> length bs" and w: "w = from_be_bytes (take ?n bs)"
    and rest: "rest = drop ?n bs"
    by (auto simp: read_int_def read_array_def split: if_splits)
  have "to_be_bytes w = take ?n bs"
    using len assms(1) by (simp add: w to_from_be_bytes)
  then show ?thesis by (simp add: write_int_def write_array_def rest)
qed

lemma length_write_int: "length (write_int (w :: 'a::len word)) = LENGTH('a) div 8"
  by (simp add: write_int_def write_array_def)

interpretation int_format: fixed_width_format "write_int :: 'a::len word \<Rightarrow> bytes" read_int
  "\<lambda>_. True" "8 dvd LENGTH('a)" "LENGTH('a) div 8"
  by unfold_locales
    (auto simp: read_write_int read_int_short length_write_int dest: write_read_int)

lemma read_write_ints [read_write_simps]:
  "read_u8 (write_u8 a @ rest) = Inr (a, rest)"  "read_u8 (write_u8 a) = Inr (a, [])"
  "read_u16 (write_u16 b @ rest) = Inr (b, rest)" "read_u16 (write_u16 b) = Inr (b, [])"
  "read_u32 (write_u32 c @ rest) = Inr (c, rest)" "read_u32 (write_u32 c) = Inr (c, [])"
  "read_u64 (write_u64 d @ rest) = Inr (d, rest)" "read_u64 (write_u64 d) = Inr (d, [])"
  by (simp_all add: int_format.read_write int_format.read_write_end)

lemma read_int_iffs [read_iffs]:
  "read_u8 bs = Inr (a, rest) \<longleftrightarrow> bs = write_u8 a @ rest"
  "read_u16 bs = Inr (b, rest) \<longleftrightarrow> bs = write_u16 b @ rest"
  "read_u32 bs = Inr (c, rest) \<longleftrightarrow> bs = write_u32 c @ rest"
  "read_u64 bs = Inr (d, rest) \<longleftrightarrow> bs = write_u64 d @ rest"
  by (simp_all add: int_format.read_iff)

lemma width_ints [width_simps]:
  "length (write_u8 a) = 1"
  "length (write_u16 b) = 2"
  "length (write_u32 c) = 4"
  "length (write_u64 d) = 8"
  by (simp_all add: int_format.write_width)

lemma read_write_array [read_write_simps]:
  "length a = n \<Longrightarrow> read_array n (write_array a @ rest) = Inr (a, rest)"
  "length a = n \<Longrightarrow> read_array n (write_array a) = Inr (a, [])"
  by (simp_all add: array_format.read_write array_format.read_write_end)

lemma read_array_iff [read_iffs]:
  "read_array n bs = Inr (a, rest) \<longleftrightarrow> length a = n \<and> bs = write_array a @ rest"
  by (simp add: array_format.read_iff)

lemma width_array [width_simps]: "length (write_array a) = length a"
  by (simp add: write_array_def)

text \<open>\<open>i64\<close>: every value of the type survives, negative ones included.\<close>

definition ok_i64 :: "int \<Rightarrow> bool" where
  "ok_i64 v \<longleftrightarrow> - (2 ^ 63) \<le> v \<and> v < 2 ^ 63"

lemma sint_u64_range: "ok_i64 (sint (w :: u64))"
  using sint_range_size [of w] by (simp add: ok_i64_def word_size)

interpretation i64_format: fixed_width_format write_i64 read_i64 ok_i64 True 8
proof unfold_locales
  fix v :: int and rest :: bytes
  assume "ok_i64 v"
  then have "sint (word_of_int v :: u64) = v"
    by (simp add: sint_sbintrunc' signed_take_bit_int_eq_self ok_i64_def)
  then show "read_i64 (write_i64 v @ rest) = Inr (v, rest)"
    by (simp add: read_i64_def write_i64_def array_format.read_write from_to_be_bytes)
next
  fix v :: int and bs rest :: bytes
  assume "read_i64 bs = Inr (v, rest)"
  then show "ok_i64 v \<and> bs = write_i64 v @ rest"
    by (auto simp: read_i64_def write_i64_def array_format.read_iff to_from_be_bytes
        sint_u64_range)
next
  fix v :: int
  show "length (write_i64 v) = 8"
    by (simp add: write_i64_def write_array_def)
next
  fix bs :: bytes
  assume "length bs < 8"
  then show "read_i64 bs = Inl (Truncated 8 (length bs))"
    by (simp add: read_i64_def read_array_def)
qed

section \<open>Keys, signatures, identifiers\<close>

interpretation pubkey_format: fixed_width_format "write_pubkey S" "read_pubkey S" "\<lambda>_. True"
  "keys_lawful S" PUBLIC_KEY_SIZE
  for S :: "('pk, 'sk, 'sig) secp"
proof unfold_locales
  fix v :: 'pk and rest :: bytes
  assume l: "keys_lawful S"
  show "read_pubkey S (write_pubkey S v @ rest) = Inr (v, rest)"
    by (simp add: read_pubkey_def write_pubkey_def PUBLIC_KEY_SIZE_def array_format.read_write
        pk_laws [OF l])
next
  fix v :: 'pk and bs rest :: bytes
  assume "keys_lawful S" and "read_pubkey S bs = Inr (v, rest)"
  then show "True \<and> bs = write_pubkey S v @ rest"
    using pk_laws(3)
    by (fastforce simp: read_pubkey_def write_pubkey_def PUBLIC_KEY_SIZE_def
        array_format.read_iff)
next
  fix v :: 'pk
  assume "keys_lawful S"
  then show "length (write_pubkey S v) = PUBLIC_KEY_SIZE"
    by (simp add: write_pubkey_def write_array_def pk_laws PUBLIC_KEY_SIZE_def)
next
  fix bs :: bytes
  assume "length bs < PUBLIC_KEY_SIZE"
  then show "read_pubkey S bs = Inl (Truncated PUBLIC_KEY_SIZE (length bs))"
    by (simp add: read_pubkey_def array_format.read_short)
qed

interpretation signature_format: fixed_width_format "write_signature S" "read_signature S"
  "\<lambda>_. True" "sigs_lawful S" COMPACT_SIGNATURE_SIZE
  for S :: "('pk, 'sk, 'sig) secp"
proof unfold_locales
  fix v :: 'sig and rest :: bytes
  assume l: "sigs_lawful S"
  show "read_signature S (write_signature S v @ rest) = Inr (v, rest)"
    by (simp add: read_signature_def write_signature_def COMPACT_SIGNATURE_SIZE_def
        array_format.read_write sig_laws [OF l])
next
  fix v :: 'sig and bs rest :: bytes
  assume "sigs_lawful S" and "read_signature S bs = Inr (v, rest)"
  then show "True \<and> bs = write_signature S v @ rest"
    using sig_laws(3)
    by (fastforce simp: read_signature_def write_signature_def COMPACT_SIGNATURE_SIZE_def
        array_format.read_iff)
next
  fix v :: 'sig
  assume "sigs_lawful S"
  then show "length (write_signature S v) = COMPACT_SIGNATURE_SIZE"
    by (simp add: write_signature_def write_array_def sig_laws COMPACT_SIGNATURE_SIZE_def)
next
  fix bs :: bytes
  assume "length bs < COMPACT_SIGNATURE_SIZE"
  then show "read_signature S bs = Inl (Truncated COMPACT_SIGNATURE_SIZE (length bs))"
    by (simp add: read_signature_def array_format.read_short)
qed

interpretation channel_id_format: fixed_width_format write_channel_id read_channel_id
  wf_channel_id True CHANNEL_ID_SIZE
proof unfold_locales
  fix v :: channel_id and bs rest :: bytes
  assume "read_channel_id bs = Inr (v, rest)"
  then show "wf_channel_id v \<and> bs = write_channel_id v @ rest"
    by (auto simp: read_channel_id_def write_channel_id_def wf_channel_id_def
        array_format.read_iff)
qed (simp_all add: read_channel_id_def write_channel_id_def wf_channel_id_def
    array_format.read_write array_format.read_short array_format.write_width)

interpretation txid_format: fixed_width_format write_txid read_txid
  "\<lambda>t. length t = TXID_SIZE" True TXID_SIZE
proof unfold_locales
  fix v bs rest :: bytes
  assume "read_txid bs = Inr (v, rest)"
  then show "length v = TXID_SIZE \<and> bs = write_txid v @ rest"
    by (auto simp: read_txid_def write_txid_def array_format.read_iff)
qed (simp_all add: read_txid_def write_txid_def
    array_format.read_write array_format.read_short array_format.write_width)

section \<open>Vec<u8>\<close>

text \<open>The lengths whose \<open>as u16\<close> cast loses nothing.\<close>

definition fits_u16 :: "bytes \<Rightarrow> bool" where
  "fits_u16 v \<longleftrightarrow> length v < 65536"

lemma unat_length_u16: "fits_u16 v \<Longrightarrow> unat (word_of_nat (length v) :: u16) = length v"
  by (simp add: fits_u16_def unsigned_of_nat take_bit_nat_eq_self)

lemma unat_u16_less: "unat (w :: u16) < 65536"
  using unsigned_less [of w] by simp

interpretation vec_format: wire_format write_vec read_vec fits_u16 True
proof unfold_locales
  fix v rest :: bytes
  assume "fits_u16 v"
  then show "read_vec (write_vec v @ rest) = Inr (v, rest)"
    by (simp add: read_vec_def write_vec_def read_write_simps unat_length_u16)
next
  fix v bs rest :: bytes
  assume "read_vec bs = Inr (v, rest)"
  then obtain l data where bs: "bs = write_u16 l @ data" and len: "unat l \<le> length data"
    and v: "v = take (unat l) data" and rest: "rest = drop (unat l) data"
    by (auto simp: read_vec_def read_iffs Let_def split: if_splits)
  have "length v = unat l"
    using len by (simp add: v)
  then show "fits_u16 v \<and> bs = write_vec v @ rest"
    using unat_u16_less [of l] by (simp add: fits_u16_def write_vec_def bs) (simp add: v rest)
qed

lemma width_vec [width_simps]: "length (write_vec v) = 2 + length v"
  by (simp add: write_vec_def width_simps)

section \<open>BigSize\<close>

lemma ucast_u64_small [simp]:
  "unat (ucast (a :: u8) :: u64) = unat a"
  "unat (ucast (b :: u16) :: u64) = unat b"
  "unat (ucast (c :: u32) :: u64) = unat c"
  by (simp_all add: unsigned_ucast_eq take_bit_nat_eq_self
      order_less_trans [OF unsigned_less])

lemma ucast_down_up:
  "(v :: u64) < 0x100 \<Longrightarrow> ucast (ucast v :: u8) = v"
  "(v :: u64) < 0x10000 \<Longrightarrow> ucast (ucast v :: u16) = v"
  "(v :: u64) < 0x100000000 \<Longrightarrow> ucast (ucast v :: u32) = v"
  by (simp_all add: word_unat_eq_iff word_less_nat_alt)
    (simp_all add: unsigned_ucast_eq take_bit_nat_eq_self)

lemma ucast_bounds:
  "(v :: u64) < 0xfd \<Longrightarrow> (ucast v :: u8) \<le> 0xfc"
  "(a :: u8) \<le> 0xfc \<Longrightarrow> (ucast a :: u64) < 0xfd"
  "(ucast b :: u64) < 0x10000"
  "(ucast c :: u64) < 0x100000000"
  for b :: u16 and c :: u32
  by (simp_all add: word_less_nat_alt word_le_nat_alt unsigned_ucast_eq take_bit_nat_eq_self)
    (use unsigned_less [of b] unsigned_less [of c] in simp_all)

lemma ucast_up_down [simp]:
  "ucast (ucast a :: u64) = (a :: u8)"
  "ucast (ucast b :: u64) = (b :: u16)"
  "ucast (ucast c :: u64) = (c :: u32)"
  by (transfer, simp)+

lemma u8_prefix_cases:
  obtains "(p :: u8) \<le> 0xfc" | "p = 0xfd" | "p = 0xfe" | "p = 0xff"
proof -
  have "unat p \<le> 0xfc \<or> unat p = 0xfd \<or> unat p = 0xfe \<or> unat p = 0xff"
    using unat_u8_less [of p] by arith
  then have "p \<le> 0xfc \<or> p = 0xfd \<or> p = 0xfe \<or> p = 0xff"
    by (simp add: word_le_nat_alt word_unat_eq_iff)
  with that show thesis by blast
qed

lemma read_bigsize_prefix:
  "p \<le> 0xfc \<Longrightarrow> read_bigsize (write_u8 p @ data) = Inr (BigSize (ucast p), data)"
  "read_bigsize (write_u8 0xfd @ data) =
     and_then (map_err (\<lambda>_. BigSizeTruncated) (read_u16 data)) (\<lambda>(v, data).
     if (ucast v :: u64) < 0xfd then Inl BigSizeNotMinimal else Inr (BigSize (ucast v), data))"
  "read_bigsize (write_u8 0xfe @ data) =
     and_then (map_err (\<lambda>_. BigSizeTruncated) (read_u32 data)) (\<lambda>(v, data).
     if (ucast v :: u64) < 0x10000 then Inl BigSizeNotMinimal
     else Inr (BigSize (ucast v), data))"
  "read_bigsize (write_u8 0xff @ data) =
     and_then (map_err (\<lambda>_. BigSizeTruncated) (read_u64 data)) (\<lambda>(v, data).
     if v < 0x100000000 then Inl BigSizeNotMinimal else Inr (BigSize v, data))"
  by (simp_all add: read_bigsize_def read_write_simps Let_def)

lemma not_small_trans:
  "\<not> (v :: u64) < 0x10000 \<Longrightarrow> \<not> v < 0xfd"
  "\<not> (v :: u64) < 0x100000000 \<Longrightarrow> \<not> v < 0x10000"
  by (simp_all add: word_less_nat_alt)

lemma read_write_bigsize: "read_bigsize (write_bigsize v @ rest) = Inr (v, rest)"
proof (cases v)
  case (BigSize x)
  consider "x < 0xfd" | "\<not> x < 0xfd" "x < 0x10000" | "\<not> x < 0x10000" "x < 0x100000000"
    | "\<not> x < 0x100000000" by blast
  then show ?thesis
  proof cases
    case 1
    moreover from 1 have "x < 0x100" by (simp add: word_less_nat_alt)
    ultimately show ?thesis
      by (simp add: BigSize write_bigsize_def read_bigsize_prefix ucast_bounds ucast_down_up)
  qed (simp_all add: BigSize write_bigsize_def read_bigsize_prefix read_write_simps
      ucast_down_up not_small_trans)
qed

lemma write_read_bigsize:
  assumes "read_bigsize bs = Inr (v, rest)"
  shows "bs = write_bigsize v @ rest"
proof -
  from assms obtain p data where bs: "bs = write_u8 p @ data"
    by (auto simp: read_bigsize_def read_iffs)
  show ?thesis
  proof (cases p rule: u8_prefix_cases)
    case 1
    then show ?thesis using assms
      by (auto simp: bs read_bigsize_prefix write_bigsize_def ucast_bounds)
  next
    case 2
    then show ?thesis using assms
      by (auto simp: bs read_bigsize_prefix write_bigsize_def ucast_bounds read_iffs
          split: if_splits)
  next
    case 3
    then show ?thesis using assms
      by (auto simp: bs read_bigsize_prefix write_bigsize_def ucast_bounds read_iffs
          not_small_trans split: if_splits)
  next
    case 4
    then show ?thesis using assms
      by (auto simp: bs read_bigsize_prefix write_bigsize_def read_iffs Let_def
          dest: not_small_trans split: if_splits)
  qed
qed

interpretation bigsize_format: wire_format write_bigsize read_bigsize "\<lambda>_. True" True
  by unfold_locales (auto simp: read_write_bigsize dest: write_read_bigsize)

lemma width_bigsize [width_simps]: "length (write_bigsize b) = bigsize_len b"
  by (simp add: write_bigsize_def bigsize_len_def width_simps Let_def)

lemma bigsize_len_pos: "0 < bigsize_len b"
  by (simp add: bigsize_len_def)

text \<open>The rules of the other formats, in the collections that the message proofs use.\<close>

lemma read_write_fields [read_write_simps]:
  "read_channel_id (write_channel_id c @ rest) = Inr (c, rest)" if "wf_channel_id c"
  using that by (simp add: channel_id_format.read_write)

lemma read_write_txid [read_write_simps]:
  "length t = 32 \<Longrightarrow> read_txid (write_txid t @ rest) = Inr (t, rest)"
  by (simp add: txid_format.read_write TXID_SIZE_def)

lemma read_write_vec [read_write_simps]:
  "fits_u16 v \<Longrightarrow> read_vec (write_vec v @ rest) = Inr (v, rest)"
  "fits_u16 v \<Longrightarrow> read_vec (write_vec v) = Inr (v, [])"
  by (simp_all add: vec_format.read_write vec_format.read_write_end)

lemma read_write_bigsize' [read_write_simps]:
  "read_bigsize (write_bigsize b @ rest) = Inr (b, rest)"
  "read_bigsize (write_bigsize b) = Inr (b, [])"
  by (simp_all add: bigsize_format.read_write bigsize_format.read_write_end)

lemma read_write_pubkey [read_write_simps]:
  "keys_lawful S \<Longrightarrow> read_pubkey S (write_pubkey S k @ rest) = Inr (k, rest)"
  "keys_lawful S \<Longrightarrow> read_pubkey S (write_pubkey S k) = Inr (k, [])"
  by (simp_all add: pubkey_format.read_write pubkey_format.read_write_end)

lemma read_write_signature [read_write_simps]:
  "sigs_lawful S \<Longrightarrow> read_signature S (write_signature S s @ rest) = Inr (s, rest)"
  "sigs_lawful S \<Longrightarrow> read_signature S (write_signature S s) = Inr (s, [])"
  by (simp_all add: signature_format.read_write signature_format.read_write_end)

lemma read_field_iffs [read_iffs]:
  "read_channel_id bs = Inr (c, rest) \<longleftrightarrow> wf_channel_id c \<and> bs = write_channel_id c @ rest"
  "read_txid bs = Inr (t, rest) \<longleftrightarrow> length t = 32 \<and> bs = write_txid t @ rest"
  "read_vec bs = Inr (v, rest) \<longleftrightarrow> fits_u16 v \<and> bs = write_vec v @ rest"
  "read_bigsize bs = Inr (b, rest) \<longleftrightarrow> bs = write_bigsize b @ rest"
  by (simp_all add: channel_id_format.read_iff txid_format.read_iff vec_format.read_iff
      bigsize_format.read_iff TXID_SIZE_def)

lemma read_crypto_iffs [read_iffs]:
  "keys_lawful S \<Longrightarrow> read_pubkey S bs = Inr (k, rest) \<longleftrightarrow> bs = write_pubkey S k @ rest"
  "sigs_lawful S \<Longrightarrow> read_signature S bs = Inr (s, rest) \<longleftrightarrow> bs = write_signature S s @ rest"
  by (simp_all add: pubkey_format.read_iff signature_format.read_iff)

lemma width_fields [width_simps]:
  "wf_channel_id c \<Longrightarrow> length (write_channel_id c) = 32"
  "length (write_txid t) = length t"
  by (simp_all add: write_channel_id_def write_txid_def write_array_def wf_channel_id_def
      CHANNEL_ID_SIZE_def)

lemma width_crypto [width_simps]:
  "keys_lawful S \<Longrightarrow> length (write_pubkey S k) = 33"
  "sigs_lawful S \<Longrightarrow> length (write_signature S s) = 64"
  by (simp_all add: pubkey_format.write_width signature_format.write_width PUBLIC_KEY_SIZE_def
      COMPACT_SIGNATURE_SIZE_def)

text \<open>What a reader gets of a \<open>Vec<u8>\<close> of any length, whose length field may have wrapped.\<close>

lemma read_vec_write_vec:
  "read_vec (write_vec v @ rest) =
     Inr (take (length v mod 65536) v, drop (length v mod 65536) v @ rest)"
proof -
  have "unat (word_of_nat (length v) :: u16) = length v mod 65536"
    by (simp add: unsigned_of_nat take_bit_eq_mod)
  moreover have "length v mod 65536 \<le> length v" by (rule mod_less_eq_dividend)
  ultimately show ?thesis
    by (simp add: read_vec_def write_vec_def read_write_simps Let_def trans_le_add1)
qed

end
