(* ===== verification/Tlv.thy ===== *)
theory Tlv
  imports Wire
begin

text \<open>
  TLV streams, \<open>bolt/src/tlv.rs\<close>: sorted insertion with its panic on duplicates, lookup,
  encoding, and the decoding loop. The stream is shown to implement a finite map, and the
  decoder to accept exactly the canonical encodings.
\<close>

section \<open>The stream and its operations\<close>

record tlv_record =
  tlv_type :: u64
  tlv_value :: bytes

record tlv_stream =
  records :: "tlv_record list"

definition tlv_new :: tlv_stream where
  "tlv_new = \<lparr>records = []\<rparr>"

definition tlv_add :: "tlv_stream \<Rightarrow> u64 \<Rightarrow> bytes \<Rightarrow> panic + tlv_stream" where
  "tlv_add s t v =
     (let pos = (case position (\<lambda>r. tlv_type r \<ge> t) (records s) of
                   Some i \<Rightarrow> i | None \<Rightarrow> length (records s)) in
      if pos = length (records s) \<or> tlv_type (records s ! pos) \<noteq> t
      then Inr (s\<lparr>records := vec_insert pos \<lparr>tlv_type = t, tlv_value = v\<rparr> (records s)\<rparr>)
      else Inl (Panic (''duplicate TLV type '' @ string_of_nat (unat t))))"

definition tlv_get :: "tlv_stream \<Rightarrow> u64 \<Rightarrow> bytes option" where
  "tlv_get s t = map_option tlv_value (List.find (\<lambda>r. tlv_type r = t) (records s))"

definition tlv_is_empty :: "tlv_stream \<Rightarrow> bool" where
  "tlv_is_empty s = (records s = [])"

definition encode_record :: "tlv_record \<Rightarrow> bytes" where
  "encode_record r =
     write_bigsize (BigSize (tlv_type r)) @
     write_bigsize (BigSize (word_of_nat (length (tlv_value r)))) @ tlv_value r"

definition tlv_encode :: "tlv_stream \<Rightarrow> bytes" where
  "tlv_encode s = concat (map encode_record (records s))"

text \<open>One pass of the decoding loop reads a record and leaves the rest of the cursor.\<close>

definition decode_record ::
    "u64 list \<Rightarrow> u64 option \<Rightarrow> bytes \<Rightarrow> bolt_error + tlv_record \<times> bytes" where
  "decode_record known_even last_type cursor =
     and_then (read_bigsize cursor) (\<lambda>(bs, cursor).
     let t = bigsize_value bs in
     and_then (case last_type of
                 Some prev \<Rightarrow> if t \<le> prev then Inl (TlvNotIncreasing prev t) else Inr ()
               | None \<Rightarrow> Inr ()) (\<lambda>_.
     and_then (read_bigsize cursor) (\<lambda>(bs, cursor).
     and_then (ok_or (usize_try_from (bigsize_value bs)) TlvLengthOverflow) (\<lambda>len.
     if len > length cursor then Inl TlvLengthOverflow
     else if t mod 2 = 0 \<and> t \<notin> set known_even then Inl (TlvUnknownEvenType t)
     else Inr (\<lparr>tlv_type = t, tlv_value = take len cursor\<rparr>, drop len cursor)))))"

lemma less_bigsize_len: "n - m < bigsize_len a + (bigsize_len b + n)"
  using bigsize_len_pos [of a] by linarith

lemma decode_record_consumes:
  "decode_record K lt cursor = Inr (r, cursor') \<Longrightarrow> length cursor' < length cursor"
  by (auto simp: decode_record_def Let_def read_iffs width_simps less_bigsize_len
      split: if_splits option.splits)

function tlv_loop ::
    "u64 list \<Rightarrow> bytes \<Rightarrow> u64 option \<Rightarrow> tlv_record list \<Rightarrow> bolt_error + tlv_record list" where
  "tlv_loop known_even cursor last_type acc =
     (if cursor = [] then Inr acc
      else and_then (decode_record known_even last_type cursor) (\<lambda>(r, cursor).
           tlv_loop known_even cursor (Some (tlv_type r)) (acc @ [r])))"
  by pat_completeness auto
termination
  by (relation "measure (\<lambda>(K, cursor, _). length cursor)") (auto dest: decode_record_consumes)

declare tlv_loop.simps [simp del]

definition tlv_decode_with_known :: "bytes \<Rightarrow> u64 list \<Rightarrow> bolt_error + tlv_stream" where
  "tlv_decode_with_known data known_even =
     and_then (tlv_loop known_even data None []) (\<lambda>rs. Inr \<lparr>records = rs\<rparr>)"

definition tlv_decode :: "bytes \<Rightarrow> bolt_error + tlv_stream" where
  "tlv_decode data = tlv_decode_with_known data []"

text \<open>\<open>if let Some(v) = field { stream.add(t, v) }\<close>, as the message encoders do it.\<close>

definition tlv_add_opt :: "tlv_stream \<Rightarrow> u64 \<Rightarrow> bytes option \<Rightarrow> panic + tlv_stream" where
  "tlv_add_opt s t field = (case field of None \<Rightarrow> Inr s | Some v \<Rightarrow> tlv_add s t v)"

section \<open>The invariant and the abstraction\<close>

definition tlv_sorted :: "tlv_stream \<Rightarrow> bool" where
  "tlv_sorted s \<longleftrightarrow> sorted_wrt (<) (map tlv_type (records s))"

text \<open>The lengths that a \<open>u64\<close> can hold.\<close>

definition fits_u64 :: "bytes \<Rightarrow> bool" where
  "fits_u64 v \<longleftrightarrow> length v < 2 ^ 64"

definition opt_fits_u64 :: "bytes option \<Rightarrow> bool" where
  "opt_fits_u64 field \<longleftrightarrow> (case field of None \<Rightarrow> True | Some v \<Rightarrow> fits_u64 v)"

definition record_ok :: "u64 list \<Rightarrow> tlv_record \<Rightarrow> bool" where
  "record_ok known_even r \<longleftrightarrow>
     fits_u64 (tlv_value r) \<and> (tlv_type r mod 2 = 0 \<longrightarrow> tlv_type r \<in> set known_even)"

definition tlv_ok :: "u64 list \<Rightarrow> tlv_stream \<Rightarrow> bool" where
  "tlv_ok known_even s \<longleftrightarrow> tlv_sorted s \<and> (\<forall>r \<in> set (records s). record_ok known_even r)"

definition tlv_map :: "tlv_stream \<Rightarrow> u64 \<Rightarrow> bytes option" where
  "tlv_map s = map_of (map (\<lambda>r. (tlv_type r, tlv_value r)) (records s))"

section \<open>Decoding accepts exactly the canonical encodings\<close>

text \<open>\<open>follows lt rs\<close>: the types of \<open>rs\<close> increase, starting above \<open>lt\<close>.\<close>

fun follows :: "u64 option \<Rightarrow> tlv_record list \<Rightarrow> bool" where
  "follows lt [] = True"
| "follows lt (r # rs) =
     ((case lt of None \<Rightarrow> True | Some prev \<Rightarrow> prev < tlv_type r) \<and>
      follows (Some (tlv_type r)) rs)"

lemma follows_Some_sorted:
  "follows (Some p) rs \<longleftrightarrow> sorted_wrt (<) (p # map tlv_type rs)"
  by (induction rs arbitrary: p) (auto dest: order_less_trans)

lemma follows_None_sorted: "follows None rs \<longleftrightarrow> sorted_wrt (<) (map tlv_type rs)"
  by (cases rs) (auto simp: follows_Some_sorted)

lemma decode_record_iff:
  "decode_record K lt cursor = Inr (r, cursor') \<longleftrightarrow>
     cursor = encode_record r @ cursor' \<and> record_ok K r \<and> follows lt [r]"
proof
  assume "decode_record K lt cursor = Inr (r, cursor')"
  then obtain a b data where cursor: "cursor = write_bigsize a @ write_bigsize b @ data"
    and len: "unat (bigsize_value b) \<le> length data"
    and r: "r = \<lparr>tlv_type = bigsize_value a, tlv_value = take (unat (bigsize_value b)) data\<rparr>"
    and cursor': "cursor' = drop (unat (bigsize_value b)) data"
    and even: "bigsize_value a mod 2 = 0 \<longrightarrow> bigsize_value a \<in> set K"
    and order: "case lt of None \<Rightarrow> True | Some prev \<Rightarrow> prev < bigsize_value a"
    by (auto simp: decode_record_def Let_def read_iffs split: if_splits option.splits)
  show "cursor = encode_record r @ cursor' \<and> record_ok K r \<and> follows lt [r]"
    using len even order unat_u64_less [of "bigsize_value b"]
    by (simp add: cursor r cursor' encode_record_def record_ok_def fits_u64_def min_absorb2
        split: option.splits)
next
  assume "cursor = encode_record r @ cursor' \<and> record_ok K r \<and> follows lt [r]"
  then show "decode_record K lt cursor = Inr (r, cursor')"
    by (cases r) (auto simp: decode_record_def encode_record_def record_ok_def Let_def
        read_write_simps fits_u64_def unat_u64_of_nat split: option.splits)
qed

lemma tlv_loop_iff:
  "tlv_loop K cursor lt acc = Inr res \<longleftrightarrow>
     (\<exists>rs. res = acc @ rs \<and> cursor = concat (map encode_record rs) \<and>
           (\<forall>r \<in> set rs. record_ok K r) \<and> follows lt rs)"
proof (induction K cursor lt acc rule: tlv_loop.induct)
  case (1 K cursor lt acc)
  show ?case
  proof (cases "cursor = []")
    case True
    have "encode_record r \<noteq> []" for r
      using bigsize_len_pos by (simp add: encode_record_def flip: length_greater_0_conv)
        (simp add: width_simps)
    then show ?thesis
      by (auto simp: tlv_loop.simps [of K "[]" lt acc] True intro: exI [of _ "[]"])
  next
    case False
    have IH: "tlv_loop K c (Some (tlv_type r)) (acc @ [r]) = Inr res \<longleftrightarrow>
        (\<exists>rs. res = acc @ r # rs \<and> c = concat (map encode_record rs) \<and>
              (\<forall>r \<in> set rs. record_ok K r) \<and> follows (Some (tlv_type r)) rs)"
      if "decode_record K lt cursor = Inr (r, c)" for r c
      using "1.IH" [OF False that] by simp
    have "tlv_loop K cursor lt acc = Inr res \<longleftrightarrow>
        (\<exists>r c. decode_record K lt cursor = Inr (r, c) \<and>
               tlv_loop K c (Some (tlv_type r)) (acc @ [r]) = Inr res)"
      using False by (auto simp: tlv_loop.simps [of K cursor lt acc])
    also have "\<dots> \<longleftrightarrow>
        (\<exists>r c rs. cursor = encode_record r @ c \<and> record_ok K r \<and> follows lt [r] \<and>
          res = acc @ r # rs \<and> c = concat (map encode_record rs) \<and>
          (\<forall>r \<in> set rs. record_ok K r) \<and> follows (Some (tlv_type r)) rs)"
      by (simp add: IH decode_record_iff [symmetric] cong: conj_cong) (simp add: decode_record_iff)
    also have "\<dots> \<longleftrightarrow>
        (\<exists>rs. res = acc @ rs \<and> cursor = concat (map encode_record rs) \<and>
           (\<forall>r \<in> set rs. record_ok K r) \<and> follows lt rs)" (is "?P \<longleftrightarrow> (\<exists>rs. ?Q rs)")
    proof
      assume ?P
      then show "\<exists>rs. ?Q rs" by (metis (no_types, lifting) concat.simps(2) follows.simps(2)
            list.simps(9) set_ConsD)
    next
      assume "\<exists>rs. ?Q rs"
      then obtain rs where Q: "?Q rs" ..
      with False obtain r rs' where "rs = r # rs'" by (cases rs) auto
      with Q show ?P by auto
    qed
    finally show ?thesis .
  qed
qed

lemma tlv_decode_with_known_iff:
  "tlv_decode_with_known data K = Inr s \<longleftrightarrow> tlv_ok K s \<and> data = tlv_encode s"
  by (cases s) (auto simp: tlv_decode_with_known_def tlv_loop_iff tlv_ok_def tlv_sorted_def
      tlv_encode_def follows_None_sorted)

section \<open>The stream as a map\<close>

text \<open>
  What the message encoders and decoders rely on: a store of byte strings by type, where
  adding a fresh type succeeds and adding a type twice panics.
\<close>

locale keyed_store =
  fixes empty :: 's
    and add :: "'s \<Rightarrow> u64 \<Rightarrow> bytes \<Rightarrow> panic + 's"
    and get :: "'s \<Rightarrow> u64 \<Rightarrow> bytes option"
    and inv :: "'s \<Rightarrow> bool"
  assumes inv_empty: "inv empty"
    and get_empty: "get empty t = None"
    and add_fresh: "get s t = None \<Longrightarrow> \<exists>s'. add s t v = Inr s'"
    and add_inv: "inv s \<Longrightarrow> add s t v = Inr s' \<Longrightarrow> inv s'"
    and add_get: "add s t v = Inr s' \<Longrightarrow> get s' = (get s)(t \<mapsto> v)"
    and add_duplicate: "inv s \<Longrightarrow> get s t \<noteq> None \<Longrightarrow> \<exists>p. add s t v = Inl p"
begin

lemma add_panics_iff: "inv s \<Longrightarrow> (\<exists>p. add s t v = Inl p) \<longleftrightarrow> get s t \<noteq> None"
  using add_fresh [of s t v] add_duplicate [of s t v] by (cases "get s t") auto

text \<open>Two optional fields of different types, the shape of every TLV message.\<close>

lemma two_fields:
  assumes "t \<noteq> u"
  obtains s where "and_then (case a of None \<Rightarrow> Inr empty | Some v \<Rightarrow> add empty t v)
        (\<lambda>s. case b of None \<Rightarrow> Inr s | Some w \<Rightarrow> add s u w) = Inr s"
    and "inv s" and "get s = (\<lambda>x. if x = t then a else if x = u then b else None)"
proof -
  define f where "f = (\<lambda>x. if x = t then a else None)"
  obtain s1 where s1: "(case a of None \<Rightarrow> Inr empty | Some v \<Rightarrow> add empty t v) = Inr s1"
    and inv1: "inv s1" and get1: "get s1 = f"
  proof (cases a)
    case None
    then show thesis
      by (intro that [of empty]) (auto simp: f_def fun_eq_iff get_empty inv_empty)
  next
    case (Some v)
    obtain s1 where "add empty t v = Inr s1" using add_fresh get_empty by blast
    with that [of s1] Some show thesis
      using add_inv inv_empty add_get get_empty by (fastforce simp: f_def)
  qed
  obtain s2 where s2: "(case b of None \<Rightarrow> Inr s1 | Some w \<Rightarrow> add s1 u w) = Inr s2"
    and inv2: "inv s2" and get2: "get s2 = (\<lambda>x. if x = u then b else f x)"
  proof (cases b)
    case None
    then show thesis
      using assms by (intro that [of s1]) (auto simp: f_def fun_eq_iff get1 inv1)
  next
    case (Some w)
    have "get s1 u = None" using get1 assms by (simp add: f_def)
    then obtain s2 where "add s1 u w = Inr s2" using add_fresh by blast
    with that [of s2] Some show thesis
      using add_inv inv1 add_get get1 by fastforce
  qed
  show thesis
    using assms by (intro that [of s2]) (auto simp: f_def fun_eq_iff s1 s2 inv2 get2)
qed

end

lemma tlv_get_map: "tlv_get s = tlv_map s"
proof
  fix t
  have "map_option tlv_value (List.find (\<lambda>r. tlv_type r = t) rs) =
      map_of (map (\<lambda>r. (tlv_type r, tlv_value r)) rs) t" for rs
    by (induction rs) auto
  then show "tlv_get s t = tlv_map s t"
    by (simp add: tlv_get_def tlv_map_def)
qed

lemma tlv_get_None_iff: "tlv_get s t = None \<longleftrightarrow> t \<notin> tlv_type ` set (records s)"
  by (simp add: tlv_get_map tlv_map_def map_of_eq_None_iff image_image)

text \<open>\<open>add\<close> in terms of the records below and above the new type.\<close>

lemma tlv_add_split:
  "tlv_add s t v =
     (let below = takeWhile (\<lambda>r. tlv_type r < t) (records s);
          above = dropWhile (\<lambda>r. tlv_type r < t) (records s) in
      if above \<noteq> [] \<and> tlv_type (hd above) = t
      then Inl (Panic (''duplicate TLV type '' @ string_of_nat (unat t)))
      else Inr (s\<lparr>records := below @ \<lparr>tlv_type = t, tlv_value = v\<rparr> # above\<rparr>))"
proof -
  let ?b = "takeWhile (\<lambda>r. tlv_type r < t) (records s)"
  let ?a = "dropWhile (\<lambda>r. tlv_type r < t) (records s)"
  have rs: "records s = ?b @ ?a" by simp
  have nth: "records s ! length ?b = hd ?a" if "?a \<noteq> []"
    by (subst rs) (rule nth_length_append [OF that])
  have len: "length ?b = length (records s) \<longleftrightarrow> ?a = []"
    by (subst (2) rs) (simp only: length_append, simp)
  show ?thesis
    using nth len unfolding tlv_add_def position_or_length not_le vec_insert_takeWhile Let_def
    by auto
qed

lemma dropWhile_sorted:
  assumes "sorted_wrt (<) (map f rs)" and "r \<in> set (dropWhile (\<lambda>r. f r < t) rs)"
  shows "(t :: 'a::linorder) \<le> f r"
  using assms
proof (induction rs)
  case Nil
  then show ?case by simp
next
  case (Cons x rs)
  then show ?case by (cases "f x < t") (auto intro: order_trans less_imp_le simp: not_less)
qed

lemma tlv_add_sorted:
  assumes "tlv_sorted s" and "tlv_add s t v = Inr s'"
  shows "tlv_sorted s'"
proof -
  let ?b = "takeWhile (\<lambda>r. tlv_type r < t) (records s)"
  define above where "above = dropWhile (\<lambda>r. tlv_type r < t) (records s)"
  have "sorted_wrt (<) (map tlv_type (?b @ above))"
    using assms(1) by (simp add: tlv_sorted_def above_def)
  then have sorted: "sorted_wrt (<) (map tlv_type ?b)" "sorted_wrt (<) (map tlv_type above)"
    unfolding map_append sorted_wrt_append by auto
  have b: "\<forall>r \<in> set ?b. tlv_type r < t" by (auto dest: set_takeWhileD)
  have "\<forall>r \<in> set above. t \<le> tlv_type r"
    using dropWhile_sorted [of tlv_type "records s"] assms(1)
    by (auto simp: tlv_sorted_def above_def)
  moreover have "above \<noteq> [] \<longrightarrow> tlv_type (hd above) \<noteq> t"
    and s': "s' = s\<lparr>records := ?b @ \<lparr>tlv_type = t, tlv_value = v\<rparr> # above\<rparr>"
    using assms(2) by (auto simp: tlv_add_split Let_def above_def split: if_splits)
  ultimately have a: "\<forall>r \<in> set above. t < tlv_type r"
    using sorted(2) by (cases above) (auto simp: order_less_le)
  show ?thesis
    using sorted a b by (auto simp: s' tlv_sorted_def sorted_wrt_append intro: order_less_trans)
qed

lemma map_of_insert:
  "k \<notin> fst ` set xs \<Longrightarrow> map_of (xs @ (k, v) # ys) = (map_of (xs @ ys))(k \<mapsto> v)"
  by (induction xs) (auto simp: fun_eq_iff)

lemma tlv_add_get: "tlv_add s t v = Inr s' \<Longrightarrow> tlv_get s' = (tlv_get s)(t \<mapsto> v)"
proof -
  assume "tlv_add s t v = Inr s'"
  then have s': "s' = s\<lparr>records := takeWhile (\<lambda>r. tlv_type r < t) (records s) @
      \<lparr>tlv_type = t, tlv_value = v\<rparr> # dropWhile (\<lambda>r. tlv_type r < t) (records s)\<rparr>"
    by (auto simp: tlv_add_split Let_def split: if_splits)
  let ?f = "map (\<lambda>r. (tlv_type r, tlv_value r))"
  have "t \<notin> fst ` set (?f (takeWhile (\<lambda>r. tlv_type r < t) (records s)))"
    by (auto dest: set_takeWhileD)
  from map_of_insert [OF this, of v "?f (dropWhile (\<lambda>r. tlv_type r < t) (records s))"]
  show ?thesis
    by (simp add: tlv_get_map tlv_map_def s' map_append [symmetric] del: map_append) simp
qed

lemma tlv_add_duplicate:
  assumes "tlv_sorted s" and "tlv_get s t \<noteq> None"
  shows "tlv_add s t v = Inl (Panic (''duplicate TLV type '' @ string_of_nat (unat t)))"
proof -
  define above where "above = dropWhile (\<lambda>r. tlv_type r < t) (records s)"
  obtain r where r: "r \<in> set (records s)" "tlv_type r = t"
    using assms(2) by (auto simp: tlv_get_None_iff)
  have "records s = takeWhile (\<lambda>r. tlv_type r < t) (records s) @ above"
    by (simp add: above_def)
  then have "r \<in> set (takeWhile (\<lambda>r. tlv_type r < t) (records s)) \<union> set above"
    using r(1) by (metis set_append)
  then have r': "r \<in> set above"
    using r(2) by (auto dest: set_takeWhileD)
  have "sorted_wrt (<) (map tlv_type (takeWhile (\<lambda>r. tlv_type r < t) (records s) @ above))"
    using assms(1) by (simp add: tlv_sorted_def above_def)
  then have sorted: "sorted_wrt (<) (map tlv_type above)"
    unfolding map_append sorted_wrt_append by auto
  have "\<forall>r \<in> set above. t \<le> tlv_type r"
    using dropWhile_sorted [of tlv_type "records s"] assms(1)
    by (auto simp: tlv_sorted_def above_def)
  with r' r(2) sorted have "above \<noteq> [] \<and> tlv_type (hd above) = t"
    by (cases above) (auto simp: not_less)
  then show ?thesis
    by (simp add: tlv_add_split Let_def above_def)
qed

lemma tlv_add_fresh: "tlv_get s t = None \<Longrightarrow> \<exists>s'. tlv_add s t v = Inr s'"
proof -
  assume "tlv_get s t = None"
  then have "\<forall>r \<in> set (dropWhile (\<lambda>r. tlv_type r < t) (records s)). tlv_type r \<noteq> t"
    by (auto simp: tlv_get_None_iff dest: set_dropWhileD)
  then show ?thesis
    by (auto simp: tlv_add_split Let_def simp del: dropWhile_eq_Nil_conv)
qed

lemma tlv_new_sorted: "tlv_sorted tlv_new"
  by (simp add: tlv_sorted_def tlv_new_def)

lemma tlv_new_get: "tlv_get tlv_new t = None"
  by (simp add: tlv_get_def tlv_new_def)

interpretation tlvs: keyed_store tlv_new tlv_add tlv_get tlv_sorted
  by unfold_locales
    (blast intro: tlv_new_sorted tlv_new_get tlv_add_fresh tlv_add_get tlv_add_sorted
      tlv_add_duplicate)+

text \<open>A stream is decoded to itself when each of its entries is acceptable.\<close>

lemma tlv_get_Some_iff:
  "tlv_sorted s \<Longrightarrow>
     tlv_get s t = Some v \<longleftrightarrow> \<lparr>tlv_type = t, tlv_value = v\<rparr> \<in> set (records s)"
proof -
  assume "tlv_sorted s"
  then have "distinct (map tlv_type (records s))"
    by (simp add: tlv_sorted_def strict_sorted_iff)
  then have "distinct (map fst (map (\<lambda>r. (tlv_type r, tlv_value r)) (records s)))"
    by (simp add: comp_def)
  from map_of_eq_Some_iff [OF this, of t v]
  have "tlv_get s t = Some v \<longleftrightarrow>
      (\<exists>r \<in> set (records s). t = tlv_type r \<and> v = tlv_value r)"
    by (auto simp: tlv_get_map tlv_map_def)
  also have "\<dots> \<longleftrightarrow> \<lparr>tlv_type = t, tlv_value = v\<rparr> \<in> set (records s)"
  proof
    assume "\<exists>r \<in> set (records s). t = tlv_type r \<and> v = tlv_value r"
    then obtain r where "r \<in> set (records s)" "t = tlv_type r" "v = tlv_value r" by blast
    moreover have "\<lparr>tlv_type = tlv_type r, tlv_value = tlv_value r\<rparr> = r" by simp
    ultimately show "\<lparr>tlv_type = t, tlv_value = v\<rparr> \<in> set (records s)" by (simp only:)
  qed force
  finally show ?thesis .
qed

lemma tlv_ok_get_iff:
  "tlv_ok K s \<longleftrightarrow> tlv_sorted s \<and>
     (\<forall>t v. tlv_get s t = Some v \<longrightarrow> fits_u64 v \<and> (t mod 2 = 0 \<longrightarrow> t \<in> set K))"
proof (cases "tlv_sorted s")
  case True
  show ?thesis
  proof
    assume ok: "tlv_ok K s"
    have "fits_u64 v \<and> (t mod 2 = 0 \<longrightarrow> t \<in> set K)" if "tlv_get s t = Some v" for t v
    proof -
      have "record_ok K \<lparr>tlv_type = t, tlv_value = v\<rparr>"
        using ok that True by (simp only: tlv_ok_def tlv_get_Some_iff)
      then show ?thesis unfolding record_ok_def tlv_record.simps by blast
    qed
    with True show "tlv_sorted s \<and> (\<forall>t v. tlv_get s t = Some v \<longrightarrow>
        fits_u64 v \<and> (t mod 2 = 0 \<longrightarrow> t \<in> set K))"
      by blast
  next
    assume h: "tlv_sorted s \<and> (\<forall>t v. tlv_get s t = Some v \<longrightarrow>
        fits_u64 v \<and> (t mod 2 = 0 \<longrightarrow> t \<in> set K))"
    have "record_ok K r" if "r \<in> set (records s)" for r
      using h that by (cases r) (auto simp: record_ok_def tlv_get_Some_iff)
    with True show "tlv_ok K s" by (simp add: tlv_ok_def)
  qed
next
  case False
  then show ?thesis by (simp add: tlv_ok_def)
qed

lemma tlv_decode_encode: "tlv_ok K s \<Longrightarrow> tlv_decode_with_known (tlv_encode s) K = Inr s"
  by (simp add: tlv_decode_with_known_iff)

text \<open>The stream that the encoders build from two optional fields.\<close>

lemma tlv_two_fields:
  assumes "t \<noteq> u"
  obtains s1 s where "tlv_add_opt tlv_new t a = Inr s1" and "tlv_add_opt s1 u b = Inr s"
    and "tlv_sorted s" and "tlv_get s = (\<lambda>x. if x = t then a else if x = u then b else None)"
proof -
  obtain s where "and_then (tlv_add_opt tlv_new t a) (\<lambda>s. tlv_add_opt s u b) = Inr s"
    and "tlv_sorted s" and "tlv_get s = (\<lambda>x. if x = t then a else if x = u then b else None)"
    using tlvs.two_fields [OF assms, of a b] by (auto simp: tlv_add_opt_def)
  with that show thesis by auto
qed

lemma tlv_decode_iff:
  "tlv_decode data = Inr s \<longleftrightarrow> tlv_ok [] s \<and> data = tlv_encode s"
  by (simp add: tlv_decode_def tlv_decode_with_known_iff)

lemma tlv_ok_value: "tlv_ok K s \<Longrightarrow> tlv_get s t = Some v \<Longrightarrow> fits_u64 v"
  by (simp only: tlv_ok_get_iff)

lemma tlv_ok_fits: "tlv_ok K s \<Longrightarrow> opt_fits_u64 (tlv_get s t)"
  using tlv_ok_value [of K s t] by (simp add: opt_fits_u64_def split: option.splits)

lemma opt_fits_Some: "opt_fits_u64 (Some v) = fits_u64 v"
  by (simp add: opt_fits_u64_def)

lemma read_write_tlvs [read_write_simps]:
  "tlv_ok [] s \<Longrightarrow> tlv_decode (tlv_encode s) = Inr s"
  "tlv_ok K s \<Longrightarrow> tlv_decode_with_known (tlv_encode s) K = Inr s"
  by (simp_all add: tlv_decode_iff tlv_decode_with_known_iff)

lemma tlv_okI:
  assumes "tlv_sorted s"
    and "\<And>t v. tlv_get s t = Some v \<Longrightarrow> fits_u64 v \<and> (t mod 2 = 0 \<longrightarrow> t \<in> set K)"
  shows "tlv_ok K s"
  unfolding tlv_ok_get_iff by (intro conjI [OF assms(1)] allI impI assms(2))

end
