(* ===== verification/Message_Codec.thy ===== *)
theory Message_Codec
  imports Tlv
begin

text \<open>
  The contract between the messages of the crate \<open>bolt\<close> and the code that sends and receives
  them: encoding never panics, decoding inverts encoding, and what is decoded can be encoded
  again. Messages without a TLV stream satisfy the sharper contract \<open>plain_message\<close>: the
  decoder accepts exactly the encodings, followed by any bytes.
\<close>

locale message_codec =
  fixes enc :: "'m \<Rightarrow> panic + bytes"
    and dec :: "bytes \<Rightarrow> bolt_error + 'm"
    and wf :: "'m \<Rightarrow> bool"
    and law :: bool
  assumes encode_total: "\<exists>bs. enc m = Inr bs"
    and decode_encode: "law \<Longrightarrow> wf m \<Longrightarrow> enc m = Inr bs \<Longrightarrow> dec bs = Inr m"
    and decode_wf: "law \<Longrightarrow> dec bs = Inr m \<Longrightarrow> wf m"
begin

lemma encode_inj: "law \<Longrightarrow> wf m \<Longrightarrow> wf m' \<Longrightarrow> enc m = enc m' \<Longrightarrow> m = m'"
proof -
  assume l: law "wf m" "wf m'" and eq: "enc m = enc m'"
  obtain bs where bs: "enc m = Inr bs" using encode_total by blast
  have "Inr m = dec bs" using decode_encode [OF l(1,2) bs] by simp
  also have "\<dots> = Inr m'" using decode_encode [OF l(1,3)] bs eq by simp
  finally show "m = m'" by simp
qed

text \<open>Decoding and encoding again yields bytes that decode to the same message.\<close>

lemma reencode: "law \<Longrightarrow> dec bs = Inr m \<Longrightarrow> \<exists>bs'. enc m = Inr bs' \<and> dec bs' = Inr m"
  using encode_total [of m] decode_encode [of m] decode_wf by blast

end

locale plain_message =
  fixes encb :: "'m \<Rightarrow> bytes"
    and dec :: "bytes \<Rightarrow> bolt_error + 'm"
    and wf :: "'m \<Rightarrow> bool"
    and law :: bool
  assumes decode_iff: "law \<Longrightarrow> dec bs = Inr m \<longleftrightarrow> wf m \<and> (\<exists>extra. bs = encb m @ extra)"
begin

lemma decode_trailing: "law \<Longrightarrow> wf m \<Longrightarrow> dec (encb m @ extra) = Inr m"
  by (simp add: decode_iff)

lemma encode_prefix_free:
  "law \<Longrightarrow> wf m \<Longrightarrow> wf m' \<Longrightarrow> encb m @ x = encb m' @ y \<Longrightarrow> m = m' \<and> x = y"
  using decode_trailing [of m x] decode_trailing [of m' y] by simp

text \<open>Every truncation of an encoding is refused.\<close>

lemma truncated_refused:
  assumes law and "wf m" and "k < length (encb m)"
  shows "\<exists>e. dec (take k (encb m)) = Inl e"
proof (cases "dec (take k (encb m))")
  case (Inr m')
  then obtain extra where wf: "wf m'" and extra: "take k (encb m) = encb m' @ extra"
    using assms(1) by (auto simp: decode_iff)
  have "encb m @ [] = encb m' @ (extra @ drop k (encb m))"
    using extra append_take_drop_id [of k "encb m"] by simp
  then have "extra @ drop k (encb m) = []"
    using encode_prefix_free [OF assms(1,2) wf] by metis
  then show ?thesis using assms(3) by simp
qed simp

end

sublocale plain_message \<subseteq> message_codec "\<lambda>m. Inr (encb m)" dec wf law
  using decode_trailing [of _ "[]"] by unfold_locales (auto simp: decode_iff)

end
