(* ===== verification/Bolt1.thy ===== *)
theory Bolt1
  imports Message_Codec
begin

text \<open>
  The BOLT 1 messages: \<open>bolt/src/warning.rs\<close>, \<open>error.rs\<close>, \<open>ping.rs\<close>, \<open>pong.rs\<close> and \<open>init.rs\<close>,
  each with its constructors, encoder and decoder. \<open>wf_\<close> predicates state what the Rust
  types guarantee of arrays, and the 16-bit length limit of \<open>Vec<u8>\<close> fields.
\<close>

section \<open>Warning\<close>

record warning_msg =
  wa_channel_id :: channel_id
  wa_data :: bytes

definition warning_for_channel :: "channel_id \<Rightarrow> bytes \<Rightarrow> panic + warning_msg" where
  "warning_for_channel cid msg =
     (if length msg \<le> MAX_MESSAGE_SIZE then Inr \<lparr>wa_channel_id = cid, wa_data = msg\<rparr>
      else Inl (Panic ''warning message exceeds maximum size''))"

definition warning_all_channels :: "bytes \<Rightarrow> panic + warning_msg" where
  "warning_all_channels msg =
     (if length msg \<le> MAX_MESSAGE_SIZE
      then Inr \<lparr>wa_channel_id = channel_id_ALL, wa_data = msg\<rparr>
      else Inl (Panic ''warning message exceeds maximum size''))"

definition encode_warning :: "warning_msg \<Rightarrow> bytes" where
  "encode_warning m = write_channel_id (wa_channel_id m) @ write_vec (wa_data m)"

definition decode_warning :: "bytes \<Rightarrow> bolt_error + warning_msg" where
  "decode_warning payload =
     and_then (read_channel_id payload) (\<lambda>(cid, cursor).
     and_then (read_vec cursor) (\<lambda>(d, cursor).
     Inr \<lparr>wa_channel_id = cid, wa_data = d\<rparr>))"

definition warning_message :: "warning_msg \<Rightarrow> bytes option" where
  "warning_message m = str_from_utf8 (wa_data m)"

definition wf_warning :: "warning_msg \<Rightarrow> bool" where
  "wf_warning m \<longleftrightarrow> wf_channel_id (wa_channel_id m) \<and> fits_u16 (wa_data m)"

section \<open>Error\<close>

record error_msg =
  er_channel_id :: channel_id
  er_data :: bytes

definition error_for_channel :: "channel_id \<Rightarrow> bytes \<Rightarrow> panic + error_msg" where
  "error_for_channel cid msg =
     (if length msg \<le> MAX_MESSAGE_SIZE then Inr \<lparr>er_channel_id = cid, er_data = msg\<rparr>
      else Inl (Panic ''error message exceeds maximum size''))"

definition error_all_channels :: "bytes \<Rightarrow> panic + error_msg" where
  "error_all_channels msg =
     (if length msg \<le> MAX_MESSAGE_SIZE
      then Inr \<lparr>er_channel_id = channel_id_ALL, er_data = msg\<rparr>
      else Inl (Panic ''error message exceeds maximum size''))"

definition encode_error :: "error_msg \<Rightarrow> bytes" where
  "encode_error m = write_channel_id (er_channel_id m) @ write_vec (er_data m)"

definition decode_error :: "bytes \<Rightarrow> bolt_error + error_msg" where
  "decode_error payload =
     and_then (read_channel_id payload) (\<lambda>(cid, cursor).
     and_then (read_vec cursor) (\<lambda>(d, cursor).
     Inr \<lparr>er_channel_id = cid, er_data = d\<rparr>))"

definition error_message :: "error_msg \<Rightarrow> bytes option" where
  "error_message m = str_from_utf8 (er_data m)"

definition wf_error :: "error_msg \<Rightarrow> bool" where
  "wf_error m \<longleftrightarrow> wf_channel_id (er_channel_id m) \<and> fits_u16 (er_data m)"

section \<open>Ping and Pong\<close>

record ping_msg =
  num_pong_bytes :: u16
  pi_ignored :: bytes

definition ping_new :: "u16 \<Rightarrow> ping_msg" where
  "ping_new n = \<lparr>num_pong_bytes = n, pi_ignored = []\<rparr>"

definition ping_with_padding :: "u16 \<Rightarrow> u16 \<Rightarrow> ping_msg" where
  "ping_with_padding n padding_len =
     \<lparr>num_pong_bytes = n, pi_ignored = replicate (unat padding_len) 0\<rparr>"

definition encode_ping :: "ping_msg \<Rightarrow> bytes" where
  "encode_ping m = write_u16 (num_pong_bytes m) @ write_vec (pi_ignored m)"

definition decode_ping :: "bytes \<Rightarrow> bolt_error + ping_msg" where
  "decode_ping payload =
     and_then (read_u16 payload) (\<lambda>(n, cursor).
     and_then (read_vec cursor) (\<lambda>(ig, cursor).
     Inr \<lparr>num_pong_bytes = n, pi_ignored = ig\<rparr>))"

definition wf_ping :: "ping_msg \<Rightarrow> bool" where
  "wf_ping m \<longleftrightarrow> fits_u16 (pi_ignored m)"

record pong_msg =
  po_ignored :: bytes

definition pong_new :: "u16 \<Rightarrow> pong_msg" where
  "pong_new byteslen = \<lparr>po_ignored = replicate (unat byteslen) 0\<rparr>"

definition pong_respond_to :: "ping_msg \<Rightarrow> pong_msg" where
  "pong_respond_to p = pong_new (min (num_pong_bytes p) 65531)"

definition encode_pong :: "pong_msg \<Rightarrow> bytes" where
  "encode_pong m = write_vec (po_ignored m)"

definition decode_pong :: "bytes \<Rightarrow> bolt_error + pong_msg" where
  "decode_pong payload =
     and_then (read_vec payload) (\<lambda>(ig, cursor). Inr \<lparr>po_ignored = ig\<rparr>)"

definition wf_pong :: "pong_msg \<Rightarrow> bool" where
  "wf_pong m \<longleftrightarrow> fits_u16 (po_ignored m)"

section \<open>Init\<close>

definition TLV_NETWORKS :: u64 where "TLV_NETWORKS = 1"
definition TLV_REMOTE_ADDR :: u64 where "TLV_REMOTE_ADDR = 3"

record init_tlvs =
  networks :: "bytes list option"
  remote_addr :: "bytes option"

record init_msg =
  globalfeatures :: bytes
  in_features :: bytes
  in_tlvs :: init_tlvs

definition init_tlvs_default :: init_tlvs where
  "init_tlvs_default = \<lparr>networks = None, remote_addr = None\<rparr>"

definition init_empty :: init_msg where
  "init_empty = \<lparr>globalfeatures = [], in_features = [], in_tlvs = init_tlvs_default\<rparr>"

definition init_echo :: "init_msg \<Rightarrow> init_msg" where
  "init_echo received =
     \<lparr>globalfeatures = globalfeatures received, in_features = in_features received,
      in_tlvs = init_tlvs_default\<rparr>"

definition encode_init :: "init_msg \<Rightarrow> panic + bytes" where
  "encode_init m =
     and_then (tlv_add_opt tlv_new TLV_NETWORKS (map_option concat (networks (in_tlvs m)))) (\<lambda>s.
     and_then (tlv_add_opt s TLV_REMOTE_ADDR (remote_addr (in_tlvs m))) (\<lambda>s.
     Inr (write_vec (globalfeatures m) @ write_vec (in_features m) @ tlv_encode s)))"

definition init_tlvs_from_stream :: "tlv_stream \<Rightarrow> bolt_error + init_tlvs" where
  "init_tlvs_from_stream s =
     and_then
       (case tlv_get s TLV_NETWORKS of
          Some d \<Rightarrow>
            (let (chunks, remainder) = as_chunks CHAIN_HASH_SIZE d in
             if remainder \<noteq> []
             then Inl (Truncated ((length chunks + 1) * CHAIN_HASH_SIZE) (length d))
             else Inr (Some chunks))
        | None \<Rightarrow> Inr None) (\<lambda>ns.
     Inr \<lparr>networks = ns, remote_addr = tlv_get s TLV_REMOTE_ADDR\<rparr>)"

definition decode_init :: "bytes \<Rightarrow> bolt_error + init_msg" where
  "decode_init payload =
     and_then (read_vec payload) (\<lambda>(gf, cursor).
     and_then (read_vec cursor) (\<lambda>(f, cursor).
     and_then (tlv_decode cursor) (\<lambda>s.
     and_then (init_tlvs_from_stream s) (\<lambda>t.
     Inr \<lparr>globalfeatures = gf, in_features = f, in_tlvs = t\<rparr>))))"

definition wf_init_tlvs :: "init_tlvs \<Rightarrow> bool" where
  "wf_init_tlvs t \<longleftrightarrow>
     (case networks t of None \<Rightarrow> True
      | Some ns \<Rightarrow> (\<forall>h \<in> set ns. length h = CHAIN_HASH_SIZE) \<and> fits_u64 (concat ns)) \<and>
     opt_fits_u64 (remote_addr t)"

definition wf_init :: "init_msg \<Rightarrow> bool" where
  "wf_init m \<longleftrightarrow> fits_u16 (globalfeatures m) \<and> fits_u16 (in_features m) \<and> wf_init_tlvs (in_tlvs m)"

section \<open>Warning, error, ping and pong satisfy the message contract\<close>

interpretation warning_codec: plain_message encode_warning decode_warning wf_warning True
proof unfold_locales
  fix bs m
  show "decode_warning bs = Inr m \<longleftrightarrow> wf_warning m \<and> (\<exists>extra. bs = encode_warning m @ extra)"
    by (cases m) (auto simp: decode_warning_def encode_warning_def wf_warning_def read_iffs)
qed

interpretation error_codec: plain_message encode_error decode_error wf_error True
proof unfold_locales
  fix bs m
  show "decode_error bs = Inr m \<longleftrightarrow> wf_error m \<and> (\<exists>extra. bs = encode_error m @ extra)"
    by (cases m) (auto simp: decode_error_def encode_error_def wf_error_def read_iffs)
qed

interpretation ping_codec: plain_message encode_ping decode_ping wf_ping True
proof unfold_locales
  fix bs m
  show "decode_ping bs = Inr m \<longleftrightarrow> wf_ping m \<and> (\<exists>extra. bs = encode_ping m @ extra)"
    by (cases m) (auto simp: decode_ping_def encode_ping_def wf_ping_def read_iffs)
qed

interpretation pong_codec: plain_message encode_pong decode_pong wf_pong True
proof unfold_locales
  fix bs m
  show "decode_pong bs = Inr m \<longleftrightarrow> wf_pong m \<and> (\<exists>extra. bs = encode_pong m @ extra)"
    by (cases m) (auto simp: decode_pong_def encode_pong_def wf_pong_def read_iffs)
qed

section \<open>Init satisfies the message contract\<close>

text \<open>The entries of the stream of an \<open>Init\<close>.\<close>

lemma encode_init_stream:
  obtains s where "encode_init m =
      Inr (write_vec (globalfeatures m) @ write_vec (in_features m) @ tlv_encode s)"
    and "tlv_sorted s"
    and "tlv_get s = (\<lambda>x. if x = TLV_NETWORKS then map_option concat (networks (in_tlvs m))
                         else if x = TLV_REMOTE_ADDR then remote_addr (in_tlvs m) else None)"
proof -
  have "TLV_NETWORKS \<noteq> TLV_REMOTE_ADDR" by (simp add: TLV_NETWORKS_def TLV_REMOTE_ADDR_def)
  then obtain s1 s
    where "tlv_add_opt tlv_new TLV_NETWORKS (map_option concat (networks (in_tlvs m))) = Inr s1"
    and "tlv_add_opt s1 TLV_REMOTE_ADDR (remote_addr (in_tlvs m)) = Inr s"
    and s: "tlv_sorted s"
      "tlv_get s = (\<lambda>x. if x = TLV_NETWORKS then map_option concat (networks (in_tlvs m))
                         else if x = TLV_REMOTE_ADDR then remote_addr (in_tlvs m) else None)"
    by (rule tlv_two_fields)
  then have "encode_init m =
      Inr (write_vec (globalfeatures m) @ write_vec (in_features m) @ tlv_encode s)"
    by (simp add: encode_init_def)
  with s show thesis by (intro that)
qed

lemma init_stream_ok:
  assumes "wf_init_tlvs t" and "tlv_sorted s"
    and get: "tlv_get s = (\<lambda>x. if x = TLV_NETWORKS then map_option concat (networks t)
                         else if x = TLV_REMOTE_ADDR then remote_addr t else None)"
  shows "tlv_ok [] s" and "init_tlvs_from_stream s = Inr t"
proof -
  have ne: "TLV_REMOTE_ADDR \<noteq> TLV_NETWORKS" by (simp add: TLV_NETWORKS_def TLV_REMOTE_ADDR_def)
  have odd: "TLV_NETWORKS mod 2 \<noteq> 0" "TLV_REMOTE_ADDR mod 2 \<noteq> 0"
    by (simp_all add: TLV_NETWORKS_def TLV_REMOTE_ADDR_def)
  have ns: "fits_u64 (concat ns) \<and> as_chunks CHAIN_HASH_SIZE (concat ns) = (ns, [])"
    if "networks t = Some ns" for ns
    using assms(1) that as_chunks_concat [of CHAIN_HASH_SIZE ns]
    by (auto simp: wf_init_tlvs_def CHAIN_HASH_SIZE_def)
  show "tlv_ok [] s"
  proof (rule tlv_okI [OF assms(2)])
    fix x v
    assume "tlv_get s x = Some v"
    then show "fits_u64 v \<and> (x mod 2 = 0 \<longrightarrow> x \<in> set [])"
      using ns odd assms(1) by (auto simp: get wf_init_tlvs_def opt_fits_Some split: if_splits)
  qed
  show "init_tlvs_from_stream s = Inr t"
    using ns ne by (cases "networks t") (auto simp: init_tlvs_from_stream_def get Let_def)
qed

lemma init_tlvs_from_stream_wf:
  assumes "tlv_ok [] s" and "init_tlvs_from_stream s = Inr t"
  shows "wf_init_tlvs t"
proof -
  have remote: "remote_addr t = tlv_get s TLV_REMOTE_ADDR"
    using assms(2) by (auto simp: init_tlvs_from_stream_def)
  have nets: "(\<forall>h \<in> set ns. length h = CHAIN_HASH_SIZE) \<and> fits_u64 (concat ns)"
    if "networks t = Some ns" for ns
  proof -
    from assms(2) that obtain d where d: "tlv_get s TLV_NETWORKS = Some d"
      and chunks: "as_chunks CHAIN_HASH_SIZE d = (ns, [])"
      by (auto simp: init_tlvs_from_stream_def Let_def split: option.splits prod.splits if_splits)
    from as_chunks_split [OF chunks] have "\<forall>h \<in> set ns. length h = CHAIN_HASH_SIZE"
      and "d = concat ns" by auto
    then show ?thesis
      using tlv_ok_value [OF assms(1) d] by simp
  qed
  show ?thesis
    using nets remote tlv_ok_fits [OF assms(1)]
    by (auto simp: wf_init_tlvs_def split: option.splits)
qed

interpretation init_codec: message_codec encode_init decode_init wf_init True
proof unfold_locales
  fix m
  show "\<exists>bs. encode_init m = Inr bs" by (rule encode_init_stream [of m]) blast
next
  fix m bs
  assume wf: "wf_init m" and enc: "encode_init m = Inr bs"
  obtain s where bs: "bs = write_vec (globalfeatures m) @ write_vec (in_features m) @ tlv_encode s"
    and ok: "tlv_ok [] s" and tlvs: "init_tlvs_from_stream s = Inr (in_tlvs m)"
    using encode_init_stream [of m] init_stream_ok [of "in_tlvs m"] wf enc
    by (metis sum.inject(2) wf_init_def)
  then show "decode_init bs = Inr m"
    using wf by (simp add: decode_init_def wf_init_def read_write_simps)
next
  fix bs m
  assume "decode_init bs = Inr m"
  then show "wf_init m"
    by (auto simp: decode_init_def wf_init_def read_iffs tlv_decode_iff
        intro: init_tlvs_from_stream_wf)
qed

end
