(* ===== verification/Bolt2.thy ===== *)
theory Bolt2
  imports Message_Codec
begin

text \<open>
  The BOLT 2 messages: \<open>bolt/src/open_channel.rs\<close> and \<open>bolt/src/funding_created.rs\<close>.
\<close>

section \<open>OpenChannel\<close>

definition TLV_UPFRONT_SHUTDOWN_SCRIPT :: u64 where "TLV_UPFRONT_SHUTDOWN_SCRIPT = 0"
definition TLV_CHANNEL_TYPE :: u64 where "TLV_CHANNEL_TYPE = 1"

record open_channel_tlvs =
  upfront_shutdown_script :: "bytes option"
  channel_type :: "bytes option"

record 'pk open_channel =
  oc_chain_hash :: bytes
  oc_temporary_channel_id :: channel_id
  funding_satoshis :: u64
  push_msat :: u64
  dust_limit_satoshis :: u64
  max_htlc_value_in_flight_msat :: u64
  channel_reserve_satoshis :: u64
  oc_htlc_minimum_msat :: u64
  feerate_per_kw :: u32
  to_self_delay :: u16
  max_accepted_htlcs :: u16
  funding_pubkey :: 'pk
  revocation_basepoint :: 'pk
  payment_basepoint :: 'pk
  delayed_payment_basepoint :: 'pk
  htlc_basepoint :: 'pk
  first_per_commitment_point :: 'pk
  oc_channel_flags :: u8
  oc_tlvs :: open_channel_tlvs

definition encode_open_channel ::
    "('pk, 'sk, 'sig) secp \<Rightarrow> 'pk open_channel \<Rightarrow> panic + bytes" where
  "encode_open_channel S m =
     and_then (tlv_add_opt tlv_new TLV_UPFRONT_SHUTDOWN_SCRIPT
                 (upfront_shutdown_script (oc_tlvs m))) (\<lambda>s.
     and_then (tlv_add_opt s TLV_CHANNEL_TYPE (channel_type (oc_tlvs m))) (\<lambda>s.
     Inr (write_array (oc_chain_hash m) @
          write_channel_id (oc_temporary_channel_id m) @
          write_u64 (funding_satoshis m) @
          write_u64 (push_msat m) @
          write_u64 (dust_limit_satoshis m) @
          write_u64 (max_htlc_value_in_flight_msat m) @
          write_u64 (channel_reserve_satoshis m) @
          write_u64 (oc_htlc_minimum_msat m) @
          write_u32 (feerate_per_kw m) @
          write_u16 (to_self_delay m) @
          write_u16 (max_accepted_htlcs m) @
          write_pubkey S (funding_pubkey m) @
          write_pubkey S (revocation_basepoint m) @
          write_pubkey S (payment_basepoint m) @
          write_pubkey S (delayed_payment_basepoint m) @
          write_pubkey S (htlc_basepoint m) @
          write_pubkey S (first_per_commitment_point m) @
          write_u8 (oc_channel_flags m) @
          tlv_encode s)))"

definition open_channel_tlvs_from_stream :: "tlv_stream \<Rightarrow> open_channel_tlvs" where
  "open_channel_tlvs_from_stream s =
     \<lparr>upfront_shutdown_script = tlv_get s TLV_UPFRONT_SHUTDOWN_SCRIPT,
      channel_type = tlv_get s TLV_CHANNEL_TYPE\<rparr>"

definition decode_open_channel ::
    "('pk, 'sk, 'sig) secp \<Rightarrow> bytes \<Rightarrow> bolt_error + 'pk open_channel" where
  "decode_open_channel S payload =
     and_then (read_array CHAIN_HASH_SIZE payload) (\<lambda>(ch, cursor).
     and_then (read_channel_id cursor) (\<lambda>(cid, cursor).
     and_then (read_u64 cursor) (\<lambda>(fs, cursor).
     and_then (read_u64 cursor) (\<lambda>(pm, cursor).
     and_then (read_u64 cursor) (\<lambda>(dl, cursor).
     and_then (read_u64 cursor) (\<lambda>(mh, cursor).
     and_then (read_u64 cursor) (\<lambda>(cr, cursor).
     and_then (read_u64 cursor) (\<lambda>(hm, cursor).
     and_then (read_u32 cursor) (\<lambda>(fk, cursor).
     and_then (read_u16 cursor) (\<lambda>(sd, cursor).
     and_then (read_u16 cursor) (\<lambda>(ma, cursor).
     and_then (read_pubkey S cursor) (\<lambda>(fp, cursor).
     and_then (read_pubkey S cursor) (\<lambda>(rb, cursor).
     and_then (read_pubkey S cursor) (\<lambda>(pb, cursor).
     and_then (read_pubkey S cursor) (\<lambda>(db, cursor).
     and_then (read_pubkey S cursor) (\<lambda>(hb, cursor).
     and_then (read_pubkey S cursor) (\<lambda>(fc, cursor).
     and_then (read_u8 cursor) (\<lambda>(fl, cursor).
     and_then (tlv_decode_with_known cursor [TLV_UPFRONT_SHUTDOWN_SCRIPT]) (\<lambda>s.
     Inr \<lparr>oc_chain_hash = ch, oc_temporary_channel_id = cid, funding_satoshis = fs,
          push_msat = pm, dust_limit_satoshis = dl, max_htlc_value_in_flight_msat = mh,
          channel_reserve_satoshis = cr, oc_htlc_minimum_msat = hm, feerate_per_kw = fk,
          to_self_delay = sd, max_accepted_htlcs = ma, funding_pubkey = fp,
          revocation_basepoint = rb, payment_basepoint = pb, delayed_payment_basepoint = db,
          htlc_basepoint = hb, first_per_commitment_point = fc, oc_channel_flags = fl,
          oc_tlvs = open_channel_tlvs_from_stream s\<rparr>)))))))))))))))))))"

definition wf_open_channel :: "'pk open_channel \<Rightarrow> bool" where
  "wf_open_channel m \<longleftrightarrow>
     length (oc_chain_hash m) = CHAIN_HASH_SIZE \<and> wf_channel_id (oc_temporary_channel_id m) \<and>
     opt_fits_u64 (upfront_shutdown_script (oc_tlvs m)) \<and>
     opt_fits_u64 (channel_type (oc_tlvs m))"

section \<open>FundingCreated\<close>

record 'sig funding_created =
  fc_temporary_channel_id :: channel_id
  funding_txid :: bytes
  funding_output_index :: u16
  fc_signature :: 'sig

definition encode_funding_created ::
    "('pk, 'sk, 'sig) secp \<Rightarrow> 'sig funding_created \<Rightarrow> bytes" where
  "encode_funding_created S m =
     write_channel_id (fc_temporary_channel_id m) @ write_txid (funding_txid m) @
     write_u16 (funding_output_index m) @ write_signature S (fc_signature m)"

definition decode_funding_created ::
    "('pk, 'sk, 'sig) secp \<Rightarrow> bytes \<Rightarrow> bolt_error + 'sig funding_created" where
  "decode_funding_created S payload =
     and_then (read_channel_id payload) (\<lambda>(cid, cursor).
     and_then (read_txid cursor) (\<lambda>(txid, cursor).
     and_then (read_u16 cursor) (\<lambda>(idx, cursor).
     and_then (read_signature S cursor) (\<lambda>(sig, cursor).
     Inr \<lparr>fc_temporary_channel_id = cid, funding_txid = txid, funding_output_index = idx,
          fc_signature = sig\<rparr>))))"

definition wf_funding_created :: "'sig funding_created \<Rightarrow> bool" where
  "wf_funding_created m \<longleftrightarrow>
     wf_channel_id (fc_temporary_channel_id m) \<and> length (funding_txid m) = TXID_SIZE"

section \<open>Both satisfy the message contract\<close>

interpretation funding_created_codec: plain_message "encode_funding_created S"
  "decode_funding_created S" wf_funding_created "sigs_lawful S"
  for S :: "('pk, 'sk, 'sig) secp"
proof unfold_locales
  fix bs and m :: "'sig funding_created"
  assume law: "sigs_lawful S"
  show "decode_funding_created S bs = Inr m \<longleftrightarrow>
      wf_funding_created m \<and> (\<exists>extra. bs = encode_funding_created S m @ extra)" (is "?L \<longleftrightarrow> ?R")
  proof
    show "?L \<Longrightarrow> ?R"
      using law by (auto simp: decode_funding_created_def encode_funding_created_def
          wf_funding_created_def TXID_SIZE_def read_iffs)
    show "?R \<Longrightarrow> ?L"
      using law by (auto simp only: decode_funding_created_def encode_funding_created_def
          wf_funding_created_def TXID_SIZE_def append_assoc read_write_simps and_then_simps
          prod.case) simp
  qed
qed

text \<open>The fixed part of an \<open>OpenChannel\<close>, and what the decoder does after it.\<close>

definition open_channel_header :: "('pk, 'sk, 'sig) secp \<Rightarrow> 'pk open_channel \<Rightarrow> bytes" where
  "open_channel_header S m =
     write_array (oc_chain_hash m) @ write_channel_id (oc_temporary_channel_id m) @
     write_u64 (funding_satoshis m) @ write_u64 (push_msat m) @
     write_u64 (dust_limit_satoshis m) @ write_u64 (max_htlc_value_in_flight_msat m) @
     write_u64 (channel_reserve_satoshis m) @ write_u64 (oc_htlc_minimum_msat m) @
     write_u32 (feerate_per_kw m) @ write_u16 (to_self_delay m) @
     write_u16 (max_accepted_htlcs m) @ write_pubkey S (funding_pubkey m) @
     write_pubkey S (revocation_basepoint m) @ write_pubkey S (payment_basepoint m) @
     write_pubkey S (delayed_payment_basepoint m) @ write_pubkey S (htlc_basepoint m) @
     write_pubkey S (first_per_commitment_point m) @ write_u8 (oc_channel_flags m)"

lemma decode_open_channel_header:
  assumes "keys_lawful S" and "wf_open_channel m"
  shows "decode_open_channel S (open_channel_header S m @ data) =
     and_then (tlv_decode_with_known data [TLV_UPFRONT_SHUTDOWN_SCRIPT]) (\<lambda>s.
     Inr (m\<lparr>oc_tlvs := open_channel_tlvs_from_stream s\<rparr>))"
  using assms
  by (cases m) (simp add: decode_open_channel_def open_channel_header_def wf_open_channel_def
      read_write_simps)

lemma length_open_channel_header:
  "keys_lawful S \<Longrightarrow> wf_open_channel m \<Longrightarrow> length (open_channel_header S m) = 319"
  by (simp add: open_channel_header_def wf_open_channel_def width_simps CHAIN_HASH_SIZE_def)

lemma encode_open_channel_stream:
  obtains s where "encode_open_channel S m = Inr (open_channel_header S m @ tlv_encode s)"
    and "tlv_sorted s"
    and "tlv_get s = (\<lambda>x. if x = TLV_UPFRONT_SHUTDOWN_SCRIPT
           then upfront_shutdown_script (oc_tlvs m)
           else if x = TLV_CHANNEL_TYPE then channel_type (oc_tlvs m) else None)"
proof -
  have "TLV_UPFRONT_SHUTDOWN_SCRIPT \<noteq> TLV_CHANNEL_TYPE"
    by (simp add: TLV_UPFRONT_SHUTDOWN_SCRIPT_def TLV_CHANNEL_TYPE_def)
  then obtain s1 s
    where add: "tlv_add_opt tlv_new TLV_UPFRONT_SHUTDOWN_SCRIPT
        (upfront_shutdown_script (oc_tlvs m)) = Inr s1"
      "tlv_add_opt s1 TLV_CHANNEL_TYPE (channel_type (oc_tlvs m)) = Inr s"
    and s: "tlv_sorted s"
      "tlv_get s = (\<lambda>x. if x = TLV_UPFRONT_SHUTDOWN_SCRIPT
           then upfront_shutdown_script (oc_tlvs m)
           else if x = TLV_CHANNEL_TYPE then channel_type (oc_tlvs m) else None)"
    by (rule tlv_two_fields)
  show thesis
    by (rule that [OF _ s]) (simp add: encode_open_channel_def open_channel_header_def add)
qed

lemma open_channel_stream_ok:
  assumes wf: "wf_open_channel m" and "tlv_sorted s"
    and get: "tlv_get s = (\<lambda>x. if x = TLV_UPFRONT_SHUTDOWN_SCRIPT
           then upfront_shutdown_script (oc_tlvs m)
           else if x = TLV_CHANNEL_TYPE then channel_type (oc_tlvs m) else None)"
  shows "tlv_ok [TLV_UPFRONT_SHUTDOWN_SCRIPT] s"
    and "open_channel_tlvs_from_stream s = oc_tlvs m"
proof -
  show "tlv_ok [TLV_UPFRONT_SHUTDOWN_SCRIPT] s"
  proof (rule tlv_okI [OF assms(2)])
    fix x v
    assume "tlv_get s x = Some v"
    then show "fits_u64 v \<and> (x mod 2 = 0 \<longrightarrow> x \<in> set [TLV_UPFRONT_SHUTDOWN_SCRIPT])"
      using wf by (auto simp: get wf_open_channel_def opt_fits_Some TLV_CHANNEL_TYPE_def split: if_splits)
  qed
  show "open_channel_tlvs_from_stream s = oc_tlvs m"
    by (simp add: open_channel_tlvs_from_stream_def get TLV_UPFRONT_SHUTDOWN_SCRIPT_def
        TLV_CHANNEL_TYPE_def)
qed

interpretation open_channel_codec: message_codec "encode_open_channel S" "decode_open_channel S"
  wf_open_channel "keys_lawful S"
  for S :: "('pk, 'sk, 'sig) secp"
proof unfold_locales
  fix m :: "'pk open_channel"
  show "\<exists>bs. encode_open_channel S m = Inr bs"
    by (rule encode_open_channel_stream [of S m]) blast
next
  fix m :: "'pk open_channel" and bs
  assume law: "keys_lawful S" and wf: "wf_open_channel m"
    and enc: "encode_open_channel S m = Inr bs"
  obtain s where "encode_open_channel S m = Inr (open_channel_header S m @ tlv_encode s)"
    and s: "tlv_sorted s"
      "tlv_get s = (\<lambda>x. if x = TLV_UPFRONT_SHUTDOWN_SCRIPT
           then upfront_shutdown_script (oc_tlvs m)
           else if x = TLV_CHANNEL_TYPE then channel_type (oc_tlvs m) else None)"
    by (rule encode_open_channel_stream)
  with enc have bs: "bs = open_channel_header S m @ tlv_encode s" by simp
  show "decode_open_channel S bs = Inr m"
    using open_channel_stream_ok [OF wf s]
    by (simp add: bs decode_open_channel_header [OF law wf] read_write_simps)
next
  fix bs and m :: "'pk open_channel"
  assume "keys_lawful S" and "decode_open_channel S bs = Inr m"
  then show "wf_open_channel m"
    by (auto simp: decode_open_channel_def wf_open_channel_def open_channel_tlvs_from_stream_def
        read_iffs tlv_decode_with_known_iff tlv_ok_fits)
qed

end
