(* ===== verification/Bolt7.thy ===== *)
theory Bolt7
  imports Message_Codec
begin

text \<open>
  The BOLT 7 gossip messages: \<open>bolt/src/channel_announcement.rs\<close>, \<open>node_announcement.rs\<close>,
  \<open>channel_update.rs\<close>, \<open>query_channel_range.rs\<close> and \<open>reply_channel_range.rs\<close>: encoders and
  decoders, the digests that are signed, the signing constructors and the textual form of a
  short channel id.
\<close>

section \<open>Short channel ids as text\<close>

definition scid_str :: "u64 \<Rightarrow> string" where
  "scid_str scid =
     (let block = drop_bit 40 scid;
          tx_index = drop_bit 16 scid AND 0xFFFFFF;
          output = scid AND 0xFFFF in
      string_of_nat (unat block) @ ''x'' @ string_of_nat (unat tx_index) @ ''x'' @
      string_of_nat (unat output))"

section \<open>ChannelAnnouncement\<close>

record ('pk, 'sig) channel_announcement =
  node_signature_1 :: 'sig
  node_signature_2 :: 'sig
  bitcoin_signature_1 :: 'sig
  bitcoin_signature_2 :: 'sig
  ca_features :: bytes
  ca_chain_hash :: bytes
  ca_short_channel_id :: u64
  node_id_1 :: 'pk
  node_id_2 :: 'pk
  bitcoin_key_1 :: 'pk
  bitcoin_key_2 :: 'pk

definition encode_channel_announcement ::
    "('pk, 'sk, 'sig) secp \<Rightarrow> ('pk, 'sig) channel_announcement \<Rightarrow> bytes" where
  "encode_channel_announcement S m =
     write_signature S (node_signature_1 m) @
     write_signature S (node_signature_2 m) @
     write_signature S (bitcoin_signature_1 m) @
     write_signature S (bitcoin_signature_2 m) @
     write_vec (ca_features m) @
     write_array (ca_chain_hash m) @
     write_u64 (ca_short_channel_id m) @
     write_pubkey S (node_id_1 m) @
     write_pubkey S (node_id_2 m) @
     write_pubkey S (bitcoin_key_1 m) @
     write_pubkey S (bitcoin_key_2 m)"

definition decode_channel_announcement ::
    "('pk, 'sk, 'sig) secp \<Rightarrow> bytes \<Rightarrow> bolt_error + ('pk, 'sig) channel_announcement" where
  "decode_channel_announcement S payload =
     and_then (read_signature S payload) (\<lambda>(ns1, cursor).
     and_then (read_signature S cursor) (\<lambda>(ns2, cursor).
     and_then (read_signature S cursor) (\<lambda>(bs1, cursor).
     and_then (read_signature S cursor) (\<lambda>(bs2, cursor).
     and_then (read_vec cursor) (\<lambda>(ft, cursor).
     and_then (read_array CHAIN_HASH_SIZE cursor) (\<lambda>(ch, cursor).
     and_then (read_u64 cursor) (\<lambda>(scid, cursor).
     and_then (read_pubkey S cursor) (\<lambda>(n1, cursor).
     and_then (read_pubkey S cursor) (\<lambda>(n2, cursor).
     and_then (read_pubkey S cursor) (\<lambda>(b1, cursor).
     and_then (read_pubkey S cursor) (\<lambda>(b2, cursor).
     Inr \<lparr>node_signature_1 = ns1, node_signature_2 = ns2, bitcoin_signature_1 = bs1,
          bitcoin_signature_2 = bs2, ca_features = ft, ca_chain_hash = ch,
          ca_short_channel_id = scid, node_id_1 = n1, node_id_2 = n2, bitcoin_key_1 = b1,
          bitcoin_key_2 = b2\<rparr>)))))))))))"

definition ca_scid_str :: "('pk, 'sig) channel_announcement \<Rightarrow> string" where
  "ca_scid_str m = scid_str (ca_short_channel_id m)"

definition ca_signature_hash ::
    "('pk, 'sk, 'sig) secp \<Rightarrow> ('pk, 'sig) channel_announcement \<Rightarrow> bytes" where
  "ca_signature_hash S m =
     sha256d S
      (write_vec (ca_features m) @
       write_array (ca_chain_hash m) @
       write_u64 (ca_short_channel_id m) @
       write_pubkey S (node_id_1 m) @
       write_pubkey S (node_id_2 m) @
       write_pubkey S (bitcoin_key_1 m) @
       write_pubkey S (bitcoin_key_2 m))"

definition ca_new_signed ::
    "('pk, 'sk, 'sig) secp \<Rightarrow> bytes \<Rightarrow> bytes \<Rightarrow> u64 \<Rightarrow> 'sk \<Rightarrow> 'sk \<Rightarrow> 'sk \<Rightarrow> 'sk \<Rightarrow>
     ('pk, 'sig) channel_announcement" where
  "ca_new_signed S features chain_hash scid node_sk_1 node_sk_2 bitcoin_sk_1 bitcoin_sk_2 =
     (let placeholder = sign_ecdsa S (replicate 32 0) node_sk_1;
          ann = \<lparr>node_signature_1 = placeholder, node_signature_2 = placeholder,
                 bitcoin_signature_1 = placeholder, bitcoin_signature_2 = placeholder,
                 ca_features = features, ca_chain_hash = chain_hash,
                 ca_short_channel_id = scid,
                 node_id_1 = pk_of_sk S node_sk_1, node_id_2 = pk_of_sk S node_sk_2,
                 bitcoin_key_1 = pk_of_sk S bitcoin_sk_1,
                 bitcoin_key_2 = pk_of_sk S bitcoin_sk_2\<rparr>;
          msg = ca_signature_hash S ann in
      ann\<lparr>node_signature_1 := sign_ecdsa S msg node_sk_1,
          node_signature_2 := sign_ecdsa S msg node_sk_2,
          bitcoin_signature_1 := sign_ecdsa S msg bitcoin_sk_1,
          bitcoin_signature_2 := sign_ecdsa S msg bitcoin_sk_2\<rparr>)"

definition wf_channel_announcement :: "('pk, 'sig) channel_announcement \<Rightarrow> bool" where
  "wf_channel_announcement m \<longleftrightarrow>
     fits_u16 (ca_features m) \<and> length (ca_chain_hash m) = CHAIN_HASH_SIZE"

section \<open>NodeAnnouncement\<close>

record ('pk, 'sig) node_announcement =
  na_signature :: 'sig
  na_features :: bytes
  na_timestamp :: u32
  na_node_id :: 'pk
  rgb_color :: bytes
  na_alias :: bytes
  addresses :: bytes

definition encode_node_announcement ::
    "('pk, 'sk, 'sig) secp \<Rightarrow> ('pk, 'sig) node_announcement \<Rightarrow> bytes" where
  "encode_node_announcement S m =
     write_signature S (na_signature m) @
     write_vec (na_features m) @
     write_u32 (na_timestamp m) @
     write_pubkey S (na_node_id m) @
     write_array (rgb_color m) @
     write_array (na_alias m) @
     write_vec (addresses m)"

definition decode_node_announcement ::
    "('pk, 'sk, 'sig) secp \<Rightarrow> bytes \<Rightarrow> bolt_error + ('pk, 'sig) node_announcement" where
  "decode_node_announcement S payload =
     and_then (read_signature S payload) (\<lambda>(sig, cursor).
     and_then (read_vec cursor) (\<lambda>(ft, cursor).
     and_then (read_u32 cursor) (\<lambda>(ts, cursor).
     and_then (read_pubkey S cursor) (\<lambda>(nid, cursor).
     and_then (read_array 3 cursor) (\<lambda>(rgb, cursor).
     and_then (read_array 32 cursor) (\<lambda>(al, cursor).
     and_then (read_vec cursor) (\<lambda>(ad, cursor).
     Inr \<lparr>na_signature = sig, na_features = ft, na_timestamp = ts, na_node_id = nid,
          rgb_color = rgb, na_alias = al, addresses = ad\<rparr>)))))))"

definition na_signature_hash ::
    "('pk, 'sk, 'sig) secp \<Rightarrow> ('pk, 'sig) node_announcement \<Rightarrow> bytes" where
  "na_signature_hash S m =
     sha256d S
      (write_vec (na_features m) @
       write_u32 (na_timestamp m) @
       write_pubkey S (na_node_id m) @
       write_array (rgb_color m) @
       write_array (na_alias m) @
       write_vec (addresses m))"

definition na_verify :: "('pk, 'sk, 'sig) secp \<Rightarrow> ('pk, 'sig) node_announcement \<Rightarrow> bool" where
  "na_verify S m = verify_ecdsa S (na_signature_hash S m) (na_signature m) (na_node_id m)"

definition na_new_signed ::
    "('pk, 'sk, 'sig) secp \<Rightarrow> bytes \<Rightarrow> u32 \<Rightarrow> bytes \<Rightarrow> bytes \<Rightarrow> bytes \<Rightarrow> 'sk \<Rightarrow>
     ('pk, 'sig) node_announcement" where
  "na_new_signed S features timestamp rgb al addrs node_sk =
     (let placeholder = sign_ecdsa S (replicate 32 0) node_sk;
          ann = \<lparr>na_signature = placeholder, na_features = features,
                 na_timestamp = timestamp, na_node_id = pk_of_sk S node_sk,
                 rgb_color = rgb, na_alias = al, addresses = addrs\<rparr> in
      ann\<lparr>na_signature := sign_ecdsa S (na_signature_hash S ann) node_sk\<rparr>)"

definition na_default_signed ::
    "('pk, 'sk, 'sig) secp \<Rightarrow> 'sk \<Rightarrow> ('pk, 'sig) node_announcement" where
  "na_default_signed S node_sk =
     na_new_signed S [] 0 (replicate 3 0) (replicate 32 0) [] node_sk"

definition wf_node_announcement :: "('pk, 'sig) node_announcement \<Rightarrow> bool" where
  "wf_node_announcement m \<longleftrightarrow>
     fits_u16 (na_features m) \<and> length (rgb_color m) = 3 \<and> length (na_alias m) = 32 \<and>
     fits_u16 (addresses m)"

section \<open>ChannelUpdate\<close>

record 'sig channel_update =
  cu_signature :: 'sig
  cu_chain_hash :: bytes
  cu_short_channel_id :: u64
  cu_timestamp :: u32
  message_flags :: u8
  cu_channel_flags :: u8
  cltv_expiry_delta :: u16
  cu_htlc_minimum_msat :: u64
  fee_base_msat :: u32
  fee_proportional_millionths :: u32
  htlc_maximum_msat :: u64

definition encode_channel_update ::
    "('pk, 'sk, 'sig) secp \<Rightarrow> 'sig channel_update \<Rightarrow> bytes" where
  "encode_channel_update S m =
     write_signature S (cu_signature m) @
     write_array (cu_chain_hash m) @
     write_u64 (cu_short_channel_id m) @
     write_u32 (cu_timestamp m) @
     write_u8 (message_flags m) @
     write_u8 (cu_channel_flags m) @
     write_u16 (cltv_expiry_delta m) @
     write_u64 (cu_htlc_minimum_msat m) @
     write_u32 (fee_base_msat m) @
     write_u32 (fee_proportional_millionths m) @
     write_u64 (htlc_maximum_msat m)"

definition decode_channel_update ::
    "('pk, 'sk, 'sig) secp \<Rightarrow> bytes \<Rightarrow> bolt_error + 'sig channel_update" where
  "decode_channel_update S payload =
     and_then (read_signature S payload) (\<lambda>(sig, cursor).
     and_then (read_array CHAIN_HASH_SIZE cursor) (\<lambda>(ch, cursor).
     and_then (read_u64 cursor) (\<lambda>(scid, cursor).
     and_then (read_u32 cursor) (\<lambda>(ts, cursor).
     and_then (read_u8 cursor) (\<lambda>(mf, cursor).
     and_then (read_u8 cursor) (\<lambda>(cf, cursor).
     and_then (read_u16 cursor) (\<lambda>(cltv, cursor).
     and_then (read_u64 cursor) (\<lambda>(hmin, cursor).
     and_then (read_u32 cursor) (\<lambda>(fb, cursor).
     and_then (read_u32 cursor) (\<lambda>(fp, cursor).
     and_then (read_u64 cursor) (\<lambda>(hmax, cursor).
     Inr \<lparr>cu_signature = sig, cu_chain_hash = ch, cu_short_channel_id = scid,
          cu_timestamp = ts, message_flags = mf, cu_channel_flags = cf,
          cltv_expiry_delta = cltv, cu_htlc_minimum_msat = hmin, fee_base_msat = fb,
          fee_proportional_millionths = fp, htlc_maximum_msat = hmax\<rparr>)))))))))))"

definition cu_scid_str :: "'sig channel_update \<Rightarrow> string" where
  "cu_scid_str m = scid_str (cu_short_channel_id m)"

definition cu_signature_hash :: "('pk, 'sk, 'sig) secp \<Rightarrow> 'sig channel_update \<Rightarrow> bytes" where
  "cu_signature_hash S m =
     sha256d S
      (write_array (cu_chain_hash m) @
       write_u64 (cu_short_channel_id m) @
       write_u32 (cu_timestamp m) @
       write_u8 (message_flags m) @
       write_u8 (cu_channel_flags m) @
       write_u16 (cltv_expiry_delta m) @
       write_u64 (cu_htlc_minimum_msat m) @
       write_u32 (fee_base_msat m) @
       write_u32 (fee_proportional_millionths m) @
       write_u64 (htlc_maximum_msat m))"

definition cu_new_signed ::
    "('pk, 'sk, 'sig) secp \<Rightarrow> bytes \<Rightarrow> u64 \<Rightarrow> u32 \<Rightarrow> u8 \<Rightarrow> u8 \<Rightarrow> u16 \<Rightarrow> u64 \<Rightarrow> u32 \<Rightarrow> u32 \<Rightarrow>
     u64 \<Rightarrow> 'sk \<Rightarrow> 'sig channel_update" where
  "cu_new_signed S chain_hash scid timestamp mflags cflags cltv hmin fbase fprop hmax node_sk =
     (let placeholder = sign_ecdsa S (replicate 32 0) node_sk;
          update = \<lparr>cu_signature = placeholder, cu_chain_hash = chain_hash,
                    cu_short_channel_id = scid, cu_timestamp = timestamp,
                    message_flags = mflags, cu_channel_flags = cflags,
                    cltv_expiry_delta = cltv, cu_htlc_minimum_msat = hmin,
                    fee_base_msat = fbase, fee_proportional_millionths = fprop,
                    htlc_maximum_msat = hmax\<rparr> in
      update\<lparr>cu_signature := sign_ecdsa S (cu_signature_hash S update) node_sk\<rparr>)"

definition wf_channel_update :: "'sig channel_update \<Rightarrow> bool" where
  "wf_channel_update m \<longleftrightarrow> length (cu_chain_hash m) = CHAIN_HASH_SIZE"

section \<open>QueryChannelRange\<close>

definition TLV_QUERY_OPTION :: u64 where "TLV_QUERY_OPTION = 1"
definition QUERY_OPTION_WANT_TIMESTAMPS :: u64 where "QUERY_OPTION_WANT_TIMESTAMPS = 1"
definition QUERY_OPTION_WANT_CHECKSUMS :: u64 where "QUERY_OPTION_WANT_CHECKSUMS = 2"

record query_channel_range =
  qr_chain_hash :: bytes
  qr_first_blocknum :: u32
  qr_number_of_blocks :: u32
  query_option :: "u64 option"

definition encode_query_channel_range :: "query_channel_range \<Rightarrow> panic + bytes" where
  "encode_query_channel_range m =
     and_then (tlv_add_opt tlv_new TLV_QUERY_OPTION
        (map_option (\<lambda>flags. write_bigsize (BigSize flags)) (query_option m))) (\<lambda>s.
     Inr (write_array (qr_chain_hash m) @ write_u32 (qr_first_blocknum m) @
          write_u32 (qr_number_of_blocks m) @ tlv_encode s))"

definition decode_query_channel_range :: "bytes \<Rightarrow> bolt_error + query_channel_range" where
  "decode_query_channel_range payload =
     and_then (read_array CHAIN_HASH_SIZE payload) (\<lambda>(ch, cursor).
     and_then (read_u32 cursor) (\<lambda>(fb, cursor).
     and_then (read_u32 cursor) (\<lambda>(nb, cursor).
     and_then (tlv_decode cursor) (\<lambda>s.
     and_then (case tlv_get s TLV_QUERY_OPTION of
                 Some value \<Rightarrow>
                   and_then (read_bigsize value) (\<lambda>(b, value). Inr (Some (bigsize_value b)))
               | None \<Rightarrow> Inr None) (\<lambda>qo.
     Inr \<lparr>qr_chain_hash = ch, qr_first_blocknum = fb, qr_number_of_blocks = nb,
          query_option = qo\<rparr>)))))"

definition wf_query_channel_range :: "query_channel_range \<Rightarrow> bool" where
  "wf_query_channel_range m \<longleftrightarrow> length (qr_chain_hash m) = CHAIN_HASH_SIZE"

section \<open>ReplyChannelRange\<close>

definition TLV_TIMESTAMPS :: u64 where "TLV_TIMESTAMPS = 1"
definition TLV_CHECKSUMS :: u64 where "TLV_CHECKSUMS = 3"
definition ENCODING_UNCOMPRESSED :: u8 where "ENCODING_UNCOMPRESSED = 0"
definition SCID_SIZE :: nat where "SCID_SIZE = 8"

record reply_channel_range_tlvs =
  timestamps :: "bytes option"
  checksums :: "bytes option"

record reply_channel_range =
  rr_chain_hash :: bytes
  rr_first_blocknum :: u32
  rr_number_of_blocks :: u32
  sync_complete :: u8
  encoded_short_ids :: bytes
  rr_tlvs :: reply_channel_range_tlvs

definition reply_from_scids ::
    "bytes \<Rightarrow> u32 \<Rightarrow> u32 \<Rightarrow> bool \<Rightarrow> u64 list \<Rightarrow> reply_channel_range" where
  "reply_from_scids chain_hash first_blocknum number_of_blocks complete scids =
     \<lparr>rr_chain_hash = chain_hash, rr_first_blocknum = first_blocknum,
      rr_number_of_blocks = number_of_blocks, sync_complete = of_bool complete,
      encoded_short_ids = write_u8 ENCODING_UNCOMPRESSED @ concat (map write_u64 scids),
      rr_tlvs = \<lparr>timestamps = None, checksums = None\<rparr>\<rparr>"

definition short_channel_ids :: "reply_channel_range \<Rightarrow> bolt_error + u64 list" where
  "short_channel_ids m =
     and_then (read_u8 (encoded_short_ids m)) (\<lambda>(encoding_type, cursor).
     if encoding_type \<noteq> ENCODING_UNCOMPRESSED then Inl (UnknownEncoding encoding_type)
     else
       (let (chunks, remainder) = as_chunks SCID_SIZE cursor in
        if remainder \<noteq> []
        then Inl (Truncated ((length chunks + 1) * SCID_SIZE) (length cursor))
        else Inr (map from_be_bytes chunks)))"

definition encode_reply_channel_range :: "reply_channel_range \<Rightarrow> panic + bytes" where
  "encode_reply_channel_range m =
     and_then (tlv_add_opt tlv_new TLV_TIMESTAMPS (timestamps (rr_tlvs m))) (\<lambda>s.
     and_then (tlv_add_opt s TLV_CHECKSUMS (checksums (rr_tlvs m))) (\<lambda>s.
     Inr (write_array (rr_chain_hash m) @ write_u32 (rr_first_blocknum m) @
          write_u32 (rr_number_of_blocks m) @ write_u8 (sync_complete m) @
          write_vec (encoded_short_ids m) @ tlv_encode s)))"

definition decode_reply_channel_range :: "bytes \<Rightarrow> bolt_error + reply_channel_range" where
  "decode_reply_channel_range payload =
     and_then (read_array CHAIN_HASH_SIZE payload) (\<lambda>(ch, cursor).
     and_then (read_u32 cursor) (\<lambda>(fb, cursor).
     and_then (read_u32 cursor) (\<lambda>(nb, cursor).
     and_then (read_u8 cursor) (\<lambda>(sc, cursor).
     and_then (read_vec cursor) (\<lambda>(ids, cursor).
     and_then (tlv_decode cursor) (\<lambda>s.
     Inr \<lparr>rr_chain_hash = ch, rr_first_blocknum = fb, rr_number_of_blocks = nb,
          sync_complete = sc, encoded_short_ids = ids,
          rr_tlvs = \<lparr>timestamps = tlv_get s TLV_TIMESTAMPS,
                     checksums = tlv_get s TLV_CHECKSUMS\<rparr>\<rparr>))))))"

definition wf_reply_channel_range :: "reply_channel_range \<Rightarrow> bool" where
  "wf_reply_channel_range m \<longleftrightarrow>
     length (rr_chain_hash m) = CHAIN_HASH_SIZE \<and> fits_u16 (encoded_short_ids m) \<and>
     opt_fits_u64 (timestamps (rr_tlvs m)) \<and> opt_fits_u64 (checksums (rr_tlvs m))"

section \<open>The announcements satisfy the message contract\<close>

lemmas announcement_defs = wf_channel_announcement_def wf_node_announcement_def
  wf_channel_update_def decode_channel_announcement_def decode_node_announcement_def
  decode_channel_update_def encode_channel_announcement_def encode_node_announcement_def
  encode_channel_update_def

interpretation channel_announcement_codec: plain_message "encode_channel_announcement S"
  "decode_channel_announcement S" wf_channel_announcement "codec_lawful S"
  for S :: "('pk, 'sk, 'sig) secp"
proof unfold_locales
  fix bs and m :: "('pk, 'sig) channel_announcement"
  assume "codec_lawful S"
  note law = codec_lawfulD [OF this]
  show "decode_channel_announcement S bs = Inr m \<longleftrightarrow>
      wf_channel_announcement m \<and> (\<exists>extra. bs = encode_channel_announcement S m @ extra)"
    (is "?L \<longleftrightarrow> ?R")
  proof
    show "?L \<Longrightarrow> ?R" using law by (auto simp: announcement_defs read_iffs)
    show "?R \<Longrightarrow> ?L"
      using law by (auto simp only: announcement_defs append_assoc read_write_simps
          and_then_simps prod.case) simp
  qed
qed

interpretation node_announcement_codec: plain_message "encode_node_announcement S"
  "decode_node_announcement S" wf_node_announcement "codec_lawful S"
  for S :: "('pk, 'sk, 'sig) secp"
proof unfold_locales
  fix bs and m :: "('pk, 'sig) node_announcement"
  assume "codec_lawful S"
  note law = codec_lawfulD [OF this]
  show "decode_node_announcement S bs = Inr m \<longleftrightarrow>
      wf_node_announcement m \<and> (\<exists>extra. bs = encode_node_announcement S m @ extra)"
    (is "?L \<longleftrightarrow> ?R")
  proof
    show "?L \<Longrightarrow> ?R" using law by (auto simp: announcement_defs read_iffs)
    show "?R \<Longrightarrow> ?L"
      using law by (auto simp only: announcement_defs append_assoc read_write_simps
          and_then_simps prod.case) simp
  qed
qed

interpretation channel_update_codec: plain_message "encode_channel_update S"
  "decode_channel_update S" wf_channel_update "sigs_lawful S"
  for S :: "('pk, 'sk, 'sig) secp"
proof unfold_locales
  fix bs and m :: "'sig channel_update"
  assume law: "sigs_lawful S"
  show "decode_channel_update S bs = Inr m \<longleftrightarrow>
      wf_channel_update m \<and> (\<exists>extra. bs = encode_channel_update S m @ extra)"
    (is "?L \<longleftrightarrow> ?R")
  proof
    show "?L \<Longrightarrow> ?R" using law by (auto simp: announcement_defs read_iffs)
    show "?R \<Longrightarrow> ?L"
      using law by (auto simp only: announcement_defs append_assoc read_write_simps
          and_then_simps prod.case) simp
  qed
qed

section \<open>The range messages satisfy the message contract\<close>

lemma encode_query_stream:
  obtains s where "encode_query_channel_range m =
      Inr (write_array (qr_chain_hash m) @ write_u32 (qr_first_blocknum m) @
           write_u32 (qr_number_of_blocks m) @ tlv_encode s)"
    and "tlv_sorted s"
    and "tlv_get s = (\<lambda>x. if x = TLV_QUERY_OPTION
           then map_option (\<lambda>flags. write_bigsize (BigSize flags)) (query_option m) else None)"
proof -
  let ?v = "map_option (\<lambda>flags. write_bigsize (BigSize flags)) (query_option m)"
  have "TLV_QUERY_OPTION \<noteq> 3" by (simp add: TLV_QUERY_OPTION_def)
  then obtain s1 s where add: "tlv_add_opt tlv_new TLV_QUERY_OPTION ?v = Inr s1"
      "tlv_add_opt s1 3 None = Inr s" and s: "tlv_sorted s"
      "tlv_get s = (\<lambda>x. if x = TLV_QUERY_OPTION then ?v else if x = 3 then None else None)"
    by (rule tlv_two_fields)
  from add(2) have "s1 = s" by (simp add: tlv_add_opt_def)
  with add s show thesis
    by (intro that [of s]) (auto simp: encode_query_channel_range_def fun_eq_iff)
qed

lemma fits_u64_bigsize: "fits_u64 (write_bigsize b)"
  by (simp add: fits_u64_def width_simps bigsize_len_def)

interpretation query_channel_range_codec: message_codec encode_query_channel_range
  decode_query_channel_range wf_query_channel_range True
proof unfold_locales
  fix m
  show "\<exists>bs. encode_query_channel_range m = Inr bs" by (rule encode_query_stream [of m]) blast
next
  fix m bs
  assume wf: "wf_query_channel_range m" and enc: "encode_query_channel_range m = Inr bs"
  obtain s where "encode_query_channel_range m =
      Inr (write_array (qr_chain_hash m) @ write_u32 (qr_first_blocknum m) @
           write_u32 (qr_number_of_blocks m) @ tlv_encode s)"
    and sorted: "tlv_sorted s"
    and get: "tlv_get s = (\<lambda>x. if x = TLV_QUERY_OPTION
           then map_option (\<lambda>flags. write_bigsize (BigSize flags)) (query_option m) else None)"
    by (rule encode_query_stream)
  with enc have bs: "bs = write_array (qr_chain_hash m) @ write_u32 (qr_first_blocknum m) @
           write_u32 (qr_number_of_blocks m) @ tlv_encode s" by simp
  have ok: "tlv_ok [] s"
  proof (rule tlv_okI [OF sorted])
    fix x v
    assume "tlv_get s x = Some v"
    then show "fits_u64 v \<and> (x mod 2 = 0 \<longrightarrow> x \<in> set [])"
      by (auto simp: get fits_u64_bigsize TLV_QUERY_OPTION_def split: if_splits)
  qed
  have "(case tlv_get s TLV_QUERY_OPTION of
      Some value \<Rightarrow> and_then (read_bigsize value) (\<lambda>(b, value). Inr (Some (bigsize_value b)))
    | None \<Rightarrow> Inr None) = Inr (query_option m)"
    by (simp add: get read_write_simps split: option.split)
  then show "decode_query_channel_range bs = Inr m"
    using wf ok by (simp add: bs decode_query_channel_range_def wf_query_channel_range_def
        read_write_simps)
next
  fix bs m
  assume "decode_query_channel_range bs = Inr m"
  then show "wf_query_channel_range m"
    by (auto simp: decode_query_channel_range_def wf_query_channel_range_def read_iffs)
qed

lemma encode_reply_stream:
  obtains s where "encode_reply_channel_range m =
      Inr (write_array (rr_chain_hash m) @ write_u32 (rr_first_blocknum m) @
           write_u32 (rr_number_of_blocks m) @ write_u8 (sync_complete m) @
           write_vec (encoded_short_ids m) @ tlv_encode s)"
    and "tlv_sorted s"
    and "tlv_get s = (\<lambda>x. if x = TLV_TIMESTAMPS then timestamps (rr_tlvs m)
                          else if x = TLV_CHECKSUMS then checksums (rr_tlvs m) else None)"
proof -
  have "TLV_TIMESTAMPS \<noteq> TLV_CHECKSUMS" by (simp add: TLV_TIMESTAMPS_def TLV_CHECKSUMS_def)
  then obtain s1 s where add: "tlv_add_opt tlv_new TLV_TIMESTAMPS (timestamps (rr_tlvs m)) = Inr s1"
      "tlv_add_opt s1 TLV_CHECKSUMS (checksums (rr_tlvs m)) = Inr s" and s: "tlv_sorted s"
      "tlv_get s = (\<lambda>x. if x = TLV_TIMESTAMPS then timestamps (rr_tlvs m)
                        else if x = TLV_CHECKSUMS then checksums (rr_tlvs m) else None)"
    by (rule tlv_two_fields)
  with s show thesis
    by (intro that [of s]) (simp_all add: encode_reply_channel_range_def)
qed

interpretation reply_channel_range_codec: message_codec encode_reply_channel_range
  decode_reply_channel_range wf_reply_channel_range True
proof unfold_locales
  fix m
  show "\<exists>bs. encode_reply_channel_range m = Inr bs" by (rule encode_reply_stream [of m]) blast
next
  fix m bs
  assume wf: "wf_reply_channel_range m" and enc: "encode_reply_channel_range m = Inr bs"
  obtain s where "encode_reply_channel_range m =
      Inr (write_array (rr_chain_hash m) @ write_u32 (rr_first_blocknum m) @
           write_u32 (rr_number_of_blocks m) @ write_u8 (sync_complete m) @
           write_vec (encoded_short_ids m) @ tlv_encode s)"
    and sorted: "tlv_sorted s"
    and get: "tlv_get s = (\<lambda>x. if x = TLV_TIMESTAMPS then timestamps (rr_tlvs m)
                          else if x = TLV_CHECKSUMS then checksums (rr_tlvs m) else None)"
    by (rule encode_reply_stream)
  with enc have bs: "bs = write_array (rr_chain_hash m) @ write_u32 (rr_first_blocknum m) @
           write_u32 (rr_number_of_blocks m) @ write_u8 (sync_complete m) @
           write_vec (encoded_short_ids m) @ tlv_encode s" by simp
  have ok: "tlv_ok [] s"
  proof (rule tlv_okI [OF sorted])
    fix x v
    assume "tlv_get s x = Some v"
    then show "fits_u64 v \<and> (x mod 2 = 0 \<longrightarrow> x \<in> set [])"
      using wf by (auto simp: get wf_reply_channel_range_def opt_fits_Some TLV_TIMESTAMPS_def
          TLV_CHECKSUMS_def split: if_splits)
  qed
  have "tlv_get s TLV_TIMESTAMPS = timestamps (rr_tlvs m)"
    and "tlv_get s TLV_CHECKSUMS = checksums (rr_tlvs m)"
    by (simp_all add: get TLV_TIMESTAMPS_def TLV_CHECKSUMS_def)
  then show "decode_reply_channel_range bs = Inr m"
    using wf ok by (simp add: bs decode_reply_channel_range_def wf_reply_channel_range_def
        read_write_simps)
next
  fix bs m
  assume "decode_reply_channel_range bs = Inr m"
  then show "wf_reply_channel_range m"
    by (auto simp: decode_reply_channel_range_def wf_reply_channel_range_def read_iffs
        tlv_decode_iff tlv_ok_fits)
qed

section \<open>What is signed\<close>

text \<open>The signatures do not influence the digest, so a placeholder is harmless.\<close>

lemma ca_signature_hash_update [simp]:
  "ca_signature_hash S (m\<lparr>node_signature_1 := a\<rparr>) = ca_signature_hash S m"
  "ca_signature_hash S (m\<lparr>node_signature_2 := a\<rparr>) = ca_signature_hash S m"
  "ca_signature_hash S (m\<lparr>bitcoin_signature_1 := a\<rparr>) = ca_signature_hash S m"
  "ca_signature_hash S (m\<lparr>bitcoin_signature_2 := a\<rparr>) = ca_signature_hash S m"
  by (simp_all add: ca_signature_hash_def)

lemma na_signature_hash_update [simp]:
  "na_signature_hash S (m\<lparr>na_signature := a\<rparr>) = na_signature_hash S m"
  by (simp add: na_signature_hash_def)

lemma cu_signature_hash_update [simp]:
  "cu_signature_hash S (m\<lparr>cu_signature := a\<rparr>) = cu_signature_hash S m"
  by (simp add: cu_signature_hash_def)

lemma ca_hash_covers:
  "sigs_lawful S \<Longrightarrow>
     ca_signature_hash S m = sha256d S (drop 256 (encode_channel_announcement S m))"
  by (simp add: ca_signature_hash_def encode_channel_announcement_def width_simps)

lemma na_hash_covers:
  "sigs_lawful S \<Longrightarrow>
     na_signature_hash S m = sha256d S (drop 64 (encode_node_announcement S m))"
  by (simp add: na_signature_hash_def encode_node_announcement_def width_simps)

lemma cu_hash_covers:
  "sigs_lawful S \<Longrightarrow>
     cu_signature_hash S m = sha256d S (drop 64 (encode_channel_update S m))"
  by (simp add: cu_signature_hash_def encode_channel_update_def width_simps)

section \<open>Short channel id lists\<close>

lemma map_from_be_chunks: "map from_be_bytes (map write_u64 scids) = scids"
  by (induction scids) (simp_all add: write_int_def write_array_def from_to_be_bytes)

lemma chunks_write_u64: "as_chunks SCID_SIZE (concat (map write_u64 scids)) = (map write_u64 scids, [])"
  by (rule as_chunks_concat) (simp_all add: SCID_SIZE_def width_simps)

lemma length_concat_u64: "length (concat (map write_u64 scids)) = 8 * length scids"
  using length_concat_chunks [of "map write_u64 scids" 8] by (simp add: width_simps)

lemma short_channel_ids_from_scids:
  "short_channel_ids (reply_from_scids ch fb nb c scids) = Inr scids"
  by (simp add: short_channel_ids_def reply_from_scids_def read_write_simps chunks_write_u64
      map_from_be_chunks del: map_map)

lemma take_concat_u64:
  "n \<le> length scids \<Longrightarrow> take (8 * n) (concat (map write_u64 scids)) = concat (map write_u64 (take n scids))"
proof (induction scids arbitrary: n)
  case (Cons x xs)
  then show ?case by (cases n) (simp_all add: width_simps)
qed simp

text \<open>The ids that survive the length field of the list, for a list of any length.\<close>

lemma ids_after_wrap:
  "take (length ids mod 65536) ids = write_u8 ENCODING_UNCOMPRESSED @
     concat (map write_u64 (take (length scids mod 8192) scids))"
  if "ids = encoded_short_ids (reply_from_scids ch fb nb c scids)"
proof -
  have len: "length ids = Suc (8 * length scids)"
    by (simp add: that reply_from_scids_def width_simps length_concat_u64)
  have "8 * length scids mod 65536 = 8 * (length scids mod 8192)"
    using mult_mod_right [of 8 "length scids" 8192] by simp
  moreover have "Suc (8 * (length scids mod 8192)) \<noteq> 65536"
  proof
    assume "Suc (8 * (length scids mod 8192)) = 65536"
    moreover have "even (8 * (length scids mod 8192))" by simp
    ultimately show False by (metis even_Suc even_numeral)
  qed
  ultimately have "length ids mod 65536 = Suc (8 * (length scids mod 8192))"
    by (simp add: len mod_Suc)
  then show ?thesis
    by (simp add: that reply_from_scids_def take_append width_simps take_concat_u64 mod_less_eq_dividend)
qed

lemma short_channel_ids_of_bytes:
  "encoded_short_ids m = write_u8 ENCODING_UNCOMPRESSED @ concat (map write_u64 scids) \<Longrightarrow>
     short_channel_ids m = Inr scids"
  by (simp add: short_channel_ids_def read_write_simps chunks_write_u64 map_from_be_chunks
      del: map_map)

lemma decode_reply_ids:
  assumes "decode_reply_channel_range (ch @ write_u32 fb @ write_u32 nb @ write_u8 sc @
      write_vec ids @ rest) = Inr m" and "length ch = 32"
  shows "encoded_short_ids m = take (length ids mod 65536) ids"
  using assms
  by (auto simp: decode_reply_channel_range_def read_write_simps read_vec_write_vec
      CHAIN_HASH_SIZE_def read_array_def write_array_def)

section \<open>Sizes\<close>

lemma announcement_lengths:
  assumes "codec_lawful S"
  shows "wf_channel_announcement a \<Longrightarrow>
      length (encode_channel_announcement S a) = 430 + length (ca_features a)"
    and "wf_node_announcement n \<Longrightarrow>
      length (encode_node_announcement S n) = 140 + length (na_features n) + length (addresses n)"
    and "wf_channel_update u \<Longrightarrow> length (encode_channel_update S u) = 136"
  using codec_lawfulD [OF assms]
  by (simp_all add: encode_channel_announcement_def encode_node_announcement_def
      encode_channel_update_def width_simps announcement_defs CHAIN_HASH_SIZE_def write_array_def)

end
