(* ===== verification/Message.thy ===== *)
theory Message
  imports Bolt1 Bolt2 Bolt7
begin

text \<open>
  The enum \<open>Message\<close> of \<open>bolt/src/lib.rs\<close>: the message type numbers, the encoder with its
  two-byte type prefix, the decoder with the odd/even rule for unknown types, and
  \<open>raw_message\<close>.
\<close>

section \<open>Message types\<close>

definition WARNING :: u16 where "WARNING = 1"
definition INIT :: u16 where "INIT = 16"
definition ERROR :: u16 where "ERROR = 17"
definition PING :: u16 where "PING = 18"
definition PONG :: u16 where "PONG = 19"
definition OPEN_CHANNEL :: u16 where "OPEN_CHANNEL = 32"
definition FUNDING_CREATED :: u16 where "FUNDING_CREATED = 34"
definition CHANNEL_ANNOUNCEMENT :: u16 where "CHANNEL_ANNOUNCEMENT = 256"
definition NODE_ANNOUNCEMENT :: u16 where "NODE_ANNOUNCEMENT = 257"
definition CHANNEL_UPDATE :: u16 where "CHANNEL_UPDATE = 258"
definition QUERY_CHANNEL_RANGE :: u16 where "QUERY_CHANNEL_RANGE = 263"
definition REPLY_CHANNEL_RANGE :: u16 where "REPLY_CHANNEL_RANGE = 264"

lemmas msg_type_numbers = WARNING_def INIT_def ERROR_def PING_def PONG_def OPEN_CHANNEL_def
  FUNDING_CREATED_def CHANNEL_ANNOUNCEMENT_def NODE_ANNOUNCEMENT_def CHANNEL_UPDATE_def
  QUERY_CHANNEL_RANGE_def REPLY_CHANNEL_RANGE_def

section \<open>Messages\<close>

datatype ('pk, 'sig) message =
    Warning warning_msg
  | Init init_msg
  | Error error_msg
  | Ping ping_msg
  | Pong pong_msg
  | OpenChannel "'pk open_channel"
  | FundingCreated "'sig funding_created"
  | ChannelAnnouncement "('pk, 'sig) channel_announcement"
  | NodeAnnouncement "('pk, 'sig) node_announcement"
  | ChannelUpdate "'sig channel_update"
  | QueryChannelRange query_channel_range
  | ReplyChannelRange reply_channel_range
  | Unknown u16 bytes

definition msg_type :: "('pk, 'sig) message \<Rightarrow> u16" where
  "msg_type m =
     (case m of
        Warning _ \<Rightarrow> WARNING
      | Init _ \<Rightarrow> INIT
      | Error _ \<Rightarrow> ERROR
      | Ping _ \<Rightarrow> PING
      | Pong _ \<Rightarrow> PONG
      | OpenChannel _ \<Rightarrow> OPEN_CHANNEL
      | FundingCreated _ \<Rightarrow> FUNDING_CREATED
      | ChannelAnnouncement _ \<Rightarrow> CHANNEL_ANNOUNCEMENT
      | NodeAnnouncement _ \<Rightarrow> NODE_ANNOUNCEMENT
      | ChannelUpdate _ \<Rightarrow> CHANNEL_UPDATE
      | QueryChannelRange _ \<Rightarrow> QUERY_CHANNEL_RANGE
      | ReplyChannelRange _ \<Rightarrow> REPLY_CHANNEL_RANGE
      | Unknown t _ \<Rightarrow> t)"

definition encode_body ::
    "('pk, 'sk, 'sig) secp \<Rightarrow> ('pk, 'sig) message \<Rightarrow> panic + bytes" where
  "encode_body S m =
     (case m of
        Warning b \<Rightarrow> Inr (encode_warning b)
      | Init b \<Rightarrow> encode_init b
      | Error b \<Rightarrow> Inr (encode_error b)
      | Ping b \<Rightarrow> Inr (encode_ping b)
      | Pong b \<Rightarrow> Inr (encode_pong b)
      | OpenChannel b \<Rightarrow> encode_open_channel S b
      | FundingCreated b \<Rightarrow> Inr (encode_funding_created S b)
      | ChannelAnnouncement b \<Rightarrow> Inr (encode_channel_announcement S b)
      | NodeAnnouncement b \<Rightarrow> Inr (encode_node_announcement S b)
      | ChannelUpdate b \<Rightarrow> Inr (encode_channel_update S b)
      | QueryChannelRange b \<Rightarrow> encode_query_channel_range b
      | ReplyChannelRange b \<Rightarrow> encode_reply_channel_range b
      | Unknown _ payload \<Rightarrow> Inr payload)"

definition encode_message ::
    "('pk, 'sk, 'sig) secp \<Rightarrow> ('pk, 'sig) message \<Rightarrow> panic + bytes" where
  "encode_message S m =
     and_then (encode_body S m) (\<lambda>body. Inr (write_u16 (msg_type m) @ body))"

definition decode_body ::
    "('pk, 'sk, 'sig) secp \<Rightarrow> u16 \<Rightarrow> bytes \<Rightarrow> bolt_error + ('pk, 'sig) message" where
  "decode_body S t cursor =
     (if t = WARNING then and_then (decode_warning cursor) (\<lambda>b. Inr (Warning b))
      else if t = INIT then and_then (decode_init cursor) (\<lambda>b. Inr (Init b))
      else if t = ERROR then and_then (decode_error cursor) (\<lambda>b. Inr (Error b))
      else if t = PING then and_then (decode_ping cursor) (\<lambda>b. Inr (Ping b))
      else if t = PONG then and_then (decode_pong cursor) (\<lambda>b. Inr (Pong b))
      else if t = OPEN_CHANNEL then
        and_then (decode_open_channel S cursor) (\<lambda>b. Inr (OpenChannel b))
      else if t = FUNDING_CREATED then
        and_then (decode_funding_created S cursor) (\<lambda>b. Inr (FundingCreated b))
      else if t = CHANNEL_ANNOUNCEMENT then
        and_then (decode_channel_announcement S cursor) (\<lambda>b. Inr (ChannelAnnouncement b))
      else if t = NODE_ANNOUNCEMENT then
        and_then (decode_node_announcement S cursor) (\<lambda>b. Inr (NodeAnnouncement b))
      else if t = CHANNEL_UPDATE then
        and_then (decode_channel_update S cursor) (\<lambda>b. Inr (ChannelUpdate b))
      else if t = QUERY_CHANNEL_RANGE then
        and_then (decode_query_channel_range cursor) (\<lambda>b. Inr (QueryChannelRange b))
      else if t = REPLY_CHANNEL_RANGE then
        and_then (decode_reply_channel_range cursor) (\<lambda>b. Inr (ReplyChannelRange b))
      else if t mod 2 = 0 then Inl (UnknownEvenType t)
      else Inr (Unknown t cursor))"

definition decode_message ::
    "('pk, 'sk, 'sig) secp \<Rightarrow> bytes \<Rightarrow> bolt_error + ('pk, 'sig) message" where
  "decode_message S data =
     and_then (read_u16 data) (\<lambda>(t, cursor). decode_body S t cursor)"

definition raw_message :: "u16 \<Rightarrow> bytes \<Rightarrow> bytes" where
  "raw_message t payload = write_u16 t @ payload"

definition known_types :: "u16 list" where
  "known_types = [WARNING, INIT, ERROR, PING, PONG, OPEN_CHANNEL, FUNDING_CREATED,
     CHANNEL_ANNOUNCEMENT, NODE_ANNOUNCEMENT, CHANNEL_UPDATE, QUERY_CHANNEL_RANGE,
     REPLY_CHANNEL_RANGE]"

definition wf_message :: "('pk, 'sig) message \<Rightarrow> bool" where
  "wf_message m =
     (case m of
        Warning b \<Rightarrow> wf_warning b
      | Init b \<Rightarrow> wf_init b
      | Error b \<Rightarrow> wf_error b
      | Ping b \<Rightarrow> wf_ping b
      | Pong b \<Rightarrow> wf_pong b
      | OpenChannel b \<Rightarrow> wf_open_channel b
      | FundingCreated b \<Rightarrow> wf_funding_created b
      | ChannelAnnouncement b \<Rightarrow> wf_channel_announcement b
      | NodeAnnouncement b \<Rightarrow> wf_node_announcement b
      | ChannelUpdate b \<Rightarrow> wf_channel_update b
      | QueryChannelRange b \<Rightarrow> wf_query_channel_range b
      | ReplyChannelRange b \<Rightarrow> wf_reply_channel_range b
      | Unknown t _ \<Rightarrow> t mod 2 \<noteq> 0 \<and> t \<notin> set known_types)"

section \<open>The whole enum satisfies the message contract\<close>

lemma decode_body_types:
  "decode_body S WARNING c = and_then (decode_warning c) (\<lambda>b. Inr (Warning b))"
  "decode_body S INIT c = and_then (decode_init c) (\<lambda>b. Inr (Init b))"
  "decode_body S ERROR c = and_then (decode_error c) (\<lambda>b. Inr (Error b))"
  "decode_body S PING c = and_then (decode_ping c) (\<lambda>b. Inr (Ping b))"
  "decode_body S PONG c = and_then (decode_pong c) (\<lambda>b. Inr (Pong b))"
  "decode_body S OPEN_CHANNEL c =
     and_then (decode_open_channel S c) (\<lambda>b. Inr (OpenChannel b))"
  "decode_body S FUNDING_CREATED c =
     and_then (decode_funding_created S c) (\<lambda>b. Inr (FundingCreated b))"
  "decode_body S CHANNEL_ANNOUNCEMENT c =
     and_then (decode_channel_announcement S c) (\<lambda>b. Inr (ChannelAnnouncement b))"
  "decode_body S NODE_ANNOUNCEMENT c =
     and_then (decode_node_announcement S c) (\<lambda>b. Inr (NodeAnnouncement b))"
  "decode_body S CHANNEL_UPDATE c =
     and_then (decode_channel_update S c) (\<lambda>b. Inr (ChannelUpdate b))"
  "decode_body S QUERY_CHANNEL_RANGE c =
     and_then (decode_query_channel_range c) (\<lambda>b. Inr (QueryChannelRange b))"
  "decode_body S REPLY_CHANNEL_RANGE c =
     and_then (decode_reply_channel_range c) (\<lambda>b. Inr (ReplyChannelRange b))"
  by (simp_all add: decode_body_def msg_type_numbers)

lemma decode_body_unknown:
  "t \<notin> set known_types \<Longrightarrow> decode_body S t c =
     (if t mod 2 = 0 then Inl (UnknownEvenType t) else Inr (Unknown t c))"
  by (simp only: decode_body_def known_types_def list.set insert_iff empty_iff de_Morgan_disj
      if_False simp_thms)

lemmas codec_decode_encode =
  warning_codec.decode_encode [OF TrueI] init_codec.decode_encode [OF TrueI]
  error_codec.decode_encode [OF TrueI] ping_codec.decode_encode [OF TrueI]
  pong_codec.decode_encode [OF TrueI] query_channel_range_codec.decode_encode [OF TrueI]
  reply_channel_range_codec.decode_encode [OF TrueI]
  open_channel_codec.decode_encode funding_created_codec.decode_encode
  channel_announcement_codec.decode_encode node_announcement_codec.decode_encode
  channel_update_codec.decode_encode

lemmas codec_decode_wf =
  warning_codec.decode_wf [OF TrueI] init_codec.decode_wf [OF TrueI]
  error_codec.decode_wf [OF TrueI] ping_codec.decode_wf [OF TrueI]
  pong_codec.decode_wf [OF TrueI] query_channel_range_codec.decode_wf [OF TrueI]
  reply_channel_range_codec.decode_wf [OF TrueI]
  open_channel_codec.decode_wf funding_created_codec.decode_wf
  channel_announcement_codec.decode_wf node_announcement_codec.decode_wf
  channel_update_codec.decode_wf

lemma decode_body_encode_body:
  assumes "codec_lawful S" and "wf_message m" and "encode_body S m = Inr body"
  shows "decode_body S (msg_type m) body = Inr m"
  using assms codec_lawfulD [OF assms(1)]
  by (cases m) (simp_all add: encode_body_def wf_message_def msg_type_def decode_body_types
      codec_decode_encode decode_body_unknown)

lemma known_type_cases:
  assumes "t \<in> set known_types"
  obtains "t = WARNING" | "t = INIT" | "t = ERROR" | "t = PING" | "t = PONG"
    | "t = OPEN_CHANNEL" | "t = FUNDING_CREATED" | "t = CHANNEL_ANNOUNCEMENT"
    | "t = NODE_ANNOUNCEMENT" | "t = CHANNEL_UPDATE" | "t = QUERY_CHANNEL_RANGE"
    | "t = REPLY_CHANNEL_RANGE"
  using assms by (auto simp: known_types_def)

lemma decode_body_wf:
  assumes "codec_lawful S" and "decode_body S t c = Inr m"
  shows "wf_message m \<and> msg_type m = t"
proof (cases "t \<in> set known_types")
  case True
  then show ?thesis
    by (rule known_type_cases)
      (use assms codec_lawfulD [OF assms(1)] in
        \<open>auto simp: decode_body_types wf_message_def msg_type_def dest: codec_decode_wf\<close>)
next
  case False
  then show ?thesis
    using assms(2) by (auto simp: decode_body_unknown wf_message_def msg_type_def
        simp del: not_mod_2_eq_0_eq_1 split: if_splits)
qed

interpretation messages: message_codec "encode_message S" "decode_message S" wf_message
  "codec_lawful S"
  for S :: "('pk, 'sk, 'sig) secp"
proof unfold_locales
  fix m :: "('pk, 'sig) message"
  show "\<exists>bs. encode_message S m = Inr bs"
    using init_codec.encode_total open_channel_codec.encode_total
      query_channel_range_codec.encode_total reply_channel_range_codec.encode_total
    by (cases m) (auto simp: encode_message_def encode_body_def)
next
  fix m :: "('pk, 'sig) message" and bs
  assume "codec_lawful S" and "wf_message m" and "encode_message S m = Inr bs"
  then show "decode_message S bs = Inr m"
    by (auto simp: encode_message_def decode_message_def read_write_simps
        decode_body_encode_body)
next
  fix m :: "('pk, 'sig) message" and bs
  assume "codec_lawful S" and "decode_message S bs = Inr m"
  then show "wf_message m"
    by (auto simp: decode_message_def dest: decode_body_wf)
qed

end
