(* ===== verification/Cipher.thy ===== *)
theory Cipher
  imports External
begin

text \<open>
  The transport ciphers of \<open>noise/src/cipher.rs\<close> and the error type of \<open>noise/src/error.rs\<close>:
  authenticated encryption with a counting nonce, key rotation every 1000 uses, the full
  cipher and its two halves.
\<close>

section \<open>Errors and constants\<close>

datatype noise_error =
    ActOneBadVersion u8
  | ActOneBadPubkey
  | ActOneBadTag
  | ActTwoBadVersion u8
  | ActTwoBadPubkey
  | ActTwoBadTag
  | ActThreeBadVersion u8
  | ActThreeBadCiphertext
  | ActThreeBadPubkey
  | ActThreeBadTag
  | DecryptionFailed
  | HandshakeIncomplete
  | InvalidState
  | Io string

fun noise_error_str :: "noise_error \<Rightarrow> string" where
  "noise_error_str (ActOneBadVersion v) = ''ACT1_BAD_VERSION '' @ string_of_nat (unat v)"
| "noise_error_str ActOneBadPubkey = ''ACT1_BAD_PUBKEY''"
| "noise_error_str ActOneBadTag = ''ACT1_BAD_TAG''"
| "noise_error_str (ActTwoBadVersion v) = ''ACT2_BAD_VERSION '' @ string_of_nat (unat v)"
| "noise_error_str ActTwoBadPubkey = ''ACT2_BAD_PUBKEY''"
| "noise_error_str ActTwoBadTag = ''ACT2_BAD_TAG''"
| "noise_error_str (ActThreeBadVersion v) = ''ACT3_BAD_VERSION '' @ string_of_nat (unat v)"
| "noise_error_str ActThreeBadCiphertext = ''ACT3_BAD_CIPHERTEXT''"
| "noise_error_str ActThreeBadPubkey = ''ACT3_BAD_PUBKEY''"
| "noise_error_str ActThreeBadTag = ''ACT3_BAD_TAG''"
| "noise_error_str DecryptionFailed = ''DECRYPTION_FAILED''"
| "noise_error_str HandshakeIncomplete = ''HANDSHAKE_INCOMPLETE''"
| "noise_error_str InvalidState = ''INVALID_STATE''"
| "noise_error_str (Io e) = ''IO: '' @ e"

definition MAC_SIZE :: nat where "MAC_SIZE = 16"
definition NOISE_MAX_MESSAGE_SIZE :: nat where "NOISE_MAX_MESSAGE_SIZE = 65535"
definition ENCRYPTED_LENGTH_SIZE :: nat where "ENCRYPTED_LENGTH_SIZE = 2 + MAC_SIZE"
definition KEY_ROTATION_THRESHOLD :: u64 where "KEY_ROTATION_THRESHOLD = 1000"

section \<open>Primitives\<close>

definition encode_nonce :: "u64 \<Rightarrow> bytes" where
  "encode_nonce n = replicate 4 0 @ to_le_bytes n"

definition encrypt_with_ad ::
    "noise_lib \<Rightarrow> bytes \<Rightarrow> u64 \<Rightarrow> bytes \<Rightarrow> bytes \<Rightarrow> panic + bytes" where
  "encrypt_with_ad N key nonce ad plaintext =
     ok_or (aead_encrypt N key (encode_nonce nonce) ad plaintext)
       (Panic ''encryption should not fail'')"

definition decrypt_with_ad ::
    "noise_lib \<Rightarrow> bytes \<Rightarrow> u64 \<Rightarrow> bytes \<Rightarrow> bytes \<Rightarrow> noise_error + bytes" where
  "decrypt_with_ad N key nonce ad ciphertext =
     ok_or (aead_decrypt N key (encode_nonce nonce) ad ciphertext) DecryptionFailed"

definition hkdf_two_keys :: "noise_lib \<Rightarrow> bytes \<Rightarrow> bytes \<Rightarrow> panic + bytes \<times> bytes" where
  "hkdf_two_keys N salt ikm =
     and_then (ok_or (hkdf_expand N salt ikm 64) (Panic ''valid HKDF length'')) (\<lambda>output.
     Inr (take 32 output, drop 32 output))"

section \<open>SendCipher\<close>

record send_cipher =
  sc_key :: bytes
  sc_nonce :: u64
  sc_ck :: bytes

definition send_maybe_rotate :: "noise_lib \<Rightarrow> send_cipher \<Rightarrow> panic + send_cipher" where
  "send_maybe_rotate N c =
     (if sc_nonce c \<ge> KEY_ROTATION_THRESHOLD then
        and_then (hkdf_two_keys N (sc_ck c) (sc_key c)) (\<lambda>(new_ck, new_key).
        Inr (c\<lparr>sc_ck := new_ck, sc_key := new_key, sc_nonce := 0\<rparr>))
      else Inr c)"

definition send_encrypt_length ::
    "noise_lib \<Rightarrow> send_cipher \<Rightarrow> u16 \<Rightarrow> panic + bytes \<times> send_cipher" where
  "send_encrypt_length N c len =
     and_then (send_maybe_rotate N c) (\<lambda>c.
     and_then (encrypt_with_ad N (sc_key c) (sc_nonce c) [] (to_be_bytes len)) (\<lambda>encrypted.
     Inr (encrypted, c\<lparr>sc_nonce := sc_nonce c + 1\<rparr>)))"

definition send_encrypt ::
    "noise_lib \<Rightarrow> send_cipher \<Rightarrow> bytes \<Rightarrow> panic + bytes \<times> send_cipher" where
  "send_encrypt N c plaintext =
     (if length plaintext < 2 ^ 16 then
        and_then (send_encrypt_length N c (word_of_nat (length plaintext))) (\<lambda>(encrypted_len, c).
        and_then (send_maybe_rotate N c) (\<lambda>c.
        and_then (encrypt_with_ad N (sc_key c) (sc_nonce c) [] plaintext) (\<lambda>encrypted_msg.
        Inr (encrypted_len @ encrypted_msg, c\<lparr>sc_nonce := sc_nonce c + 1\<rparr>))))
      else Inl (Panic ''message within MAX_MESSAGE_SIZE bytes''))"

section \<open>RecvCipher\<close>

record recv_cipher =
  rc_key :: bytes
  rc_nonce :: u64
  rc_ck :: bytes

definition recv_maybe_rotate :: "noise_lib \<Rightarrow> recv_cipher \<Rightarrow> panic + recv_cipher" where
  "recv_maybe_rotate N c =
     (if rc_nonce c \<ge> KEY_ROTATION_THRESHOLD then
        and_then (hkdf_two_keys N (rc_ck c) (rc_key c)) (\<lambda>(new_ck, new_key).
        Inr (c\<lparr>rc_ck := new_ck, rc_key := new_key, rc_nonce := 0\<rparr>))
      else Inr c)"

text \<open>\<open>u16::from_be_bytes([b[0], b[1]])\<close>: indexing panics on fewer than two bytes.\<close>

definition u16_of_first_two :: "bytes \<Rightarrow> panic + u16" where
  "u16_of_first_two bs =
     (case bs of a # b # _ \<Rightarrow> Inr (from_be_bytes [a, b])
      | _ \<Rightarrow> Inl (Panic ''index out of bounds''))"

definition recv_decrypt_length ::
    "noise_lib \<Rightarrow> recv_cipher \<Rightarrow> bytes \<Rightarrow> (noise_error, u16, recv_cipher) outcome" where
  "recv_decrypt_length N c encrypted_len =
     and_then (recv_maybe_rotate N c) (\<lambda>c.
     case decrypt_with_ad N (rc_key c) (rc_nonce c) [] encrypted_len of
       Inl e \<Rightarrow> Inr (Inl e, c)
     | Inr len_bytes \<Rightarrow>
         and_then (u16_of_first_two len_bytes) (\<lambda>len.
         Inr (Inr len, c\<lparr>rc_nonce := rc_nonce c + 1\<rparr>)))"

definition recv_decrypt_message ::
    "noise_lib \<Rightarrow> recv_cipher \<Rightarrow> bytes \<Rightarrow> (noise_error, bytes, recv_cipher) outcome" where
  "recv_decrypt_message N c encrypted_msg =
     and_then (recv_maybe_rotate N c) (\<lambda>c.
     case decrypt_with_ad N (rc_key c) (rc_nonce c) [] encrypted_msg of
       Inl e \<Rightarrow> Inr (Inl e, c)
     | Inr plaintext \<Rightarrow> Inr (Inr plaintext, c\<lparr>rc_nonce := rc_nonce c + 1\<rparr>))"

section \<open>NoiseCipher\<close>

record noise_cipher =
  send_key :: bytes
  recv_key :: bytes
  send_nonce :: u64
  recv_nonce :: u64
  send_ck :: bytes
  recv_ck :: bytes

definition cipher_new :: "bytes \<Rightarrow> bytes \<Rightarrow> bytes \<Rightarrow> noise_cipher" where
  "cipher_new sk rk chaining_key =
     \<lparr>send_key = sk, recv_key = rk, send_nonce = 0, recv_nonce = 0,
      send_ck = chaining_key, recv_ck = chaining_key\<rparr>"

definition maybe_rotate_send_key :: "noise_lib \<Rightarrow> noise_cipher \<Rightarrow> panic + noise_cipher" where
  "maybe_rotate_send_key N c =
     (if send_nonce c \<ge> KEY_ROTATION_THRESHOLD then
        and_then (hkdf_two_keys N (send_ck c) (send_key c)) (\<lambda>(new_ck, new_key).
        Inr (c\<lparr>send_ck := new_ck, send_key := new_key, send_nonce := 0\<rparr>))
      else Inr c)"

definition maybe_rotate_recv_key :: "noise_lib \<Rightarrow> noise_cipher \<Rightarrow> panic + noise_cipher" where
  "maybe_rotate_recv_key N c =
     (if recv_nonce c \<ge> KEY_ROTATION_THRESHOLD then
        and_then (hkdf_two_keys N (recv_ck c) (recv_key c)) (\<lambda>(new_ck, new_key).
        Inr (c\<lparr>recv_ck := new_ck, recv_key := new_key, recv_nonce := 0\<rparr>))
      else Inr c)"

definition cipher_encrypt_length ::
    "noise_lib \<Rightarrow> noise_cipher \<Rightarrow> u16 \<Rightarrow> panic + bytes \<times> noise_cipher" where
  "cipher_encrypt_length N c len =
     and_then (maybe_rotate_send_key N c) (\<lambda>c.
     and_then (encrypt_with_ad N (send_key c) (send_nonce c) [] (to_be_bytes len)) (\<lambda>encrypted.
     Inr (encrypted, c\<lparr>send_nonce := send_nonce c + 1\<rparr>)))"

definition cipher_encrypt ::
    "noise_lib \<Rightarrow> noise_cipher \<Rightarrow> bytes \<Rightarrow> panic + bytes \<times> noise_cipher" where
  "cipher_encrypt N c plaintext =
     (if length plaintext < 2 ^ 16 then
        and_then (cipher_encrypt_length N c (word_of_nat (length plaintext)))
          (\<lambda>(encrypted_len, c).
        and_then (maybe_rotate_send_key N c) (\<lambda>c.
        and_then (encrypt_with_ad N (send_key c) (send_nonce c) [] plaintext) (\<lambda>encrypted_msg.
        Inr (encrypted_len @ encrypted_msg, c\<lparr>send_nonce := send_nonce c + 1\<rparr>))))
      else Inl (Panic ''message within MAX_MESSAGE_SIZE bytes''))"

definition cipher_decrypt_length ::
    "noise_lib \<Rightarrow> noise_cipher \<Rightarrow> bytes \<Rightarrow> (noise_error, u16, noise_cipher) outcome" where
  "cipher_decrypt_length N c encrypted_len =
     and_then (maybe_rotate_recv_key N c) (\<lambda>c.
     case decrypt_with_ad N (recv_key c) (recv_nonce c) [] encrypted_len of
       Inl e \<Rightarrow> Inr (Inl e, c)
     | Inr len_bytes \<Rightarrow>
         and_then (u16_of_first_two len_bytes) (\<lambda>len.
         Inr (Inr len, c\<lparr>recv_nonce := recv_nonce c + 1\<rparr>)))"

definition cipher_decrypt_message ::
    "noise_lib \<Rightarrow> noise_cipher \<Rightarrow> bytes \<Rightarrow> (noise_error, bytes, noise_cipher) outcome" where
  "cipher_decrypt_message N c encrypted_msg =
     and_then (maybe_rotate_recv_key N c) (\<lambda>c.
     case decrypt_with_ad N (recv_key c) (recv_nonce c) [] encrypted_msg of
       Inl e \<Rightarrow> Inr (Inl e, c)
     | Inr plaintext \<Rightarrow> Inr (Inr plaintext, c\<lparr>recv_nonce := recv_nonce c + 1\<rparr>))"

definition cipher_split :: "noise_cipher \<Rightarrow> send_cipher \<times> recv_cipher" where
  "cipher_split c =
     (\<lparr>sc_key = send_key c, sc_nonce = send_nonce c, sc_ck = send_ck c\<rparr>,
      \<lparr>rc_key = recv_key c, rc_nonce = recv_nonce c, rc_ck = recv_ck c\<rparr>)"

section \<open>The primitives under the laws\<close>

lemma length_encode_nonce: "length (encode_nonce n) = 12"
  by (simp add: encode_nonce_def)

lemma encrypt_decrypt:
  assumes "noise_lawful N" and "length p \<le> 65535"
  obtains c where "encrypt_with_ad N k n ad p = Inr c" and "length c = length p + 16"
    and "decrypt_with_ad N k n ad c = Inr p"
proof -
  obtain c where "aead_encrypt N k (encode_nonce n) ad p = Some c" and "length c = length p + 16"
    and "aead_decrypt N k (encode_nonce n) ad c = Some p"
    using assms unfolding noise_lawful_def by blast
  then show thesis
    by (intro that [of c]) (simp_all add: encrypt_with_ad_def decrypt_with_ad_def)
qed

lemma hkdf_lawful:
  assumes "noise_lawful N"
  obtains a b where "hkdf_two_keys N salt ikm = Inr (a, b)" and "length a = 32" and "length b = 32"
proof -
  obtain out where "hkdf_expand N salt ikm 64 = Some out" and "length out = 64"
    using assms unfolding noise_lawful_def by blast
  with that [of "take 32 out" "drop 32 out"] show thesis
    by (simp add: hkdf_two_keys_def)
qed

lemma encrypt_total:
  "noise_lawful N \<Longrightarrow> length p \<le> 65535 \<Longrightarrow>
     \<exists>c. encrypt_with_ad N k n ad p = Inr c \<and> length c = length p + 16"
  by (rule encrypt_decrypt) blast+

lemma hkdf_total: "noise_lawful N \<Longrightarrow> \<exists>a b. hkdf_two_keys N salt ikm = Inr (a, b)"
  by (rule hkdf_lawful) blast+

lemma decrypt_length:
  "noise_lawful N \<Longrightarrow> decrypt_with_ad N k n ad c = Inr p \<Longrightarrow> length c = length p + 16"
  unfolding noise_lawful_def decrypt_with_ad_def by simp

lemma u16_of_to_be: "u16_of_first_two (to_be_bytes (len :: u16)) = Inr len"
proof -
  have "length (to_be_bytes len) = Suc (Suc 0)" by simp
  then obtain a b where ab: "to_be_bytes len = [a, b]"
    by (auto simp only: length_Suc_conv length_0_conv)
  have "from_be_bytes (to_be_bytes len) = len" by (rule from_to_be_bytes) simp
  then show ?thesis by (simp only: ab u16_of_first_two_def list.case)
qed

section \<open>A channel between two ends in step\<close>

text \<open>
  What a connection relies on: a packet is an 18-byte header and a body 16 bytes longer than
  the message; the receiver that is in step with the sender reads the length from the
  header, the message from the body, and is in step again.
\<close>

locale packet_channel =
  fixes seal :: "'s \<Rightarrow> bytes \<Rightarrow> panic + bytes \<times> 's"
    and open_length :: "'r \<Rightarrow> bytes \<Rightarrow> (noise_error, u16, 'r) outcome"
    and open_body :: "'r \<Rightarrow> bytes \<Rightarrow> (noise_error, bytes, 'r) outcome"
    and sync :: "'s \<Rightarrow> 'r \<Rightarrow> bool"
    and law :: bool
  assumes seal_open: "law \<Longrightarrow> sync s r \<Longrightarrow> length p \<le> 65535 \<Longrightarrow>
      \<exists>hdr body s' r1 r2. seal s p = Inr (hdr @ body, s') \<and> length hdr = 18 \<and>
        length body = length p + 16 \<and>
        open_length r hdr = Inr (Inr (word_of_nat (length p)), r1) \<and>
        open_body r1 body = Inr (Inr p, r2) \<and> sync s' r2"
    and seal_too_large: "65535 < length p \<Longrightarrow> \<exists>e. seal s p = Inl e"
begin

text \<open>One message through the channel, header and body cut where the receiver cuts them.\<close>

lemma seal_open_packet:
  assumes law and "sync s r" and "length p \<le> 65535"
  obtains pkt s' r1 r2 where "seal s p = Inr (pkt, s')" and "length pkt = length p + 34"
    and "open_length r (take 18 pkt) = Inr (Inr (word_of_nat (length p)), r1)"
    and "open_body r1 (drop 18 pkt) = Inr (Inr p, r2)" and "sync s' r2"
proof -
  obtain hdr body s' r1 r2 where "seal s p = Inr (hdr @ body, s')" and "length hdr = 18"
    and "length body = length p + 16"
    and "open_length r hdr = Inr (Inr (word_of_nat (length p)), r1)"
    and "open_body r1 body = Inr (Inr p, r2)" and "sync s' r2"
    using seal_open [OF assms] by blast
  then show thesis by (intro that [of "hdr @ body" s' r1 r2]) simp_all
qed

lemma seal_succeeds_iff: "law \<Longrightarrow> sync s r \<Longrightarrow> (\<exists>x. seal s p = Inr x) \<longleftrightarrow> length p \<le> 65535"
proof
  assume "\<exists>x. seal s p = Inr x"
  then show "length p \<le> 65535" using seal_too_large [of p s] by (auto simp: not_less [symmetric])
next
  assume "law" "sync s r" "length p \<le> 65535"
  then show "\<exists>x. seal s p = Inr x" using seal_open [of s r p] by blast
qed

end

section \<open>The split halves are in step\<close>

definition in_step :: "send_cipher \<Rightarrow> recv_cipher \<Rightarrow> bool" where
  "in_step s r \<longleftrightarrow> sc_key s = rc_key r \<and> sc_nonce s = rc_nonce r \<and> sc_ck s = rc_ck r"

lemma rotate_in_step:
  assumes "noise_lawful N" and "in_step s r"
  obtains s' r' where "send_maybe_rotate N s = Inr s'" and "recv_maybe_rotate N r = Inr r'"
    and "in_step s' r'"
proof (cases "sc_nonce s \<ge> KEY_ROTATION_THRESHOLD")
  case True
  obtain a b where "hkdf_two_keys N (sc_ck s) (sc_key s) = Inr (a, b)"
    using assms(1) by (rule hkdf_lawful)
  then show thesis
    using assms(2) True that [of "s\<lparr>sc_ck := a, sc_key := b, sc_nonce := 0\<rparr>"
        "r\<lparr>rc_ck := a, rc_key := b, rc_nonce := 0\<rparr>"]
    by (simp add: in_step_def send_maybe_rotate_def recv_maybe_rotate_def)
next
  case False
  then show thesis
    using assms(2) that [of s r]
    by (simp add: in_step_def send_maybe_rotate_def recv_maybe_rotate_def)
qed

text \<open>One use of the key on both sides.\<close>

lemma encrypt_length_in_step:
  assumes "noise_lawful N" and "in_step s r"
  obtains hdr s' r' where "send_encrypt_length N s len = Inr (hdr, s')" and "length hdr = 18"
    and "recv_decrypt_length N r hdr = Inr (Inr len, r')" and "in_step s' r'"
proof -
  obtain s1 r1 where rot: "send_maybe_rotate N s = Inr s1" "recv_maybe_rotate N r = Inr r1"
    and step: "in_step s1 r1" using assms by (rule rotate_in_step)
  have "length (to_be_bytes len) \<le> 65535" by simp
  then obtain c where "encrypt_with_ad N (sc_key s1) (sc_nonce s1) [] (to_be_bytes len) = Inr c"
    and "length c = length (to_be_bytes len) + 16"
    and "decrypt_with_ad N (sc_key s1) (sc_nonce s1) [] c = Inr (to_be_bytes len)"
    using assms(1) by (metis encrypt_decrypt)
  with rot step that [of c "s1\<lparr>sc_nonce := sc_nonce s1 + 1\<rparr>" "r1\<lparr>rc_nonce := rc_nonce r1 + 1\<rparr>"]
  show thesis
    by (simp add: send_encrypt_length_def recv_decrypt_length_def in_step_def u16_of_to_be)
qed

lemma encrypt_body_in_step:
  assumes "noise_lawful N" and "in_step s r" and "length p \<le> 65535"
  obtains s1 body r' where "send_maybe_rotate N s = Inr s1"
    and "encrypt_with_ad N (sc_key s1) (sc_nonce s1) [] p = Inr body"
    and "length body = length p + 16" and "recv_decrypt_message N r body = Inr (Inr p, r')"
    and "in_step (s1\<lparr>sc_nonce := sc_nonce s1 + 1\<rparr>) r'"
proof -
  obtain s1 r1 where rot: "send_maybe_rotate N s = Inr s1" "recv_maybe_rotate N r = Inr r1"
    and step: "in_step s1 r1" using assms(1,2) by (rule rotate_in_step)
  obtain c where "encrypt_with_ad N (sc_key s1) (sc_nonce s1) [] p = Inr c"
    and "length c = length p + 16" and "decrypt_with_ad N (sc_key s1) (sc_nonce s1) [] c = Inr p"
    using assms(1,3) by (rule encrypt_decrypt)
  with rot step that [of s1 c "r1\<lparr>rc_nonce := rc_nonce r1 + 1\<rparr>"] show thesis
    by (simp add: recv_decrypt_message_def in_step_def)
qed

lemma send_recv_packet:
  assumes "noise_lawful N" and "in_step s r" and "length p \<le> 65535"
  shows "\<exists>hdr body s' r1 r2. send_encrypt N s p = Inr (hdr @ body, s') \<and> length hdr = 18 \<and>
        length body = length p + 16 \<and>
        recv_decrypt_length N r hdr = Inr (Inr (word_of_nat (length p)), r1) \<and>
        recv_decrypt_message N r1 body = Inr (Inr p, r2) \<and> in_step s' r2"
proof -
  obtain hdr s1 r1 where hdr: "send_encrypt_length N s (word_of_nat (length p)) = Inr (hdr, s1)"
    "length hdr = 18" "recv_decrypt_length N r hdr = Inr (Inr (word_of_nat (length p)), r1)"
    "in_step s1 r1"
    using assms(1,2) by (rule encrypt_length_in_step)
  obtain s2 body r2 where body: "send_maybe_rotate N s1 = Inr s2"
    "encrypt_with_ad N (sc_key s2) (sc_nonce s2) [] p = Inr body"
    "length body = length p + 16" "recv_decrypt_message N r1 body = Inr (Inr p, r2)"
    "in_step (s2\<lparr>sc_nonce := sc_nonce s2 + 1\<rparr>) r2"
    using assms(1) hdr(4) assms(3) by (rule encrypt_body_in_step)
  have "send_encrypt N s p = Inr (hdr @ body, s2\<lparr>sc_nonce := sc_nonce s2 + 1\<rparr>)"
    using assms(3) by (simp add: send_encrypt_def hdr body)
  with hdr body show ?thesis by blast
qed

interpretation split_channel: packet_channel "send_encrypt N" "recv_decrypt_length N"
  "recv_decrypt_message N" in_step "noise_lawful N"
  for N
  by unfold_locales (blast intro: send_recv_packet, simp add: send_encrypt_def)

section \<open>The full cipher and its halves\<close>

definition cipher_join :: "send_cipher \<Rightarrow> recv_cipher \<Rightarrow> noise_cipher" where
  "cipher_join s r =
     \<lparr>send_key = sc_key s, recv_key = rc_key r, send_nonce = sc_nonce s, recv_nonce = rc_nonce r,
      send_ck = sc_ck s, recv_ck = rc_ck r\<rparr>"

lemma cipher_join_split [simp]: "cipher_join (fst (cipher_split c)) (snd (cipher_split c)) = c"
  by (simp add: cipher_join_def cipher_split_def)

lemma cipher_split_join [simp]: "cipher_split (cipher_join s r) = (s, r)"
  by (simp add: cipher_join_def cipher_split_def)

lemmas half_cipher_defs = cipher_join_def send_maybe_rotate_def recv_maybe_rotate_def
  maybe_rotate_send_key_def maybe_rotate_recv_key_def

lemma rotate_join:
  "maybe_rotate_send_key N (cipher_join s r) =
     and_then (send_maybe_rotate N s) (\<lambda>s. Inr (cipher_join s r))"
  "maybe_rotate_recv_key N (cipher_join s r) =
     and_then (recv_maybe_rotate N r) (\<lambda>r. Inr (cipher_join s r))"
  by (auto simp: half_cipher_defs and_then_def split: sum.split)

lemma and_then_assoc: "and_then (and_then m f) g = and_then m (\<lambda>x. and_then (f x) g)"
  by (cases m) simp_all

lemma cipher_join_fields [simp]:
  "send_key (cipher_join s r) = sc_key s" "send_nonce (cipher_join s r) = sc_nonce s"
  "recv_key (cipher_join s r) = rc_key r" "recv_nonce (cipher_join s r) = rc_nonce r"
  "(cipher_join s r)\<lparr>send_nonce := n\<rparr> = cipher_join (s\<lparr>sc_nonce := n\<rparr>) r"
  "(cipher_join s r)\<lparr>recv_nonce := n\<rparr> = cipher_join s (r\<lparr>rc_nonce := n\<rparr>)"
  by (simp_all add: cipher_join_def)

lemma cipher_encrypt_length_join:
  "cipher_encrypt_length N (cipher_join s r) len =
     and_then (send_encrypt_length N s len) (\<lambda>(hdr, s). Inr (hdr, cipher_join s r))"
  by (simp add: cipher_encrypt_length_def send_encrypt_length_def rotate_join and_then_assoc)

lemma cipher_encrypt_join:
  "cipher_encrypt N (cipher_join s r) p =
     and_then (send_encrypt N s p) (\<lambda>(pkt, s). Inr (pkt, cipher_join s r))"
  by (simp add: cipher_encrypt_def send_encrypt_def cipher_encrypt_length_join rotate_join
      and_then_assoc split_def)

lemma cipher_decrypt_length_join:
  "cipher_decrypt_length N (cipher_join s r) hdr =
     and_then (recv_decrypt_length N r hdr) (\<lambda>(res, r). Inr (res, cipher_join s r))"
  by (simp add: cipher_decrypt_length_def recv_decrypt_length_def rotate_join and_then_assoc)
    (simp add: and_then_def split: sum.split)

lemma cipher_decrypt_message_join:
  "cipher_decrypt_message N (cipher_join s r) body =
     and_then (recv_decrypt_message N r body) (\<lambda>(res, r). Inr (res, cipher_join s r))"
  by (simp add: cipher_decrypt_message_def recv_decrypt_message_def rotate_join and_then_assoc)
    (simp add: and_then_def split: sum.split)

text \<open>The sending half of one full cipher against the receiving half of another.\<close>

definition ciphers_in_step :: "noise_cipher \<Rightarrow> noise_cipher \<Rightarrow> bool" where
  "ciphers_in_step a b \<longleftrightarrow> in_step (fst (cipher_split a)) (snd (cipher_split b))"

lemma cipher_packet:
  assumes "noise_lawful N" and "ciphers_in_step a b" and "length p \<le> 65535"
  shows "\<exists>hdr body a' b1 b2. cipher_encrypt N a p = Inr (hdr @ body, a') \<and> length hdr = 18 \<and>
        length body = length p + 16 \<and>
        cipher_decrypt_length N b hdr = Inr (Inr (word_of_nat (length p)), b1) \<and>
        cipher_decrypt_message N b1 body = Inr (Inr p, b2) \<and> ciphers_in_step a' b2"
proof -
  define sa ra sb rb where "sa = fst (cipher_split a)" and "ra = snd (cipher_split a)"
    and "sb = fst (cipher_split b)" and "rb = snd (cipher_split b)"
  have ab: "a = cipher_join sa ra" "b = cipher_join sb rb"
    by (simp_all add: sa_def ra_def sb_def rb_def)
  have "in_step sa rb" using assms(2) by (simp add: ciphers_in_step_def sa_def rb_def)
  from send_recv_packet [OF assms(1) this assms(3)] obtain hdr body s' r1 r2 where
    pkt: "send_encrypt N sa p = Inr (hdr @ body, s')" "length hdr = 18"
      "length body = length p + 16"
      "recv_decrypt_length N rb hdr = Inr (Inr (word_of_nat (length p)), r1)"
      "recv_decrypt_message N r1 body = Inr (Inr p, r2)" "in_step s' r2"
    by blast
  then have "cipher_encrypt N a p = Inr (hdr @ body, cipher_join s' ra)"
    and "cipher_decrypt_length N b hdr = Inr (Inr (word_of_nat (length p)), cipher_join sb r1)"
    and "cipher_decrypt_message N (cipher_join sb r1) body = Inr (Inr p, cipher_join sb r2)"
    and "ciphers_in_step (cipher_join s' ra) (cipher_join sb r2)"
    by (simp_all add: ab cipher_encrypt_join cipher_decrypt_length_join
        cipher_decrypt_message_join ciphers_in_step_def)
  with pkt show ?thesis by blast
qed

interpretation full_channel: packet_channel "cipher_encrypt N" "cipher_decrypt_length N"
  "cipher_decrypt_message N" ciphers_in_step "noise_lawful N"
  for N
  by unfold_locales (blast intro: cipher_packet, simp add: cipher_encrypt_def)

end
