(* ===== verification/Handshake.thy ===== *)
theory Handshake
  imports Cipher
begin

text \<open>
  The \<open>Noise_XK\<close> handshake of \<open>noise/src/handshake.rs\<close>: the two roles, the state machine,
  the three acts and the extraction of the transport cipher. A method on \<open>&mut self\<close> returns
  its \<open>Result\<close> with the handshake it leaves behind; every \<open>expect\<close> is a panic of the model.
\<close>

section \<open>State\<close>

definition PROTOCOL_NAME :: string where "PROTOCOL_NAME = ''Noise_XK_secp256k1_ChaChaPoly_SHA256''"
definition PROLOGUE :: string where "PROLOGUE = ''lightning''"
definition VERSION :: u8 where "VERSION = 0"
definition ACT_ONE_SIZE :: nat where "ACT_ONE_SIZE = 50"
definition ACT_TWO_SIZE :: nat where "ACT_TWO_SIZE = 50"
definition ACT_THREE_SIZE :: nat where "ACT_THREE_SIZE = 66"

datatype role = Initiator | Responder

datatype handshake_state =
    InitiatorStart
  | InitiatorAwaitingActTwo
  | ResponderStart
  | ResponderAwaitingActThree
  | Complete

record ('pk, 'sk) noise_handshake =
  hs_role :: role
  hs_state :: handshake_state
  hs_ck :: bytes
  hs_h :: bytes
  local_static :: 'sk
  local_ephemeral :: 'sk
  remote_static :: "'pk option"
  remote_ephemeral :: "'pk option"
  temp_k2 :: "bytes option"

definition initialize_state ::
    "('pk, 'sk, 'sig) secp \<Rightarrow> noise_lib \<Rightarrow> 'pk \<Rightarrow> bytes \<times> bytes" where
  "initialize_state S N responder_static =
     (let ck = sha256 N (ascii PROTOCOL_NAME);
          h = sha256 N (ck @ ascii PROLOGUE);
          h = sha256 N (h @ pk_serialize S responder_static)
      in (ck, h))"

definition new_initiator ::
    "('pk, 'sk, 'sig) secp \<Rightarrow> noise_lib \<Rightarrow> 'sk \<Rightarrow> 'sk \<Rightarrow> 'pk \<Rightarrow> ('pk, 'sk) noise_handshake" where
  "new_initiator S N static ephemeral remote =
     (let (ck, h) = initialize_state S N remote in
      \<lparr>hs_role = Initiator, hs_state = InitiatorStart, hs_ck = ck, hs_h = h,
       local_static = static, local_ephemeral = ephemeral,
       remote_static = Some remote, remote_ephemeral = None, temp_k2 = None\<rparr>)"

definition new_responder ::
    "('pk, 'sk, 'sig) secp \<Rightarrow> noise_lib \<Rightarrow> 'sk \<Rightarrow> 'sk \<Rightarrow> ('pk, 'sk) noise_handshake" where
  "new_responder S N static ephemeral =
     (let (ck, h) = initialize_state S N (pk_of_sk S static) in
      \<lparr>hs_role = Responder, hs_state = ResponderStart, hs_ck = ck, hs_h = h,
       local_static = static, local_ephemeral = ephemeral,
       remote_static = None, remote_ephemeral = None, temp_k2 = None\<rparr>)"

section \<open>Operations\<close>

definition mix_hash ::
    "noise_lib \<Rightarrow> bytes \<Rightarrow> ('pk, 'sk) noise_handshake \<Rightarrow> ('pk, 'sk) noise_handshake" where
  "mix_hash N data hs = hs\<lparr>hs_h := sha256 N (hs_h hs @ data)\<rparr>"

definition ecdh :: "('pk, 'sk, 'sig) secp \<Rightarrow> 'sk \<Rightarrow> 'pk \<Rightarrow> bytes" where
  "ecdh S secret public = shared_secret S public secret"

text \<open>\<open>dst.copy_from_slice(src)\<close> into a destination of \<open>n\<close> bytes.\<close>

definition copy_from_slice :: "nat \<Rightarrow> bytes \<Rightarrow> panic + bytes" where
  "copy_from_slice n src =
     (if length src = n then Inr src
      else Inl (Panic ''copy_from_slice: source slice length does not match''))"

definition get_act_one ::
    "('pk, 'sk, 'sig) secp \<Rightarrow> noise_lib \<Rightarrow> ('pk, 'sk) noise_handshake \<Rightarrow>
     (noise_error, bytes, ('pk, 'sk) noise_handshake) outcome" where
  "get_act_one S N hs =
     (if hs_state hs \<noteq> InitiatorStart then Inr (Inl InvalidState, hs)
      else
        let e_pub = pk_of_sk S (local_ephemeral hs);
            hs = mix_hash N (pk_serialize S e_pub) hs
        in
        and_then (ok_or (remote_static hs) (Panic ''remote static key'')) (\<lambda>rs.
        and_then (hkdf_two_keys N (hs_ck hs) (ecdh S (local_ephemeral hs) rs)) (\<lambda>(ck, temp_k1).
        let hs = hs\<lparr>hs_ck := ck\<rparr> in
        and_then (encrypt_with_ad N temp_k1 0 (hs_h hs) []) (\<lambda>c.
        let hs = mix_hash N c hs in
        and_then (copy_from_slice 33 (pk_serialize S e_pub)) (\<lambda>e_bytes.
        and_then (copy_from_slice 16 c) (\<lambda>c_bytes.
        Inr (Inr (VERSION # e_bytes @ c_bytes),
             hs\<lparr>hs_state := InitiatorAwaitingActTwo\<rparr>)))))))"

definition build_act_three ::
    "('pk, 'sk, 'sig) secp \<Rightarrow> noise_lib \<Rightarrow> ('pk, 'sk) noise_handshake \<Rightarrow>
     panic + bytes \<times> ('pk, 'sk) noise_handshake" where
  "build_act_three S N hs =
     and_then (ok_or (temp_k2 hs) (Panic ''temp_k2 from process_act_two'')) (\<lambda>k2.
     let s_pub = pk_of_sk S (local_static hs) in
     and_then (encrypt_with_ad N k2 1 (hs_h hs) (pk_serialize S s_pub)) (\<lambda>c.
     let hs = mix_hash N c hs in
     and_then (ok_or (remote_ephemeral hs) (Panic ''remote_ephemeral from process_act_two'')) (\<lambda>re.
     and_then (hkdf_two_keys N (hs_ck hs) (ecdh S (local_static hs) re)) (\<lambda>(ck, temp_k3).
     let hs = hs\<lparr>hs_ck := ck\<rparr> in
     and_then (encrypt_with_ad N temp_k3 0 (hs_h hs) []) (\<lambda>t.
     and_then (copy_from_slice 49 c) (\<lambda>c_bytes.
     and_then (copy_from_slice 16 t) (\<lambda>t_bytes.
     Inr (VERSION # c_bytes @ t_bytes, hs\<lparr>hs_state := Complete\<rparr>))))))))"

definition process_act_two ::
    "('pk, 'sk, 'sig) secp \<Rightarrow> noise_lib \<Rightarrow> ('pk, 'sk) noise_handshake \<Rightarrow> bytes \<Rightarrow>
     (noise_error, bytes, ('pk, 'sk) noise_handshake) outcome" where
  "process_act_two S N hs act_two =
     (if hs_state hs \<noteq> InitiatorAwaitingActTwo then Inr (Inl InvalidState, hs)
      else
        let version = act_two ! 0; re_bytes = take 33 (drop 1 act_two); c = drop 34 act_two in
        if version \<noteq> VERSION then Inr (Inl (ActTwoBadVersion version), hs)
        else (case pk_from_slice S re_bytes of
          None \<Rightarrow> Inr (Inl ActTwoBadPubkey, hs)
        | Some re \<Rightarrow>
            let hs = mix_hash N re_bytes (hs\<lparr>remote_ephemeral := Some re\<rparr>) in
            and_then (hkdf_two_keys N (hs_ck hs) (ecdh S (local_ephemeral hs) re)) (\<lambda>(ck, k2).
            let hs = hs\<lparr>hs_ck := ck, temp_k2 := Some k2\<rparr> in
            case decrypt_with_ad N k2 0 (hs_h hs) c of
              Inl _ \<Rightarrow> Inr (Inl ActTwoBadTag, hs)
            | Inr _ \<Rightarrow>
                and_then (build_act_three S N (mix_hash N c hs)) (\<lambda>(act_three, hs).
                Inr (Inr act_three, hs)))))"

definition build_act_two ::
    "('pk, 'sk, 'sig) secp \<Rightarrow> noise_lib \<Rightarrow> ('pk, 'sk) noise_handshake \<Rightarrow>
     panic + bytes \<times> ('pk, 'sk) noise_handshake" where
  "build_act_two S N hs =
     (let e_pub = pk_of_sk S (local_ephemeral hs);
          hs = mix_hash N (pk_serialize S e_pub) hs
      in
      and_then (ok_or (remote_ephemeral hs) (Panic ''remote_ephemeral from process_act_one'')) (\<lambda>re.
      and_then (hkdf_two_keys N (hs_ck hs) (ecdh S (local_ephemeral hs) re)) (\<lambda>(ck, k2).
      let hs = hs\<lparr>hs_ck := ck, temp_k2 := Some k2\<rparr> in
      and_then (encrypt_with_ad N k2 0 (hs_h hs) []) (\<lambda>c.
      let hs = mix_hash N c hs in
      and_then (copy_from_slice 33 (pk_serialize S e_pub)) (\<lambda>e_bytes.
      and_then (copy_from_slice 16 c) (\<lambda>c_bytes.
      Inr (VERSION # e_bytes @ c_bytes,
           hs\<lparr>hs_state := ResponderAwaitingActThree\<rparr>)))))))"

definition process_act_one ::
    "('pk, 'sk, 'sig) secp \<Rightarrow> noise_lib \<Rightarrow> ('pk, 'sk) noise_handshake \<Rightarrow> bytes \<Rightarrow>
     (noise_error, bytes, ('pk, 'sk) noise_handshake) outcome" where
  "process_act_one S N hs act_one =
     (if hs_state hs \<noteq> ResponderStart then Inr (Inl InvalidState, hs)
      else
        let version = act_one ! 0; re_bytes = take 33 (drop 1 act_one); c = drop 34 act_one in
        if version \<noteq> VERSION then Inr (Inl (ActOneBadVersion version), hs)
        else (case pk_from_slice S re_bytes of
          None \<Rightarrow> Inr (Inl ActOneBadPubkey, hs)
        | Some re \<Rightarrow>
            let hs = mix_hash N re_bytes (hs\<lparr>remote_ephemeral := Some re\<rparr>) in
            and_then (hkdf_two_keys N (hs_ck hs) (ecdh S (local_static hs) re)) (\<lambda>(ck, temp_k1).
            let hs = hs\<lparr>hs_ck := ck\<rparr> in
            case decrypt_with_ad N temp_k1 0 (hs_h hs) c of
              Inl _ \<Rightarrow> Inr (Inl ActOneBadTag, hs)
            | Inr _ \<Rightarrow>
                and_then (build_act_two S N (mix_hash N c hs)) (\<lambda>(act_two, hs).
                Inr (Inr act_two, hs)))))"

definition process_act_three ::
    "('pk, 'sk, 'sig) secp \<Rightarrow> noise_lib \<Rightarrow> ('pk, 'sk) noise_handshake \<Rightarrow> bytes \<Rightarrow>
     (noise_error, 'pk, ('pk, 'sk) noise_handshake) outcome" where
  "process_act_three S N hs act_three =
     (if hs_state hs \<noteq> ResponderAwaitingActThree then Inr (Inl InvalidState, hs)
      else
        let version = act_three ! 0; c = take 49 (drop 1 act_three); t = drop 50 act_three in
        if version \<noteq> VERSION then Inr (Inl (ActThreeBadVersion version), hs)
        else
          and_then (ok_or (temp_k2 hs) (Panic ''temp_k2 from build_act_two'')) (\<lambda>k2.
          case decrypt_with_ad N k2 1 (hs_h hs) c of
            Inl _ \<Rightarrow> Inr (Inl ActThreeBadCiphertext, hs)
          | Inr rs_bytes \<Rightarrow>
              (case pk_from_slice S rs_bytes of
                None \<Rightarrow> Inr (Inl ActThreeBadPubkey, hs)
              | Some rs \<Rightarrow>
                  let hs = mix_hash N c (hs\<lparr>remote_static := Some rs\<rparr>) in
                  and_then (hkdf_two_keys N (hs_ck hs) (ecdh S (local_ephemeral hs) rs))
                    (\<lambda>(ck, temp_k3).
                  let hs = hs\<lparr>hs_ck := ck\<rparr> in
                  case decrypt_with_ad N temp_k3 0 (hs_h hs) t of
                    Inl _ \<Rightarrow> Inr (Inl ActThreeBadTag, hs)
                  | Inr _ \<Rightarrow> Inr (Inr rs, hs\<lparr>hs_state := Complete\<rparr>)))))"

definition get_final_keys ::
    "noise_lib \<Rightarrow> ('pk, 'sk) noise_handshake \<Rightarrow> panic + (noise_error + bytes \<times> bytes)" where
  "get_final_keys N hs =
     (if hs_state hs \<noteq> Complete then Inr (Inl HandshakeIncomplete)
      else and_then (hkdf_two_keys N (hs_ck hs) []) (\<lambda>(sk, rk).
        Inr (case hs_role hs of Initiator \<Rightarrow> Inr (sk, rk) | Responder \<Rightarrow> Inr (rk, sk))))"

definition into_cipher ::
    "noise_lib \<Rightarrow> ('pk, 'sk) noise_handshake \<Rightarrow> panic + (noise_error + noise_cipher)" where
  "into_cipher N hs =
     and_then (get_final_keys N hs) (\<lambda>res. case res of
       Inl e \<Rightarrow> Inr (Inl e)
     | Inr (k_send, k_recv) \<Rightarrow> Inr (Inr (cipher_new k_send k_recv (hs_ck hs))))"

section \<open>An act the other side produced\<close>

lemma mix_hash_fields [simp]:
  "hs_h (mix_hash N d hs) = sha256 N (hs_h hs @ d)" "hs_ck (mix_hash N d hs) = hs_ck hs"
  "hs_role (mix_hash N d hs) = hs_role hs" "hs_state (mix_hash N d hs) = hs_state hs"
  "local_static (mix_hash N d hs) = local_static hs"
  "local_ephemeral (mix_hash N d hs) = local_ephemeral hs"
  "remote_static (mix_hash N d hs) = remote_static hs"
  "remote_ephemeral (mix_hash N d hs) = remote_ephemeral hs"
  "temp_k2 (mix_hash N d hs) = temp_k2 hs"
  by (simp_all add: mix_hash_def)

lemma copy_from_slice_ok [simp]: "length src = n \<Longrightarrow> copy_from_slice n src = Inr src"
  by (simp add: copy_from_slice_def)

text \<open>Cutting an act where the receiver cuts it.\<close>

lemma act_slices:
  assumes "length k = n"
  shows "(v # k @ c) ! 0 = v" and "take n (drop 1 (v # k @ c)) = k" and "drop (Suc n) (v # k @ c) = c"
  using assms by simp_all

text \<open>Two ends with the same chaining key and transcript hash.\<close>

definition same_transcript ::
    "('pk, 'sk) noise_handshake \<Rightarrow> ('pk, 'sk) noise_handshake \<Rightarrow> bool" where
  "same_transcript a b \<longleftrightarrow> hs_ck a = hs_ck b \<and> hs_h a = hs_h b"

lemma act_one_accepted:
  assumes "noise_lawful N" and "keys_lawful S" and "ecdh_lawful S"
    and "hs_state i = InitiatorStart" and "hs_state r = ResponderStart"
    and "remote_static i = Some (pk_of_sk S (local_static r))" and "same_transcript i r"
  obtains act ck h where "length act = 50"
    and "get_act_one S N i =
      Inr (Inr act, i\<lparr>hs_ck := ck, hs_h := h, hs_state := InitiatorAwaitingActTwo\<rparr>)"
    and "process_act_one S N r act =
      and_then (build_act_two S N (r\<lparr>remote_ephemeral := Some (pk_of_sk S (local_ephemeral i)),
        hs_ck := ck, hs_h := h\<rparr>)) (\<lambda>(a, hs). Inr (Inr a, hs))"
proof -
  define e where "e = pk_serialize S (pk_of_sk S (local_ephemeral i))"
  have e: "length e = 33" "pk_from_slice S e = Some (pk_of_sk S (local_ephemeral i))"
    by (simp_all add: e_def pk_laws [OF assms(2)])
  have es: "ecdh S (local_static r) (pk_of_sk S (local_ephemeral i)) =
      ecdh S (local_ephemeral i) (pk_of_sk S (local_static r))"
    using ecdh_law [OF assms(3)] by (simp add: ecdh_def)
  obtain ck k1 where k: "hkdf_two_keys N (hs_ck i)
      (ecdh S (local_ephemeral i) (pk_of_sk S (local_static r))) = Inr (ck, k1)"
    using assms(1) by (rule hkdf_lawful)
  define h where "h = sha256 N (hs_h i @ e)"
  obtain c where c: "encrypt_with_ad N k1 0 h [] = Inr c" "length c = 16"
    "decrypt_with_ad N k1 0 h c = Inr []"
    using encrypt_decrypt [OF assms(1), of "[]" k1 0 h] by auto
  show thesis
  proof (rule that [where act = "VERSION # e @ c" and ck = ck and h = "sha256 N (h @ c)"])
    show "length (VERSION # e @ c) = 50" using e c by simp
    show "get_act_one S N i = Inr (Inr (VERSION # e @ c),
        i\<lparr>hs_ck := ck, hs_h := sha256 N (h @ c), hs_state := InitiatorAwaitingActTwo\<rparr>)"
      using assms(4,6) e(1) c(1,2) k
      by (simp add: get_act_one_def Let_def mix_hash_def h_def flip: e_def)
    show "process_act_one S N r (VERSION # e @ c) =
      and_then (build_act_two S N (r\<lparr>remote_ephemeral := Some (pk_of_sk S (local_ephemeral i)),
        hs_ck := ck, hs_h := sha256 N (h @ c)\<rparr>)) (\<lambda>(a, hs). Inr (Inr a, hs))"
      using assms(5,7) e c(3) k
      by (simp add: process_act_one_def Let_def same_transcript_def es mix_hash_def h_def)
  qed
qed

lemma act_two_accepted:
  assumes "noise_lawful N" and "keys_lawful S" and "ecdh_lawful S"
    and "hs_state i = InitiatorAwaitingActTwo"
    and "remote_ephemeral r = Some (pk_of_sk S (local_ephemeral i))" and "same_transcript i r"
  obtains act ck h k2 where "length act = 50"
    and "build_act_two S N r = Inr (act, r\<lparr>hs_ck := ck, temp_k2 := Some k2, hs_h := h,
      hs_state := ResponderAwaitingActThree\<rparr>)"
    and "process_act_two S N i act =
      and_then (build_act_three S N (i\<lparr>remote_ephemeral := Some (pk_of_sk S (local_ephemeral r)),
        hs_ck := ck, temp_k2 := Some k2, hs_h := h\<rparr>)) (\<lambda>(a, hs). Inr (Inr a, hs))"
proof -
  define e where "e = pk_serialize S (pk_of_sk S (local_ephemeral r))"
  have e: "length e = 33" "pk_from_slice S e = Some (pk_of_sk S (local_ephemeral r))"
    by (simp_all add: e_def pk_laws [OF assms(2)])
  have ee: "ecdh S (local_ephemeral i) (pk_of_sk S (local_ephemeral r)) =
      ecdh S (local_ephemeral r) (pk_of_sk S (local_ephemeral i))"
    using ecdh_law [OF assms(3)] by (simp add: ecdh_def)
  obtain ck k2 where k: "hkdf_two_keys N (hs_ck r)
      (ecdh S (local_ephemeral r) (pk_of_sk S (local_ephemeral i))) = Inr (ck, k2)"
    using assms(1) by (rule hkdf_lawful)
  define h where "h = sha256 N (hs_h r @ e)"
  obtain c where c: "encrypt_with_ad N k2 0 h [] = Inr c" "length c = 16"
    "decrypt_with_ad N k2 0 h c = Inr []"
    using encrypt_decrypt [OF assms(1), of "[]" k2 0 h] by auto
  show thesis
  proof (rule that [where act = "VERSION # e @ c" and ck = ck and h = "sha256 N (h @ c)"
        and ?k2.0 = k2])
    show "length (VERSION # e @ c) = 50" using e c by simp
    show "build_act_two S N r = Inr (VERSION # e @ c, r\<lparr>hs_ck := ck, temp_k2 := Some k2,
        hs_h := sha256 N (h @ c), hs_state := ResponderAwaitingActThree\<rparr>)"
      using assms(5) e(1) c(1,2) k
      by (simp add: build_act_two_def Let_def mix_hash_def h_def flip: e_def)
    show "process_act_two S N i (VERSION # e @ c) =
      and_then (build_act_three S N (i\<lparr>remote_ephemeral := Some (pk_of_sk S (local_ephemeral r)),
        hs_ck := ck, temp_k2 := Some k2, hs_h := sha256 N (h @ c)\<rparr>)) (\<lambda>(a, hs). Inr (Inr a, hs))"
      using assms(4,6) e c(3) k
      by (simp add: process_act_two_def Let_def same_transcript_def ee mix_hash_def h_def)
  qed
qed

lemma act_three_accepted:
  assumes "noise_lawful N" and "keys_lawful S" and "ecdh_lawful S"
    and "remote_ephemeral i = Some (pk_of_sk S (local_ephemeral r))" and "temp_k2 i = Some k2"
    and "hs_state r = ResponderAwaitingActThree" and "temp_k2 r = Some k2"
    and "same_transcript i r"
  obtains act ck h h' where "length act = 66"
    and "build_act_three S N i = Inr (act, i\<lparr>hs_h := h, hs_ck := ck, hs_state := Complete\<rparr>)"
    and "process_act_three S N r act = Inr (Inr (pk_of_sk S (local_static i)),
      r\<lparr>remote_static := Some (pk_of_sk S (local_static i)), hs_h := h, hs_ck := ck,
        hs_state := Complete\<rparr>)"
proof -
  define s where "s = pk_serialize S (pk_of_sk S (local_static i))"
  have s: "length s = 33" "pk_from_slice S s = Some (pk_of_sk S (local_static i))"
    by (simp_all add: s_def pk_laws [OF assms(2)])
  have se: "ecdh S (local_ephemeral r) (pk_of_sk S (local_static i)) =
      ecdh S (local_static i) (pk_of_sk S (local_ephemeral r))"
    using ecdh_law [OF assms(3)] by (simp add: ecdh_def)
  obtain ck k3 where k: "hkdf_two_keys N (hs_ck i)
      (ecdh S (local_static i) (pk_of_sk S (local_ephemeral r))) = Inr (ck, k3)"
    using assms(1) by (rule hkdf_lawful)
  obtain c where c: "encrypt_with_ad N k2 1 (hs_h i) s = Inr c" "length c = 49"
    "decrypt_with_ad N k2 1 (hs_h i) c = Inr s"
    using encrypt_decrypt [OF assms(1), of s k2 1 "hs_h i"] s(1) by auto
  define h where "h = sha256 N (hs_h i @ c)"
  obtain t where t: "encrypt_with_ad N k3 0 h [] = Inr t" "length t = 16"
    "decrypt_with_ad N k3 0 h t = Inr []"
    using encrypt_decrypt [OF assms(1), of "[]" k3 0 h] by auto
  show thesis
  proof (rule that [where act = "VERSION # c @ t" and ck = ck and h = h])
    show "length (VERSION # c @ t) = 66" using c t by simp
    show "build_act_three S N i =
        Inr (VERSION # c @ t, i\<lparr>hs_h := h, hs_ck := ck, hs_state := Complete\<rparr>)"
      using assms(4,5) c(1,2) t(1,2) k
      by (simp add: build_act_three_def Let_def mix_hash_def h_def flip: s_def)
    show "process_act_three S N r (VERSION # c @ t) = Inr (Inr (pk_of_sk S (local_static i)),
      r\<lparr>remote_static := Some (pk_of_sk S (local_static i)), hs_h := h, hs_ck := ck,
        hs_state := Complete\<rparr>)"
      using assms(6,7,8) s c(2,3) t(3) k
      by (simp add: process_act_three_def Let_def same_transcript_def se mix_hash_def h_def)
  qed
qed

section \<open>An honest run\<close>

lemma into_cipher_agree:
  assumes "noise_lawful N" and "hs_state i = Complete" and "hs_state r = Complete"
    and "hs_role i = Initiator" and "hs_role r = Responder" and "hs_ck i = hs_ck r"
  obtains ci cr where "into_cipher N i = Inr (Inr ci)" and "into_cipher N r = Inr (Inr cr)"
    and "ciphers_in_step ci cr" and "ciphers_in_step cr ci"
proof -
  obtain sk rk where "hkdf_two_keys N (hs_ck r) [] = Inr (sk, rk)"
    using assms(1) by (rule hkdf_lawful)
  with assms that [of "cipher_new sk rk (hs_ck r)" "cipher_new rk sk (hs_ck r)"] show thesis
    by (simp add: into_cipher_def get_final_keys_def ciphers_in_step_def in_step_def
        cipher_split_def cipher_new_def)
qed

lemma honest_run:
  assumes "noise_lawful N" and "keys_lawful S" and "ecdh_lawful S"
  obtains act1 act2 act3 i1 i2 r1 r2 ci cr where
    "get_act_one S N (new_initiator S N si ei (pk_of_sk S sr)) = Inr (Inr act1, i1)"
    "process_act_one S N (new_responder S N sr er) act1 = Inr (Inr act2, r1)"
    "process_act_two S N i1 act2 = Inr (Inr act3, i2)"
    "process_act_three S N r1 act3 = Inr (Inr (pk_of_sk S si), r2)"
    "length act1 = ACT_ONE_SIZE" "length act2 = ACT_TWO_SIZE" "length act3 = ACT_THREE_SIZE"
    "into_cipher N i2 = Inr (Inr ci)" "into_cipher N r2 = Inr (Inr cr)"
    "ciphers_in_step ci cr" "ciphers_in_step cr ci"
proof -
  let ?i = "new_initiator S N si ei (pk_of_sk S sr)" and ?r = "new_responder S N sr er"
  note new_defs = new_initiator_def new_responder_def initialize_state_def Let_def
    same_transcript_def
  obtain act1 ck1 h1 where 1: "length act1 = 50" "get_act_one S N ?i =
      Inr (Inr act1, ?i\<lparr>hs_ck := ck1, hs_h := h1, hs_state := InitiatorAwaitingActTwo\<rparr>)"
    "process_act_one S N ?r act1 =
      and_then (build_act_two S N (?r\<lparr>remote_ephemeral := Some (pk_of_sk S (local_ephemeral ?i)),
        hs_ck := ck1, hs_h := h1\<rparr>)) (\<lambda>(a, hs). Inr (Inr a, hs))"
    by (rule act_one_accepted [OF assms, of ?i ?r]) (simp_all add: new_defs)
  define i1 where "i1 = ?i\<lparr>hs_ck := ck1, hs_h := h1, hs_state := InitiatorAwaitingActTwo\<rparr>"
  define r0 where "r0 = ?r\<lparr>remote_ephemeral := Some (pk_of_sk S (local_ephemeral ?i)),
        hs_ck := ck1, hs_h := h1\<rparr>"
  obtain act2 ck2 h2 k2 where 2: "length act2 = 50"
    "build_act_two S N r0 = Inr (act2, r0\<lparr>hs_ck := ck2, temp_k2 := Some k2, hs_h := h2,
      hs_state := ResponderAwaitingActThree\<rparr>)"
    "process_act_two S N i1 act2 =
      and_then (build_act_three S N (i1\<lparr>remote_ephemeral := Some (pk_of_sk S (local_ephemeral r0)),
        hs_ck := ck2, temp_k2 := Some k2, hs_h := h2\<rparr>)) (\<lambda>(a, hs). Inr (Inr a, hs))"
    by (rule act_two_accepted [OF assms, of i1 r0]) (simp_all add: i1_def r0_def new_defs)
  define r1 where "r1 = r0\<lparr>hs_ck := ck2, temp_k2 := Some k2, hs_h := h2,
      hs_state := ResponderAwaitingActThree\<rparr>"
  define i1' where "i1' = i1\<lparr>remote_ephemeral := Some (pk_of_sk S (local_ephemeral r0)),
        hs_ck := ck2, temp_k2 := Some k2, hs_h := h2\<rparr>"
  obtain act3 ck3 h3 where 3: "length act3 = 66"
    "build_act_three S N i1' = Inr (act3, i1'\<lparr>hs_h := h3, hs_ck := ck3, hs_state := Complete\<rparr>)"
    "process_act_three S N r1 act3 = Inr (Inr (pk_of_sk S (local_static i1')),
      r1\<lparr>remote_static := Some (pk_of_sk S (local_static i1')), hs_h := h3, hs_ck := ck3,
        hs_state := Complete\<rparr>)"
    by (rule act_three_accepted [OF assms, of i1' r1 k2])
      (simp_all add: i1'_def r1_def i1_def r0_def new_defs)
  define i2 where "i2 = i1'\<lparr>hs_h := h3, hs_ck := ck3, hs_state := Complete\<rparr>"
  define r2 where "r2 = r1\<lparr>remote_static := Some (pk_of_sk S (local_static i1')), hs_h := h3,
      hs_ck := ck3, hs_state := Complete\<rparr>"
  obtain ci cr where 4: "into_cipher N i2 = Inr (Inr ci)" "into_cipher N r2 = Inr (Inr cr)"
    "ciphers_in_step ci cr" "ciphers_in_step cr ci"
    by (rule into_cipher_agree [OF assms(1), of i2 r2])
      (simp_all add: i2_def r2_def i1'_def r1_def i1_def r0_def new_defs)
  have static: "local_static i1' = si" by (simp add: i1'_def i1_def new_defs)
  show thesis
  proof (rule that [of act1 i1 act2 r1 act3 i2 r2 ci cr])
    show "get_act_one S N ?i = Inr (Inr act1, i1)" by (simp add: 1 i1_def)
    show "process_act_one S N ?r act1 = Inr (Inr act2, r1)"
      by (simp add: 1 r1_def 2(2) flip: r0_def)
    show "process_act_two S N i1 act2 = Inr (Inr act3, i2)"
      by (simp add: 2 3 i2_def flip: i1'_def)
    show "process_act_three S N r1 act3 = Inr (Inr (pk_of_sk S si), r2)"
      by (simp add: 3 r2_def static)
  qed (simp_all add: 1 2 3 4 ACT_ONE_SIZE_def ACT_TWO_SIZE_def ACT_THREE_SIZE_def)
qed

section \<open>The state machine\<close>

text \<open>
  What the role and the state say about the optional fields; every handshake a constructor
  returns has it.
\<close>

definition hs_wf :: "('pk, 'sk) noise_handshake \<Rightarrow> bool" where
  "hs_wf hs \<longleftrightarrow>
     (case hs_role hs of
        Initiator \<Rightarrow> hs_state hs \<in> {InitiatorStart, InitiatorAwaitingActTwo, Complete} \<and>
          remote_static hs \<noteq> None
      | Responder \<Rightarrow> hs_state hs \<in> {ResponderStart, ResponderAwaitingActThree, Complete} \<and>
          (hs_state hs = ResponderAwaitingActThree \<longrightarrow> temp_k2 hs \<noteq> None) \<and>
          (hs_state hs = Complete \<longrightarrow> remote_static hs \<noteq> None)) \<and>
     (hs_state hs \<in> {Complete, ResponderAwaitingActThree} \<longrightarrow>
        remote_ephemeral hs \<noteq> None \<and> temp_k2 hs \<noteq> None)"

fun state_rank :: "handshake_state \<Rightarrow> nat" where
  "state_rank InitiatorStart = 0"
| "state_rank ResponderStart = 0"
| "state_rank InitiatorAwaitingActTwo = 1"
| "state_rank ResponderAwaitingActThree = 1"
| "state_rank Complete = 2"

text \<open>The order in which a handshake of one role passes through its states.\<close>

instantiation handshake_state :: order
begin

definition less_eq_handshake_state :: "handshake_state \<Rightarrow> handshake_state \<Rightarrow> bool" where
  "less_eq_handshake_state s t \<longleftrightarrow>
     s = t \<or> t = Complete \<or> s = InitiatorStart \<and> t = InitiatorAwaitingActTwo \<or>
     s = ResponderStart \<and> t = ResponderAwaitingActThree"

definition less_handshake_state :: "handshake_state \<Rightarrow> handshake_state \<Rightarrow> bool" where
  "less_handshake_state s t \<longleftrightarrow> s \<le> t \<and> s \<noteq> t"

instance
  by standard (auto simp: less_eq_handshake_state_def less_handshake_state_def)

end

lemmas state_order = less_eq_handshake_state_def less_handshake_state_def

lemma state_rank_mono: "s \<le> t \<Longrightarrow> state_rank s \<le> state_rank t"
  by (auto simp: less_eq_handshake_state_def) (cases s; simp)

text \<open>One call of a method, with any act of its size as input, whatever it returns.\<close>

inductive hs_step ::
    "('pk, 'sk, 'sig) secp \<Rightarrow> noise_lib \<Rightarrow> ('pk, 'sk) noise_handshake \<Rightarrow>
     ('pk, 'sk) noise_handshake \<Rightarrow> bool"
  for S :: "('pk, 'sk, 'sig) secp" and N :: noise_lib where
  step_get_act_one: "get_act_one S N hs = Inr (res, hs') \<Longrightarrow> hs_step S N hs hs'"
| step_act_one: "length act = ACT_ONE_SIZE \<Longrightarrow> process_act_one S N hs act = Inr (res, hs') \<Longrightarrow>
    hs_step S N hs hs'"
| step_act_two: "length act = ACT_TWO_SIZE \<Longrightarrow> process_act_two S N hs act = Inr (res, hs') \<Longrightarrow>
    hs_step S N hs hs'"
| step_act_three: "length act = ACT_THREE_SIZE \<Longrightarrow>
    process_act_three S N hs act = Inr (res', hs') \<Longrightarrow> hs_step S N hs hs'"

text \<open>
  What a call does to the handshake: an error leaves its role, state and keys, a success
  moves the state to the next one.
\<close>

definition call_ok ::
    "('pk, 'sk) noise_handshake \<Rightarrow> ('e + 'a) \<Rightarrow> ('pk, 'sk) noise_handshake \<Rightarrow> bool" where
  "call_ok hs res hs' \<longleftrightarrow>
     hs_role hs' = hs_role hs \<and> local_static hs' = local_static hs \<and>
     local_ephemeral hs' = local_ephemeral hs \<and>
     (case res of
        Inl _ \<Rightarrow> hs_state hs' = hs_state hs
      | Inr _ \<Rightarrow> hs_state hs < hs_state hs' \<and>
          state_rank (hs_state hs') = Suc (state_rank (hs_state hs))) \<and>
     (hs_wf hs \<longrightarrow> hs_wf hs')"

lemmas call_ok_defs = call_ok_def hs_wf_def state_order

lemma get_act_one_call: "get_act_one S N hs = Inr (res, hs') \<Longrightarrow> call_ok hs res hs'"
  by (auto simp: get_act_one_def Let_def call_ok_defs split: if_splits role.splits)

lemma build_act_two_fields:
  assumes "build_act_two S N hs = Inr (act, hs')"
  shows "hs_role hs' = hs_role hs" and "local_static hs' = local_static hs"
    and "local_ephemeral hs' = local_ephemeral hs" and "hs_state hs' = ResponderAwaitingActThree"
    and "remote_ephemeral hs' \<noteq> None" and "temp_k2 hs' \<noteq> None"
  using assms by (auto simp: build_act_two_def Let_def)

lemma build_act_three_fields:
  assumes "build_act_three S N hs = Inr (act, hs')"
  shows "hs_role hs' = hs_role hs" and "local_static hs' = local_static hs"
    and "local_ephemeral hs' = local_ephemeral hs" and "hs_state hs' = Complete"
    and "remote_ephemeral hs' \<noteq> None" and "temp_k2 hs' \<noteq> None"
    and "remote_static hs' = remote_static hs"
  using assms by (auto simp: build_act_three_def Let_def)

text \<open>The three ways a processing method returns: untouched, after a bad tag, or having advanced.\<close>

lemma process_act_one_cases:
  assumes "process_act_one S N hs act = Inr (res, hs')"
  obtains (unchanged) e where "res = Inl e" and "hs' = hs"
      and "e = (if hs_state hs \<noteq> ResponderStart then InvalidState
        else if act ! 0 \<noteq> VERSION then ActOneBadVersion (act ! 0) else ActOneBadPubkey)"
      and "hs_state hs \<noteq> ResponderStart \<or> act ! 0 \<noteq> VERSION \<or>
        pk_from_slice S (take 33 (drop 1 act)) = None"
  | (bad_tag) re ck h where "hs_state hs = ResponderStart"
      and "act ! 0 = VERSION" and "pk_from_slice S (take 33 (drop 1 act)) = Some re"
      and "res = Inl ActOneBadTag"
      and "hs' = hs\<lparr>remote_ephemeral := Some re, hs_h := h, hs_ck := ck\<rparr>"
  | (advanced) re ck h act2 where "hs_state hs = ResponderStart"
      and "act ! 0 = VERSION" and "pk_from_slice S (take 33 (drop 1 act)) = Some re"
      and "res = Inr act2"
      and "build_act_two S N (hs\<lparr>remote_ephemeral := Some re, hs_ck := ck, hs_h := h\<rparr>) =
        Inr (act2, hs')"
proof (cases "hs_state hs = ResponderStart \<and> act ! 0 = VERSION \<and>
    pk_from_slice S (take 33 (drop 1 act)) \<noteq> None")
  case False
  then show thesis using assms unchanged
    by (auto simp: process_act_one_def Let_def split: if_splits option.splits)
next
  case True
  then obtain re where re: "pk_from_slice S (take 33 (drop 1 act)) = Some re" by blast
  let ?h = "sha256 N (hs_h hs @ take 33 (drop 1 act))"
  obtain ck k1 where k: "hkdf_two_keys N (hs_ck hs) (ecdh S (local_static hs) re) = Inr (ck, k1)"
    using assms True re
    by (cases "hkdf_two_keys N (hs_ck hs) (ecdh S (local_static hs) re)")
      (auto simp: process_act_one_def Let_def)
  show thesis
  proof (cases "decrypt_with_ad N k1 0 ?h (drop 34 act)")
    case (Inl e)
    then show thesis using assms True re k bad_tag
      by (auto simp: process_act_one_def Let_def mix_hash_def)
  next
    case (Inr p)
    then show thesis using assms True re k advanced
      by (auto simp: process_act_one_def Let_def mix_hash_def)
  qed
qed

lemma process_act_two_cases:
  assumes "process_act_two S N hs act = Inr (res, hs')"
  obtains (unchanged) e where "res = Inl e" and "hs' = hs"
      and "e = (if hs_state hs \<noteq> InitiatorAwaitingActTwo then InvalidState
        else if act ! 0 \<noteq> VERSION then ActTwoBadVersion (act ! 0) else ActTwoBadPubkey)"
      and "hs_state hs \<noteq> InitiatorAwaitingActTwo \<or> act ! 0 \<noteq> VERSION \<or>
        pk_from_slice S (take 33 (drop 1 act)) = None"
  | (bad_tag) re ck k2 h where "hs_state hs = InitiatorAwaitingActTwo"
      and "act ! 0 = VERSION" and "pk_from_slice S (take 33 (drop 1 act)) = Some re"
      and "res = Inl ActTwoBadTag"
      and "hs' = hs\<lparr>remote_ephemeral := Some re, hs_h := h, hs_ck := ck, temp_k2 := Some k2\<rparr>"
  | (advanced) re ck k2 h act3 where "hs_state hs = InitiatorAwaitingActTwo"
      and "act ! 0 = VERSION" and "pk_from_slice S (take 33 (drop 1 act)) = Some re"
      and "res = Inr act3"
      and "build_act_three S N (hs\<lparr>remote_ephemeral := Some re, hs_ck := ck,
        temp_k2 := Some k2, hs_h := h\<rparr>) = Inr (act3, hs')"
proof (cases "hs_state hs = InitiatorAwaitingActTwo \<and> act ! 0 = VERSION \<and>
    pk_from_slice S (take 33 (drop 1 act)) \<noteq> None")
  case False
  then show thesis using assms unchanged
    by (auto simp: process_act_two_def Let_def split: if_splits option.splits)
next
  case True
  then obtain re where re: "pk_from_slice S (take 33 (drop 1 act)) = Some re" by blast
  let ?h = "sha256 N (hs_h hs @ take 33 (drop 1 act))"
  obtain ck k2 where k: "hkdf_two_keys N (hs_ck hs) (ecdh S (local_ephemeral hs) re) = Inr (ck, k2)"
    using assms True re
    by (cases "hkdf_two_keys N (hs_ck hs) (ecdh S (local_ephemeral hs) re)")
      (auto simp: process_act_two_def Let_def)
  show thesis
  proof (cases "decrypt_with_ad N k2 0 ?h (drop 34 act)")
    case (Inl e)
    then show thesis using assms True re k bad_tag
      by (auto simp: process_act_two_def Let_def mix_hash_def)
  next
    case (Inr p)
    then show thesis using assms True re k advanced
      by (auto simp: process_act_two_def Let_def mix_hash_def)
  qed
qed

lemma process_act_three_cases:
  assumes "process_act_three S N hs act = Inr (res, hs')"
  obtains (unchanged) e where "res = Inl e" and "hs' = hs"
      and "e \<in> {InvalidState, ActThreeBadVersion (act ! 0), ActThreeBadCiphertext, ActThreeBadPubkey}"
  | (bad_tag) rs ck h where "hs_state hs = ResponderAwaitingActThree"
      and "res = Inl ActThreeBadTag"
      and "hs' = hs\<lparr>remote_static := Some rs, hs_h := h, hs_ck := ck\<rparr>"
  | (advanced) rs ck h where "hs_state hs = ResponderAwaitingActThree" and "res = Inr rs"
      and "hs' = hs\<lparr>remote_static := Some rs, hs_h := h, hs_ck := ck, hs_state := Complete\<rparr>"
proof (cases "hs_state hs = ResponderAwaitingActThree \<and> act ! 0 = VERSION")
  case False
  then show thesis using assms unchanged
    by (auto simp: process_act_three_def Let_def split: if_splits)
next
  case True
  let ?c = "take 49 (drop 1 act)"
  obtain k2 where k2: "temp_k2 hs = Some k2"
    using assms True by (cases "temp_k2 hs") (auto simp: process_act_three_def Let_def)
  show thesis
  proof (cases "\<exists>bs rs. decrypt_with_ad N k2 1 (hs_h hs) ?c = Inr bs \<and> pk_from_slice S bs = Some rs")
    case False
    then show thesis using assms True k2 unchanged
      by (auto simp: process_act_three_def Let_def split: sum.splits option.splits)
  next
    case rs: True
    then obtain bs rs where rs: "decrypt_with_ad N k2 1 (hs_h hs) ?c = Inr bs"
      "pk_from_slice S bs = Some rs" by blast
    obtain ck k3 where k: "hkdf_two_keys N (hs_ck hs) (ecdh S (local_ephemeral hs) rs) = Inr (ck, k3)"
      using assms True k2 rs
      by (cases "hkdf_two_keys N (hs_ck hs) (ecdh S (local_ephemeral hs) rs)")
        (auto simp: process_act_three_def Let_def)
    show thesis
    proof (cases "decrypt_with_ad N k3 0 (sha256 N (hs_h hs @ ?c)) (drop 50 act)")
      case (Inl e)
      then show thesis using assms True k2 rs k bad_tag
        by (auto simp: process_act_three_def Let_def mix_hash_def)
    next
      case (Inr p)
      then show thesis using assms True k2 rs k advanced
        by (auto simp: process_act_three_def Let_def mix_hash_def)
    qed
  qed
qed

lemma process_act_one_call:
  assumes "process_act_one S N hs act = Inr (res, hs')" shows "call_ok hs res hs'"
  using assms
proof (cases rule: process_act_one_cases)
  case (advanced re ck h act2)
  then show ?thesis using build_act_two_fields [OF advanced(5)]
    by (cases "hs_role hs") (simp_all add: call_ok_defs)
qed (auto simp: call_ok_defs split: role.splits)

lemma process_act_two_call:
  assumes "process_act_two S N hs act = Inr (res, hs')" shows "call_ok hs res hs'"
  using assms
proof (cases rule: process_act_two_cases)
  case (advanced re ck k2 h act3)
  then show ?thesis using build_act_three_fields [OF advanced(5)]
    by (cases "hs_role hs") (simp_all add: call_ok_defs)
qed (auto simp: call_ok_defs split: role.splits)

lemma process_act_three_call:
  assumes "process_act_three S N hs act = Inr (res, hs')" shows "call_ok hs res hs'"
  using assms
proof (cases rule: process_act_three_cases)
  case (advanced rs ck h)
  then show ?thesis by (cases "hs_role hs") (simp_all add: call_ok_defs)
qed (auto simp: call_ok_defs split: role.splits)

lemmas calls_ok = get_act_one_call process_act_one_call process_act_two_call
  process_act_three_call

inductive_cases hs_stepE: "hs_step S N hs hs'"

lemma hs_step_call: "hs_step S N hs hs' \<Longrightarrow> \<exists>ok. call_ok hs (if ok then Inr () else Inl ()) hs'"
proof -
  have weaken: "call_ok hs res hs' \<Longrightarrow> \<exists>ok. call_ok hs (if ok then Inr () else Inl ()) hs'"
    for res :: "'x + 'y"
    by (cases res) (auto simp: call_ok_def intro: exI [of _ True] exI [of _ False])
  assume "hs_step S N hs hs'"
  then show ?thesis
    by (rule hs_stepE) (rule weaken, erule calls_ok)+
qed

lemma hs_step_facts:
  assumes "hs_step S N hs hs'"
  shows "hs_wf hs \<Longrightarrow> hs_wf hs'" and "hs_role hs' = hs_role hs"
    and "local_static hs' = local_static hs" and "local_ephemeral hs' = local_ephemeral hs"
    and "hs_state hs \<le> hs_state hs'"
  using hs_step_call [OF assms] by (auto simp: call_ok_def split: if_splits)

lemma get_act_one_complete: "hs_state hs = Complete \<Longrightarrow> get_act_one S N hs = Inr (Inl InvalidState, hs)"
  and process_complete: "hs_state hs = Complete \<Longrightarrow> process_act_one S N hs act = Inr (Inl InvalidState, hs)"
    "hs_state hs = Complete \<Longrightarrow> process_act_two S N hs act = Inr (Inl InvalidState, hs)"
    "hs_state hs = Complete \<Longrightarrow> process_act_three S N hs act = Inr (Inl InvalidState, hs)"
  by (simp_all add: get_act_one_def process_act_one_def process_act_two_def process_act_three_def)

lemma complete_step: "hs_step S N hs hs' \<Longrightarrow> hs_state hs = Complete \<Longrightarrow> hs' = hs"
  by (erule hs_stepE) (simp_all add: get_act_one_complete process_complete)

text \<open>Along a run the invariant stays and the rank of the state never goes down.\<close>

interpretation handshake_run: step_system "hs_step S N" hs_wf "\<lambda>hs. state_rank (hs_state hs)"
  for S :: "('pk, 'sk, 'sig) secp" and N :: noise_lib
  by unfold_locales (auto dest: hs_step_facts(1) hs_step_facts(5) state_rank_mono)

lemma new_wf: "hs_wf (new_initiator S N si ei rs)" "hs_wf (new_responder S N sr er)"
  by (simp_all add: hs_wf_def new_initiator_def new_responder_def split: prod.split)

section \<open>No method panics\<close>

lemma build_act_two_total:
  assumes "noise_lawful N" and "keys_lawful S" and "remote_ephemeral hs \<noteq> None"
  shows "\<exists>act hs'. build_act_two S N hs = Inr (act, hs') \<and> length act = ACT_TWO_SIZE"
proof -
  obtain re where re: "remote_ephemeral hs = Some re" using assms(3) by blast
  let ?e = "pk_serialize S (pk_of_sk S (local_ephemeral hs))"
  obtain ck k where k: "hkdf_two_keys N (hs_ck hs) (ecdh S (local_ephemeral hs) re) = Inr (ck, k)"
    using assms(1) by (rule hkdf_lawful)
  obtain c where "encrypt_with_ad N k 0 (sha256 N (hs_h hs @ ?e)) [] = Inr c" and "length c = 16"
    using encrypt_total [OF assms(1), of "[]" k 0 "sha256 N (hs_h hs @ ?e)"] by auto
  with re k show ?thesis
    by (simp add: build_act_two_def Let_def pk_laws [OF assms(2)] ACT_TWO_SIZE_def)
qed

lemma build_act_three_total:
  assumes "noise_lawful N" and "keys_lawful S" and "remote_ephemeral hs \<noteq> None"
    and "temp_k2 hs \<noteq> None"
  shows "\<exists>act hs'. build_act_three S N hs = Inr (act, hs') \<and> length act = ACT_THREE_SIZE"
proof -
  obtain re k2 where re: "remote_ephemeral hs = Some re" "temp_k2 hs = Some k2"
    using assms(3,4) by blast
  let ?s = "pk_serialize S (pk_of_sk S (local_static hs))"
  have s: "length ?s = 33" by (rule pk_laws [OF assms(2)])
  obtain c where c: "encrypt_with_ad N k2 1 (hs_h hs) ?s = Inr c" "length c = 49"
    using encrypt_total [OF assms(1), of ?s k2 1 "hs_h hs"] s by auto
  obtain ck k where k: "hkdf_two_keys N (hs_ck hs) (ecdh S (local_static hs) re) = Inr (ck, k)"
    using assms(1) by (rule hkdf_lawful)
  obtain t where "encrypt_with_ad N k 0 (sha256 N (hs_h hs @ c)) [] = Inr t" and "length t = 16"
    using encrypt_total [OF assms(1), of "[]" k 0 "sha256 N (hs_h hs @ c)"] by auto
  with re k c show ?thesis
    by (simp add: build_act_three_def Let_def ACT_THREE_SIZE_def)
qed

lemma get_act_one_total:
  assumes "noise_lawful N" and "keys_lawful S" and "hs_wf hs"
  shows "\<exists>res hs'. get_act_one S N hs = Inr (res, hs')"
proof (cases "hs_state hs = InitiatorStart")
  case True
  then obtain rs where rs: "remote_static hs = Some rs"
    using assms(3) by (auto simp: hs_wf_def split: role.splits)
  let ?e = "pk_serialize S (pk_of_sk S (local_ephemeral hs))"
  obtain ck k where k: "hkdf_two_keys N (hs_ck hs) (ecdh S (local_ephemeral hs) rs) = Inr (ck, k)"
    using assms(1) by (rule hkdf_lawful)
  obtain c where "encrypt_with_ad N k 0 (sha256 N (hs_h hs @ ?e)) [] = Inr c" and "length c = 16"
    using encrypt_total [OF assms(1), of "[]" k 0 "sha256 N (hs_h hs @ ?e)"] by auto
  with True rs k show ?thesis
    by (simp add: get_act_one_def Let_def pk_laws [OF assms(2)])
qed (simp add: get_act_one_def)

lemma process_act_one_total:
  assumes "noise_lawful N" and "keys_lawful S"
  shows "\<exists>res hs'. process_act_one S N hs act = Inr (res, hs')"
proof (cases "hs_state hs = ResponderStart \<and> act ! 0 = VERSION \<and>
    pk_from_slice S (take 33 (drop 1 act)) \<noteq> None")
  case True
  then obtain re where re: "pk_from_slice S (take 33 (drop 1 act)) = Some re" by blast
  obtain ck k where k: "hkdf_two_keys N (hs_ck hs) (ecdh S (local_static hs) re) = Inr (ck, k)"
    using assms(1) by (rule hkdf_lawful)
  have "\<exists>hs' a. build_act_two S N (x\<lparr>remote_ephemeral := Some re, hs_ck := ck, hs_h := h\<rparr>) =
      Inr (a, hs')" for x :: "('a, 'b) noise_handshake" and h
    using build_act_two_total [OF assms, of "x\<lparr>remote_ephemeral := Some re, hs_ck := ck, hs_h := h\<rparr>"]
    by auto
  with True re k show ?thesis
    by (auto simp: process_act_one_def Let_def mix_hash_def split: sum.split)
qed (auto simp: process_act_one_def Let_def split: option.split)

lemma process_act_two_total:
  assumes "noise_lawful N" and "keys_lawful S"
  shows "\<exists>res hs'. process_act_two S N hs act = Inr (res, hs')"
proof (cases "hs_state hs = InitiatorAwaitingActTwo \<and> act ! 0 = VERSION \<and>
    pk_from_slice S (take 33 (drop 1 act)) \<noteq> None")
  case True
  then obtain re where re: "pk_from_slice S (take 33 (drop 1 act)) = Some re" by blast
  obtain ck k where k: "hkdf_two_keys N (hs_ck hs) (ecdh S (local_ephemeral hs) re) = Inr (ck, k)"
    using assms(1) by (rule hkdf_lawful)
  have "\<exists>hs' a. build_act_three S N (x\<lparr>remote_ephemeral := Some re, hs_ck := ck,
      temp_k2 := Some k, hs_h := h\<rparr>) = Inr (a, hs')" for x :: "('a, 'b) noise_handshake" and h
    using build_act_three_total [OF assms, of "x\<lparr>remote_ephemeral := Some re, hs_ck := ck,
      temp_k2 := Some k, hs_h := h\<rparr>"] by auto
  with True re k show ?thesis
    by (auto simp: process_act_two_def Let_def mix_hash_def split: sum.split)
qed (auto simp: process_act_two_def Let_def split: option.split)

lemma process_act_three_total:
  assumes "noise_lawful N" and "hs_wf hs"
  shows "\<exists>res hs'. process_act_three S N hs act = Inr (res, hs')"
proof (cases "hs_state hs = ResponderAwaitingActThree")
  case True
  then obtain k2 where k2: "temp_k2 hs = Some k2"
    using assms(2) by (auto simp: hs_wf_def)
  show ?thesis
  proof (cases "decrypt_with_ad N k2 1 (hs_h hs) (take 49 (drop 1 act))")
    case (Inr bs)
    note dec = Inr
    show ?thesis
    proof (cases "pk_from_slice S bs")
      case (Some rs)
      obtain ck k where "hkdf_two_keys N (hs_ck hs) (ecdh S (local_ephemeral hs) rs) = Inr (ck, k)"
        using assms(1) by (rule hkdf_lawful)
      then show ?thesis using True k2 dec Some
        by (auto simp: process_act_three_def Let_def split: sum.split)
    qed (use True k2 dec in \<open>auto simp: process_act_three_def Let_def\<close>)
  qed (use True k2 in \<open>auto simp: process_act_three_def Let_def\<close>)
qed (simp add: process_act_three_def)

end
