(* ===== verification/Rotation.thy ===== *)
theory Rotation
  imports Cipher
begin

text \<open>
  The key schedule of the sending half (\<open>noise/src/cipher.rs\<close>): which key and which nonce the
  n-th use of a fresh cipher takes, and what that makes of a sequence of messages. The
  receiving half follows it by \<open>in_step\<close>.
\<close>

section \<open>The schedule\<close>

text \<open>Chaining key and key after \<open>n\<close> rotations.\<close>

fun epoch_keys :: "noise_lib \<Rightarrow> bytes \<Rightarrow> bytes \<Rightarrow> nat \<Rightarrow> panic + bytes \<times> bytes" where
  "epoch_keys N ck key 0 = Inr (ck, key)"
| "epoch_keys N ck key (Suc n) =
     and_then (epoch_keys N ck key n) (\<lambda>(ck, key). hkdf_two_keys N ck key)"

text \<open>A sequence of messages through \<open>SendCipher::encrypt\<close>, one after the other.\<close>

fun send_all :: "noise_lib \<Rightarrow> send_cipher \<Rightarrow> bytes list \<Rightarrow> panic + bytes list \<times> send_cipher" where
  "send_all N c [] = Inr ([], c)"
| "send_all N c (p # ps) =
     and_then (send_encrypt N c p) (\<lambda>(pkt, c).
     and_then (send_all N c ps) (\<lambda>(pkts, c). Inr (pkt # pkts, c)))"

text \<open>The state after \<open>n\<close> uses: the rotation due at a multiple of 1000 comes with the next use.\<close>

definition after_uses :: "noise_lib \<Rightarrow> bytes \<Rightarrow> bytes \<Rightarrow> nat \<Rightarrow> send_cipher \<Rightarrow> bool" where
  "after_uses N ck key n c \<longleftrightarrow>
     (if n = 0 then sc_ck c = ck \<and> sc_key c = key \<and> sc_nonce c = 0
      else epoch_keys N ck key ((n - 1) div 1000) = Inr (sc_ck c, sc_key c) \<and>
        sc_nonce c = word_of_nat ((n - 1) mod 1000 + 1))"

section \<open>One use\<close>

lemma epoch_total: "noise_lawful N \<Longrightarrow> \<exists>a b. epoch_keys N ck key n = Inr (a, b)"
proof (induction n)
  case (Suc n)
  then obtain a b where "epoch_keys N ck key n = Inr (a, b)" by blast
  with hkdf_total [OF Suc.prems, of a b] show ?case by simp
qed simp

lemma threshold_iff:
  assumes "k \<le> 1000"
  shows "KEY_ROTATION_THRESHOLD \<le> word_of_nat k \<longleftrightarrow> k = 1000"
proof -
  have "unat (word_of_nat k :: u64) = k" using assms by (intro unat_u64_of_nat) simp
  then show ?thesis using assms by (simp add: KEY_ROTATION_THRESHOLD_def word_le_nat_alt)
qed

lemma div_mod_pred_1000:
  fixes n :: nat
  assumes "n \<noteq> 0"
  shows "(n - 1) mod 1000 + 1 = 1000 \<Longrightarrow> n div 1000 = Suc ((n - 1) div 1000) \<and> n mod 1000 = 0"
    and "(n - 1) mod 1000 + 1 \<noteq> 1000 \<Longrightarrow>
      n div 1000 = (n - 1) div 1000 \<and> n mod 1000 = (n - 1) mod 1000 + 1"
proof -
  obtain m where m: "n = Suc m" using assms by (cases n) auto
  show "(n - 1) mod 1000 + 1 = 1000 \<Longrightarrow> n div 1000 = Suc ((n - 1) div 1000) \<and> n mod 1000 = 0"
    "(n - 1) mod 1000 + 1 \<noteq> 1000 \<Longrightarrow>
      n div 1000 = (n - 1) div 1000 \<and> n mod 1000 = (n - 1) mod 1000 + 1"
    by (simp_all add: m div_Suc mod_Suc)
qed

text \<open>The key and nonce of use \<open>n\<close>, counted from 0, and the state after it.\<close>

lemma use_schedule:
  assumes "noise_lawful N" and "after_uses N ck key n c"
  obtains c' where "send_maybe_rotate N c = Inr c'"
    and "epoch_keys N ck key (n div 1000) = Inr (sc_ck c', sc_key c')"
    and "sc_nonce c' = word_of_nat (n mod 1000)"
    and "after_uses N ck key (Suc n) (c'\<lparr>sc_nonce := sc_nonce c' + 1\<rparr>)"
proof -
  have next_use: "after_uses N ck key (Suc n) (c'\<lparr>sc_nonce := sc_nonce c' + 1\<rparr>)"
    if "epoch_keys N ck key (n div 1000) = Inr (sc_ck c', sc_key c')"
      "sc_nonce c' = word_of_nat (n mod 1000)" for c'
    using that by (simp add: after_uses_def add.commute)
  consider "n = 0" | "n \<noteq> 0" "(n - 1) mod 1000 + 1 = 1000"
    | "n \<noteq> 0" "(n - 1) mod 1000 + 1 \<noteq> 1000" by blast
  then show thesis
  proof cases
    case 1
    then have "send_maybe_rotate N c = Inr c" "epoch_keys N ck key (n div 1000) = Inr (sc_ck c, sc_key c)"
      "sc_nonce c = word_of_nat (n mod 1000)"
      using assms(2) by (simp_all add: after_uses_def send_maybe_rotate_def KEY_ROTATION_THRESHOLD_def)
    then show thesis using next_use that by blast
  next
    case 2
    then have n: "n div 1000 = Suc ((n - 1) div 1000)" "n mod 1000 = 0"
      using div_mod_pred_1000 by blast+
    have c: "epoch_keys N ck key ((n - 1) div 1000) = Inr (sc_ck c, sc_key c)"
      "KEY_ROTATION_THRESHOLD \<le> sc_nonce c"
      using assms(2) 2 threshold_iff [of 1000] by (simp_all add: after_uses_def)
    obtain a b where ab: "hkdf_two_keys N (sc_ck c) (sc_key c) = Inr (a, b)"
      using hkdf_total [OF assms(1)] by blast
    let ?c = "c\<lparr>sc_ck := a, sc_key := b, sc_nonce := 0\<rparr>"
    have "send_maybe_rotate N c = Inr ?c" by (simp add: send_maybe_rotate_def c ab)
    moreover have "epoch_keys N ck key (n div 1000) = Inr (sc_ck ?c, sc_key ?c)"
      by (simp only: n(1) epoch_keys.simps c(1) and_then_simps prod.case) (simp add: ab)
    moreover have "sc_nonce ?c = word_of_nat (n mod 1000)" by (simp add: n)
    ultimately show thesis using next_use that by blast
  next
    case 3
    then have n: "n div 1000 = (n - 1) div 1000" "n mod 1000 = (n - 1) mod 1000 + 1"
      using div_mod_pred_1000 by blast+
    have "(n - 1) mod 1000 + 1 \<le> 1000" by (simp add: Suc_le_eq)
    then have "\<not> KEY_ROTATION_THRESHOLD \<le> sc_nonce c"
      using assms(2) 3 threshold_iff [of "(n - 1) mod 1000 + 1"] by (simp add: after_uses_def)
    then have "send_maybe_rotate N c = Inr c" by (simp add: send_maybe_rotate_def)
    moreover have "epoch_keys N ck key (n div 1000) = Inr (sc_ck c, sc_key c)"
      "sc_nonce c = word_of_nat (n mod 1000)"
      using assms(2) 3 n by (simp_all add: after_uses_def)
    ultimately show thesis using next_use that by blast
  qed
qed

section \<open>One message\<close>

text \<open>The packet of message \<open>m\<close>: header and body under one key, with consecutive nonces.\<close>

definition scheduled_packet ::
    "noise_lib \<Rightarrow> bytes \<Rightarrow> bytes \<Rightarrow> nat \<Rightarrow> bytes \<Rightarrow> panic + bytes" where
  "scheduled_packet N ck key m p =
     and_then (epoch_keys N ck key (m div 500)) (\<lambda>(_, k).
     and_then (encrypt_with_ad N k (word_of_nat (2 * m mod 1000)) []
       (to_be_bytes (word_of_nat (length p) :: u16))) (\<lambda>hdr.
     and_then (encrypt_with_ad N k (word_of_nat (2 * m mod 1000 + 1)) [] p) (\<lambda>body.
     Inr (hdr @ body))))"

lemma even_use:
  fixes m :: nat
  shows "2 * m div 1000 = m div 500" and "Suc (2 * m) div 1000 = m div 500"
    and "Suc (2 * m) mod 1000 = 2 * m mod 1000 + 1"
proof -
  show "2 * m div 1000 = m div 500" using div_mult_mult1 [of 2 m 500] by simp
  have "2 * m mod 1000 = 2 * (m mod 500)" using mult_mod_right [of 2 m 500] by simp
  moreover have "Suc (2 * x) \<noteq> 1000" for x :: nat by presburger
  ultimately have "Suc (2 * m mod 1000) \<noteq> 1000" by simp
  then show "Suc (2 * m) div 1000 = m div 500" "Suc (2 * m) mod 1000 = 2 * m mod 1000 + 1"
    using div_mult_mult1 [of 2 m 500] by (simp_all add: div_Suc mod_Suc)
qed

lemma send_encrypt_schedule:
  assumes "noise_lawful N" and "after_uses N ck key (2 * m) c" and "length p \<le> 65535"
  obtains pkt c' where "send_encrypt N c p = Inr (pkt, c')"
    and "scheduled_packet N ck key m p = Inr pkt" and "after_uses N ck key (2 * Suc m) c'"
proof -
  obtain c1 where c1: "send_maybe_rotate N c = Inr c1"
    "epoch_keys N ck key (m div 500) = Inr (sc_ck c1, sc_key c1)"
    "sc_nonce c1 = word_of_nat (2 * m mod 1000)"
    "after_uses N ck key (Suc (2 * m)) (c1\<lparr>sc_nonce := sc_nonce c1 + 1\<rparr>)"
    using use_schedule [OF assms(1,2)] unfolding even_use .
  obtain c2 where c2: "send_maybe_rotate N (c1\<lparr>sc_nonce := sc_nonce c1 + 1\<rparr>) = Inr c2"
    "epoch_keys N ck key (m div 500) = Inr (sc_ck c2, sc_key c2)"
    "sc_nonce c2 = word_of_nat (2 * m mod 1000 + 1)"
    "after_uses N ck key (Suc (Suc (2 * m))) (c2\<lparr>sc_nonce := sc_nonce c2 + 1\<rparr>)"
    using use_schedule [OF assms(1) c1(4)] unfolding even_use .
  have same: "sc_key c2 = sc_key c1" using c1(2) c2(2) by simp
  obtain hdr where hdr: "encrypt_with_ad N (sc_key c1) (sc_nonce c1) []
      (to_be_bytes (word_of_nat (length p) :: u16)) = Inr hdr"
    using encrypt_total [OF assms(1), of "to_be_bytes (word_of_nat (length p) :: u16)" "sc_key c1"
        "sc_nonce c1" "[]"] by auto
  obtain body where body: "encrypt_with_ad N (sc_key c2) (sc_nonce c2) [] p = Inr body"
    using encrypt_total [OF assms(1,3)] by blast
  show thesis
  proof (rule that [of "hdr @ body" "c2\<lparr>sc_nonce := sc_nonce c2 + 1\<rparr>"])
    show "send_encrypt N c p = Inr (hdr @ body, c2\<lparr>sc_nonce := sc_nonce c2 + 1\<rparr>)"
      using assms(3) by (simp add: send_encrypt_def send_encrypt_length_def c1(1) hdr c2(1) body)
    show "scheduled_packet N ck key m p = Inr (hdr @ body)"
      using hdr body same by (simp add: scheduled_packet_def c1(2,3) c2(3) del: of_nat_add)
    show "after_uses N ck key (2 * Suc m) (c2\<lparr>sc_nonce := sc_nonce c2 + 1\<rparr>)"
      using c2(4) by simp
  qed
qed

lemma send_all_schedule:
  assumes "noise_lawful N"
  shows "after_uses N ck key (2 * m) c \<Longrightarrow> \<forall>p \<in> set ps. length p \<le> 65535 \<Longrightarrow>
    \<exists>pkts c'. send_all N c ps = Inr (pkts, c') \<and> length pkts = length ps \<and>
      after_uses N ck key (2 * (m + length ps)) c' \<and>
      (\<forall>i < length ps. scheduled_packet N ck key (m + i) (ps ! i) = Inr (pkts ! i))"
proof (induction ps arbitrary: m c)
  case Nil
  then show ?case by simp
next
  case (Cons p ps)
  obtain pkt c1 where one: "send_encrypt N c p = Inr (pkt, c1)"
    "scheduled_packet N ck key m p = Inr pkt" "after_uses N ck key (2 * Suc m) c1"
    using send_encrypt_schedule [OF assms Cons.prems(1)] Cons.prems(2) by auto
  obtain pkts c' where rest: "send_all N c1 ps = Inr (pkts, c')" "length pkts = length ps"
    "after_uses N ck key (2 * (Suc m + length ps)) c'"
    "\<forall>i < length ps. scheduled_packet N ck key (Suc m + i) (ps ! i) = Inr (pkts ! i)"
    using Cons.IH [OF one(3)] Cons.prems(2) by auto
  have "scheduled_packet N ck key (m + i) ((p # ps) ! i) = Inr ((pkt # pkts) ! i)"
    if "i < length (p # ps)" for i
    using that one(2) rest(4) by (cases i) auto
  with one rest show ?case by (intro exI [of _ "pkt # pkts"] exI [of _ c']) auto
qed

text \<open>Nonces stay at most 1000, so the increment never wraps.\<close>

lemma after_uses_nonce: "after_uses N ck key n c \<Longrightarrow> sc_nonce c \<le> KEY_ROTATION_THRESHOLD"
proof -
  assume a: "after_uses N ck key n c"
  have "(n - 1) mod 1000 + 1 \<le> 1000" by (simp add: Suc_le_eq)
  then have "unat (word_of_nat ((n - 1) mod 1000 + 1) :: u64) \<le> 1000"
    by (subst unat_u64_of_nat) simp_all
  with a show ?thesis
    by (auto simp: after_uses_def KEY_ROTATION_THRESHOLD_def word_le_nat_alt split: if_splits)
qed

lemma fresh_after_uses: "sc_nonce c = 0 \<Longrightarrow> after_uses N (sc_ck c) (sc_key c) 0 c"
  by (simp add: after_uses_def)

section \<open>A failed decryption\<close>

text \<open>
  What fails to decrypt uses no nonce: at most it brings a rotation forward that the next
  packet would do, so the next packet is read as if nothing had come before it.
\<close>

lemma recv_rotate_idem:
  "recv_maybe_rotate N c = Inr c' \<Longrightarrow> recv_maybe_rotate N c' = Inr c'"
  by (auto simp: recv_maybe_rotate_def KEY_ROTATION_THRESHOLD_def split: if_splits)

lemma decrypt_error: "decrypt_with_ad N k n ad c = Inl e \<Longrightarrow> e = DecryptionFailed"
  by (auto simp: decrypt_with_ad_def ok_or_def split: option.splits)

lemma recv_decrypt_failed:
  "recv_decrypt_length N c junk = Inr (Inl e, c') \<Longrightarrow>
     recv_maybe_rotate N c = Inr c' \<and> e = DecryptionFailed"
  "recv_decrypt_message N c junk = Inr (Inl e, c') \<Longrightarrow>
     recv_maybe_rotate N c = Inr c' \<and> e = DecryptionFailed"
proof -
  have fail: "recv_maybe_rotate N c = Inr c' \<and> e = DecryptionFailed"
    if "and_then (recv_maybe_rotate N c) (\<lambda>c.
      case decrypt_with_ad N (rc_key c) (rc_nonce c) [] junk of
        Inl e \<Rightarrow> Inr (Inl e, c) | Inr p \<Rightarrow> f c p) = Inr (Inl e, c')"
    and "\<And>c p c'. f c p \<noteq> Inr (Inl e, c')" for f
  proof -
    from that(1) obtain d where "recv_maybe_rotate N c = Inr d" by auto
    with that show ?thesis
      by (cases "decrypt_with_ad N (rc_key d) (rc_nonce d) [] junk") (auto dest: decrypt_error)
  qed
  show "recv_decrypt_length N c junk = Inr (Inl e, c') \<Longrightarrow>
      recv_maybe_rotate N c = Inr c' \<and> e = DecryptionFailed"
    unfolding recv_decrypt_length_def by (erule fail) auto
  show "recv_decrypt_message N c junk = Inr (Inl e, c') \<Longrightarrow>
      recv_maybe_rotate N c = Inr c' \<and> e = DecryptionFailed"
    unfolding recv_decrypt_message_def by (erule fail) auto
qed

lemma recv_after_failure:
  assumes "recv_maybe_rotate N c = Inr c'"
  shows "recv_decrypt_length N c' pkt = recv_decrypt_length N c pkt"
    and "recv_decrypt_message N c' pkt = recv_decrypt_message N c pkt"
  using assms recv_rotate_idem [OF assms]
  by (simp_all add: recv_decrypt_length_def recv_decrypt_message_def)

text \<open>The receiving half never panics under the laws: a header that decrypts has two bytes.\<close>

lemma recv_rotate_total: "noise_lawful N \<Longrightarrow> \<exists>c'. recv_maybe_rotate N c = Inr c'"
  using hkdf_total [of N "rc_ck c" "rc_key c"] by (auto simp: recv_maybe_rotate_def)

lemma recv_decrypt_length_total:
  assumes "noise_lawful N" and "length hdr = ENCRYPTED_LENGTH_SIZE"
  shows "\<exists>res c'. recv_decrypt_length N c hdr = Inr (res, c')"
proof -
  obtain d where d: "recv_maybe_rotate N c = Inr d" using recv_rotate_total [OF assms(1)] by blast
  show ?thesis
  proof (cases "decrypt_with_ad N (rc_key d) (rc_nonce d) [] hdr")
    case (Inr p)
    then have "length p = Suc (Suc 0)"
      using decrypt_length [OF assms(1) Inr] assms(2)
      by (simp add: ENCRYPTED_LENGTH_SIZE_def MAC_SIZE_def)
    then obtain a b where "p = [a, b]" by (auto simp only: length_Suc_conv length_0_conv)
    with d Inr show ?thesis by (simp add: recv_decrypt_length_def u16_of_first_two_def)
  qed (simp add: recv_decrypt_length_def d)
qed

lemma recv_decrypt_message_total:
  "noise_lawful N \<Longrightarrow> \<exists>res c'. recv_decrypt_message N c body = Inr (res, c')"
proof -
  assume "noise_lawful N"
  then obtain d where "recv_maybe_rotate N c = Inr d" using recv_rotate_total by blast
  then show ?thesis by (simp add: recv_decrypt_message_def split: sum.split)
qed

end
