(* ===== verification/Conn.thy ===== *)
theory Conn
  imports Message Handshake Rotation
begin

text \<open>
  The connection of \<open>ln-gossip-sim/src/conn.rs\<close>: the writing half, the reading half, the
  receive loop that answers pings, and \<open>connect\<close> with its \<open>Init\<close> exchange. The halves of a TCP
  stream are modelled by what their operations return: the bytes written so far and how many
  more are accepted, the bytes still to arrive and the error that ends them.
\<close>

section \<open>The stream\<close>

record write_half =
  tx :: bytes
  tx_room :: "nat option"
  tx_err :: string

record read_half =
  rx :: bytes
  rx_err :: string

definition write_all :: "write_half \<Rightarrow> bytes \<Rightarrow> (string + unit) \<times> write_half" where
  "write_all w bs =
     (case tx_room w of
        None \<Rightarrow> (Inr (), w\<lparr>tx := tx w @ bs\<rparr>)
      | Some n \<Rightarrow>
          if length bs \<le> n
          then (Inr (), w\<lparr>tx := tx w @ bs, tx_room := Some (n - length bs)\<rparr>)
          else (Inl (tx_err w), w\<lparr>tx := tx w @ take n bs, tx_room := Some 0\<rparr>))"

definition read_exact :: "read_half \<Rightarrow> nat \<Rightarrow> (string + bytes) \<times> read_half" where
  "read_exact r n =
     (if n \<le> length (rx r) then (Inr (take n (rx r)), r\<lparr>rx := drop n (rx r)\<rparr>)
      else (Inl (rx_err r), r\<lparr>rx := []\<rparr>))"

section \<open>NoiseWriter and NoiseReader\<close>

record noise_writer =
  nw_stream :: write_half
  nw_cipher :: send_cipher

record noise_reader =
  nr_stream :: read_half
  nr_cipher :: recv_cipher

lemma noise_reader_eta [simp]: "\<lparr>nr_stream = nr_stream r, nr_cipher = nr_cipher r\<rparr> = r"
  by simp

definition too_large :: "nat \<Rightarrow> string" where
  "too_large n = ''message too large: '' @ string_of_nat n @ '' bytes (max '' @
     string_of_nat NOISE_MAX_MESSAGE_SIZE @ '')''"

definition writer_send ::
    "noise_lib \<Rightarrow> noise_writer \<Rightarrow> bytes \<Rightarrow> (noise_error, unit, noise_writer) outcome" where
  "writer_send N w msg =
     (if length msg > NOISE_MAX_MESSAGE_SIZE then Inr (Inl (Io (too_large (length msg))), w)
      else
        and_then (send_encrypt N (nw_cipher w) msg) (\<lambda>(encrypted, c).
        let (res, stream) = write_all (nw_stream w) encrypted in
        Inr (map_err Io res, \<lparr>nw_stream = stream, nw_cipher = c\<rparr>)))"

definition reader_recv ::
    "noise_lib \<Rightarrow> noise_reader \<Rightarrow> (noise_error, bytes, noise_reader) outcome" where
  "reader_recv N r =
     (case read_exact (nr_stream r) ENCRYPTED_LENGTH_SIZE of
        (Inl e, stream) \<Rightarrow> Inr (Inl (Io e), r\<lparr>nr_stream := stream\<rparr>)
      | (Inr len_header, stream) \<Rightarrow>
          and_then (recv_decrypt_length N (nr_cipher r) len_header) (\<lambda>(res, c).
          case res of
            Inl e \<Rightarrow> Inr (Inl e, \<lparr>nr_stream = stream, nr_cipher = c\<rparr>)
          | Inr msg_len \<Rightarrow>
              (case read_exact stream (unat msg_len + MAC_SIZE) of
                 (Inl e, stream) \<Rightarrow> Inr (Inl (Io e), \<lparr>nr_stream = stream, nr_cipher = c\<rparr>)
               | (Inr body, stream) \<Rightarrow>
                   and_then (recv_decrypt_message N c body) (\<lambda>(res, c).
                   Inr (res, \<lparr>nr_stream = stream, nr_cipher = c\<rparr>)))))"

lemma read_exact_shrinks:
  "read_exact r n = (Inr bs, r') \<Longrightarrow> length (rx r) = n + length (rx r')"
  by (auto simp: read_exact_def split: if_splits)

lemma reader_recv_consumes:
  assumes "reader_recv N r = Inr (Inr raw, r')"
  shows "length (rx (nr_stream r')) < length (rx (nr_stream r))"
proof -
  obtain hdr st where 1: "read_exact (nr_stream r) ENCRYPTED_LENGTH_SIZE = (Inr hdr, st)"
    using assms by (cases "read_exact (nr_stream r) ENCRYPTED_LENGTH_SIZE"; cases "fst (read_exact (nr_stream r) ENCRYPTED_LENGTH_SIZE)")
      (auto simp: reader_recv_def)
  obtain res c where res: "recv_decrypt_length N (nr_cipher r) hdr = Inr (res, c)"
    using assms by (auto simp: reader_recv_def 1)
  then obtain len where 2: "recv_decrypt_length N (nr_cipher r) hdr = Inr (Inr len, c)"
    using assms by (cases res) (auto simp: reader_recv_def 1)
  obtain body st' where "read_exact st (unat len + MAC_SIZE) = (Inr body, st')"
    and "nr_stream r' = st'"
    using assms by (auto simp: reader_recv_def 1 2 split: sum.splits prod.splits)
  with 1 show ?thesis
    using read_exact_shrinks [of "nr_stream r"] read_exact_shrinks [of st]
    by (auto simp: ENCRYPTED_LENGTH_SIZE_def)
qed

text \<open>The receive loop: it ends because every message read takes at least a header off the stream.\<close>

function recv_message ::
    "('pk, 'sk, 'sig) secp \<Rightarrow> noise_lib \<Rightarrow> noise_reader \<Rightarrow> noise_writer \<Rightarrow>
     (noise_error, ('pk, 'sig) message, noise_reader \<times> noise_writer) outcome" where
  "recv_message S N r w =
     and_then (reader_recv N r) (\<lambda>(res, r'). case res of
       Inl e \<Rightarrow> Inr (Inl e, (r', w))
     | Inr raw \<Rightarrow>
         if length raw < 2 then Inr (Inl (Io ''message too short''), (r', w))
         else (case decode_message S raw of
           Inr (Ping ping) \<Rightarrow>
             and_then (encode_message S (Pong (pong_respond_to ping))) (\<lambda>resp.
             and_then (writer_send N w resp) (\<lambda>(res, w'). case res of
               Inl e \<Rightarrow> Inr (Inl e, (r', w'))
             | Inr _ \<Rightarrow> recv_message S N r' w'))
         | Inr (Pong _) \<Rightarrow> recv_message S N r' w
         | Inr (Warning _) \<Rightarrow> recv_message S N r' w
         | Inr msg \<Rightarrow> Inr (Inr msg, (r', w))
         | Inl _ \<Rightarrow>
             and_then (u16_of_first_two raw) (\<lambda>mt.
             Inr (Inr (Unknown mt (drop 2 raw)), (r', w)))))"
  by pat_completeness auto
termination
  by (relation "measure (\<lambda>(S, N, r, w). length (rx (nr_stream r)))")
    (auto dest: reader_recv_consumes)

declare recv_message.simps [simp del]

section \<open>connect\<close>

text \<open>
  The initiator's side up to the transport cipher: what is written, what is read, in order.
  The state threaded through is the stream, both halves of it.
\<close>

definition io_write ::
    "write_half \<times> read_half \<Rightarrow> bytes \<Rightarrow> (noise_error, unit, write_half \<times> read_half) outcome" where
  "io_write stream bs =
     (case write_all (fst stream) bs of (res, w) \<Rightarrow> Inr (map_err Io res, (w, snd stream)))"

definition io_read ::
    "write_half \<times> read_half \<Rightarrow> nat \<Rightarrow> (noise_error, bytes, write_half \<times> read_half) outcome" where
  "io_read stream n =
     (case read_exact (snd stream) n of (res, r) \<Rightarrow> Inr (map_err Io res, (fst stream, r)))"

text \<open>A call on a value beside the stream, with the stream it leaves alone.\<close>

definition beside :: "(panic + ('e + 'a)) \<Rightarrow> 's \<Rightarrow> ('e, 'a, 's) outcome" where
  "beside m s = and_then m (\<lambda>res. Inr (res, s))"

definition noise_as_initiator ::
    "('pk, 'sk, 'sig) secp \<Rightarrow> noise_lib \<Rightarrow> ('pk, 'sk) noise_handshake \<Rightarrow> write_half \<times> read_half \<Rightarrow>
     (noise_error, noise_cipher, write_half \<times> read_half) outcome" where
  "noise_as_initiator S N handshake stream =
     and_then (get_act_one S N handshake) (\<lambda>(res, handshake).
     try_then (Inr (res, stream)) (\<lambda>act_one stream.
     try_then (io_write stream act_one) (\<lambda>_ stream.
     try_then (io_read stream ACT_TWO_SIZE) (\<lambda>act_two stream.
     and_then (process_act_two S N handshake act_two) (\<lambda>(res, handshake).
     try_then (Inr (res, stream)) (\<lambda>act_three stream.
     try_then (io_write stream act_three) (\<lambda>_ stream.
     beside (into_cipher N handshake) stream)))))))"

definition init_of_message ::
    "hex_lib \<Rightarrow> bolt_error + ('pk, 'sig) message \<Rightarrow> noise_error + init_msg" where
  "init_of_message H res =
     (case res of
        Inr (Init m) \<Rightarrow> Inr m
      | Inr other \<Rightarrow> Inl (Io (''expected Init (16), got msg type '' @
          string_of_nat (unat (msg_type other))))
      | Inl e \<Rightarrow> Inl (Io (''failed to decode Init: '' @ bolt_error_str H e)))"

text \<open>
  \<open>tcp\<close> is the outcome of \<open>TcpStream::connect\<close> and \<open>ephemeral\<close> the random secret key. On an
  error the stream is dropped; the model returns it with what was written and read.
\<close>

definition connect ::
    "('pk, 'sk, 'sig) secp \<Rightarrow> noise_lib \<Rightarrow> hex_lib \<Rightarrow> 'sk \<Rightarrow>
     string + write_half \<times> read_half \<Rightarrow> 'pk \<Rightarrow> 'sk \<Rightarrow>
     (noise_error, noise_writer \<times> noise_reader \<times> 'pk, (write_half \<times> read_half) option) outcome" where
  "connect S N H ephemeral tcp their_node_id our_static =
     (case tcp of
        Inl e \<Rightarrow> Inr (Inl (Io e), None)
      | Inr stream \<Rightarrow>
          and_then (noise_as_initiator S N (new_initiator S N our_static ephemeral their_node_id)
            stream) (\<lambda>(res, stream). case res of
            Inl e \<Rightarrow> Inr (Inl e, Some stream)
          | Inr cipher \<Rightarrow>
              let (sc, rc) = cipher_split cipher;
                  writer = \<lparr>nw_stream = fst stream, nw_cipher = sc\<rparr>;
                  reader = \<lparr>nr_stream = snd stream, nr_cipher = rc\<rparr>
              in and_then (reader_recv N reader) (\<lambda>(res, reader).
                 let halves = \<lambda>w r. Some (nw_stream w, nr_stream r) in
                 try_then (Inr (res, halves writer reader)) (\<lambda>init_resp s.
                 try_then (Inr (init_of_message H (decode_message S init_resp), s))
                   (\<lambda>received_init s.
                 and_then (encode_message S (Init (init_echo received_init)))
                   (\<lambda>reply.
                 and_then (writer_send N writer reply) (\<lambda>(res, writer).
                 try_then (Inr (res, halves writer reader)) (\<lambda>_ s.
                 Inr (Inr (writer, reader, their_node_id), s)))))))))"

section \<open>Sending and receiving one message\<close>

lemma write_all_room [simp]: "tx_room w = None \<Longrightarrow> write_all w bs = (Inr (), w\<lparr>tx := tx w @ bs\<rparr>)"
  by (simp add: write_all_def)

lemma read_exact_append [simp]:
  "rx r = bs @ rest \<Longrightarrow> length bs = n \<Longrightarrow> read_exact r n = (Inr bs, r\<lparr>rx := rest\<rparr>)"
  by (simp add: read_exact_def)

lemma writer_send_ok:
  assumes "length p \<le> 65535" and "tx_room (nw_stream w) = None"
    and "send_encrypt N (nw_cipher w) p = Inr (pkt, c)"
  shows "writer_send N w p = Inr (Inr (),
    \<lparr>nw_stream = (nw_stream w)\<lparr>tx := tx (nw_stream w) @ pkt\<rparr>, nw_cipher = c\<rparr>)"
  using assms by (simp add: writer_send_def NOISE_MAX_MESSAGE_SIZE_def)

lemma reader_recv_packet:
  assumes "noise_lawful N" and "in_step s c" and "length p \<le> 65535"
  obtains pkt s' c' where "send_encrypt N s p = Inr (pkt, s')" and "in_step s' c'"
    and "length pkt = length p + 34"
    and "\<forall>st rest. rx st = pkt @ rest \<longrightarrow> reader_recv N \<lparr>nr_stream = st, nr_cipher = c\<rparr> =
      Inr (Inr p, \<lparr>nr_stream = st\<lparr>rx := rest\<rparr>, nr_cipher = c'\<rparr>)"
proof -
  obtain pkt s' c1 c2 where pkt: "send_encrypt N s p = Inr (pkt, s')" "length pkt = length p + 34"
    "recv_decrypt_length N c (take 18 pkt) = Inr (Inr (word_of_nat (length p)), c1)"
    "recv_decrypt_message N c1 (drop 18 pkt) = Inr (Inr p, c2)" "in_step s' c2"
    using assms by (rule split_channel.seal_open_packet)
  have len: "unat (word_of_nat (length p) :: u16) = length p"
    using assms(3) by (simp add: unsigned_of_nat take_bit_nat_eq_self)
  have "reader_recv N \<lparr>nr_stream = st, nr_cipher = c\<rparr> =
      Inr (Inr p, \<lparr>nr_stream = st\<lparr>rx := rest\<rparr>, nr_cipher = c2\<rparr>)"
    if "rx st = pkt @ rest" for st rest
  proof -
    have rx: "rx st = take 18 pkt @ drop 18 pkt @ rest"
      unfolding that by (simp add: append_assoc [symmetric] del: append_assoc)
    have "read_exact st 18 = (Inr (take 18 pkt), st\<lparr>rx := drop 18 pkt @ rest\<rparr>)"
      using rx pkt(2) by (intro read_exact_append) simp_all
    moreover have "read_exact (st\<lparr>rx := drop 18 pkt @ rest\<rparr>) (length p + 16) =
        (Inr (drop 18 pkt), st\<lparr>rx := rest\<rparr>)"
      using pkt(2) by (subst read_exact_append [of _ "drop 18 pkt" rest]) simp_all
    ultimately show ?thesis
      by (simp add: reader_recv_def ENCRYPTED_LENGTH_SIZE_def MAC_SIZE_def pkt(3,4) len)
  qed
  then have "\<forall>st rest. rx st = pkt @ rest \<longrightarrow> reader_recv N \<lparr>nr_stream = st, nr_cipher = c\<rparr> =
      Inr (Inr p, \<lparr>nr_stream = st\<lparr>rx := rest\<rparr>, nr_cipher = c2\<rparr>)" by (intro allI impI)
  with pkt(1,5,2) show thesis by (rule that)
qed

text \<open>A stream that ends inside a packet gives its error, never a part of the message.\<close>

lemma reader_recv_truncated:
  assumes "noise_lawful N" and "in_step s c" and "length p \<le> 65535"
    and "send_encrypt N s p = Inr (pkt, s')" and "rx st = take k pkt" and "k < length pkt"
  shows "\<exists>r'. reader_recv N \<lparr>nr_stream = st, nr_cipher = c\<rparr> = Inr (Inl (Io (rx_err st)), r')"
proof -
  obtain pkt' s'' c1 c2 where "send_encrypt N s p = Inr (pkt', s'')" and len: "length pkt' = length p + 34"
    and hdr: "recv_decrypt_length N c (take 18 pkt') = Inr (Inr (word_of_nat (length p)), c1)"
    and "recv_decrypt_message N c1 (drop 18 pkt') = Inr (Inr p, c2)" and "in_step s'' c2"
    using assms(1-3) by (rule split_channel.seal_open_packet)
  then have pkt: "pkt' = pkt" using assms(4) by simp
  show ?thesis
  proof (cases "k < 18")
    case True
    then have "read_exact st 18 = (Inl (rx_err st), st\<lparr>rx := []\<rparr>)"
      by (simp add: read_exact_def assms(5))
    then show ?thesis by (simp add: reader_recv_def ENCRYPTED_LENGTH_SIZE_def MAC_SIZE_def)
  next
    case False
    have body: "unat (word_of_nat (length p) :: u16) = length p"
      using assms(3) by (simp add: unsigned_of_nat take_bit_nat_eq_self)
    have "read_exact st 18 = (Inr (take 18 pkt), st\<lparr>rx := drop 18 (take k pkt)\<rparr>)"
      using False len pkt by (simp add: read_exact_def assms(5) min_def)
    moreover have "read_exact (st\<lparr>rx := drop 18 (take k pkt)\<rparr>) (length p + 16) =
        (Inl (rx_err st), st\<lparr>rx := []\<rparr>)"
      using False assms(6) len pkt by (simp add: read_exact_def)
    ultimately show ?thesis
      using hdr pkt by (simp add: reader_recv_def ENCRYPTED_LENGTH_SIZE_def MAC_SIZE_def body)
  qed
qed

section \<open>Many messages\<close>

fun writer_send_all ::
    "noise_lib \<Rightarrow> noise_writer \<Rightarrow> bytes list \<Rightarrow> (noise_error, unit, noise_writer) outcome" where
  "writer_send_all N w [] = Inr (Inr (), w)"
| "writer_send_all N w (p # ps) = try_then (writer_send N w p) (\<lambda>_ w. writer_send_all N w ps)"

fun reader_recv_n ::
    "noise_lib \<Rightarrow> noise_reader \<Rightarrow> nat \<Rightarrow> (noise_error, bytes list, noise_reader) outcome" where
  "reader_recv_n N r 0 = Inr (Inr [], r)"
| "reader_recv_n N r (Suc n) =
     try_then (reader_recv N r) (\<lambda>p r.
     try_then (reader_recv_n N r n) (\<lambda>ps r. Inr (Inr (p # ps), r)))"

lemma writer_send_all_ok:
  assumes "send_all N (nw_cipher w) ps = Inr (pkts, c)" and "tx_room (nw_stream w) = None"
    and "\<forall>p \<in> set ps. length p \<le> 65535"
  shows "writer_send_all N w ps = Inr (Inr (),
    \<lparr>nw_stream = (nw_stream w)\<lparr>tx := tx (nw_stream w) @ concat pkts\<rparr>, nw_cipher = c\<rparr>)"
  using assms
proof (induction ps arbitrary: w pkts)
  case Nil
  then show ?case by simp
next
  case (Cons p ps)
  from Cons.prems(1) obtain pkt c1 rest where
    1: "send_encrypt N (nw_cipher w) p = Inr (pkt, c1)" "send_all N c1 ps = Inr (rest, c)"
      "pkts = pkt # rest"
    by auto
  let ?w = "\<lparr>nw_stream = (nw_stream w)\<lparr>tx := tx (nw_stream w) @ pkt\<rparr>, nw_cipher = c1\<rparr>"
  have "writer_send N w p = Inr (Inr (), ?w)"
    using Cons.prems 1 by (intro writer_send_ok) simp_all
  with Cons.IH [of ?w rest] Cons.prems 1 show ?case by simp
qed

lemma in_step_transfer:
  assumes "noise_lawful N"
  shows "in_step s c \<Longrightarrow> \<forall>p \<in> set ps. length p \<le> 65535 \<Longrightarrow>
    \<exists>pkts s' c'. send_all N s ps = Inr (pkts, s') \<and> in_step s' c' \<and>
      (\<forall>st rest. rx st = concat pkts @ rest \<longrightarrow>
        reader_recv_n N \<lparr>nr_stream = st, nr_cipher = c\<rparr> (length ps) =
          Inr (Inr ps, \<lparr>nr_stream = st\<lparr>rx := rest\<rparr>, nr_cipher = c'\<rparr>))"
proof (induction ps arbitrary: s c)
  case Nil
  then show ?case by auto
next
  case (Cons p ps)
  have p: "length p \<le> 65535" and ps: "\<forall>p \<in> set ps. length p \<le> 65535"
    using Cons.prems(2) by simp_all
  obtain pkt s1 c1 where one: "send_encrypt N s p = Inr (pkt, s1)" "in_step s1 c1"
    and "length pkt = length p + 34" and recv_one: "\<forall>st rest. rx st = pkt @ rest \<longrightarrow> reader_recv N \<lparr>nr_stream = st, nr_cipher = c\<rparr> =
      Inr (Inr p, \<lparr>nr_stream = st\<lparr>rx := rest\<rparr>, nr_cipher = c1\<rparr>)"
    by (rule reader_recv_packet [OF assms Cons.prems(1) p])
  from Cons.IH [OF one(2) ps] obtain pkts s' c' where
    rest: "send_all N s1 ps = Inr (pkts, s') \<and> in_step s' c' \<and>
      (\<forall>st rest. rx st = concat pkts @ rest \<longrightarrow>
        reader_recv_n N \<lparr>nr_stream = st, nr_cipher = c1\<rparr> (length ps) =
          Inr (Inr ps, \<lparr>nr_stream = st\<lparr>rx := rest\<rparr>, nr_cipher = c'\<rparr>))"
    by (elim exE)
  have "send_all N s (p # ps) = Inr (pkt # pkts, s')" by (simp add: one(1) rest)
  moreover have "reader_recv_n N \<lparr>nr_stream = st, nr_cipher = c\<rparr> (length (p # ps)) =
      Inr (Inr (p # ps), \<lparr>nr_stream = st\<lparr>rx := tail\<rparr>, nr_cipher = c'\<rparr>)"
    if "rx st = concat (pkt # pkts) @ tail" for st tail
    using that recv_one [rule_format, of st "concat pkts @ tail"] rest by simp
  ultimately show ?case using rest by (intro exI [of _ "pkt # pkts"] exI [of _ s'] exI [of _ c']) simp
qed

section \<open>The receive loop\<close>

definition pong_bytes :: "ping_msg \<Rightarrow> bytes" where
  "pong_bytes p = write_u16 PONG @ encode_pong (pong_respond_to p)"

lemma encode_pong_message: "encode_message S (Pong (pong_respond_to p)) = Inr (pong_bytes p)"
  by (simp add: encode_message_def encode_body_def msg_type_def pong_bytes_def)

lemma length_pong_bytes: "length (pong_bytes p) \<le> 65535"
proof -
  have "min (num_pong_bytes p) 65531 \<le> 65531" by simp
  then have "unat (min (num_pong_bytes p) 65531) \<le> unat (65531 :: u16)"
    by (simp only: word_le_nat_alt)
  then show ?thesis
    by (simp add: pong_bytes_def encode_pong_def pong_respond_to_def pong_new_def width_simps)
qed

text \<open>What the loop consumes, and the pongs it owes.\<close>

definition keepalive :: "('pk, 'sig) message \<Rightarrow> bool" where
  "keepalive m = (case m of Ping _ \<Rightarrow> True | Pong _ \<Rightarrow> True | Warning _ \<Rightarrow> True | _ \<Rightarrow> False)"

fun pongs_for :: "('pk, 'sig) message list \<Rightarrow> bytes list" where
  "pongs_for [] = []"
| "pongs_for (Ping p # ms) = pong_bytes p # pongs_for ms"
| "pongs_for (_ # ms) = pongs_for ms"

lemma recv_message_step:
  assumes "reader_recv N r = Inr (Inr raw, r')" and "2 \<le> length raw"
  shows "decode_message S raw = Inr (Ping p) \<Longrightarrow> writer_send N w (pong_bytes p) = Inr (Inr (), w') \<Longrightarrow>
      recv_message S N r w = recv_message S N r' w'"
    and "decode_message S raw = Inr m \<Longrightarrow> keepalive m \<Longrightarrow> \<nexists>p. m = Ping p \<Longrightarrow>
      recv_message S N r w = recv_message S N r' w"
    and "decode_message S raw = Inr m \<Longrightarrow> \<not> keepalive m \<Longrightarrow>
      recv_message S N r w = Inr (Inr m, (r', w))"
  using assms
  by (subst recv_message.simps, cases m, simp_all add: encode_pong_message keepalive_def)+

lemma send_encrypt_total:
  assumes "noise_lawful N" and "length p \<le> 65535"
  obtains pkt s' where "send_encrypt N s p = Inr (pkt, s')"
proof -
  have "in_step s \<lparr>rc_key = sc_key s, rc_nonce = sc_nonce s, rc_ck = sc_ck s\<rparr>"
    by (simp add: in_step_def)
  from send_recv_packet [OF assms(1) this assms(2)] show thesis
    by (elim exE conjE) (rule that)
qed

lemma send_encrypt_size:
  assumes "noise_lawful N" and "length p \<le> 65535"
  shows "\<exists>pkt s'. send_encrypt N s p = Inr (pkt, s') \<and> length pkt = length p + 34"
proof -
  have "in_step s \<lparr>rc_key = sc_key s, rc_nonce = sc_nonce s, rc_ck = sc_ck s\<rparr>"
    by (simp add: in_step_def)
  from send_recv_packet [OF assms(1) this assms(2)] show ?thesis by (elim exE conjE) simp
qed

lemma encode_message_length: "encode_message S m = Inr bs \<Longrightarrow> 2 \<le> length bs"
  by (auto simp: encode_message_def width_simps)

lemma pongs_for_other: "\<nexists>p. m = Ping p \<Longrightarrow> pongs_for (m # ms) = pongs_for ms"
  by (cases m) simp_all

text \<open>One keepalive message: the pong it owes, if any, is sent, and the loop goes on.\<close>

lemma keepalive_step:
  assumes "noise_lawful N" and "tx_room (nw_stream w) = None" and "keepalive x"
    and "2 \<le> length p" and "decode_message S p = Inr x"
  obtains w1 pong where "tx_room (nw_stream w1) = None"
    and "nw_stream w1 = (nw_stream w)\<lparr>tx := tx (nw_stream w) @ concat pong\<rparr>"
    and "\<forall>ms rest sc. send_all N (nw_cipher w1) (pongs_for ms) = Inr (rest, sc) \<longrightarrow>
       send_all N (nw_cipher w) (pongs_for (x # ms)) = Inr (pong @ rest, sc)"
    and "\<forall>r r'. reader_recv N r = Inr (Inr p, r') \<longrightarrow>
       recv_message S N r w = recv_message S N r' w1"
proof (cases "\<exists>q. x = Ping q")
  case True
  then obtain q where q: "x = Ping q" ..
  obtain pkt sc where sc: "send_encrypt N (nw_cipher w) (pong_bytes q) = Inr (pkt, sc)"
    using send_encrypt_total [OF assms(1) length_pong_bytes] .
  let ?w = "\<lparr>nw_stream = (nw_stream w)\<lparr>tx := tx (nw_stream w) @ pkt\<rparr>, nw_cipher = sc\<rparr>"
  have "writer_send N w (pong_bytes q) = Inr (Inr (), ?w)"
    using writer_send_ok [OF length_pong_bytes assms(2) sc] .
  then have "recv_message S N r w = recv_message S N r' ?w"
    if "reader_recv N r = Inr (Inr p, r')" for r r'
    using recv_message_step(1) [OF that assms(4)] assms(5) q by simp
  then show thesis using that [of ?w "[pkt]"] assms(2) sc q by simp
next
  case False
  then have "recv_message S N r w = recv_message S N r' w"
    if "reader_recv N r = Inr (Inr p, r')" for r r'
    using recv_message_step(2) [OF that assms(4,5,3)] by simp
  then show thesis using that [of w "[]"] assms(2) False by (simp add: pongs_for_other)
qed

lemma recv_message_filters:
  assumes "noise_lawful N" and "codec_lawful S" and "wf_message m" and "\<not> keepalive m"
    and "encode_message S m = Inr raw" and "length raw \<le> 65535"
  shows "in_step s c \<Longrightarrow> tx_room (nw_stream w) = None \<Longrightarrow>
    \<forall>x \<in> set ms. wf_message x \<and> keepalive x \<Longrightarrow> map (encode_message S) ms = map Inr raws \<Longrightarrow>
    \<forall>p \<in> set raws. length p \<le> 65535 \<Longrightarrow>
    \<exists>pkts s' c' pongs sc'. send_all N s (raws @ [raw]) = Inr (pkts, s') \<and> in_step s' c' \<and>
      send_all N (nw_cipher w) (pongs_for ms) = Inr (pongs, sc') \<and>
      (\<forall>st rest. rx st = concat pkts @ rest \<longrightarrow>
        recv_message S N \<lparr>nr_stream = st, nr_cipher = c\<rparr> w =
          Inr (Inr m, (\<lparr>nr_stream = st\<lparr>rx := rest\<rparr>, nr_cipher = c'\<rparr>,
            \<lparr>nw_stream = (nw_stream w)\<lparr>tx := tx (nw_stream w) @ concat pongs\<rparr>,
             nw_cipher = sc'\<rparr>)))"
proof (induction ms arbitrary: s c w raws)
  case Nil
  have dec: "decode_message S raw = Inr m" using assms(2,3,5) by (rule messages.decode_encode)
  obtain pkt s' c' where one: "send_encrypt N s raw = Inr (pkt, s')" "in_step s' c'"
    and "length pkt = length raw + 34" and recv: "\<forall>st rest. rx st = pkt @ rest \<longrightarrow>
      reader_recv N \<lparr>nr_stream = st, nr_cipher = c\<rparr> =
      Inr (Inr raw, \<lparr>nr_stream = st\<lparr>rx := rest\<rparr>, nr_cipher = c'\<rparr>)"
    by (rule reader_recv_packet [OF assms(1) Nil.prems(1) assms(6)])
  have "recv_message S N \<lparr>nr_stream = st, nr_cipher = c\<rparr> w =
      Inr (Inr m, (\<lparr>nr_stream = st\<lparr>rx := rest\<rparr>, nr_cipher = c'\<rparr>, w))"
    if "rx st = pkt @ rest" for st rest
    using recv_message_step(3) [OF recv [rule_format, OF that] encode_message_length [OF assms(5)]
        dec assms(4)] .
  with Nil one show ?case
    by (intro exI [of _ "[pkt]"] exI [of _ s'] exI [of _ c'] exI [of _ "[]"]
        exI [of _ "nw_cipher w"]) simp
next
  case (Cons x ms)
  obtain p ps where raws: "raws = p # ps" and enc: "encode_message S x = Inr p"
    "map (encode_message S) ms = map Inr ps"
    using Cons.prems(4) by (cases raws) auto
  have x: "wf_message x" "keepalive x" and xs: "\<forall>x \<in> set ms. wf_message x \<and> keepalive x"
    and p: "length p \<le> 65535" and ps: "\<forall>p \<in> set ps. length p \<le> 65535"
    using Cons.prems(3,5) by (simp_all add: raws)
  have dec: "decode_message S p = Inr x" using assms(2) x(1) enc(1) by (rule messages.decode_encode)
  obtain pkt s1 c1 where one: "send_encrypt N s p = Inr (pkt, s1)" "in_step s1 c1"
    and "length pkt = length p + 34" and recv: "\<forall>st rest. rx st = pkt @ rest \<longrightarrow>
      reader_recv N \<lparr>nr_stream = st, nr_cipher = c\<rparr> =
      Inr (Inr p, \<lparr>nr_stream = st\<lparr>rx := rest\<rparr>, nr_cipher = c1\<rparr>)"
    by (rule reader_recv_packet [OF assms(1) Cons.prems(1) p])
  obtain w1 pong where w1: "tx_room (nw_stream w1) = None"
    "nw_stream w1 = (nw_stream w)\<lparr>tx := tx (nw_stream w) @ concat pong\<rparr>"
    "\<forall>ms rest sc. send_all N (nw_cipher w1) (pongs_for ms) = Inr (rest, sc) \<longrightarrow>
       send_all N (nw_cipher w) (pongs_for (x # ms)) = Inr (pong @ rest, sc)"
    and step: "\<forall>r r'. reader_recv N r = Inr (Inr p, r') \<longrightarrow>
       recv_message S N r w = recv_message S N r' w1"
    by (rule keepalive_step [OF assms(1) Cons.prems(2) x(2) encode_message_length [OF enc(1)] dec])
  from Cons.IH [OF one(2) w1(1) xs enc(2) ps] obtain pkts s' c' pongs sc' where
    rest: "send_all N s1 (ps @ [raw]) = Inr (pkts, s') \<and> in_step s' c' \<and>
      send_all N (nw_cipher w1) (pongs_for ms) = Inr (pongs, sc') \<and>
      (\<forall>st rest. rx st = concat pkts @ rest \<longrightarrow>
        recv_message S N \<lparr>nr_stream = st, nr_cipher = c1\<rparr> w1 =
          Inr (Inr m, (\<lparr>nr_stream = st\<lparr>rx := rest\<rparr>, nr_cipher = c'\<rparr>,
            \<lparr>nw_stream = (nw_stream w1)\<lparr>tx := tx (nw_stream w1) @ concat pongs\<rparr>,
             nw_cipher = sc'\<rparr>)))"
    by (elim exE)
  have "send_all N s (raws @ [raw]) = Inr (pkt # pkts, s')" using rest by (simp add: raws one(1))
  moreover have "send_all N (nw_cipher w) (pongs_for (x # ms)) = Inr (pong @ pongs, sc')"
    using rest w1(3) by blast
  moreover have "recv_message S N \<lparr>nr_stream = st, nr_cipher = c\<rparr> w =
      Inr (Inr m, (\<lparr>nr_stream = st\<lparr>rx := tail\<rparr>, nr_cipher = c'\<rparr>,
        \<lparr>nw_stream = (nw_stream w)\<lparr>tx := tx (nw_stream w) @ concat (pong @ pongs)\<rparr>,
         nw_cipher = sc'\<rparr>))" if "rx st = concat (pkt # pkts) @ tail" for st tail
    using that rest step [rule_format, OF recv [rule_format, of st "concat pkts @ tail"]]
    by (simp add: w1(2))
  ultimately show ?case using rest
    by (intro exI [of _ "pkt # pkts"] exI [of _ s'] exI [of _ c'] exI [of _ "pong @ pongs"]
        exI [of _ sc']) simp
qed

section \<open>Connecting to an honest peer\<close>

lemma io_write_room [simp]:
  "tx_room (fst st) = None \<Longrightarrow>
     io_write st bs = Inr (Inr (), ((fst st)\<lparr>tx := tx (fst st) @ bs\<rparr>, snd st))"
  by (simp add: io_write_def)

lemma io_read_append:
  "rx (snd st) = bs @ rest \<Longrightarrow> length bs = n \<Longrightarrow>
     io_read st n = Inr (Inr bs, (fst st, (snd st)\<lparr>rx := rest\<rparr>))"
  by (simp add: io_read_def)

lemma noise_as_initiator_run:
  assumes "get_act_one S N hs = Inr (Inr act1, hs1)"
    and "process_act_two S N hs1 act2 = Inr (Inr act3, hs2)"
    and "into_cipher N hs2 = Inr (Inr c)" and "length act2 = ACT_TWO_SIZE"
    and "tx_room w = None" and "rx r = act2 @ rest"
  shows "noise_as_initiator S N hs (w, r) =
    Inr (Inr c, (w\<lparr>tx := tx w @ act1 @ act3\<rparr>, r\<lparr>rx := rest\<rparr>))"
  using assms by (simp add: noise_as_initiator_def io_read_append [of _ act2 rest] beside_def)

lemma init_echo_length:
  assumes "encode_message S (Init m) = Inr bs" and "encode_message S (Init (init_echo m)) = Inr bs'"
  shows "length bs' \<le> length bs"
proof -
  obtain s where "encode_init m =
      Inr (write_vec (globalfeatures m) @ write_vec (in_features m) @ tlv_encode s)"
    using encode_init_stream [of m] .
  moreover have "encode_init (init_echo m) =
      Inr (write_vec (globalfeatures m) @ write_vec (in_features m))"
    by (simp add: encode_init_def init_echo_def init_tlvs_default_def tlv_add_opt_def tlv_new_def
        tlv_encode_def)
  ultimately show ?thesis
    using assms by (auto simp: encode_message_def encode_body_def width_simps)
qed

lemma connect_run:
  assumes "noise_as_initiator S N (new_initiator S N si ei remote) (w, r) = Inr (Inr c, (w', r'))"
    and "cipher_split c = (sc, rc)"
    and "reader_recv N \<lparr>nr_stream = r', nr_cipher = rc\<rparr> = Inr (Inr raw, reader)"
    and "decode_message S raw = Inr (Init m)"
    and "encode_message S (Init (init_echo m)) = Inr reply"
    and "writer_send N \<lparr>nw_stream = w', nw_cipher = sc\<rparr> reply = Inr (Inr (), writer)"
  shows "connect S N H ei (Inr (w, r)) remote si =
    Inr (Inr (writer, reader, remote), Some (nw_stream writer, nr_stream reader))"
  using assms by (simp add: connect_def Let_def init_of_message_def)

lemma connect_honest:
  assumes laws: "noise_lawful N" "codec_lawful S" "ecdh_lawful S"
    and init: "wf_init m" "encode_message S (Init m) = Inr raw" "length raw \<le> 65535"
  obtains act1 act2 act3 r1 r2 cr init_pkt peer_send reply reply_pkt sc rc peer_recv where
    "process_act_one S N (new_responder S N sr er) act1 = Inr (Inr act2, r1)"
    "process_act_three S N r1 act3 = Inr (Inr (pk_of_sk S si), r2)"
    "into_cipher N r2 = Inr (Inr cr)"
    "send_encrypt N (fst (cipher_split cr)) raw = Inr (init_pkt, peer_send)"
    "encode_message S (Init (init_echo m)) = Inr reply"
    "in_step peer_send rc" "in_step sc peer_recv"
    "\<forall>st rest. rx st = reply_pkt @ rest \<longrightarrow>
       reader_recv N \<lparr>nr_stream = st, nr_cipher = snd (cipher_split cr)\<rparr> =
       Inr (Inr reply, \<lparr>nr_stream = st\<lparr>rx := rest\<rparr>, nr_cipher = peer_recv\<rparr>)"
    "\<forall>w r rest. tx_room w = None \<longrightarrow> rx r = act2 @ init_pkt @ rest \<longrightarrow>
       connect S N H ei (Inr (w, r)) (pk_of_sk S sr) si =
       Inr (Inr (\<lparr>nw_stream = w\<lparr>tx := tx w @ act1 @ act3 @ reply_pkt\<rparr>, nw_cipher = sc\<rparr>,
                 \<lparr>nr_stream = r\<lparr>rx := rest\<rparr>, nr_cipher = rc\<rparr>, pk_of_sk S sr),
            Some (w\<lparr>tx := tx w @ act1 @ act3 @ reply_pkt\<rparr>, r\<lparr>rx := rest\<rparr>))"
proof -
  have keys: "keys_lawful S" using laws(2) by (rule codec_lawfulD)
  let ?i = "new_initiator S N si ei (pk_of_sk S sr)"
  obtain act1 act2 act3 i1 i2 r1 r2 ci cr where run: "get_act_one S N ?i = Inr (Inr act1, i1)"
    "process_act_one S N (new_responder S N sr er) act1 = Inr (Inr act2, r1)"
    "process_act_two S N i1 act2 = Inr (Inr act3, i2)"
    "process_act_three S N r1 act3 = Inr (Inr (pk_of_sk S si), r2)"
    "length act1 = ACT_ONE_SIZE" "length act2 = ACT_TWO_SIZE" "length act3 = ACT_THREE_SIZE"
    "into_cipher N i2 = Inr (Inr ci)" "into_cipher N r2 = Inr (Inr cr)"
    "ciphers_in_step ci cr" "ciphers_in_step cr ci"
    by (rule honest_run [OF laws(1) keys laws(3)])
  define sc0 rc0 where "sc0 = fst (cipher_split ci)" and "rc0 = snd (cipher_split ci)"
  have split: "cipher_split ci = (sc0, rc0)" by (simp add: sc0_def rc0_def)
  have steps: "in_step (fst (cipher_split cr)) rc0" "in_step sc0 (snd (cipher_split cr))"
    using run(10,11) by (simp_all add: ciphers_in_step_def sc0_def rc0_def)
  obtain init_pkt peer_send rc where pkt1:
    "send_encrypt N (fst (cipher_split cr)) raw = Inr (init_pkt, peer_send)" "in_step peer_send rc"
    and "length init_pkt = length raw + 34"
    and recv1: "\<forall>st rest. rx st = init_pkt @ rest \<longrightarrow> reader_recv N \<lparr>nr_stream = st, nr_cipher = rc0\<rparr> =
      Inr (Inr raw, \<lparr>nr_stream = st\<lparr>rx := rest\<rparr>, nr_cipher = rc\<rparr>)"
    by (rule reader_recv_packet [OF laws(1) steps(1) init(3)])
  obtain reply where reply: "encode_message S (Init (init_echo m)) = Inr reply"
    using messages.encode_total by blast
  have len: "length reply \<le> 65535" using init_echo_length [OF init(2) reply] init(3) by simp
  obtain reply_pkt sc peer_recv where pkt2: "send_encrypt N sc0 reply = Inr (reply_pkt, sc)"
    "in_step sc peer_recv"
    and "length reply_pkt = length reply + 34"
    and recv2: "\<forall>st rest. rx st = reply_pkt @ rest \<longrightarrow>
       reader_recv N \<lparr>nr_stream = st, nr_cipher = snd (cipher_split cr)\<rparr> =
       Inr (Inr reply, \<lparr>nr_stream = st\<lparr>rx := rest\<rparr>, nr_cipher = peer_recv\<rparr>)"
    by (rule reader_recv_packet [OF laws(1) steps(2) len])
  have dec: "decode_message S raw = Inr (Init m)"
    using laws(2) init(1,2) by (intro messages.decode_encode) (simp_all add: wf_message_def)
  have "connect S N H ei (Inr (w, r)) (pk_of_sk S sr) si =
       Inr (Inr (\<lparr>nw_stream = w\<lparr>tx := tx w @ act1 @ act3 @ reply_pkt\<rparr>, nw_cipher = sc\<rparr>,
                 \<lparr>nr_stream = r\<lparr>rx := rest\<rparr>, nr_cipher = rc\<rparr>, pk_of_sk S sr),
            Some (w\<lparr>tx := tx w @ act1 @ act3 @ reply_pkt\<rparr>, r\<lparr>rx := rest\<rparr>))"
    if io: "tx_room w = None" "rx r = act2 @ init_pkt @ rest" for w r rest
  proof -
    let ?w = "w\<lparr>tx := tx w @ act1 @ act3\<rparr>" and ?r = "r\<lparr>rx := init_pkt @ rest\<rparr>"
    have "noise_as_initiator S N ?i (w, r) = Inr (Inr ci, (?w, ?r))"
      using run(1,3,8,6) io by (rule noise_as_initiator_run)
    moreover have "reader_recv N \<lparr>nr_stream = ?r, nr_cipher = rc0\<rparr> =
        Inr (Inr raw, \<lparr>nr_stream = ?r\<lparr>rx := rest\<rparr>, nr_cipher = rc\<rparr>)"
      using recv1 by simp
    moreover have "writer_send N \<lparr>nw_stream = ?w, nw_cipher = sc0\<rparr> reply =
        Inr (Inr (), \<lparr>nw_stream = ?w\<lparr>tx := tx ?w @ reply_pkt\<rparr>, nw_cipher = sc\<rparr>)"
      using writer_send_ok [of reply "\<lparr>nw_stream = ?w, nw_cipher = sc0\<rparr>"] len io(1) pkt2(1)
      by simp
    ultimately show ?thesis
      using connect_run [OF _ split _ dec reply] by simp
  qed
  then show thesis
    using run(2,4,9) pkt1 reply pkt2(2) recv2 by (intro that) blast+
qed

section \<open>Totality\<close>

lemma read_exact_length: "read_exact r n = (Inr bs, r') \<Longrightarrow> length bs = n"
  by (auto simp: read_exact_def split: if_splits)

lemma writer_send_total:
  assumes "noise_lawful N"
  shows "\<exists>res w'. writer_send N w msg = Inr (res, w')"
proof (cases "length msg \<le> 65535")
  case True
  obtain pkt c where "send_encrypt N (nw_cipher w) msg = Inr (pkt, c)"
    using send_encrypt_total [OF assms True] .
  then show ?thesis
    by (simp add: writer_send_def split: prod.split)
qed (simp add: writer_send_def NOISE_MAX_MESSAGE_SIZE_def)

lemma reader_recv_total:
  assumes "noise_lawful N"
  shows "\<exists>res r'. reader_recv N r = Inr (res, r')"
proof -
  obtain hdr st where 1: "read_exact (nr_stream r) ENCRYPTED_LENGTH_SIZE = (hdr, st)"
    by (cases "read_exact (nr_stream r) ENCRYPTED_LENGTH_SIZE")
  show ?thesis
  proof (cases hdr)
    case (Inr h)
    obtain res c where 2: "recv_decrypt_length N (nr_cipher r) h = Inr (res, c)"
      using recv_decrypt_length_total [OF assms read_exact_length] 1 Inr by blast
    show ?thesis
    proof (cases res)
      case len: (Inr n)
      obtain body st' where 3: "read_exact st (unat n + MAC_SIZE) = (body, st')"
        by (cases "read_exact st (unat n + MAC_SIZE)")
      show ?thesis
      proof (cases body)
        case body: (Inr b)
        obtain res' c' where "recv_decrypt_message N c b = Inr (res', c')"
          using recv_decrypt_message_total [OF assms] by blast
        then show ?thesis by (simp add: reader_recv_def 1 Inr 2 len 3 body)
      qed (simp add: reader_recv_def 1 Inr 2 len 3)
    qed (simp add: reader_recv_def 1 Inr 2)
  qed (simp add: reader_recv_def 1)
qed

lemma u16_of_first_two_total: "2 \<le> length bs \<Longrightarrow> \<exists>t. u16_of_first_two bs = Inr t"
  by (cases bs rule: list.exhaust; cases "tl bs") (auto simp: u16_of_first_two_def)

lemma recv_message_total:
  assumes "noise_lawful N"
  shows "\<exists>res s. recv_message S N r w = Inr (res, s)"
  using assms
proof (induction "length (rx (nr_stream r))" arbitrary: r w rule: less_induct)
  case less
  obtain res r' where r: "reader_recv N r = Inr (res, r')"
    using reader_recv_total [OF less.prems] by blast
  show ?case
  proof (cases "\<exists>raw. res = Inr raw \<and> 2 \<le> length raw")
    case True
    then obtain raw where raw: "res = Inr raw" "2 \<le> length raw" by blast
    have next_recv: "\<exists>res s. recv_message S N r' w' = Inr (res, s)" for w'
      using reader_recv_consumes r raw(1) less by blast
    show ?thesis
    proof (cases "\<exists>p. decode_message S raw = Inr (Ping p)")
      case True
      then obtain p where p: "decode_message S raw = Inr (Ping p)" ..
      obtain sent w' where "writer_send N w (pong_bytes p) = Inr (sent, w')"
        using writer_send_total [OF less.prems] by blast
      then show ?thesis using next_recv [of w'] raw r p
        by (subst recv_message.simps) (cases sent; simp add: encode_pong_message)
    next
      case False
      then show ?thesis using next_recv [of w] raw r u16_of_first_two_total [OF raw(2)]
        by (subst recv_message.simps) (auto split: sum.split message.split)
    qed
  next
    case False
    then show ?thesis using r
      by (subst recv_message.simps) (cases res; simp add: not_le)
  qed
qed

end
