(* ===== verification/Connection.thy ===== *)
theory Connection
  imports Conn
begin

text \<open>
  \<open>NoiseConnection\<close> of \<open>noise/src/connection.rs\<close>: the blocking connection that keeps the full
  cipher. It behaves as a \<open>NoiseWriter\<close> and a \<open>NoiseReader\<close> over the two halves of that
  cipher.
\<close>

section \<open>Errors and state\<close>

datatype connection_error =
    ConnIo string
  | Noise noise_error
  | MessageTooLarge nat

text \<open>\<open>Display\<close>, as the \<open>#[error]\<close> attributes give it.\<close>

fun connection_error_str :: "connection_error \<Rightarrow> string" where
  "connection_error_str (ConnIo e) = ''IO error: '' @ e"
| "connection_error_str (Noise e) = ''Noise error: '' @ noise_error_str e"
| "connection_error_str (MessageTooLarge n) = ''message too large: '' @ string_of_nat n @
     '' bytes (max '' @ string_of_nat NOISE_MAX_MESSAGE_SIZE @ '')''"

record noise_connection =
  nc_stream :: "write_half \<times> read_half"
  nc_cipher :: noise_cipher

section \<open>Operations\<close>

definition perform_handshake ::
    "('pk, 'sk, 'sig) secp \<Rightarrow> noise_lib \<Rightarrow> write_half \<times> read_half \<Rightarrow> 'sk \<Rightarrow> 'sk \<Rightarrow> 'pk \<Rightarrow>
     (connection_error, noise_cipher, write_half \<times> read_half) outcome" where
  "perform_handshake S N stream static ephemeral remote_pubkey =
     (let handshake = new_initiator S N static ephemeral remote_pubkey in
      and_then (get_act_one S N handshake) (\<lambda>(res, handshake).
      try_then (Inr (map_err Noise res, stream)) (\<lambda>act_one (w, r).
      (case write_all w act_one of (res, w) \<Rightarrow>
      try_then (Inr (map_err ConnIo res, (w, r))) (\<lambda>_ (w, r).
      (case read_exact r ACT_TWO_SIZE of (res, r) \<Rightarrow>
      try_then (Inr (map_err ConnIo res, (w, r))) (\<lambda>act_two (w, r).
      and_then (process_act_two S N handshake act_two) (\<lambda>(res, handshake).
      try_then (Inr (map_err Noise res, (w, r))) (\<lambda>act_three (w, r).
      (case write_all w act_three of (res, w) \<Rightarrow>
      try_then (Inr (map_err ConnIo res, (w, r))) (\<lambda>_ stream.
      and_then (into_cipher N handshake) (\<lambda>res.
      Inr (map_err Noise res, stream)))))))))))))"

definition conn_send_message ::
    "noise_lib \<Rightarrow> noise_connection \<Rightarrow> bytes \<Rightarrow> (connection_error, unit, noise_connection) outcome" where
  "conn_send_message N c msg =
     (if length msg > NOISE_MAX_MESSAGE_SIZE then Inr (Inl (MessageTooLarge (length msg)), c)
      else
        and_then (cipher_encrypt N (nc_cipher c) msg) (\<lambda>(encrypted, cipher).
        (case write_all (fst (nc_stream c)) encrypted of (res, w) \<Rightarrow>
        Inr (map_err ConnIo res, \<lparr>nc_stream = (w, snd (nc_stream c)), nc_cipher = cipher\<rparr>))))"

definition conn_recv_message ::
    "noise_lib \<Rightarrow> noise_connection \<Rightarrow> (connection_error, bytes, noise_connection) outcome" where
  "conn_recv_message N c =
     (case read_exact (snd (nc_stream c)) ENCRYPTED_LENGTH_SIZE of
        (Inl e, r) \<Rightarrow> Inr (Inl (ConnIo e), c\<lparr>nc_stream := (fst (nc_stream c), r)\<rparr>)
      | (Inr encrypted_len, r) \<Rightarrow>
          and_then (cipher_decrypt_length N (nc_cipher c) encrypted_len) (\<lambda>(res, cipher).
          case res of
            Inl e \<Rightarrow> Inr (Inl (Noise e), \<lparr>nc_stream = (fst (nc_stream c), r), nc_cipher = cipher\<rparr>)
          | Inr msg_len \<Rightarrow>
              (case read_exact r (unat msg_len + MAC_SIZE) of
                 (Inl e, r) \<Rightarrow>
                   Inr (Inl (ConnIo e), \<lparr>nc_stream = (fst (nc_stream c), r), nc_cipher = cipher\<rparr>)
               | (Inr encrypted_msg, r) \<Rightarrow>
                   and_then (cipher_decrypt_message N cipher encrypted_msg) (\<lambda>(res, cipher).
                   Inr (map_err Noise res,
                     \<lparr>nc_stream = (fst (nc_stream c), r), nc_cipher = cipher\<rparr>)))))"

text \<open>\<open>connect\<close>, with the outcome of \<open>TcpStream::connect_timeout\<close> and of the socket options.\<close>

definition conn_connect ::
    "('pk, 'sk, 'sig) secp \<Rightarrow> noise_lib \<Rightarrow> string + write_half \<times> read_half \<Rightarrow>
     'pk \<Rightarrow> 'sk \<Rightarrow> 'sk \<Rightarrow> panic + (connection_error + noise_connection)" where
  "conn_connect S N tcp remote_pubkey static ephemeral =
     (case tcp of
        Inl e \<Rightarrow> Inr (Inl (ConnIo e))
      | Inr stream \<Rightarrow>
          and_then (perform_handshake S N stream static ephemeral remote_pubkey)
            (\<lambda>(res, stream). Inr (case res of
               Inl e \<Rightarrow> Inl e
             | Inr cipher \<Rightarrow> Inr \<lparr>nc_stream = stream, nc_cipher = cipher\<rparr>)))"

section \<open>The connection as its two halves\<close>

definition conn_join :: "noise_writer \<Rightarrow> noise_reader \<Rightarrow> noise_connection" where
  "conn_join w r =
     \<lparr>nc_stream = (nw_stream w, nr_stream r), nc_cipher = cipher_join (nw_cipher w) (nr_cipher r)\<rparr>"

text \<open>How the errors of the two implementations correspond.\<close>

definition conn_error :: "noise_error \<Rightarrow> connection_error" where
  "conn_error e = (case e of Io s \<Rightarrow> ConnIo s | _ \<Rightarrow> Noise e)"

lemma conn_send_join:
  assumes "length msg \<le> 65535"
  shows "conn_send_message N (conn_join w r) msg =
     and_then (writer_send N w msg) (\<lambda>(res, w). Inr (map_err conn_error res, conn_join w r))"
proof (cases "send_encrypt N (nw_cipher w) msg")
  case (Inr x)
  then show ?thesis
    using assms by (cases x; cases "write_all (nw_stream w) (fst x)"; cases "fst (write_all (nw_stream w) (fst x))")
      (simp_all add: conn_send_message_def writer_send_def conn_join_def cipher_encrypt_join
        NOISE_MAX_MESSAGE_SIZE_def conn_error_def)
qed (use assms in \<open>simp add: conn_send_message_def writer_send_def conn_join_def
      cipher_encrypt_join NOISE_MAX_MESSAGE_SIZE_def\<close>)

lemma recv_decrypt_errors:
  "recv_decrypt_length N c hdr = Inr (Inl e, c') \<Longrightarrow> e = DecryptionFailed"
  "recv_decrypt_message N c body = Inr (Inl e, c') \<Longrightarrow> e = DecryptionFailed"
  by (simp_all add: recv_decrypt_failed)

lemma recv_body_join:
  "and_then (cipher_decrypt_message N (cipher_join s c) body) (\<lambda>(res, cipher).
     Inr (map_err Noise res, \<lparr>nc_stream = (w, st), nc_cipher = cipher\<rparr>)) =
   and_then (recv_decrypt_message N c body) (\<lambda>(res, c).
     Inr (map_err conn_error res, conn_join \<lparr>nw_stream = w, nw_cipher = s\<rparr>
       \<lparr>nr_stream = st, nr_cipher = c\<rparr>))"
proof (cases "recv_decrypt_message N c body")
  case (Inr x)
  then obtain res c' where x: "recv_decrypt_message N c body = Inr (res, c')" by (cases x) simp
  then show ?thesis
    by (cases res) (auto simp: cipher_decrypt_message_join conn_join_def conn_error_def
        dest: recv_decrypt_errors)
qed (simp add: cipher_decrypt_message_join)

lemma conn_recv_join:
  "conn_recv_message N (conn_join w r) =
     and_then (reader_recv N r) (\<lambda>(res, r). Inr (map_err conn_error res, conn_join w r))"
proof -
  obtain hdr st where 1: "read_exact (nr_stream r) ENCRYPTED_LENGTH_SIZE = (hdr, st)"
    by (cases "read_exact (nr_stream r) ENCRYPTED_LENGTH_SIZE")
  show ?thesis
  proof (cases hdr)
    case (Inl e)
    then show ?thesis
      by (simp add: conn_recv_message_def reader_recv_def conn_join_def conn_error_def 1)
  next
    case hdr: (Inr h)
    show ?thesis
    proof (cases "recv_decrypt_length N (nr_cipher r) h")
      case (Inl p)
      then show ?thesis
        by (simp add: conn_recv_message_def reader_recv_def conn_join_def 1 hdr
            cipher_decrypt_length_join)
    next
      case (Inr x)
      then obtain res c where len: "recv_decrypt_length N (nr_cipher r) h = Inr (res, c)"
        by (cases x) simp
      show ?thesis
      proof (cases res)
        case (Inl e)
        then show ?thesis using len recv_decrypt_errors(1) [of N "nr_cipher r" h e c]
          by (simp add: conn_recv_message_def reader_recv_def conn_join_def 1 hdr
              cipher_decrypt_length_join conn_error_def)
      next
        case (Inr n)
        obtain body st' where "read_exact st (unat n + MAC_SIZE) = (body, st')"
          by (cases "read_exact st (unat n + MAC_SIZE)")
        then show ?thesis using len Inr recv_body_join [of N "nw_cipher w" c _ "nw_stream w"]
          by (cases body) (simp_all add: conn_recv_message_def reader_recv_def conn_join_def 1 hdr
              cipher_decrypt_length_join conn_error_def and_then_assoc split_def)
      qed
    qed
  qed
qed

lemma handshake_errors:
  assumes "get_act_one S N hs = Inr (Inl e, hs') \<or> process_act_two S N hs act = Inr (Inl e, hs') \<or>
    into_cipher N hs = Inr (Inl e)"
  shows "conn_error e = Noise e"
  using assms
proof (elim disjE)
  assume "process_act_two S N hs act = Inr (Inl e, hs')"
  then show ?thesis by (rule process_act_two_cases) (auto simp: conn_error_def)
next
  assume "into_cipher N hs = Inr (Inl e)"
  then have "e = HandshakeIncomplete"
    by (cases "hs_role hs") (auto simp: into_cipher_def get_final_keys_def split: if_splits)
  then show ?thesis by (simp add: conn_error_def)
qed (auto simp: get_act_one_def Let_def conn_error_def split: if_splits)

text \<open>\<open>?\<close> after a call whose error is converted.\<close>

definition conv :: "(noise_error, 'a, 's) outcome \<Rightarrow> (connection_error, 'a, 's) outcome" where
  "conv m = and_then m (\<lambda>(res, s). Inr (map_err conn_error res, s))"

lemma conv_try_then: "conv (try_then m f) = try_then (conv m) (\<lambda>x s. conv (f x s))"
  by (auto simp: conv_def try_then_def and_then_def split: sum.splits)

lemma conv_io:
  "conv (io_write st bs) =
     (case write_all (fst st) bs of (res, w) \<Rightarrow> Inr (map_err ConnIo res, (w, snd st)))"
  "conv (io_read st n) =
     (case read_exact (snd st) n of (res, r) \<Rightarrow> Inr (map_err ConnIo res, (fst st, r)))"
  by (auto simp: conv_def io_write_def io_read_def map_err_def conn_error_def
      split: prod.splits sum.splits)

lemma conv_simps [simp]:
  "conv (Inl p) = Inl p"
  "conv (Inr (res, s)) = Inr (map_err conn_error res, s)"
  by (simp_all add: conv_def)

lemma conv_call:
  assumes "\<And>e hs'. call = Inr (Inl e, hs') \<Longrightarrow> conn_error e = Noise e"
    and "\<And>x hs' s. conv (f x hs' s) = g x hs' s"
  shows "conv (and_then call (\<lambda>(res, hs). try_then (Inr (res, s)) (\<lambda>x s. f x hs s))) =
    and_then call (\<lambda>(res, hs). try_then (Inr (map_err Noise res, s)) (\<lambda>x s. g x hs s))"
proof (cases call)
  case (Inr y)
  then show ?thesis using assms by (cases y; cases "fst y") simp_all
qed simp

lemma conv_write:
  assumes "\<And>x s. conv (f x s) = g x s"
  shows "conv (try_then (io_write st bs) f) =
    try_then (Inr (map_err ConnIo (fst (write_all (fst st) bs)), (snd (write_all (fst st) bs), snd st))) g"
  by (simp add: conv_try_then conv_io assms split_beta)

lemma conv_read:
  assumes "\<And>x s. conv (f x s) = g x s"
  shows "conv (try_then (io_read st n) f) =
    try_then (Inr (map_err ConnIo (fst (read_exact (snd st) n)), (fst st, snd (read_exact (snd st) n)))) g"
  by (simp add: conv_try_then conv_io assms split_beta)

lemma conv_beside_into_cipher:
  "conv (beside (into_cipher N hs) s) = and_then (into_cipher N hs) (\<lambda>res. Inr (map_err Noise res, s))"
proof (cases "into_cipher N hs")
  case (Inr res)
  then show ?thesis
    using handshake_errors [of _ N hs] by (cases res) (auto simp: beside_def)
qed (simp add: beside_def)

lemma perform_handshake_conv:
  "perform_handshake S N stream static ephemeral remote =
     conv (noise_as_initiator S N (new_initiator S N static ephemeral remote) stream)"
  unfolding perform_handshake_def noise_as_initiator_def Let_def split_beta prod.collapse
  by (rule sym, rule conv_call [unfolded split_beta], blast intro: handshake_errors,
      rule conv_write, rule conv_read, rule conv_call [unfolded split_beta],
      blast intro: handshake_errors, rule conv_write, rule conv_beside_into_cipher)

end
