(* ===== verification/Instances.thy ===== *)
theory Instances
  imports Connection
begin

text \<open>
  Concrete values for the parameters that stand for third-party crates, small enough to
  evaluate: the laws of \<open>External\<close> hold of them, so a property that rests on these laws is not
  vacuous. They are no model of the crates.
\<close>

section \<open>Keys and signatures of one byte\<close>

definition pad_to :: "nat \<Rightarrow> u8 \<Rightarrow> bytes" where
  "pad_to n b = b # replicate (n - 1) 0"

definition unpad :: "nat \<Rightarrow> bytes \<Rightarrow> u8 option" where
  "unpad n bs = (case bs of [] \<Rightarrow> None | b # _ \<Rightarrow> if bs = pad_to n b then Some b else None)"

definition byte_sum :: "bytes \<Rightarrow> u8" where
  "byte_sum bs = foldl (\<lambda>a b. 3 * a + b + 1) 0 bs"

definition digest :: "bytes \<Rightarrow> nat \<Rightarrow> bytes" where
  "digest bs n = map (\<lambda>i. byte_sum bs + word_of_nat i) [0..<n]"

definition toy_secp :: "(u8, u8, u8) secp" where
  "toy_secp =
     \<lparr>pk_from_slice = unpad 33, pk_serialize = pad_to 33, pk_of_sk = id, pk_less = (<),
      pk_display = (\<lambda>k. string_of_nat (unat k)),
      sk_from_slice = (\<lambda>bs. if length bs = 32 then Some (hd bs) else None),
      sig_from_compact = unpad 64, sig_serialize_compact = pad_to 64,
      sign_ecdsa = (\<lambda>m sk. byte_sum m + sk), verify_ecdsa = (\<lambda>m s pk. s = byte_sum m + pk),
      shared_secret = (\<lambda>pk sk. replicate 32 (pk + sk)), sha256d = (\<lambda>bs. digest bs 32)\<rparr>"

section \<open>A cipher that appends a tag\<close>

definition toy_tag :: "bytes \<Rightarrow> bytes \<Rightarrow> bytes \<Rightarrow> bytes \<Rightarrow> bytes" where
  "toy_tag k n ad p = digest (k @ n @ ad @ p) 16"

definition toy_noise :: noise_lib where
  "toy_noise =
     \<lparr>aead_encrypt = (\<lambda>k n ad p. Some (p @ toy_tag k n ad p)),
      aead_decrypt = (\<lambda>k n ad c.
        if 16 \<le> length c \<and>
          drop (length c - 16) c = toy_tag k n ad (take (length c - 16) c)
        then Some (take (length c - 16) c) else None),
      hkdf_expand = (\<lambda>salt ikm n. Some (digest (salt @ ikm) n)),
      sha256 = (\<lambda>bs. digest bs 32)\<rparr>"

section \<open>Hexadecimal\<close>

definition hex_digit :: "nat \<Rightarrow> char" where
  "hex_digit n = (if n < 10 then char_of (48 + n) else char_of (87 + n))"

definition hex_value :: "char \<Rightarrow> nat option" where
  "hex_value c =
     (let n = of_char c :: nat in
      if 48 \<le> n \<and> n < 58 then Some (n - 48)
      else if 97 \<le> n \<and> n < 103 then Some (n - 87)
      else if 65 \<le> n \<and> n < 71 then Some (n - 55) else None)"

fun hex_bytes :: "string \<Rightarrow> bytes option" where
  "hex_bytes [] = Some []"
| "hex_bytes [c] = None"
| "hex_bytes (a # b # s) =
     (case (hex_value a, hex_value b, hex_bytes s) of
        (Some x, Some y, Some bs) \<Rightarrow> Some (word_of_nat (16 * x + y) # bs)
      | _ \<Rightarrow> None)"

definition toy_hex :: hex_lib where
  "toy_hex =
     \<lparr>hex_encode = (\<lambda>bs. concat (map (\<lambda>b.
        [hex_digit (unat b div 16), hex_digit (unat b mod 16)]) bs)),
      hex_decode = hex_bytes\<rparr>"

section \<open>The laws hold\<close>

lemma unpad_pad [simp]: "unpad n (pad_to n b) = Some b"
  by (simp add: unpad_def pad_to_def)

lemma unpad_Some: "unpad n bs = Some b \<Longrightarrow> bs = pad_to n b"
  by (auto simp: unpad_def split: list.splits if_splits)

lemma length_pad [simp]: "0 < n \<Longrightarrow> length (pad_to n b) = n"
  by (simp add: pad_to_def)

lemma length_digest [simp]: "length (digest bs n) = n"
  by (simp add: digest_def)

lemma toy_keys: "keys_lawful toy_secp"
  by (auto simp: keys_lawful_def toy_secp_def dest: unpad_Some)

lemma toy_sigs: "sigs_lawful toy_secp"
  by (auto simp: sigs_lawful_def toy_secp_def dest: unpad_Some)

lemma toy_codec: "codec_lawful toy_secp"
  by (simp add: codec_lawful_def toy_keys toy_sigs)

lemma toy_sign: "sign_lawful toy_secp"
  by (simp add: sign_lawful_def toy_secp_def)

lemma toy_ecdh: "ecdh_lawful toy_secp"
  by (simp add: ecdh_lawful_def toy_secp_def add.commute)

lemma toy_noise_lawful: "noise_lawful toy_noise"
  by (auto simp: noise_lawful_def toy_noise_def toy_tag_def)

lemmas toy_laws = toy_keys toy_sigs toy_codec toy_sign toy_ecdh toy_noise_lawful

section \<open>Announcements made with them\<close>

definition toy_announcement :: "(u8, u8) channel_announcement" where
  "toy_announcement = ca_new_signed toy_secp [] (replicate 32 6) 0x0000010000020003 1 2 3 4"

definition toy_node :: "(u8, u8) node_announcement" where
  "toy_node = na_default_signed toy_secp 1"

definition toy_update :: "u8 channel_update" where
  "toy_update =
     cu_new_signed toy_secp (replicate 32 6) 0x0000010000020003 0 1 0 40 1 1000 1 4294967295 1"

lemma toy_wf:
  "wf_channel_announcement toy_announcement" "wf_node_announcement toy_node"
  "wf_channel_update toy_update"
  by (simp_all add: toy_announcement_def toy_node_def toy_update_def ca_new_signed_def
      na_default_signed_def na_new_signed_def cu_new_signed_def Let_def fits_u16_def
      wf_channel_announcement_def wf_node_announcement_def wf_channel_update_def
      CHAIN_HASH_SIZE_def)

section \<open>A connection made with them\<close>

definition toy_writer :: noise_writer where
  "toy_writer =
     \<lparr>nw_stream = \<lparr>tx = [], tx_room = None, tx_err = ''broken pipe''\<rparr>,
      nw_cipher = \<lparr>sc_key = [1], sc_nonce = 0, sc_ck = [2]\<rparr>\<rparr>"

definition toy_reader :: "bytes \<Rightarrow> noise_reader" where
  "toy_reader bs =
     \<lparr>nr_stream = \<lparr>rx = bs, rx_err = ''early eof''\<rparr>,
      nr_cipher = \<lparr>rc_key = [1], rc_nonce = 0, rc_ck = [2]\<rparr>\<rparr>"

lemma toy_in_step: "in_step (nw_cipher toy_writer) (nr_cipher (toy_reader bs))"
  by (simp add: in_step_def toy_writer_def toy_reader_def)

lemma toy_bytes:
  "write_u16 3 = [0, 3]" "write_vec [] = [0, 0]" "(33 :: u16) \<notin> set known_types"
  by code_simp+

end
