(* ===== verification/Bolt_Theorems.thy ===== *)
theory Bolt_Theorems
  imports Instances
begin

text \<open>
  The properties of the crate \<open>bolt\<close>: the wire formats, the TLV stream, the messages, their
  signatures and constructors. Each is followed by an application at a concrete input where
  it has hypotheses.
\<close>

section \<open>Messages\<close>

text \<open>
  C3: Encoding a message and decoding the bytes gives the message back, for each of the
  thirteen variants of \<open>Message\<close>; encoding never panics.
\<close>

theorem message_roundtrip:
  assumes "codec_lawful S" and "wf_message m"
  shows "\<exists>bs. encode_message S m = Inr bs \<and> decode_message S bs = Inr m"
proof -
  obtain bs where "encode_message S m = Inr bs" using messages.encode_total by blast
  with assms show ?thesis by (auto intro: messages.decode_encode)
qed

theorem message_roundtrip_witness:
  "\<exists>bs. encode_message toy_secp (Ping \<lparr>num_pong_bytes = 3, pi_ignored = [1, 2]\<rparr>) = Inr bs \<and>
     decode_message toy_secp bs = Inr (Ping \<lparr>num_pong_bytes = 3, pi_ignored = [1, 2]\<rparr>)"
  by (rule message_roundtrip) (simp_all add: toy_laws wf_message_def wf_ping_def fits_u16_def)

text \<open>
  C34: A decoded message is well formed and carries the type number of its first two bytes;
  encoded again it decodes to itself. This is what \<open>sendmessage\<close> relies on.
\<close>

theorem message_reencode:
  assumes "codec_lawful S" and "decode_message S bs = Inr m"
  shows "wf_message m \<and> (\<exists>bs'. encode_message S m = Inr bs' \<and> decode_message S bs' = Inr m \<and>
    take 2 bs' = take 2 bs)"
proof -
  from assms(2) obtain t cursor where t: "read_u16 bs = Inr (t, cursor)"
    and body: "decode_body S t cursor = Inr m"
    by (auto simp: decode_message_def)
  have m: "wf_message m" "msg_type m = t" using decode_body_wf [OF assms(1) body] by simp_all
  obtain bs' where enc: "encode_message S m = Inr bs'" "decode_message S bs' = Inr m"
    using messages.reencode [OF assms] by blast
  have "take 2 bs = write_u16 t" using t by (auto simp: read_iffs width_simps)
  moreover have "take 2 bs' = write_u16 t"
    using enc(1) m(2) by (auto simp: encode_message_def width_simps)
  ultimately show ?thesis using m(1) enc by auto
qed

theorem message_reencode_witness:
  "wf_message (Pong \<lparr>po_ignored = [7]\<rparr> :: (u8, u8) message) \<and>
     (\<exists>bs'. encode_message toy_secp (Pong \<lparr>po_ignored = [7]\<rparr>) = Inr bs' \<and>
       decode_message toy_secp bs' = Inr (Pong \<lparr>po_ignored = [7]\<rparr>) \<and>
       take 2 bs' = take 2 [0, 19, 0, 1, 7])"
  by (rule message_reencode [OF toy_codec]) code_simp

text \<open>
  C4: The odd/even rule. A type without a codec is refused when even; when odd it is kept
  with its payload, and encoding it gives back what \<open>raw_message\<close> makes of them.
\<close>

theorem unknown_type_rule:
  assumes "t \<notin> set known_types"
  shows "decode_message S (raw_message t payload) =
      (if t mod 2 = 0 then Inl (UnknownEvenType t) else Inr (Unknown t payload)) \<and>
    encode_message S (Unknown t payload) = Inr (raw_message t payload)"
proof
  have "decode_message S (raw_message t payload) = decode_body S t payload"
    by (simp add: decode_message_def raw_message_def read_write_simps)
  then show "decode_message S (raw_message t payload) =
      (if t mod 2 = 0 then Inl (UnknownEvenType t) else Inr (Unknown t payload))"
    by (simp only: decode_body_unknown [OF assms])
  show "encode_message S (Unknown t payload) = Inr (raw_message t payload)"
    by (simp add: encode_message_def encode_body_def msg_type_def raw_message_def)
qed

theorem unknown_type_rule_witness:
  "decode_message toy_secp (raw_message 33 [1]) =
      (if (33 :: u16) mod 2 = 0 then Inl (UnknownEvenType 33) else Inr (Unknown 33 [1])) \<and>
    encode_message toy_secp (Unknown 33 [1]) = Inr (raw_message 33 [1])"
  by (rule unknown_type_rule) (simp add: known_types_def msg_type_numbers)

text \<open>
  A payload shorter than the type number is truncated; every other input is decoded by
  its first two bytes alone: the message decoded has that type.
\<close>

theorem decode_dispatch:
  "(length data < 2 \<longrightarrow> decode_message S data = Inl (Truncated 2 (length data))) \<and>
   (2 \<le> length data \<longrightarrow>
      decode_message S data = decode_body S (from_be_bytes (take 2 data)) (drop 2 data))"
  by (simp add: decode_message_def read_int_def read_array_def)

text \<open>
  C35: The gossip announcements are decoded exactly from their encodings, with any bytes
  after them ignored; in particular two encodings are never prefixes of each other.
\<close>

theorem announcements_decode_exactly:
  assumes "codec_lawful S"
  shows "(decode_channel_announcement S bs = Inr a \<longleftrightarrow>
      wf_channel_announcement a \<and> (\<exists>extra. bs = encode_channel_announcement S a @ extra)) \<and>
    (decode_node_announcement S bs = Inr n \<longleftrightarrow>
      wf_node_announcement n \<and> (\<exists>extra. bs = encode_node_announcement S n @ extra)) \<and>
    (decode_channel_update S bs = Inr u \<longleftrightarrow>
      wf_channel_update u \<and> (\<exists>extra. bs = encode_channel_update S u @ extra))"
  using assms codec_lawfulD [OF assms] channel_announcement_codec.decode_iff
    node_announcement_codec.decode_iff channel_update_codec.decode_iff by blast

theorem announcements_decode_exactly_witness:
  "let bs = encode_channel_update toy_secp toy_update @ [9] in
    (decode_channel_announcement toy_secp bs = Inr toy_announcement \<longleftrightarrow>
      wf_channel_announcement toy_announcement \<and>
      (\<exists>extra. bs = encode_channel_announcement toy_secp toy_announcement @ extra)) \<and>
    (decode_node_announcement toy_secp bs = Inr toy_node \<longleftrightarrow>
      wf_node_announcement toy_node \<and>
      (\<exists>extra. bs = encode_node_announcement toy_secp toy_node @ extra)) \<and>
    (decode_channel_update toy_secp bs = Inr toy_update \<longleftrightarrow>
      wf_channel_update toy_update \<and>
      (\<exists>extra. bs = encode_channel_update toy_secp toy_update @ extra))"
  unfolding Let_def by (rule announcements_decode_exactly [OF toy_codec])

text \<open>
  A truncated gossip announcement is refused, wherever the cut is.
\<close>

theorem truncated_announcements_refused:
  assumes "codec_lawful S" and "wf_channel_announcement a" and "wf_node_announcement n"
    and "wf_channel_update u" and "k < length (encode_channel_announcement S a)"
    and "j < length (encode_node_announcement S n)" and "i < length (encode_channel_update S u)"
  shows "(\<exists>e. decode_channel_announcement S (take k (encode_channel_announcement S a)) = Inl e) \<and>
    (\<exists>e. decode_node_announcement S (take j (encode_node_announcement S n)) = Inl e) \<and>
    (\<exists>e. decode_channel_update S (take i (encode_channel_update S u)) = Inl e)"
  using assms codec_lawfulD [OF assms(1)]
  by (simp add: channel_announcement_codec.truncated_refused
      node_announcement_codec.truncated_refused channel_update_codec.truncated_refused)

theorem truncated_announcements_refused_witness:
  "(\<exists>e. decode_channel_announcement toy_secp
        (take 300 (encode_channel_announcement toy_secp toy_announcement)) = Inl e) \<and>
    (\<exists>e. decode_node_announcement toy_secp
        (take 70 (encode_node_announcement toy_secp toy_node)) = Inl e) \<and>
    (\<exists>e. decode_channel_update toy_secp
        (take 100 (encode_channel_update toy_secp toy_update)) = Inl e)"
  by (rule truncated_announcements_refused)
    (simp_all add: toy_laws toy_wf announcement_lengths)

section \<open>Wire formats\<close>

text \<open>
  C36: A \<open>BigSize\<close> is read exactly from the bytes written for it: the encoding is unique, so
  a longer form of the same value is refused, and it has \<open>len()\<close> bytes.
\<close>

theorem bigsize_canonical:
  "(read_bigsize bs = Inr (v, rest) \<longleftrightarrow> bs = write_bigsize v @ rest) \<and>
   length (write_bigsize v) = bigsize_len v"
  by (simp add: read_iffs width_simps)

text \<open>
  C24: What becomes of a \<open>Vec<u8>\<close> of any length: the length field wraps at 65536, so a
  reader gets the first \<open>len mod 65536\<close> bytes and takes the others for what follows. A
  round trip is exactly the case of less than 65536 bytes.
\<close>

theorem vec_length_wraps:
  "read_vec (write_vec v @ rest) =
     Inr (take (length v mod 65536) v, drop (length v mod 65536) v @ rest) \<and>
   (read_vec (write_vec v @ rest) = Inr (v, rest) \<longleftrightarrow> length v < 65536)"
proof -
  have "take (length v mod 65536) v = v \<longleftrightarrow> length v < 65536"
  proof
    assume "take (length v mod 65536) v = v"
    then have "length v \<le> length v mod 65536" by (simp add: take_all_iff)
    then show "length v < 65536" by (metis mod_less_divisor order_le_less_trans zero_less_numeral)
  qed simp
  then show ?thesis unfolding read_vec_write_vec by auto
qed

text \<open>
  C18: A TLV stream is accepted exactly when it is the encoding of a stream with strictly
  increasing types and no even type the caller does not know; so the encoding of a stream
  is unique.
\<close>

theorem tlv_decode_exactly:
  "tlv_decode_with_known data known_even = Inr s \<longleftrightarrow>
     tlv_ok known_even s \<and> data = tlv_encode s"
  by (rule tlv_decode_with_known_iff)

text \<open>
  C19: \<open>TlvStream::add\<close> is the update of a finite map that \<open>get\<close> reads: it keeps the types
  increasing, panics exactly on a type already present, and otherwise adds one entry.
\<close>

theorem tlv_add_refines_map:
  assumes "tlv_sorted s"
  shows "(case tlv_add s t v of
      Inl _ \<Rightarrow> tlv_get s t \<noteq> None
    | Inr s' \<Rightarrow> tlv_get s t = None \<and> tlv_sorted s' \<and> tlv_get s' = (tlv_get s)(t \<mapsto> v))"
proof (cases "tlv_add s t v")
  case (Inl p)
  then show ?thesis using tlvs.add_panics_iff [OF assms] by auto
next
  case (Inr s')
  then have "tlv_get s t = None" using tlvs.add_panics_iff [OF assms, of t v] by auto
  then show ?thesis using Inr tlvs.add_inv [OF assms Inr] tlvs.add_get [OF Inr] by simp
qed

theorem tlv_add_refines_map_witness:
  "let s = \<lparr>records = [\<lparr>tlv_type = 3, tlv_value = [1]\<rparr>]\<rparr> in
    (case tlv_add s 2 [5] of
      Inl _ \<Rightarrow> tlv_get s 2 \<noteq> None
    | Inr s' \<Rightarrow> tlv_get s 2 = None \<and> tlv_sorted s' \<and> tlv_get s' = (tlv_get s)(2 \<mapsto> [5]))"
  unfolding Let_def by (rule tlv_add_refines_map) (simp add: tlv_sorted_def)

section \<open>Gossip queries\<close>

text \<open>
  The short channel ids given to \<open>ReplyChannelRange::from_scids\<close> come back from the wire,
  in order, for every list of at most 8191 of them: one more and the length field of the
  list wraps.
\<close>

theorem reply_scids_roundtrip:
  assumes "length chain_hash = 32" and "length scids \<le> 8191"
  shows "\<exists>bs m. encode_reply_channel_range
      (reply_from_scids chain_hash first number complete scids) = Inr bs \<and>
    decode_reply_channel_range bs = Inr m \<and> short_channel_ids m = Inr scids \<and>
    rr_first_blocknum m = first \<and> rr_number_of_blocks m = number \<and>
    sync_complete m = (if complete then 1 else 0)"
proof -
  let ?m = "reply_from_scids chain_hash first number complete scids"
  have "wf_reply_channel_range ?m"
    using assms by (simp add: wf_reply_channel_range_def reply_from_scids_def CHAIN_HASH_SIZE_def
        fits_u16_def length_concat_u64 width_simps opt_fits_u64_def)
  moreover obtain bs where "encode_reply_channel_range ?m = Inr bs"
    using reply_channel_range_codec.encode_total by blast
  ultimately have "decode_reply_channel_range bs = Inr ?m"
    by (intro reply_channel_range_codec.decode_encode [OF TrueI])
  moreover have "rr_first_blocknum ?m = first \<and> rr_number_of_blocks ?m = number \<and>
      sync_complete ?m = (if complete then 1 else 0)"
    by (simp add: reply_from_scids_def)
  ultimately show ?thesis
    using short_channel_ids_from_scids \<open>encode_reply_channel_range ?m = Inr bs\<close> by blast
qed

theorem reply_scids_roundtrip_witness:
  "\<exists>bs m. encode_reply_channel_range
      (reply_from_scids (replicate 32 6) 100 50 True [5, 0x0000010000020003]) = Inr bs \<and>
    decode_reply_channel_range bs = Inr m \<and>
    short_channel_ids m = Inr [5, 0x0000010000020003] \<and>
    rr_first_blocknum m = 100 \<and> rr_number_of_blocks m = 50 \<and>
    sync_complete m = (if True then 1 else 0)"
  by (rule reply_scids_roundtrip) simp_all



section \<open>Signatures\<close>

text \<open>
  C26: The digest a gossip message is signed over is the double SHA-256 of its encoding after
  the signatures, as BOLT 7 asks: from byte 256 of a \<open>channel_announcement\<close>, from byte 64 of
  a \<open>node_announcement\<close> and of a \<open>channel_update\<close>.
\<close>

theorem signature_hash_covers_encoding:
  assumes "sigs_lawful S"
  shows "ca_signature_hash S a = sha256d S (drop 256 (encode_channel_announcement S a)) \<and>
    na_signature_hash S n = sha256d S (drop 64 (encode_node_announcement S n)) \<and>
    cu_signature_hash S u = sha256d S (drop 64 (encode_channel_update S u))"
  using ca_hash_covers [OF assms] na_hash_covers [OF assms] cu_hash_covers [OF assms] by blast

theorem signature_hash_covers_encoding_witness:
  "ca_signature_hash toy_secp toy_announcement =
      sha256d toy_secp (drop 256 (encode_channel_announcement toy_secp toy_announcement)) \<and>
    na_signature_hash toy_secp toy_node =
      sha256d toy_secp (drop 64 (encode_node_announcement toy_secp toy_node)) \<and>
    cu_signature_hash toy_secp toy_update =
      sha256d toy_secp (drop 64 (encode_channel_update toy_secp toy_update))"
  by (rule signature_hash_covers_encoding [OF toy_sigs])

text \<open>
  A \<open>channel_announcement\<close> built by \<open>new_signed\<close> carries four signatures that verify, each
  under its own key, against the digest of the very message that is sent.
\<close>

theorem new_announcement_verifies:
  assumes "sigs_lawful S" and "sign_lawful S"
    and "a = ca_new_signed S features chain_hash scid n1 n2 b1 b2"
  shows "let msg = sha256d S (drop 256 (encode_channel_announcement S a)) in
    verify_ecdsa S msg (node_signature_1 a) (node_id_1 a) \<and>
    verify_ecdsa S msg (node_signature_2 a) (node_id_2 a) \<and>
    verify_ecdsa S msg (bitcoin_signature_1 a) (bitcoin_key_1 a) \<and>
    verify_ecdsa S msg (bitcoin_signature_2 a) (bitcoin_key_2 a)"
  unfolding ca_hash_covers [OF assms(1), symmetric] assms(3) Let_def
  by (simp add: ca_new_signed_def Let_def ca_signature_hash_def sign_law [OF assms(2)])

theorem new_announcement_verifies_witness:
  "let msg = sha256d toy_secp (drop 256 (encode_channel_announcement toy_secp toy_announcement)) in
    verify_ecdsa toy_secp msg (node_signature_1 toy_announcement) (node_id_1 toy_announcement) \<and>
    verify_ecdsa toy_secp msg (node_signature_2 toy_announcement) (node_id_2 toy_announcement) \<and>
    verify_ecdsa toy_secp msg (bitcoin_signature_1 toy_announcement) (bitcoin_key_1 toy_announcement) \<and>
    verify_ecdsa toy_secp msg (bitcoin_signature_2 toy_announcement) (bitcoin_key_2 toy_announcement)"
  by (rule new_announcement_verifies [OF toy_sigs toy_sign toy_announcement_def])

text \<open>
  A \<open>node_announcement\<close> and a \<open>channel_update\<close> built by their \<open>new_signed\<close> verify under the
  signing key, against the digest of the message that is sent; \<open>verify_signature\<close> agrees.
\<close>

theorem new_gossip_verifies:
  assumes "sigs_lawful S" and "sign_lawful S"
    and "n = na_new_signed S features timestamp rgb al addrs sk"
    and "u = cu_new_signed S chain_hash scid timestamp mflags cflags cltv hmin fbase fprop hmax sk"
  shows "na_verify S n \<and> na_node_id n = pk_of_sk S sk \<and>
    verify_ecdsa S (sha256d S (drop 64 (encode_node_announcement S n))) (na_signature n)
      (na_node_id n) \<and>
    verify_ecdsa S (sha256d S (drop 64 (encode_channel_update S u))) (cu_signature u)
      (pk_of_sk S sk)"
  unfolding na_hash_covers [OF assms(1), symmetric] cu_hash_covers [OF assms(1), symmetric]
    assms(3,4)
  by (simp add: na_verify_def na_new_signed_def cu_new_signed_def Let_def na_signature_hash_def
      cu_signature_hash_def sign_law [OF assms(2)])

theorem new_gossip_verifies_witness:
  "na_verify toy_secp toy_node \<and> na_node_id toy_node = pk_of_sk toy_secp 1 \<and>
    verify_ecdsa toy_secp (sha256d toy_secp (drop 64 (encode_node_announcement toy_secp toy_node)))
      (na_signature toy_node) (na_node_id toy_node) \<and>
    verify_ecdsa toy_secp (sha256d toy_secp (drop 64 (encode_channel_update toy_secp toy_update)))
      (cu_signature toy_update) (pk_of_sk toy_secp 1)"
  by (rule new_gossip_verifies [OF toy_sigs toy_sign
        toy_node_def [unfolded na_default_signed_def] toy_update_def])

section \<open>Constructors\<close>

text \<open>
  The reply to a ping is a pong of the size asked for, capped so that the encoded message
  never exceeds the 65535 bytes of a Lightning message.
\<close>

theorem pong_response_fits:
  "encode_message S (Pong (pong_respond_to p)) = Inr (pong_bytes p) \<and>
   length (pong_bytes p) = 4 + min (unat (num_pong_bytes p)) 65531 \<and>
   length (pong_bytes p) \<le> MAX_MESSAGE_SIZE"
proof -
  have "unat (min (num_pong_bytes p) 65531) = min (unat (num_pong_bytes p)) 65531"
    by (simp add: min_def word_le_nat_alt)
  then show ?thesis using length_pong_bytes [of p] encode_pong_message [of S p]
    by (simp add: pong_bytes_def encode_pong_def pong_respond_to_def pong_new_def width_simps
        MAX_MESSAGE_SIZE_def)
qed

text \<open>
  The constructors of \<open>Error\<close> and \<open>Warning\<close> panic exactly on a text longer than 65535
  bytes; otherwise the message comes back from its encoding with that text, although the
  encoded message itself may be longer than the transport sends.
\<close>

theorem error_constructors:
  assumes "wf_channel_id c"
  shows "(length msg \<le> 65535 \<longrightarrow>
      (\<exists>e w. error_for_channel c msg = Inr e \<and> decode_error (encode_error e) = Inr e \<and>
         warning_for_channel c msg = Inr w \<and> decode_warning (encode_warning w) = Inr w \<and>
         er_data e = msg \<and> wa_data w = msg \<and> length (encode_error e) = 34 + length msg)) \<and>
    (65535 < length msg \<longrightarrow>
      (\<exists>p q. error_for_channel c msg = Inl p \<and> warning_for_channel c msg = Inl q))"
  using assms
  by (simp add: error_for_channel_def warning_for_channel_def MAX_MESSAGE_SIZE_def
      decode_error_def decode_warning_def encode_error_def encode_warning_def read_write_simps
      fits_u16_def width_simps)

theorem error_constructors_witness:
  "(\<exists>e w. error_for_channel channel_id_ALL [65, 66] = Inr e \<and> decode_error (encode_error e) = Inr e \<and>
      warning_for_channel channel_id_ALL [65, 66] = Inr w \<and>
      decode_warning (encode_warning w) = Inr w \<and> er_data e = [65, 66] \<and> wa_data w = [65, 66]) \<and>
   (\<exists>p. error_for_channel channel_id_ALL (replicate 65536 65) = Inl p)"
  using error_constructors [OF wf_channel_id_ALL, of "[65, 66]"]
    error_constructors [OF wf_channel_id_ALL, of "replicate 65536 65"]
  by fastforce

text \<open>
  \<open>Init::echo\<close> answers a peer's \<open>init\<close> with the same feature bits and no TLV records; the
  reply is never longer than what was received.
\<close>

theorem init_echo_reply:
  assumes "encode_message S (Init m) = Inr bs" and "wf_init m"
  shows "\<exists>bs'. encode_message S (Init (init_echo m)) = Inr bs' \<and> length bs' \<le> length bs \<and>
    decode_init (drop 2 bs') = Inr (init_echo m) \<and>
    in_features (init_echo m) = in_features m \<and> globalfeatures (init_echo m) = globalfeatures m"
proof -
  obtain b where b: "encode_init (init_echo m) = Inr b" using init_codec.encode_total by blast
  have enc: "encode_message S (Init (init_echo m)) = Inr (write_u16 INIT @ b)"
    by (simp add: encode_message_def encode_body_def msg_type_def b)
  moreover have "wf_init (init_echo m)"
    using assms(2) by (simp add: wf_init_def init_echo_def wf_init_tlvs_def init_tlvs_default_def
        opt_fits_u64_def)
  then have "decode_init b = Inr (init_echo m)"
    using init_codec.decode_encode [OF TrueI _ b] by blast
  ultimately show ?thesis
    using init_echo_length [OF assms(1) enc] by (simp add: init_echo_def width_simps)
qed

theorem init_echo_reply_witness:
  "let m = \<lparr>globalfeatures = [], in_features = [8], in_tlvs = \<lparr>networks = None, remote_addr = None\<rparr>\<rparr>
   in \<exists>bs'. encode_message toy_secp (Init (init_echo m)) = Inr bs' \<and>
    length bs' \<le> length (write_u16 INIT @ [0, 0, 0, 1, 8]) \<and>
    decode_init (drop 2 bs') = Inr (init_echo m) \<and>
    in_features (init_echo m) = in_features m \<and> globalfeatures (init_echo m) = globalfeatures m"
  unfolding Let_def
  by (rule init_echo_reply)
    (code_simp, simp add: wf_init_def wf_init_tlvs_def opt_fits_u64_def fits_u16_def)

end
