(* ===== verification/Noise_Theorems.thy ===== *)
theory Noise_Theorems
  imports Instances
begin

text \<open>
  The properties of the crate \<open>noise\<close> and of the connection built on it: the handshake and its
  state machine, the transport ciphers and their key rotation, the delivery of messages and
  the exchange that opens a connection.
\<close>

section \<open>The handshake\<close>

text \<open>
  C1: An initiator that knows the responder's static key and that responder, passing the
  three acts to each other, both complete; the responder learns the initiator's static key,
  and each side's sending cipher is in step with the other's receiving cipher.
\<close>

theorem handshake_agreement:
  assumes "noise_lawful N" and "keys_lawful S" and "ecdh_lawful S"
  shows "\<exists>act1 act2 act3 i1 i2 r1 r2 ci cr.
    get_act_one S N (new_initiator S N si ei (pk_of_sk S sr)) = Inr (Inr act1, i1) \<and>
    process_act_one S N (new_responder S N sr er) act1 = Inr (Inr act2, r1) \<and>
    process_act_two S N i1 act2 = Inr (Inr act3, i2) \<and>
    process_act_three S N r1 act3 = Inr (Inr (pk_of_sk S si), r2) \<and>
    length act1 = 50 \<and> length act2 = 50 \<and> length act3 = 66 \<and>
    into_cipher N i2 = Inr (Inr ci) \<and> into_cipher N r2 = Inr (Inr cr) \<and>
    ciphers_in_step ci cr \<and> ciphers_in_step cr ci"
  by (rule honest_run [OF assms, of si ei sr er])
    (auto simp: ACT_ONE_SIZE_def ACT_TWO_SIZE_def ACT_THREE_SIZE_def)

theorem handshake_agreement_witness:
  "\<exists>act1 act2 act3 i1 i2 r1 r2 ci cr.
    get_act_one toy_secp toy_noise
      (new_initiator toy_secp toy_noise 1 2 (pk_of_sk toy_secp 3)) = Inr (Inr act1, i1) \<and>
    process_act_one toy_secp toy_noise (new_responder toy_secp toy_noise 3 4) act1 =
      Inr (Inr act2, r1) \<and>
    process_act_two toy_secp toy_noise i1 act2 = Inr (Inr act3, i2) \<and>
    process_act_three toy_secp toy_noise r1 act3 = Inr (Inr (pk_of_sk toy_secp 1), r2) \<and>
    length act1 = 50 \<and> length act2 = 50 \<and> length act3 = 66 \<and>
    into_cipher toy_noise i2 = Inr (Inr ci) \<and> into_cipher toy_noise r2 = Inr (Inr cr) \<and>
    ciphers_in_step ci cr \<and> ciphers_in_step cr ci"
  by (rule handshake_agreement) (rule toy_laws)+

text \<open>
  C16: No method panics on a handshake reached by any sequence of calls from one of the
  constructors, whatever bytes the peer sent: every \<open>expect\<close> of the module is unreachable.
\<close>

theorem handshake_never_panics:
  assumes "noise_lawful N" and "keys_lawful S"
    and "start = new_initiator S N si ei remote \<or> start = new_responder S N sr er"
    and "(hs_step S N)\<^sup>*\<^sup>* start hs"
  shows "(\<exists>x. get_act_one S N hs = Inr x) \<and> (\<exists>x. process_act_one S N hs act = Inr x) \<and>
    (\<exists>x. process_act_two S N hs act = Inr x) \<and> (\<exists>x. process_act_three S N hs act = Inr x) \<and>
    (\<exists>x. into_cipher N hs = Inr x)"
proof -
  have "hs_wf start" using assms(3) by (auto simp: new_wf)
  then have wf: "hs_wf hs" by (rule handshake_run.inv_reachable [OF assms(4)])
  have "\<exists>x. into_cipher N hs = Inr x"
    using hkdf_total [OF assms(1), of "hs_ck hs" "[]"]
    by (cases "hs_role hs") (auto simp: into_cipher_def get_final_keys_def)
  then show ?thesis
    using get_act_one_total [OF assms(1,2) wf] process_act_one_total [OF assms(1,2), of hs act]
      process_act_two_total [OF assms(1,2), of hs act] process_act_three_total [OF assms(1) wf, of S act]
    by blast
qed

theorem handshake_never_panics_witness:
  "let hs = new_initiator toy_secp toy_noise 1 2 3; act = replicate 50 0 in
    (\<exists>x. get_act_one toy_secp toy_noise hs = Inr x) \<and>
    (\<exists>x. process_act_one toy_secp toy_noise hs act = Inr x) \<and>
    (\<exists>x. process_act_two toy_secp toy_noise hs act = Inr x) \<and>
    (\<exists>x. process_act_three toy_secp toy_noise hs act = Inr x) \<and>
    (\<exists>x. into_cipher toy_noise hs = Inr x)"
  unfolding Let_def
  by (rule handshake_never_panics [where sr = 0 and er = 0]) (rule toy_laws, rule toy_laws, blast+)

text \<open>
  C17: Along any sequence of calls the role and the local keys stay, the state only moves
  forward, and a completed handshake is never changed again.
\<close>

theorem handshake_moves_forward:
  assumes "(hs_step S N)\<^sup>*\<^sup>* hs hs'" and "hs_wf hs"
  shows "hs_wf hs' \<and> hs_role hs' = hs_role hs \<and> local_static hs' = local_static hs \<and>
    local_ephemeral hs' = local_ephemeral hs \<and>
    hs_state hs \<le> hs_state hs' \<and>
    (hs_state hs = Complete \<longrightarrow> hs' = hs)"
proof -
  have "hs_role hs' = hs_role hs \<and> local_static hs' = local_static hs \<and>
      local_ephemeral hs' = local_ephemeral hs \<and> hs_state hs \<le> hs_state hs' \<and>
      (hs_state hs = Complete \<longrightarrow> hs' = hs)"
    using assms(1)
  proof (induction rule: rtranclp_induct)
    case (step a b)
    then show ?case using hs_step_facts [OF step.hyps(2)] complete_step [OF step.hyps(2)]
      by (auto intro: order_trans)
  qed simp
  then show ?thesis using handshake_run.inv_reachable [OF assms] by blast
qed

theorem handshake_moves_forward_witness:
  "\<exists>hs'. hs_step toy_secp toy_noise (new_initiator toy_secp toy_noise 1 2 3) hs' \<and> hs_wf hs' \<and>
    hs_role hs' = Initiator \<and> local_static hs' = 1 \<and> local_ephemeral hs' = 2"
proof -
  let ?hs = "new_initiator toy_secp toy_noise 1 2 3"
  obtain res hs' where "get_act_one toy_secp toy_noise ?hs = Inr (res, hs')"
    using get_act_one_total [OF toy_noise_lawful toy_keys new_wf(1)] by blast
  then have step: "hs_step toy_secp toy_noise ?hs hs'" by (rule step_get_act_one)
  from handshake_moves_forward [OF r_into_rtranclp [of "hs_step toy_secp toy_noise", OF step] new_wf(1)]
  show ?thesis using step by (auto simp: new_initiator_def split: prod.splits)
qed



section \<open>The transport ciphers\<close>

text \<open>
  C5: The n-th message through a fresh sending cipher is sealed as BOLT 8 prescribes: header
  and body under the key of epoch \<open>n div 500\<close>, with the nonces \<open>2n\<close> and \<open>2n + 1\<close> modulo 1000,
  where the key of an epoch is the HKDF of the previous key under the previous chaining key.
  A rotation never falls between a header and its body.
\<close>

theorem key_rotation_schedule:
  assumes "noise_lawful N" and "sc_nonce c = 0" and "\<forall>p \<in> set ps. length p \<le> 65535"
  shows "\<exists>pkts c'. send_all N c ps = Inr (pkts, c') \<and> length pkts = length ps \<and>
    (\<forall>n < length ps. scheduled_packet N (sc_ck c) (sc_key c) n (ps ! n) = Inr (pkts ! n))"
  using send_all_schedule [OF assms(1) _ assms(3), of "sc_ck c" "sc_key c" 0 c]
    fresh_after_uses [OF assms(2), of N] by auto

theorem key_rotation_schedule_witness:
  "let c = \<lparr>sc_key = [1], sc_nonce = 0, sc_ck = [2]\<rparr>; ps = replicate 600 [7 :: u8] in
    \<exists>pkts c'. send_all toy_noise c ps = Inr (pkts, c') \<and> length pkts = length ps \<and>
    (\<forall>n < length ps. scheduled_packet toy_noise (sc_ck c) (sc_key c) n (ps ! n) = Inr (pkts ! n))"
  unfolding Let_def by (rule key_rotation_schedule [OF toy_noise_lawful]) simp_all

text \<open>
  After any number of messages the nonce of the sending cipher is at most 1000, so that
  \<open>nonce += 1\<close> never overflows.
\<close>

theorem nonce_bounded:
  assumes "noise_lawful N" and "sc_nonce c = 0" and "\<forall>p \<in> set ps. length p \<le> 65535"
    and "send_all N c ps = Inr (pkts, c')"
  shows "sc_nonce c' \<le> 1000"
proof -
  have "after_uses N (sc_ck c) (sc_key c) (2 * 0) c" using fresh_after_uses [OF assms(2)] by simp
  from send_all_schedule [OF assms(1) this assms(3)] assms(4)
  have "after_uses N (sc_ck c) (sc_key c) (2 * (0 + length ps)) c'" by auto
  then show ?thesis using after_uses_nonce by (simp add: KEY_ROTATION_THRESHOLD_def)
qed

theorem nonce_bounded_witness:
  "\<exists>pkts c'. send_all toy_noise \<lparr>sc_key = [1], sc_nonce = 0, sc_ck = [2]\<rparr> [[7], []] = Inr (pkts, c') \<and>
     sc_nonce c' \<le> 1000"
proof -
  let ?c = "\<lparr>sc_key = [1], sc_nonce = 0, sc_ck = [2]\<rparr>"
  have fresh: "after_uses toy_noise [2] [1] (2 * 0) ?c" by (simp add: after_uses_def)
  obtain pkts c' where send: "send_all toy_noise ?c [[7], []] = Inr (pkts, c')"
    using send_all_schedule [OF toy_noise_lawful fresh, of "[[7], []]"] by auto
  then have "sc_nonce c' \<le> 1000"
    by (intro nonce_bounded [OF toy_noise_lawful _ _ send]) simp_all
  with send show ?thesis by blast
qed

text \<open>
  The full cipher and its two halves are the same cipher: encrypting with \<open>NoiseCipher\<close> is
  encrypting with the \<open>SendCipher\<close> that \<open>split\<close> returns and leaves the receiving half alone,
  and the other way round for decrypting.
\<close>

theorem split_is_faithful:
  assumes "cipher_split c = (s, r)"
  shows "cipher_encrypt N c p =
      and_then (send_encrypt N s p) (\<lambda>(pkt, s). Inr (pkt, cipher_join s r)) \<and>
    cipher_decrypt_length N c hdr =
      and_then (recv_decrypt_length N r hdr) (\<lambda>(res, r). Inr (res, cipher_join s r)) \<and>
    cipher_decrypt_message N c body =
      and_then (recv_decrypt_message N r body) (\<lambda>(res, r). Inr (res, cipher_join s r))"
proof -
  have "c = cipher_join s r" using assms cipher_join_split [of c] by simp
  then show ?thesis
    by (simp add: cipher_encrypt_join cipher_decrypt_length_join cipher_decrypt_message_join)
qed

theorem split_is_faithful_witness:
  "let s = \<lparr>sc_key = [1], sc_nonce = 0, sc_ck = [3]\<rparr>; r = \<lparr>rc_key = [2], rc_nonce = 0, rc_ck = [3]\<rparr>;
       c = cipher_new [1] [2] [3] in
    cipher_encrypt toy_noise c [5] =
      and_then (send_encrypt toy_noise s [5]) (\<lambda>(pkt, s). Inr (pkt, cipher_join s r)) \<and>
    cipher_decrypt_length toy_noise c [6] =
      and_then (recv_decrypt_length toy_noise r [6]) (\<lambda>(res, r). Inr (res, cipher_join s r)) \<and>
    cipher_decrypt_message toy_noise c [7] =
      and_then (recv_decrypt_message toy_noise r [7]) (\<lambda>(res, r). Inr (res, cipher_join s r))"
  unfolding Let_def by (rule split_is_faithful) (simp add: cipher_split_def cipher_new_def)

text \<open>
  C29: Bytes that do not decrypt are harmless: they use no nonce, and the packet that comes
  next is decrypted as if they had not been there.
\<close>

theorem failed_decrypt_harmless:
  assumes "recv_decrypt_length N c junk = Inr (Inl e, c1)"
    and "recv_decrypt_message N c1 junk2 = Inr (Inl e2, c2)"
  shows "e = DecryptionFailed \<and> e2 = DecryptionFailed \<and>
    recv_decrypt_length N c2 pkt = recv_decrypt_length N c pkt \<and>
    recv_decrypt_message N c2 pkt = recv_decrypt_message N c pkt"
  using recv_decrypt_failed(1) [OF assms(1)] recv_decrypt_failed(2) [OF assms(2)]
    recv_after_failure [of N c c1] recv_after_failure [of N c1 c2] by simp

theorem failed_decrypt_harmless_witness:
  "let c = \<lparr>rc_key = [2], rc_nonce = 1000, rc_ck = [3]\<rparr>; 
       c' = \<lparr>rc_key = drop 32 (digest [3, 2] 64), rc_nonce = 0, rc_ck = take 32 (digest [3, 2] 64)\<rparr> in
    DecryptionFailed = DecryptionFailed \<and> DecryptionFailed = DecryptionFailed \<and>
    recv_decrypt_length toy_noise c' [1] = recv_decrypt_length toy_noise c [1] \<and>
    recv_decrypt_message toy_noise c' [1] = recv_decrypt_message toy_noise c [1]"
  unfolding Let_def
  by (rule failed_decrypt_harmless [where junk = "[0]" and ?junk2.0 = "[]" and
        ?c1.0 = "\<lparr>rc_key = drop 32 (digest [3, 2] 64), rc_nonce = 0, rc_ck = take 32 (digest [3, 2] 64)\<rparr>"])
    (simp_all add: recv_decrypt_length_def recv_decrypt_message_def recv_maybe_rotate_def
      KEY_ROTATION_THRESHOLD_def hkdf_two_keys_def decrypt_with_ad_def toy_noise_def)

section \<open>Connections\<close>

text \<open>
  C2: What a \<open>NoiseWriter\<close> sends, message after message and across key rotations, a
  \<open>NoiseReader\<close> in step with it receives, whole, unchanged and in order, leaving what follows on
  the stream unread.
\<close>

theorem delivery_in_order:
  assumes "noise_lawful N" and "in_step (nw_cipher w) (nr_cipher r)"
    and "tx_room (nw_stream w) = None" and "\<forall>p \<in> set ps. length p \<le> 65535"
  shows "\<exists>wire w'. writer_send_all N w ps = Inr (Inr (), w') \<and>
    tx (nw_stream w') = tx (nw_stream w) @ wire \<and>
    (\<forall>rest. rx (nr_stream r) = wire @ rest \<longrightarrow>
      (\<exists>r'. reader_recv_n N r (length ps) = Inr (Inr ps, r') \<and> rx (nr_stream r') = rest \<and>
        in_step (nw_cipher w') (nr_cipher r')))"
proof -
  from in_step_transfer [OF assms(1,2,4)] obtain pkts s' c' where
    t: "send_all N (nw_cipher w) ps = Inr (pkts, s') \<and> in_step s' c' \<and>
      (\<forall>st rest. rx st = concat pkts @ rest \<longrightarrow>
        reader_recv_n N \<lparr>nr_stream = st, nr_cipher = nr_cipher r\<rparr> (length ps) =
          Inr (Inr ps, \<lparr>nr_stream = st\<lparr>rx := rest\<rparr>, nr_cipher = c'\<rparr>))"
    by (elim exE)
  have "r = \<lparr>nr_stream = nr_stream r, nr_cipher = nr_cipher r\<rparr>" by simp
  then have "\<exists>r'. reader_recv_n N r (length ps) = Inr (Inr ps, r') \<and> rx (nr_stream r') = rest \<and>
      in_step s' (nr_cipher r')" if "rx (nr_stream r) = concat pkts @ rest" for rest
    using t that by (metis noise_reader.select_convs read_half.select_convs(1) read_half.surjective
        read_half.update_convs(1))
  then show ?thesis
    using writer_send_all_ok [OF conjunct1 [OF t] assms(3,4)] by auto
qed

theorem delivery_in_order_witness:
  "\<exists>wire w' r'. writer_send_all toy_noise toy_writer [[1, 2], [], [3]] = Inr (Inr (), w') \<and>
    tx (nw_stream w') = wire \<and>
    reader_recv_n toy_noise (toy_reader (wire @ [9])) 3 = Inr (Inr [[1, 2], [], [3]], r') \<and>
    rx (nr_stream r') = [9] \<and> in_step (nw_cipher w') (nr_cipher r')"
proof -
  let ?ps = "[[1, 2], [], [3 :: u8]]"
  have room: "tx_room (nw_stream toy_writer) = None" and tx: "tx (nw_stream toy_writer) = []"
    and rx: "rx (nr_stream (toy_reader bs)) = bs" and len: "\<forall>p \<in> set ?ps. length p \<le> 65535" for bs
    by (simp_all add: toy_writer_def toy_reader_def)
  note sent = delivery_in_order [OF toy_noise_lawful toy_in_step room len]
  obtain wire w' where w: "writer_send_all toy_noise toy_writer ?ps = Inr (Inr (), w')"
    "tx (nw_stream w') = wire"
    using sent [of "[]"] by blast
  moreover have "length ?ps = 3" by simp
  ultimately show ?thesis using sent [of "wire @ [9]"] unfolding tx rx
    by (metis append_Nil prod.inject sum.inject(2))
qed

text \<open>
  When the stream ends inside a packet, the reader reports the error of the stream: a part
  of a message is never returned as a message.
\<close>

theorem truncated_packet_reported:
  assumes "noise_lawful N" and "in_step s (nr_cipher r)" and "length p \<le> 65535"
    and "send_encrypt N s p = Inr (pkt, s')" and "rx (nr_stream r) = take k pkt"
    and "k < length pkt"
  shows "\<exists>r'. reader_recv N r = Inr (Inl (Io (rx_err (nr_stream r))), r')"
  using reader_recv_truncated [OF assms] by simp

theorem truncated_packet_reported_witness:
  "\<exists>pkt s' r'. send_encrypt toy_noise (nw_cipher toy_writer) [4] = Inr (pkt, s') \<and>
     reader_recv toy_noise (toy_reader (take 20 pkt)) = Inr (Inl (Io ''early eof''), r')"
proof -
  obtain pkt s' where pkt: "send_encrypt toy_noise (nw_cipher toy_writer) [4] = Inr (pkt, s')"
    "length pkt = length [4 :: u8] + 34"
    using send_encrypt_size [OF toy_noise_lawful, of "[4]" "nw_cipher toy_writer"] by auto
  have "\<exists>r'. reader_recv toy_noise (toy_reader (take 20 pkt)) =
      Inr (Inl (Io (rx_err (nr_stream (toy_reader (take 20 pkt))))), r')"
    by (rule truncated_packet_reported [OF toy_noise_lawful toy_in_step _ pkt(1), where k = 20])
      (simp_all add: toy_reader_def pkt(2))
  then show ?thesis using pkt(1) by (simp add: toy_reader_def)
qed

text \<open>
  Sending succeeds as far as the cipher goes exactly up to 65535 bytes: a longer message is
  refused before anything is encrypted or written, with its length in the error.
\<close>

theorem send_size_limit:
  assumes "noise_lawful N"
  shows "(65535 < length msg \<longrightarrow>
      writer_send N w msg = Inr (Inl (Io (too_large (length msg))), w)) \<and>
    (length msg \<le> 65535 \<longrightarrow> tx_room (nw_stream w) = None \<longrightarrow>
      (\<exists>pkt w'. writer_send N w msg = Inr (Inr (), w') \<and> length pkt = length msg + 34 \<and>
        tx (nw_stream w') = tx (nw_stream w) @ pkt))"
  using send_encrypt_size [OF assms, of msg "nw_cipher w"] writer_send_ok [of msg w N]
  by (auto simp: writer_send_def NOISE_MAX_MESSAGE_SIZE_def)

theorem send_size_limit_witness:
  "(\<exists>pkt w'. writer_send toy_noise toy_writer [1] = Inr (Inr (), w') \<and> length pkt = 35 \<and>
      tx (nw_stream w') = pkt) \<and>
   writer_send toy_noise toy_writer (replicate 70000 1) = Inr (Inl (Io (too_large 70000)), toy_writer)"
  using send_size_limit [OF toy_noise_lawful, of "[1]" toy_writer]
    send_size_limit [OF toy_noise_lawful, of "replicate 70000 1" toy_writer]
  by (simp add: toy_writer_def)

text \<open>
  C8: \<open>recv_message\<close> passes over any run of pings, pongs and warnings and returns the first
  other message; on the way it answers each ping, in order, with its pong and sends nothing
  else. Both directions stay in step.
\<close>

theorem receive_loop_answers_pings:
  assumes "noise_lawful N" and "codec_lawful S" and "in_step s (nr_cipher r)"
    and "tx_room (nw_stream w) = None"
    and "\<forall>x \<in> set ms. wf_message x \<and> keepalive x" and "wf_message m" and "\<not> keepalive m"
    and "map (encode_message S) (ms @ [m]) = map Inr (raws @ [raw])"
    and "\<forall>p \<in> set (raws @ [raw]). length p \<le> 65535"
  shows "\<exists>pkts s' pongs sc'. send_all N s (raws @ [raw]) = Inr (pkts, s') \<and>
    send_all N (nw_cipher w) (pongs_for ms) = Inr (pongs, sc') \<and>
    (\<forall>rest. rx (nr_stream r) = concat pkts @ rest \<longrightarrow>
      (\<exists>r' w'. recv_message S N r w = Inr (Inr m, (r', w')) \<and>
        rx (nr_stream r') = rest \<and> in_step s' (nr_cipher r') \<and>
        tx (nw_stream w') = tx (nw_stream w) @ concat pongs \<and> nw_cipher w' = sc'))"
proof -
  have enc: "encode_message S m = Inr raw" "map (encode_message S) ms = map Inr raws"
    and len: "length raw \<le> 65535" "\<forall>p \<in> set raws. length p \<le> 65535"
    using assms(8,9) by simp_all
  from recv_message_filters [OF assms(1,2,6,7) enc(1) len(1) assms(3,4,5) enc(2) len(2)]
  obtain pkts s' c' pongs sc' where
    t: "send_all N s (raws @ [raw]) = Inr (pkts, s') \<and> in_step s' c' \<and>
      send_all N (nw_cipher w) (pongs_for ms) = Inr (pongs, sc') \<and>
      (\<forall>st rest. rx st = concat pkts @ rest \<longrightarrow>
        recv_message S N \<lparr>nr_stream = st, nr_cipher = nr_cipher r\<rparr> w =
          Inr (Inr m, (\<lparr>nr_stream = st\<lparr>rx := rest\<rparr>, nr_cipher = c'\<rparr>,
            \<lparr>nw_stream = (nw_stream w)\<lparr>tx := tx (nw_stream w) @ concat pongs\<rparr>,
             nw_cipher = sc'\<rparr>)))"
    by (elim exE)
  have "recv_message S N r w = Inr (Inr m, (\<lparr>nr_stream = (nr_stream r)\<lparr>rx := rest\<rparr>, nr_cipher = c'\<rparr>,
      \<lparr>nw_stream = (nw_stream w)\<lparr>tx := tx (nw_stream w) @ concat pongs\<rparr>, nw_cipher = sc'\<rparr>))"
    if "rx (nr_stream r) = concat pkts @ rest" for rest
    using conjunct2 [OF conjunct2 [OF conjunct2 [OF t]], rule_format, OF that] by simp
  with t show ?thesis by auto
qed

theorem receive_loop_answers_pings_witness:
  "\<exists>pkts s' pongs r' w'.
    send_all toy_noise (nw_cipher toy_writer)
      [write_u16 PING @ [0, 3, 0, 0], write_u16 33 @ [9]] = Inr (pkts, s') \<and>
    recv_message toy_secp toy_noise (toy_reader (concat pkts @ [5])) toy_writer =
      Inr (Inr (Unknown 33 [9]), (r', w')) \<and>
    rx (nr_stream r') = [5] \<and> tx (nw_stream w') = concat pongs \<and>
    send_all toy_noise (nw_cipher toy_writer)
      (pongs_for [Ping \<lparr>num_pong_bytes = 3, pi_ignored = []\<rparr> :: (u8, u8) message]) =
      Inr (pongs, nw_cipher w')"
proof -
  let ?raws = "[write_u16 PING @ [0, 3, 0, 0]]" and ?raw = "write_u16 33 @ [9]"
  let ?ms = "[Ping \<lparr>num_pong_bytes = 3, pi_ignored = []\<rparr> :: (u8, u8) message]"
  have enc: "map (encode_message toy_secp) (?ms @ [Unknown 33 [9]]) = map Inr (?raws @ [?raw])"
    by (simp add: encode_message_def encode_body_def msg_type_def encode_ping_def toy_bytes)
  have len: "\<forall>p \<in> set (?raws @ [?raw]). length p \<le> 65535" by (simp add: width_simps)
  have rx: "rx (nr_stream (toy_reader bs)) = bs" and tx: "tx (nw_stream toy_writer) = []"
    and room: "tx_room (nw_stream toy_writer) = None" for bs
    by (simp_all add: toy_reader_def toy_writer_def)
  have wf: "\<forall>x \<in> set ?ms. wf_message x \<and> keepalive x"
    "wf_message (Unknown 33 [9] :: (u8, u8) message)" "\<not> keepalive (Unknown 33 [9] :: (u8, u8) message)"
    by (simp_all add: wf_message_def wf_ping_def keepalive_def fits_u16_def toy_bytes)
  note loop = receive_loop_answers_pings [OF toy_noise_lawful toy_codec toy_in_step room wf enc len]
  obtain pkts s' where "send_all toy_noise (nw_cipher toy_writer) (?raws @ [?raw]) = Inr (pkts, s')"
    using loop by blast
  with loop [of "concat pkts @ [5]"] show ?thesis unfolding rx tx by auto
qed

text \<open>
  C31: A message that does not decode is not dropped and not an error: \<open>recv_message\<close> returns it as
  \<open>Unknown\<close> with its type number and payload, an even type or the type of a known message
  included, and answers nothing.
\<close>

theorem undecodable_returned_as_unknown:
  assumes "noise_lawful N" and "in_step s (nr_cipher r)" and "2 \<le> length p" and "length p \<le> 65535"
    and "decode_message S p = Inl e" and "send_encrypt N s p = Inr (pkt, s')"
    and "rx (nr_stream r) = pkt @ rest"
  shows "\<exists>r'. recv_message S N r w =
      Inr (Inr (Unknown (from_be_bytes (take 2 p)) (drop 2 p)), (r', w)) \<and>
    rx (nr_stream r') = rest \<and> in_step s' (nr_cipher r')"
proof -
  obtain pkt' s'' c' where pkt: "send_encrypt N s p = Inr (pkt', s'')" "in_step s'' c'"
    and recv: "\<forall>st rest. rx st = pkt' @ rest \<longrightarrow>
      reader_recv N \<lparr>nr_stream = st, nr_cipher = nr_cipher r\<rparr> =
        Inr (Inr p, \<lparr>nr_stream = st\<lparr>rx := rest\<rparr>, nr_cipher = c'\<rparr>)"
    using assms(1,2,4) by (rule reader_recv_packet)
  then have "reader_recv N r = Inr (Inr p, \<lparr>nr_stream = (nr_stream r)\<lparr>rx := rest\<rparr>, nr_cipher = c'\<rparr>)"
    using recv [rule_format, of "nr_stream r" rest] assms(6,7) by simp
  moreover obtain a b q where p: "p = a # b # q"
    using assms(3) by (cases p; cases "tl p") auto
  then have "u16_of_first_two p = Inr (from_be_bytes (take 2 p))" by (simp add: u16_of_first_two_def)
  ultimately show ?thesis
    using assms(3,5,6) pkt by (subst recv_message.simps) simp
qed

theorem undecodable_returned_as_unknown_witness:
  "\<exists>pkt s' r'. send_encrypt toy_noise (nw_cipher toy_writer) [0, 18] = Inr (pkt, s') \<and>
    recv_message toy_secp toy_noise (toy_reader pkt) toy_writer =
      Inr (Inr (Unknown 18 []), (r', toy_writer))"
proof -
  have bad: "decode_message toy_secp [0, 18] = Inl (Truncated 2 0)"
    "(from_be_bytes (take 2 [0, 18]) :: u16) = 18"
    by code_simp+
  obtain pkt s' where pkt: "send_encrypt toy_noise (nw_cipher toy_writer) [0, 18] = Inr (pkt, s')"
    using send_encrypt_size [OF toy_noise_lawful, of "[0, 18]" "nw_cipher toy_writer"] by auto
  have "rx (nr_stream (toy_reader pkt)) = pkt @ []" by (simp add: toy_reader_def)
  from undecodable_returned_as_unknown [OF toy_noise_lawful toy_in_step _ _ bad(1) pkt this]
  show ?thesis using pkt bad(2) by auto
qed



text \<open>
  C7: \<open>connect\<close> to an honest peer: against a responder with the key we connect to, which sends
  its second act and an \<open>init\<close>, we write the first act, the third act and one packet; the
  responder reads our static key from the third act and, from the packet, an \<open>init\<close> with its
  own feature bits. Both directions are in step afterwards and the rest of the stream is
  unread.
\<close>

theorem connect_to_honest_peer:
  assumes "noise_lawful N" and "codec_lawful S" and "ecdh_lawful S"
    and "wf_init m" and "encode_message S (Init m) = Inr raw" and "length raw \<le> 65535"
  shows "\<exists>act1 act2 act3 r1 r2 cr init_pkt peer_send reply reply_pkt sc rc peer_recv.
    process_act_one S N (new_responder S N sr er) act1 = Inr (Inr act2, r1) \<and>
    process_act_three S N r1 act3 = Inr (Inr (pk_of_sk S si), r2) \<and>
    into_cipher N r2 = Inr (Inr cr) \<and>
    send_encrypt N (fst (cipher_split cr)) raw = Inr (init_pkt, peer_send) \<and>
    encode_message S (Init (init_echo m)) = Inr reply \<and>
    reader_recv N \<lparr>nr_stream = \<lparr>rx = reply_pkt, rx_err = e\<rparr>, nr_cipher = snd (cipher_split cr)\<rparr> =
      Inr (Inr reply, \<lparr>nr_stream = \<lparr>rx = [], rx_err = e\<rparr>, nr_cipher = peer_recv\<rparr>) \<and>
    in_step peer_send rc \<and> in_step sc peer_recv \<and>
    connect S N H ei (Inr (\<lparr>tx = [], tx_room = None, tx_err = e\<rparr>,
        \<lparr>rx = act2 @ init_pkt @ rest, rx_err = e\<rparr>)) (pk_of_sk S sr) si =
      Inr (Inr (\<lparr>nw_stream = \<lparr>tx = act1 @ act3 @ reply_pkt, tx_room = None, tx_err = e\<rparr>,
                 nw_cipher = sc\<rparr>,
                \<lparr>nr_stream = \<lparr>rx = rest, rx_err = e\<rparr>, nr_cipher = rc\<rparr>, pk_of_sk S sr),
           Some (\<lparr>tx = act1 @ act3 @ reply_pkt, tx_room = None, tx_err = e\<rparr>,
                 \<lparr>rx = rest, rx_err = e\<rparr>))"
proof -
  let ?w = "\<lparr>tx = [], tx_room = None, tx_err = e\<rparr>"
  obtain act1 act2 act3 r1 r2 cr init_pkt peer_send reply reply_pkt sc rc peer_recv where
    c: "process_act_one S N (new_responder S N sr er) act1 = Inr (Inr act2, r1)"
    "process_act_three S N r1 act3 = Inr (Inr (pk_of_sk S si), r2)"
    "into_cipher N r2 = Inr (Inr cr)"
    "send_encrypt N (fst (cipher_split cr)) raw = Inr (init_pkt, peer_send)"
    "encode_message S (Init (init_echo m)) = Inr reply"
    "in_step peer_send rc" "in_step sc peer_recv"
    "\<forall>st rest. rx st = reply_pkt @ rest \<longrightarrow>
       reader_recv N \<lparr>nr_stream = st, nr_cipher = snd (cipher_split cr)\<rparr> =
       Inr (Inr reply, \<lparr>nr_stream = st\<lparr>rx := rest\<rparr>, nr_cipher = peer_recv\<rparr>)"
    "\<forall>w r rest. tx_room w = None \<longrightarrow> rx r = act2 @ init_pkt @ rest \<longrightarrow>
       connect S N H ei (Inr (w, r)) (pk_of_sk S sr) si =
       Inr (Inr (\<lparr>nw_stream = w\<lparr>tx := tx w @ act1 @ act3 @ reply_pkt\<rparr>, nw_cipher = sc\<rparr>,
                 \<lparr>nr_stream = r\<lparr>rx := rest\<rparr>, nr_cipher = rc\<rparr>, pk_of_sk S sr),
            Some (w\<lparr>tx := tx w @ act1 @ act3 @ reply_pkt\<rparr>, r\<lparr>rx := rest\<rparr>))"
    by (rule connect_honest [OF assms])
  show ?thesis
    using c(1-7) c(8) [rule_format, of "\<lparr>rx = reply_pkt, rx_err = e\<rparr>" "[]"]
      c(9) [rule_format, of ?w "\<lparr>rx = act2 @ init_pkt @ rest, rx_err = e\<rparr>" rest]
    by (intro exI conjI) simp_all
qed

theorem connect_to_honest_peer_witness:
  "let m = \<lparr>globalfeatures = [], in_features = [8], in_tlvs = \<lparr>networks = None, remote_addr = None\<rparr>\<rparr>;
       raw = write_u16 INIT @ [0, 0, 0, 1, 8] in
   \<exists>act1 act2 act3 r1 r2 cr init_pkt peer_send reply reply_pkt sc rc peer_recv.
    process_act_one toy_secp toy_noise (new_responder toy_secp toy_noise 3 4) act1 =
      Inr (Inr act2, r1) \<and>
    process_act_three toy_secp toy_noise r1 act3 = Inr (Inr (pk_of_sk toy_secp 1), r2) \<and>
    into_cipher toy_noise r2 = Inr (Inr cr) \<and>
    send_encrypt toy_noise (fst (cipher_split cr)) raw = Inr (init_pkt, peer_send) \<and>
    encode_message toy_secp (Init (init_echo m)) = Inr reply \<and>
    reader_recv toy_noise
      \<lparr>nr_stream = \<lparr>rx = reply_pkt, rx_err = ''eof''\<rparr>, nr_cipher = snd (cipher_split cr)\<rparr> =
      Inr (Inr reply, \<lparr>nr_stream = \<lparr>rx = [], rx_err = ''eof''\<rparr>, nr_cipher = peer_recv\<rparr>) \<and>
    in_step peer_send rc \<and> in_step sc peer_recv \<and>
    connect toy_secp toy_noise toy_hex 2 (Inr (\<lparr>tx = [], tx_room = None, tx_err = ''eof''\<rparr>,
        \<lparr>rx = act2 @ init_pkt @ [5], rx_err = ''eof''\<rparr>)) (pk_of_sk toy_secp 3) 1 =
      Inr (Inr (\<lparr>nw_stream = \<lparr>tx = act1 @ act3 @ reply_pkt, tx_room = None, tx_err = ''eof''\<rparr>,
                 nw_cipher = sc\<rparr>,
                \<lparr>nr_stream = \<lparr>rx = [5], rx_err = ''eof''\<rparr>, nr_cipher = rc\<rparr>, pk_of_sk toy_secp 3),
           Some (\<lparr>tx = act1 @ act3 @ reply_pkt, tx_room = None, tx_err = ''eof''\<rparr>,
                 \<lparr>rx = [5], rx_err = ''eof''\<rparr>))"
  unfolding Let_def
  by (rule connect_to_honest_peer [OF toy_noise_lawful toy_codec toy_ecdh])
    (simp add: wf_init_def wf_init_tlvs_def opt_fits_u64_def fits_u16_def, code_simp,
     simp add: width_simps)

text \<open>
  C30: \<open>NoiseConnection\<close> behaves as a \<open>NoiseWriter\<close> and a \<open>NoiseReader\<close> over the halves of its
  cipher: the same bytes on the stream, the same messages, the same errors up to their type;
  its handshake is that of \<open>connect\<close>.
\<close>

theorem noise_connection_refines:
  "perform_handshake S N stream static ephemeral remote =
     conv (noise_as_initiator S N (new_initiator S N static ephemeral remote) stream) \<and>
   conn_recv_message N (conn_join w r) =
     and_then (reader_recv N r) (\<lambda>(res, r). Inr (map_err conn_error res, conn_join w r)) \<and>
   (length msg \<le> 65535 \<longrightarrow> conn_send_message N (conn_join w r) msg =
     and_then (writer_send N w msg) (\<lambda>(res, w). Inr (map_err conn_error res, conn_join w r)))"
  by (intro conjI impI perform_handshake_conv conn_recv_join conn_send_join)

theorem noise_connection_refines_witness:
  "perform_handshake toy_secp toy_noise (nw_stream toy_writer, nr_stream (toy_reader [])) 1 2 3 =
     conv (noise_as_initiator toy_secp toy_noise (new_initiator toy_secp toy_noise 1 2 3)
       (nw_stream toy_writer, nr_stream (toy_reader []))) \<and>
   conn_send_message toy_noise (conn_join toy_writer (toy_reader [])) [8] =
     and_then (writer_send toy_noise toy_writer [8])
       (\<lambda>(res, w). Inr (map_err conn_error res, conn_join w (toy_reader [])))"
  using noise_connection_refines [of toy_secp toy_noise _ 1 2 3 toy_writer "toy_reader []" "[8]"]
  by simp

end
