(* ===== verification/Scid.thy ===== *)
theory Scid
  imports Bolt7
begin

text \<open>
  Short channel ids as text: \<open>parse_scid\<close> of \<open>ln-gossip-sim/src/bin/simd.rs\<close> with the
  \<open>str::split\<close> and \<open>u64::from_str\<close> it uses, the composition of an id in
  \<open>ln-gossip-sim/src/bitcoind.rs\<close>, and the round trip with \<open>scid_str\<close>.
\<close>

section \<open>Definitions\<close>

text \<open>\<open>s.split(p)\<close>: the fields between the separators, at least one.\<close>

fun split_where :: "(char \<Rightarrow> bool) \<Rightarrow> string \<Rightarrow> string list" where
  "split_where p [] = [[]]"
| "split_where p (a # s) =
     (if p a then [] # split_where p s
      else (case split_where p s of [] \<Rightarrow> [[a]] | f # fs \<Rightarrow> (a # f) # fs))"

definition split_on :: "char \<Rightarrow> string \<Rightarrow> string list" where
  "split_on c = split_where (\<lambda>a. a = c)"

definition is_digit :: "char \<Rightarrow> bool" where
  "is_digit c \<longleftrightarrow> 48 \<le> (of_char c :: nat) \<and> (of_char c :: nat) \<le> 57"

definition nat_of_digits :: "string \<Rightarrow> nat" where
  "nat_of_digits s = foldl (\<lambda>a c. a * 10 + (of_char c - 48)) 0 s"

text \<open>\<open>u64::from_str\<close>: digits after at most one plus sign, and no overflow.\<close>

definition parse_u64 :: "string \<Rightarrow> u64 option" where
  "parse_u64 s =
     (let ds = (case s of c # cs \<Rightarrow> if c = CHR ''+'' then cs else s | [] \<Rightarrow> []) in
      if ds = [] \<or> \<not> list_all is_digit ds then None
      else if nat_of_digits ds < 2 ^ 64 then Some (word_of_nat (nat_of_digits ds)) else None)"

text \<open>\<open>fields.next()?.parse().ok()?\<close>\<close>

definition next_u64 :: "string list \<Rightarrow> (u64 \<times> string list) option" where
  "next_u64 fs =
     (case fs of [] \<Rightarrow> None
      | f # fs \<Rightarrow> (case parse_u64 f of None \<Rightarrow> None | Some v \<Rightarrow> Some (v, fs)))"

definition make_scid :: "u64 \<Rightarrow> u64 \<Rightarrow> u64 \<Rightarrow> u64" where
  "make_scid block tx_index output = (push_bit 40 block OR push_bit 16 tx_index) OR output"

definition parse_scid :: "string \<Rightarrow> u64 option" where
  "parse_scid s =
     Option.bind (next_u64 (split_on (CHR ''x'') s)) (\<lambda>(block, fs).
     Option.bind (next_u64 fs) (\<lambda>(tx_index, fs).
     Option.bind (next_u64 fs) (\<lambda>(output, fs).
     if fs \<noteq> [] \<or> block > 0xFFFFFF \<or> tx_index > 0xFFFFFF \<or> output > 0xFFFF then None
     else Some (make_scid block tx_index output))))"

section \<open>Decimal numbers\<close>

lemma digit_char:
  fixes n :: nat
  assumes "n < 10"
  shows "is_digit (char_of (48 + n))" and "of_char (char_of (48 + n) :: char) = 48 + n"
  using assms by (simp_all add: is_digit_def of_char_mod_256)

lemma nat_of_digits_snoc: "nat_of_digits (s @ [c]) = nat_of_digits s * 10 + (of_char c - 48)"
  by (simp add: nat_of_digits_def)

lemma string_of_nat_digits:
  "nat_of_digits (string_of_nat n) = n \<and> list_all is_digit (string_of_nat n) \<and>
     string_of_nat n \<noteq> []"
proof (induction n rule: string_of_nat.induct)
  case (1 n)
  show ?case
  proof (cases "n < 10")
    case True
    then show ?thesis using digit_char [OF True]
      by (subst (1 2 3) string_of_nat.simps) (simp add: nat_of_digits_def)
  next
    case False
    have "n mod 10 < 10" by simp
    note d = digit_char [OF this]
    show ?thesis using 1 [OF False] False d
      by (subst (1 2 3) string_of_nat.simps) (simp add: nat_of_digits_snoc)
  qed
qed

lemma not_plus_or_x: "is_digit c \<Longrightarrow> c \<noteq> CHR ''+'' \<and> c \<noteq> CHR ''x''"
  by (auto simp: is_digit_def)

lemma parse_string_of_nat:
  assumes "n < 2 ^ 64"
  shows "parse_u64 (string_of_nat n) = Some (word_of_nat n)"
proof -
  have d: "nat_of_digits (string_of_nat n) = n" "list_all is_digit (string_of_nat n)"
    "string_of_nat n \<noteq> []"
    using string_of_nat_digits [of n] by simp_all
  then obtain c cs where s: "string_of_nat n = c # cs" by (cases "string_of_nat n") auto
  then have "c \<noteq> CHR ''+''" using d(2) not_plus_or_x by auto
  then show ?thesis using assms d by (simp add: parse_u64_def s)
qed

lemma split_where_field:
  "\<forall>a \<in> set w. \<not> p a \<Longrightarrow> p c \<Longrightarrow> split_where p (w @ c # rest) = w # split_where p rest"
  "\<forall>a \<in> set w. \<not> p a \<Longrightarrow> split_where p w = [w]"
  by (induction w) auto

lemma split_on_digits:
  "list_all is_digit s \<Longrightarrow> split_on (CHR ''x'') (s @ CHR ''x'' # rest) = s # split_on (CHR ''x'') rest"
  "list_all is_digit s \<Longrightarrow> split_on (CHR ''x'') s = [s]"
  unfolding split_on_def
  by (rule split_where_field; use not_plus_or_x in \<open>fastforce simp: list_all_iff\<close>)+

section \<open>The fields of an id\<close>

lemma make_scid_fields:
  "make_scid (drop_bit 40 n) (drop_bit 16 n AND 0xFFFFFF) (n AND 0xFFFF) = n"
proof -
  have m: "(0xFFFFFF :: u64) = mask 24" "(0xFFFF :: u64) = mask 16" by (simp_all add: mask_eq_exp_minus_1)
  show ?thesis
    unfolding make_scid_def m
  proof (rule bit_word_eqI)
    fix i
    assume "i < LENGTH(64)"
    then consider "i < 16" | "16 \<le> i" "i < 40" | "40 \<le> i" "i < 64" by fastforce
    then show "bit ((push_bit 40 (drop_bit 40 n) OR push_bit 16 (drop_bit 16 n AND mask 24)) OR
        n AND mask 16) i = bit n i"
      by cases (auto simp: bit_push_bit_iff bit_drop_bit_eq bit_and_iff bit_or_iff bit_mask_iff)
  qed
qed

lemma scid_field_bounds:
  "drop_bit 40 (n :: u64) \<le> 0xFFFFFF" "drop_bit 16 n AND 0xFFFFFF \<le> (0xFFFFFF :: u64)"
  "n AND 0xFFFF \<le> (0xFFFF :: u64)"
proof -
  have "unat (drop_bit 40 n) < 2 ^ 24"
    using unat_u64_less [of n] by (simp add: drop_bit_eq_div unat_div_distrib)
  then show "drop_bit 40 n \<le> 0xFFFFFF" by (simp add: word_le_nat_alt)
qed (simp_all add: word_and_le1)

lemma small_word_bits: "uint w < 2 ^ n \<Longrightarrow> bit w i \<Longrightarrow> i < n" for w :: u64
proof -
  assume "uint w < 2 ^ n"
  then have "w AND mask n = w" by (simp only: mask_eq_iff)
  moreover assume "bit w i"
  ultimately have "bit (w AND mask n) i" by simp
  then show "i < n" by (simp add: bit_and_iff bit_mask_iff)
qed

lemma fields_make_scid:
  assumes "b \<le> 0xFFFFFF" and "t \<le> 0xFFFFFF" and "out \<le> 0xFFFF"
  shows "drop_bit 40 (make_scid b t out) = b"
    and "drop_bit 16 (make_scid b t out) AND 0xFFFFFF = t"
    and "make_scid b t out AND 0xFFFF = out"
proof -
  have m: "(0xFFFFFF :: u64) = mask 24" "(0xFFFF :: u64) = mask 16" by (simp_all add: mask_eq_exp_minus_1)
  have bits: "bit b i \<Longrightarrow> i < 24" "bit t i \<Longrightarrow> i < 24" "bit out i \<Longrightarrow> i < 16" for i
    using assms small_word_bits [of b 24] small_word_bits [of t 24] small_word_bits [of out 16]
    by (simp_all add: word_le_def)
  note sel = bit_push_bit_iff bit_drop_bit_eq bit_and_iff bit_or_iff bit_mask_iff make_scid_def
  show "drop_bit 40 (make_scid b t out) = b"
    by (rule bit_word_eqI) (auto simp: sel dest: bits)
  show "drop_bit 16 (make_scid b t out) AND 0xFFFFFF = t"
    unfolding m by (rule bit_word_eqI) (auto simp: sel dest: bits)
  show "make_scid b t out AND 0xFFFF = out"
    unfolding m by (rule bit_word_eqI) (auto simp: sel dest: bits)
qed

section \<open>Parsing what is printed\<close>

lemma next_u64_string: "next_u64 (string_of_nat (unat w) # fs) = Some (w, fs)"
proof -
  have "parse_u64 (string_of_nat (unat w)) = Some (word_of_nat (unat w))"
    using unat_u64_less [of w] by (rule parse_string_of_nat)
  then show ?thesis by (simp add: next_u64_def)
qed

lemma split_scid_str:
  "split_on (CHR ''x'') (string_of_nat a @ ''x'' @ string_of_nat b @ ''x'' @ string_of_nat c) =
     [string_of_nat a, string_of_nat b, string_of_nat c]"
  using string_of_nat_digits by (simp add: split_on_digits)

lemma parse_three:
  "parse_scid (string_of_nat (unat b) @ ''x'' @ string_of_nat (unat t) @ ''x'' @
     string_of_nat (unat out)) =
   (if b > 0xFFFFFF \<or> t > 0xFFFFFF \<or> out > 0xFFFF then None else Some (make_scid b t out))"
  by (simp only: parse_scid_def split_scid_str next_u64_string Option.bind.bind_lunit prod.case)
    simp

lemma parse_scid_str [simp]: "parse_scid (scid_str n) = Some n"
  using scid_field_bounds [of n]
  by (simp only: scid_str_def Let_def parse_three make_scid_fields not_less simp_thms if_False
      not_le [symmetric])

end
