(* ===== verification/Peer.thy ===== *)
theory Peer
  imports Conn Scid
begin

text \<open>
  One connection of the daemon \<open>ln-gossip-sim/src/bin/simd.rs\<close>: the reaction to an inbound
  message, the two branches of the read task's \<open>select!\<close>, and what it means that a branch
  cancels the other; with the fixed keys of \<open>ln-gossip-sim/src/keys.rs\<close>. Logging is left out.
\<close>

section \<open>Keys and constants\<close>

definition SEED :: bytes where "SEED = replicate 32 0x11"
definition SEED_2 :: bytes where "SEED_2 = replicate 32 0x22"

definition node_secret :: "('pk, 'sk, 'sig) secp \<Rightarrow> panic + 'sk" where
  "node_secret S = ok_or (sk_from_slice S SEED) (Panic ''SEED is a valid 32-byte secret key'')"

definition node_secret_2 :: "('pk, 'sk, 'sig) secp \<Rightarrow> panic + 'sk" where
  "node_secret_2 S = ok_or (sk_from_slice S SEED_2) (Panic ''SEED_2 is a valid 32-byte secret key'')"

definition node_id :: "('pk, 'sk, 'sig) secp \<Rightarrow> panic + 'pk" where
  "node_id S = and_then (node_secret S) (\<lambda>sk. Inr (pk_of_sk S sk))"

definition REGTEST_CHAIN_HASH :: bytes where
  "REGTEST_CHAIN_HASH =
     [0x06, 0x22, 0x6e, 0x46, 0x11, 0x1a, 0x0b, 0x59, 0xca, 0xaf, 0x12, 0x60, 0x43, 0xeb, 0x5b, 0xbf,
      0x28, 0xc3, 0x4f, 0x3a, 0x5e, 0x33, 0x2a, 0x1f, 0xc7, 0xb2, 0xb7, 0x3c, 0xf1, 0x88, 0x91, 0x0f]"

section \<open>Inbound messages\<close>

text \<open>The answer to a \<open>query_channel_range\<close>: the whole range, no ids, complete.\<close>

definition empty_reply :: "query_channel_range \<Rightarrow> reply_channel_range" where
  "empty_reply query =
     reply_from_scids (qr_chain_hash query) (qr_first_blocknum query) (qr_number_of_blocks query)
       True []"

text \<open>\<open>writer.lock().await.send(..)\<close>, with \<open>false\<close> for an error.\<close>

definition send_or_stop ::
    "('pk, 'sk, 'sig) secp \<Rightarrow> noise_lib \<Rightarrow> noise_writer \<Rightarrow> ('pk, 'sig) message \<Rightarrow>
     panic + bool \<times> noise_writer" where
  "send_or_stop S N w m =
     and_then (encode_message S m) (\<lambda>resp.
     and_then (writer_send N w resp) (\<lambda>(res, w).
     Inr (case res of Inl _ \<Rightarrow> False | Inr _ \<Rightarrow> True, w)))"

definition handle_peer_message ::
    "('pk, 'sk, 'sig) secp \<Rightarrow> noise_lib \<Rightarrow> noise_writer \<Rightarrow> bytes \<Rightarrow> panic + bool \<times> noise_writer" where
  "handle_peer_message S N w raw =
     (case decode_message S raw of
        Inr (Ping ping) \<Rightarrow> send_or_stop S N w (Pong (pong_respond_to ping))
      | Inr (QueryChannelRange query) \<Rightarrow>
          send_or_stop S N w (ReplyChannelRange (empty_reply query))
      | Inr msg \<Rightarrow> Inr (True, w)
      | Inl _ \<Rightarrow> and_then (u16_of_first_two raw) (\<lambda>mt. Inr (True, w)))"

section \<open>The read task\<close>

text \<open>The two branches of \<open>select!\<close>; the flag says whether the loop goes on.\<close>

definition task_recv ::
    "('pk, 'sk, 'sig) secp \<Rightarrow> noise_lib \<Rightarrow> noise_reader \<Rightarrow> noise_writer \<Rightarrow>
     panic + bool \<times> noise_reader \<times> noise_writer" where
  "task_recv S N r w =
     and_then (reader_recv N r) (\<lambda>(res, r). case res of
       Inr raw \<Rightarrow>
         if length raw < 2 then Inr (False, r, w)
         else and_then (handle_peer_message S N w raw) (\<lambda>(go, w). Inr (go, r, w))
     | Inl e \<Rightarrow> Inr (False, r, w))"

definition task_tick ::
    "('pk, 'sk, 'sig) secp \<Rightarrow> noise_lib \<Rightarrow> noise_writer \<Rightarrow> panic + bool \<times> noise_writer" where
  "task_tick S N w = send_or_stop S N w (Ping (ping_new 1))"

text \<open>
  When the ticker wins, \<open>select!\<close> drops the future of \<open>reader.recv()\<close> at the point where it
  waits for the stream: inside the header, with \<open>k\<close> of its bytes read, or inside the body,
  with the header decrypted and \<open>k\<close> bytes of the body read. The bytes read are lost.
\<close>

inductive recv_cancelled :: "noise_lib \<Rightarrow> noise_reader \<Rightarrow> noise_reader \<Rightarrow> bool" for N where
  in_header: "k < ENCRYPTED_LENGTH_SIZE \<Longrightarrow> k \<le> length (rx (nr_stream r)) \<Longrightarrow>
    recv_cancelled N r (r\<lparr>nr_stream := (nr_stream r)\<lparr>rx := drop k (rx (nr_stream r))\<rparr>\<rparr>)"
| in_body: "read_exact (nr_stream r) ENCRYPTED_LENGTH_SIZE = (Inr header, stream) \<Longrightarrow>
    recv_decrypt_length N (nr_cipher r) header = Inr (Inr msg_len, c) \<Longrightarrow>
    k < unat msg_len + MAC_SIZE \<Longrightarrow> k \<le> length (rx stream) \<Longrightarrow>
    recv_cancelled N r \<lparr>nr_stream = stream\<lparr>rx := drop k (rx stream)\<rparr>, nr_cipher = c\<rparr>"

section \<open>What the handler does\<close>

lemma empty_reply_ids: "short_channel_ids (empty_reply q) = Inr []"
  by (simp add: empty_reply_def short_channel_ids_from_scids)

lemma decoded_query_wf:
  assumes "codec_lawful S" and "decode_message S raw = Inr (QueryChannelRange q)"
  shows "length (qr_chain_hash q) = CHAIN_HASH_SIZE"
proof -
  have "wf_message (QueryChannelRange q :: ('a, 'c) message)"
    using messages.decode_wf [OF assms] .
  then show ?thesis by (simp add: wf_message_def wf_query_channel_range_def)
qed

lemma empty_reply_message:
  assumes "length (qr_chain_hash q) = CHAIN_HASH_SIZE"
  obtains bs where "encode_message S (ReplyChannelRange (empty_reply q)) = Inr bs"
    and "length bs = 46" and "wf_message (ReplyChannelRange (empty_reply q) :: ('pk, 'sig) message)"
proof -
  let ?bs = "write_u16 REPLY_CHANNEL_RANGE @ qr_chain_hash q @
      write_u32 (qr_first_blocknum q) @ write_u32 (qr_number_of_blocks q) @
      write_u8 1 @ write_vec (write_u8 ENCODING_UNCOMPRESSED)"
  have "encode_message S (ReplyChannelRange (empty_reply q)) = Inr ?bs"
    by (simp add: encode_message_def encode_body_def msg_type_def encode_reply_channel_range_def
        empty_reply_def reply_from_scids_def tlv_add_opt_def write_array_def tlv_encode_def
        tlv_new_def)
  moreover have "length ?bs = 46" using assms by (simp add: width_simps CHAIN_HASH_SIZE_def)
  moreover have "wf_message (ReplyChannelRange (empty_reply q) :: ('pk, 'sig) message)"
    using assms by (simp add: wf_message_def wf_reply_channel_range_def empty_reply_def
        reply_from_scids_def fits_u16_def opt_fits_u64_def width_simps)
  ultimately show thesis by (rule that)
qed

lemma send_or_stop_total:
  "noise_lawful N \<Longrightarrow> \<exists>go w'. send_or_stop S N w m = Inr (go, w')"
proof -
  assume "noise_lawful N"
  obtain resp where "encode_message S m = Inr resp" using messages.encode_total by blast
  then show ?thesis
    using writer_send_total [OF \<open>noise_lawful N\<close>, of w resp]
    by (auto simp: send_or_stop_def)
qed

lemma handle_peer_message_total:
  assumes "noise_lawful N" and "2 \<le> length raw"
  shows "\<exists>go w'. handle_peer_message S N w raw = Inr (go, w')"
proof (cases "decode_message S raw")
  case (Inl e)
  then show ?thesis using u16_of_first_two_total [OF assms(2)] by (auto simp: handle_peer_message_def)
next
  case (Inr m)
  then show ?thesis using send_or_stop_total [OF assms(1), of S w]
    by (cases m) (auto simp: handle_peer_message_def)
qed

lemma task_recv_total:
  assumes "noise_lawful N"
  shows "\<exists>go r' w'. task_recv S N r w = Inr (go, r', w')"
proof -
  obtain res r' where r: "reader_recv N r = Inr (res, r')" using reader_recv_total [OF assms] by blast
  show ?thesis
  proof (cases "\<exists>raw. res = Inr raw \<and> 2 \<le> length raw")
    case True
    then show ?thesis using r handle_peer_message_total [OF assms, of _ S w]
      by (fastforce simp: task_recv_def)
  next
    case False
    then show ?thesis using r by (cases res) (auto simp: task_recv_def not_le)
  qed
qed

end
