(* ===== verification/Bitcoind.thy ===== *)
theory Bitcoind
  imports Scid
begin

text \<open>
  The client of Bitcoin Core in \<open>ln-gossip-sim/src/bitcoind.rs\<close> and the error type of
  \<open>ln-gossip-sim/src/error.rs\<close>. The calls of the crate \<open>corepc-client\<close> are parameters that
  act on the state of the node and wallet, of any type \<open>'w\<close>; what the code reads of a JSON
  reply (\<open>as_str\<close>, \<open>as_u64\<close>, \<open>as_array\<close> of a field) is the reply, with \<open>None\<close> for a field of
  another kind.
\<close>

section \<open>Errors\<close>

datatype sim_error =
    Rpc string
  | Address string
  | Descriptor string
  | Chain string

fun sim_error_str :: "sim_error \<Rightarrow> string" where
  "sim_error_str (Rpc e) = ''RPC: '' @ e"
| "sim_error_str (Address e) = ''address: '' @ e"
| "sim_error_str (Descriptor e) = ''descriptor: '' @ e"
| "sim_error_str (Chain e) = ''chain: '' @ e"

section \<open>The node, the wallet and the source of keys\<close>

text \<open>
  \<open>rpc_connect\<close> is \<open>Client::new_with_auth\<close> for a URL. A call returns the text of its error or
  its reply: \<open>chain_name\<close> the field \<open>chain\<close> of \<open>getblockchaininfo\<close>; \<open>descriptor_checksum\<close> and
  \<open>derived_address\<close> the string the code takes from the replies; \<open>import_descriptor\<close> the
  field \<open>success\<close> and the text of the field \<open>error\<close>; \<open>get_block\<close> the height and the
  transaction ids; \<open>get_raw_tx\<close>, given a transaction id and a block hash, the address of each
  output. An address is its text.
\<close>

type_synonym ('w, 'a) rpc_call = "'w \<Rightarrow> (string + 'a) \<times> 'w"

record ('sk, 'w) bitcoind_rpc =
  rpc_connect :: "string \<Rightarrow> ('w, unit) rpc_call"
  chain_name :: "('w, string option) rpc_call"
  load_wallet :: "string \<Rightarrow> ('w, unit) rpc_call"
  create_wallet :: "string \<Rightarrow> ('w, unit) rpc_call"
  get_block_count :: "('w, u64) rpc_call"
  get_best_hash :: "('w, string) rpc_call"
  get_balance :: "('w, string) rpc_call"
  generate_key :: "'w \<Rightarrow> 'sk \<times> 'w"
  to_wif :: "'sk \<Rightarrow> string"
  descriptor_checksum :: "string \<Rightarrow> ('w, string option) rpc_call"
  derived_address :: "string \<Rightarrow> ('w, string option) rpc_call"
  parse_address :: "string \<Rightarrow> string + string"
  import_descriptor :: "string \<Rightarrow> ('w, bool option \<times> string) rpc_call"
  generate_to_address :: "nat \<Rightarrow> string \<Rightarrow> ('w, string list) rpc_call"
  get_block :: "string \<Rightarrow> ('w, u64 option \<times> string option list option) rpc_call"
  get_raw_tx :: "string \<Rightarrow> string \<Rightarrow> ('w, string option list option) rpc_call"

text \<open>A call with its error wrapped, and a value checked between two calls.\<close>

definition rpc :: "('w, 'a) rpc_call \<Rightarrow> (string \<Rightarrow> sim_error) \<Rightarrow> 'w \<Rightarrow> (sim_error, 'a, 'w) outcome" where
  "rpc call wrap w = (case call w of (res, w) \<Rightarrow> Inr (map_err wrap res, w))"

definition need :: "'a option \<Rightarrow> sim_error \<Rightarrow> 'w \<Rightarrow> (sim_error, 'a, 'w) outcome" where
  "need value e w = Inr (ok_or value e, w)"

section \<open>BitcoindClient::new\<close>

definition WALLET_NAME :: string where "WALLET_NAME = ''ln-gossip-sim''"

definition trim_end :: "char \<Rightarrow> string \<Rightarrow> string" where
  "trim_end c s = rev (dropWhile (\<lambda>x. x = c) (rev s))"

definition ensure_wallet :: "('sk, 'w) bitcoind_rpc \<Rightarrow> 'w \<Rightarrow> (sim_error, unit, 'w) outcome" where
  "ensure_wallet R w =
     (case load_wallet R WALLET_NAME w of
        (Inr _, w) \<Rightarrow> Inr (Inr (), w)
      | (Inl msg, w) \<Rightarrow>
          if contains msg ''already loaded'' then Inr (Inr (), w)
          else rpc (create_wallet R WALLET_NAME) (\<lambda>e. Rpc (''create wallet: '' @ e)) w)"

text \<open>The credentials go to every call alike and are left out.\<close>

definition client_new :: "('sk, 'w) bitcoind_rpc \<Rightarrow> string \<Rightarrow> 'w \<Rightarrow> (sim_error, unit, 'w) outcome" where
  "client_new R url w =
     try_then (rpc (rpc_connect R url) Rpc w) (\<lambda>_ w.
     try_then (rpc (chain_name R) Rpc w) (\<lambda>info w.
     try_then (need info (Rpc ''missing chain field'') w) (\<lambda>chain w.
     if chain \<noteq> ''regtest'' then Inr (Inl (Chain (''expected regtest, got '' @ chain)), w)
     else
       try_then (ensure_wallet R w) (\<lambda>_ w.
       rpc (rpc_connect R (trim_end CHR ''/'' url @ ''/wallet/'' @ WALLET_NAME)) Rpc w))))"

section \<open>Queries with a default\<close>

definition block_count :: "('sk, 'w) bitcoind_rpc \<Rightarrow> 'w \<Rightarrow> u64 \<times> 'w" where
  "block_count R w = (case get_block_count R w of (Inl _, w) \<Rightarrow> (0, w) | (Inr c, w) \<Rightarrow> (c, w))"

definition best_block_hash :: "('sk, 'w) bitcoind_rpc \<Rightarrow> 'w \<Rightarrow> string \<times> 'w" where
  "best_block_hash R w =
     (case get_best_hash R w of (Inl _, w) \<Rightarrow> (''unknown'', w) | (Inr h, w) \<Rightarrow> (h, w))"

definition balance :: "('sk, 'w) bitcoind_rpc \<Rightarrow> 'w \<Rightarrow> string \<times> 'w" where
  "balance R w = (case get_balance R w of (Inl _, w) \<Rightarrow> (''0 BTC'', w) | (Inr b, w) \<Rightarrow> (b, w))"

section \<open>Funding addresses\<close>

record ('pk, 'sk) funding_keys =
  fk_address :: string
  fk_sk1 :: 'sk
  fk_sk2 :: 'sk
  fk_pk1 :: 'pk
  fk_pk2 :: 'pk

text \<open>
  The public keys are compared as \<open>bitcoin::PublicKey\<close>s, both compressed, which is the order of
  the keys they wrap.
\<close>

definition sort_keys ::
    "('pk, 'sk, 'sig) secp \<Rightarrow> 'sk \<Rightarrow> 'sk \<Rightarrow> 'sk \<times> 'sk" where
  "sort_keys S sk1 sk2 = (if pk_less S (pk_of_sk S sk1) (pk_of_sk S sk2) then (sk1, sk2) else (sk2, sk1))"

definition funding_descriptor :: "('sk, 'w) bitcoind_rpc \<Rightarrow> 'sk \<Rightarrow> 'sk \<Rightarrow> string" where
  "funding_descriptor R sk1 sk2 =
     ''wsh(multi(2,'' @ to_wif R sk1 @ '','' @ to_wif R sk2 @ ''))''"

definition new_funding_address ::
    "('pk, 'sk, 'sig) secp \<Rightarrow> ('sk, 'w) bitcoind_rpc \<Rightarrow> 'w \<Rightarrow>
     (sim_error, ('pk, 'sk) funding_keys, 'w) outcome" where
  "new_funding_address S R w =
     (let (sk1, w) = generate_key R w;
          (sk2, w) = generate_key R w;
          (sk1, sk2) = sort_keys S sk1 sk2;
          desc = funding_descriptor R sk1 sk2 in
      try_then (rpc (descriptor_checksum R desc) Descriptor w) (\<lambda>info w.
      try_then (need info (Descriptor ''missing checksum'') w) (\<lambda>checksum w.
      let desc_full = desc @ ''#'' @ checksum in
      try_then (rpc (derived_address R desc_full) Address w) (\<lambda>addrs w.
      try_then (need addrs (Address ''missing address in deriveaddresses'') w) (\<lambda>text w.
      try_then (Inr (map_err Address (parse_address R text), w)) (\<lambda>addr w.
      try_then (rpc (import_descriptor R desc_full) Descriptor w) (\<lambda>(success, error) w.
      if success = Some False
      then Inr (Inl (Descriptor (''importdescriptors: '' @ error)), w)
      else Inr (Inr \<lparr>fk_address = addr, fk_sk1 = sk1, fk_sk2 = sk2, fk_pk1 = pk_of_sk S sk1,
                     fk_pk2 = pk_of_sk S sk2\<rparr>, w))))))))"

section \<open>Mining\<close>

text \<open>
  The search of the block for the output that pays to the address: the positions of the first
  transaction with such an output, and of its first such output.
\<close>

fun find_output ::
    "('sk, 'w) bitcoind_rpc \<Rightarrow> string \<Rightarrow> string \<Rightarrow> nat \<Rightarrow> string option list \<Rightarrow> 'w \<Rightarrow>
     (sim_error, (u64 \<times> u64) option, 'w) outcome" where
  "find_output R first_hash addr ti [] w = Inr (Inr None, w)"
| "find_output R first_hash addr ti (txid_val # txids) w =
     try_then (need txid_val (Rpc ''txid is not a string'') w) (\<lambda>txid w.
     try_then (rpc (get_raw_tx R txid first_hash) Rpc w) (\<lambda>tx w.
     try_then (need tx (Rpc ''tx has no vout'') w) (\<lambda>vout w.
     case position (\<lambda>out. out = Some addr) vout of
       Some oi \<Rightarrow> Inr (Inr (Some (word_of_nat ti, word_of_nat oi)), w)
     | None \<Rightarrow> find_output R first_hash addr (Suc ti) txids w)))"

text \<open>\<open>r.0[0]\<close> panics when no block was mined.\<close>

definition first_block :: "string list \<Rightarrow> panic + string" where
  "first_block hashes =
     (case hashes of
        [] \<Rightarrow> Inl (Panic ''index out of bounds: the len is 0 but the index is 0'')
      | h # _ \<Rightarrow> Inr h)"

definition mined_text :: "nat \<Rightarrow> string \<Rightarrow> string" where
  "mined_text n addr = ''Mined '' @ string_of_nat n @ '' block(s) to '' @ addr @ [CHR 0x0A]"

definition mine_to_funding ::
    "('pk, 'sk, 'sig) secp \<Rightarrow> ('sk, 'w) bitcoind_rpc \<Rightarrow> nat \<Rightarrow> 'w \<Rightarrow>
     (sim_error, string \<times> ('pk, 'sk) funding_keys \<times> u64, 'w) outcome" where
  "mine_to_funding S R blocks w =
     try_then (new_funding_address S R w) (\<lambda>funding w.
     try_then (rpc (generate_to_address R blocks (fk_address funding)) Rpc w) (\<lambda>hashes w.
     and_then (first_block hashes) (\<lambda>first_hash.
     try_then (rpc (get_block R first_hash) Rpc w) (\<lambda>(height, tx) w.
     try_then (need height (Rpc ''block has no height'') w) (\<lambda>block_height w.
     try_then (need tx (Rpc ''block has no tx array'') w) (\<lambda>txids w.
     try_then (find_output R first_hash (fk_address funding) 0 txids w) (\<lambda>found w.
     try_then (need found (Rpc ''funding output not found in block'') w)
       (\<lambda>(tx_index, output_index) w.
     Inr (Inr (mined_text (length hashes) (fk_address funding), funding,
       make_scid block_height tx_index output_index), w)))))))))"

definition mine ::
    "('pk, 'sk, 'sig) secp \<Rightarrow> ('sk, 'w) bitcoind_rpc \<Rightarrow> nat \<Rightarrow> 'w \<Rightarrow> panic + string \<times> 'w" where
  "mine S R blocks w =
     and_then (mine_to_funding S R blocks w) (\<lambda>(res, w).
     Inr (case res of Inl e \<Rightarrow> sim_error_str e @ [CHR 0x0A] | Inr (msg, _, _) \<Rightarrow> msg, w))"

section \<open>What a success means\<close>

lemma rpc_ok_iff: "rpc call wrap w = Inr (Inr x, w') \<longleftrightarrow> call w = (Inr x, w')"
  by (auto simp: rpc_def split: prod.split)

lemma need_ok_iff: "need value e w = Inr (Inr x, w') \<longleftrightarrow> value = Some x \<and> w' = w"
  by (auto simp: need_def)

lemmas call_iffs = try_then_ok_iff rpc_ok_iff need_ok_iff

lemma call_totals:
  "\<exists>res w'. rpc call wrap w = Inr (res, w')" "\<exists>res w'. need value e w = Inr (res, w')"
  by (auto simp: rpc_def need_def split: prod.split)

text \<open>The node, at some point, gives \<open>vout\<close> for the outputs of a listed transaction.\<close>

definition outputs_of ::
    "('sk, 'w) bitcoind_rpc \<Rightarrow> string \<Rightarrow> string option \<Rightarrow> string option list \<Rightarrow> bool" where
  "outputs_of R hash txid_val vout \<longleftrightarrow>
     (\<exists>txid w w'. txid_val = Some txid \<and> get_raw_tx R txid hash w = (Inr (Some vout), w'))"

lemma find_output_ok:
  assumes "find_output R hash addr n txids w = Inr (Inr (Some (t, out)), w')"
  shows "\<exists>ti oi vout. ti < length txids \<and> t = word_of_nat (n + ti) \<and> out = word_of_nat oi \<and>
    outputs_of R hash (txids ! ti) vout \<and> oi < length vout \<and> vout ! oi = Some addr \<and>
    (\<forall>j < oi. vout ! j \<noteq> Some addr) \<and>
    (\<forall>k < ti. \<exists>vout. outputs_of R hash (txids ! k) vout \<and> Some addr \<notin> set vout)"
  using assms
proof (induction txids arbitrary: n w)
  case (Cons tv txids)
  from Cons.prems obtain txid vout w1 where call: "tv = Some txid"
    "get_raw_tx R txid hash w = (Inr (Some vout), w1)"
    and rest: "(case position (\<lambda>out. out = Some addr) vout of
        Some oi \<Rightarrow> Inr (Inr (Some (word_of_nat n, word_of_nat oi)), w1)
      | None \<Rightarrow> find_output R hash addr (Suc n) txids w1) = Inr (Inr (Some (t, out)), w')"
    by (auto simp: call_iffs)
  have read: "outputs_of R hash tv vout" using call by (auto simp: outputs_of_def)
  show ?case
  proof (cases "position (\<lambda>out. out = Some addr) vout")
    case (Some oi)
    with rest have "t = word_of_nat n" "out = word_of_nat oi" by simp_all
    then show ?thesis using read position_Some [OF Some]
      by (intro exI [of _ 0] exI [of _ oi] exI [of _ vout]) simp
  next
    case None
    then have skip: "Some addr \<notin> set vout" by (auto simp: position_None_iff)
    from None rest have "find_output R hash addr (Suc n) txids w1 = Inr (Inr (Some (t, out)), w')"
      by simp
    from Cons.IH [OF this] obtain ti oi vout' where
      ti: "ti < length txids" "t = word_of_nat (Suc n + ti)" "out = word_of_nat oi"
      "outputs_of R hash (txids ! ti) vout'" "oi < length vout'" "vout' ! oi = Some addr"
      "\<forall>j < oi. vout' ! j \<noteq> Some addr"
      and before: "\<forall>k < ti. \<exists>vout. outputs_of R hash (txids ! k) vout \<and> Some addr \<notin> set vout"
      by blast
    have "\<exists>vout. outputs_of R hash ((tv # txids) ! k) vout \<and> Some addr \<notin> set vout" if "k < Suc ti" for k
      using that before read skip by (cases k) auto
    then show ?thesis using ti
      by (intro exI [of _ "Suc ti"] exI [of _ oi] exI [of _ vout']) (simp add: add.assoc [symmetric])
  qed
qed simp

lemma find_output_total: "\<exists>res w'. find_output R hash addr n txids w = Inr (res, w')"
proof (induction txids arbitrary: n w)
  case (Cons tv txids)
  show ?case unfolding find_output.simps
    by (intro try_then_total call_totals) (use Cons.IH in \<open>auto split: option.split\<close>)
qed simp

lemma new_funding_address_ok:
  assumes "new_funding_address S R w = Inr (Inr fk, w')"
  shows "\<exists>sk1 sk2 w1 w2. generate_key R w = (sk1, w1) \<and> generate_key R w1 = (sk2, w2) \<and>
    (fk_sk1 fk, fk_sk2 fk) = sort_keys S sk1 sk2 \<and> fk_pk1 fk = pk_of_sk S (fk_sk1 fk) \<and>
    fk_pk2 fk = pk_of_sk S (fk_sk2 fk) \<and>
    (\<exists>checksum text v v' u u' err. 
      derived_address R (funding_descriptor R (fk_sk1 fk) (fk_sk2 fk) @ ''#'' @ checksum) v =
        (Inr (Some text), v') \<and> parse_address R text = Inr (fk_address fk) \<and>
      import_descriptor R (funding_descriptor R (fk_sk1 fk) (fk_sk2 fk) @ ''#'' @ checksum) u =
        (Inr err, u') \<and> fst err \<noteq> Some False)"
proof -
  obtain sk1 w1 where g1: "generate_key R w = (sk1, w1)" by fastforce
  obtain sk2 w2 where g2: "generate_key R w1 = (sk2, w2)" by fastforce
  obtain a b where ab: "sort_keys S sk1 sk2 = (a, b)" by fastforce
  show ?thesis using assms
    unfolding new_funding_address_def Let_def g1 g2 ab prod.case call_iffs
    by (auto simp: g1 g2 ab call_iffs split: if_splits) blast+
qed

lemma new_funding_address_total: "\<exists>res w'. new_funding_address S R w = Inr (res, w')"
proof -
  obtain sk1 w1 where g1: "generate_key R w = (sk1, w1)" by fastforce
  obtain sk2 w2 where g2: "generate_key R w1 = (sk2, w2)" by fastforce
  obtain a b where ab: "sort_keys S sk1 sk2 = (a, b)" by fastforce
  show ?thesis unfolding new_funding_address_def Let_def g1 g2 ab prod.case
    by (intro try_then_total call_totals) (auto split: prod.split)
qed

lemma mine_to_funding_ok:
  assumes "mine_to_funding S R blocks w = Inr (Inr (msg, fk, scid), w')"
  shows "\<exists>hash hashes height txids t out v.
    (\<exists>u. new_funding_address S R w = Inr (Inr fk, u) \<and>
       generate_to_address R blocks (fk_address fk) u = (Inr (hash # hashes), v)) \<and>
    (\<exists>v'. get_block R hash v = (Inr (Some height, Some txids), v') \<and>
       find_output R hash (fk_address fk) 0 txids v' = Inr (Inr (Some (t, out)), w')) \<and>
    scid = make_scid height t out \<and> msg = mined_text (Suc (length hashes)) (fk_address fk)"
proof -
  from assms obtain fk' u hashes v where
    a: "new_funding_address S R w = Inr (Inr fk', u)"
    and g: "generate_to_address R blocks (fk_address fk') u = (Inr hashes, v)"
    and rest: "and_then (first_block hashes) (\<lambda>first_hash.
     try_then (rpc (get_block R first_hash) Rpc v) (\<lambda>(height, tx) w.
     try_then (need height (Rpc ''block has no height'') w) (\<lambda>block_height w.
     try_then (need tx (Rpc ''block has no tx array'') w) (\<lambda>txids w.
     try_then (find_output R first_hash (fk_address fk') 0 txids w) (\<lambda>found w.
     try_then (need found (Rpc ''funding output not found in block'') w)
       (\<lambda>(tx_index, output_index) w.
     Inr (Inr (mined_text (length hashes) (fk_address fk'), fk',
       make_scid block_height tx_index output_index), w))))))) = Inr (Inr (msg, fk, scid), w')"
    unfolding mine_to_funding_def try_then_ok_iff rpc_ok_iff by blast
  obtain hash hashes' where h: "hashes = hash # hashes'"
    using rest by (cases hashes) (simp_all add: first_block_def)
  from rest obtain height txids t out v' where
    "get_block R hash v = (Inr (Some height, Some txids), v')"
    "find_output R hash (fk_address fk') 0 txids v' = Inr (Inr (Some (t, out)), w')"
    "scid = make_scid height t out" "msg = mined_text (length hashes) (fk_address fk')" "fk = fk'"
    unfolding h first_block_def list.case and_then_simps by (auto simp: call_iffs)
  with a g h show ?thesis by auto
qed

lemma mine_to_funding_panics:
  "mine_to_funding S R blocks w = Inl p \<longleftrightarrow>
     p = Panic ''index out of bounds: the len is 0 but the index is 0'' \<and>
     (\<exists>fk v v'. new_funding_address S R w = Inr (Inr fk, v) \<and>
        generate_to_address R blocks (fk_address fk) v = (Inr [], v'))"
proof -
  obtain res v where a: "new_funding_address S R w = Inr (res, v)"
    using new_funding_address_total [of S R w] by blast
  show ?thesis
  proof (cases res)
    case (Inl e)
    then show ?thesis by (simp add: mine_to_funding_def a)
  next
    case (Inr fk)
    obtain res' v' where g: "generate_to_address R blocks (fk_address fk) v = (res', v')" by fastforce
    show ?thesis
    proof (cases "\<exists>h hs. res' = Inr (h # hs)")
      case True
      then obtain h hs where hs: "res' = Inr (h # hs)" by blast
      have gen: "rpc (generate_to_address R blocks (fk_address fk)) Rpc v = Inr (Inr (h # hs), v')"
        by (simp add: rpc_def g hs)
      have "\<exists>res w'. mine_to_funding S R blocks w = Inr (res, w')"
        unfolding mine_to_funding_def a Inr gen try_then_simps first_block_def list.case
          and_then_simps case_prod_beta
        by (intro try_then_total call_totals find_output_total) auto
      with hs show ?thesis by (auto simp: a Inr g)
    next
      case False
      then show ?thesis
        by (cases res') (auto simp: mine_to_funding_def a Inr rpc_def g first_block_def split: list.split)
    qed
  qed
qed

end
