(* ===== verification/Daemon.thy ===== *)
theory Daemon
  imports Peer Bitcoind
begin

text \<open>
  The daemon of \<open>ln-gossip-sim/src/bin/simd.rs\<close>: its table of peers, the read tasks and the
  commands. A connection has a number, which stands for the \<open>Arc\<close> of its writer and the
  \<open>JoinHandle\<close> of its task. The commands are functions on the state of the daemon; the
  interleaving of commands and tasks at their \<open>await\<close> points is a step relation.
\<close>

section \<open>State\<close>

text \<open>
  \<open>d_peers\<close> is the table, \<open>d_writers\<close> the writers behind the \<open>Arc\<close>s, \<open>d_tasks\<close> the read tasks in
  their loop, \<open>d_ending\<close> those that left it and have yet to remove their peer, \<open>d_opening\<close> the
  connections whose task is spawned and whose entry \<open>cmd_connect\<close> has yet to insert.
\<close>

record 'pk daemon =
  d_node_id :: 'pk
  d_peers :: "'pk \<Rightarrow> nat option"
  d_writers :: "nat \<Rightarrow> noise_writer"
  d_tasks :: "nat \<Rightarrow> ('pk \<times> noise_reader) option"
  d_ending :: "nat \<Rightarrow> 'pk option"
  d_opening :: "nat \<Rightarrow> 'pk option"
  d_next :: nat
  d_stop :: bool

text \<open>\<open>Daemon::new\<close>. The writer stands for the contents of numbers not yet given out.\<close>

definition daemon_start :: "'pk \<Rightarrow> noise_writer \<Rightarrow> 'pk daemon" where
  "daemon_start own_id w =
     \<lparr>d_node_id = own_id, d_peers = (\<lambda>_. None), d_writers = (\<lambda>_. w), d_tasks = (\<lambda>_. None), d_ending = (\<lambda>_. None),
      d_opening = (\<lambda>_. None), d_next = 0, d_stop = False\<rparr>"

definition daemon_new :: "('pk, 'sk, 'sig) secp \<Rightarrow> noise_writer \<Rightarrow> panic + 'pk daemon" where
  "daemon_new S w = and_then (node_id S) (\<lambda>own_id. Inr (daemon_start own_id w))"

definition shutdown :: "'pk daemon \<Rightarrow> 'pk daemon" where
  "shutdown d = d\<lparr>d_stop := True\<rparr>"

text \<open>\<open>tokio::spawn\<close> of the read task, and \<open>peers.insert\<close>.\<close>

definition spawn_task :: "'pk \<Rightarrow> noise_writer \<Rightarrow> noise_reader \<Rightarrow> 'pk daemon \<Rightarrow> 'pk daemon" where
  "spawn_task pk w r d =
     d\<lparr>d_writers := (d_writers d)(d_next d := w), d_tasks := (d_tasks d)(d_next d := Some (pk, r)),
       d_opening := (d_opening d)(d_next d := Some pk), d_next := Suc (d_next d)\<rparr>"

definition insert_peer :: "nat \<Rightarrow> 'pk \<Rightarrow> 'pk daemon \<Rightarrow> 'pk daemon" where
  "insert_peer n pk d =
     d\<lparr>d_peers := (d_peers d)(pk := Some n), d_opening := (d_opening d)(n := None)\<rparr>"

text \<open>The last line of the task, \<open>peers.remove(&peer_id)\<close>: by key, whatever the entry holds.\<close>

definition remove_peer :: "nat \<Rightarrow> 'pk \<Rightarrow> 'pk daemon \<Rightarrow> 'pk daemon" where
  "remove_peer n pk d =
     d\<lparr>d_peers := (d_peers d)(pk := None), d_ending := (d_ending d)(n := None)\<rparr>"

text \<open>\<open>read_handle.abort()\<close> of a removed entry.\<close>

definition abort_task :: "nat \<Rightarrow> 'pk daemon \<Rightarrow> 'pk daemon" where
  "abort_task n d = d\<lparr>d_tasks := (d_tasks d)(n := None), d_ending := (d_ending d)(n := None)\<rparr>"

definition set_writer :: "nat \<Rightarrow> noise_writer \<Rightarrow> 'pk daemon \<Rightarrow> 'pk daemon" where
  "set_writer n w d = d\<lparr>d_writers := (d_writers d)(n := w)\<rparr>"

text \<open>A task after one branch of its \<open>select!\<close>: it goes on with its reader, or leaves the loop.\<close>

definition task_done ::
    "nat \<Rightarrow> 'pk \<Rightarrow> bool \<Rightarrow> noise_reader \<Rightarrow> noise_writer \<Rightarrow> 'pk daemon \<Rightarrow> 'pk daemon" where
  "task_done n pk go r w d =
     (if go then set_writer n w (d\<lparr>d_tasks := (d_tasks d)(n := Some (pk, r))\<rparr>)
      else set_writer n w (d\<lparr>d_tasks := (d_tasks d)(n := None),
        d_ending := (d_ending d)(n := Some pk)\<rparr>))"

section \<open>Commands\<close>

text \<open>
  What a command asks of the world: the outcome of parsing and dialling an address, the random
  ephemeral key, the client of bitcoind with the state it finds, the text of the \<open>JoinError\<close> of
  a blocking task that panicked and whether the one of \<open>info\<close> ends, and the order in which
  the table is listed.
\<close>

record ('pk, 'sk, 'w) world =
  dial :: "string \<Rightarrow> (string + write_half \<times> read_half) option"
  new_ephemeral :: 'sk
  bitcoind :: "('sk, 'w) bitcoind_rpc"
  chain :: 'w
  join_error :: "panic \<Rightarrow> string"
  info_joined :: bool
  listing :: "('pk \<Rightarrow> nat option) \<Rightarrow> 'pk list"

definition nl :: string where "nl = [CHR 0x0A]"

definition parse_pubkey :: "('pk, 'sk, 'sig) secp \<Rightarrow> hex_lib \<Rightarrow> string \<Rightarrow> 'pk option" where
  "parse_pubkey S H s = Option.bind (hex_decode H s) (pk_from_slice S)"

definition not_connected :: "('pk, 'sk, 'sig) secp \<Rightarrow> 'pk \<Rightarrow> string" where
  "not_connected S pk = ''Not connected to '' @ pk_display S pk @ nl"

definition cmd_connect ::
    "('pk, 'sk, 'sig) secp \<Rightarrow> noise_lib \<Rightarrow> hex_lib \<Rightarrow> ('pk, 'sk, 'w) world \<Rightarrow> 'pk daemon \<Rightarrow>
     string list \<Rightarrow> panic + string \<times> 'pk daemon" where
  "cmd_connect S N H W d parts =
     (if length parts \<noteq> 3 then Inr (''Usage: connect <pubkey_hex> <host:port>'' @ nl, d)
      else case parse_pubkey S H (parts ! 1) of
        None \<Rightarrow> Inr (''Invalid pubkey'' @ nl, d)
      | Some pubkey \<Rightarrow> (case dial W (parts ! 2) of
          None \<Rightarrow> Inr (''Invalid address'' @ nl, d)
        | Some tcp \<Rightarrow>
            and_then (node_secret S) (\<lambda>sk.
            and_then (connect S N H (new_ephemeral W) tcp pubkey sk) (\<lambda>(res, _). case res of
              Inl e \<Rightarrow> Inr (''Connection failed: '' @ noise_error_str e @ nl, d)
            | Inr (writer, reader, _) \<Rightarrow>
                Inr (''Connected to '' @ pk_display S pubkey @ nl,
                  insert_peer (d_next d) pubkey (spawn_task pubkey writer reader d))))))"

definition cmd_disconnect ::
    "('pk, 'sk, 'sig) secp \<Rightarrow> hex_lib \<Rightarrow> 'pk daemon \<Rightarrow> string list \<Rightarrow> string \<times> 'pk daemon" where
  "cmd_disconnect S H d parts =
     (if length parts \<noteq> 2 then (''Usage: disconnect <pubkey_hex>'' @ nl, d)
      else case parse_pubkey S H (parts ! 1) of
        None \<Rightarrow> (''Invalid pubkey'' @ nl, d)
      | Some pubkey \<Rightarrow> (case d_peers d pubkey of
          Some n \<Rightarrow> (''Disconnected '' @ pk_display S pubkey @ nl,
            abort_task n (d\<lparr>d_peers := (d_peers d)(pubkey := None)\<rparr>))
        | None \<Rightarrow> (not_connected S pubkey, d)))"

text \<open>The end of every sending command: the send and the text of its outcome.\<close>

definition send_to ::
    "('pk, 'sk, 'sig) secp \<Rightarrow> noise_lib \<Rightarrow> 'pk daemon \<Rightarrow> nat \<Rightarrow> bytes \<Rightarrow> string \<Rightarrow>
     panic + string \<times> 'pk daemon" where
  "send_to S N d n wire sent =
     and_then (writer_send N (d_writers d n) wire) (\<lambda>(res, w).
     Inr (case res of Inl e \<Rightarrow> ''Send failed: '' @ noise_error_str e @ nl | Inr _ \<Rightarrow> sent,
          set_writer n w d))"

definition cmd_send_channel_announcement ::
    "('pk, 'sk, 'sig) secp \<Rightarrow> noise_lib \<Rightarrow> hex_lib \<Rightarrow> ('pk, 'sk, 'w) world \<Rightarrow> 'pk daemon \<Rightarrow>
     string list \<Rightarrow> panic + string \<times> 'pk daemon" where
  "cmd_send_channel_announcement S N H W d parts =
     (if length parts \<noteq> 2 then Inr (''Usage: sendchannelannouncement <pubkey_hex>'' @ nl, d)
      else case parse_pubkey S H (parts ! 1) of
        None \<Rightarrow> Inr (''Invalid pubkey'' @ nl, d)
      | Some pk \<Rightarrow> (case d_peers d pk of
          None \<Rightarrow> Inr (not_connected S pk, d)
        | Some n \<Rightarrow> (case mine_to_funding S (bitcoind W) 6 (chain W) of
            Inr (Inl e, _) \<Rightarrow> Inr (''Funding failed: '' @ sim_error_str e @ nl, d)
          | Inl p \<Rightarrow> Inr (''Task failed: '' @ join_error W p @ nl, d)
          | Inr (Inr (_, funding, scid), _) \<Rightarrow>
              and_then (node_secret S) (\<lambda>our_sk.
              let ann = ca_new_signed S [] REGTEST_CHAIN_HASH scid our_sk our_sk
                    (fk_sk1 funding) (fk_sk2 funding) in
              and_then (encode_message S (ChannelAnnouncement ann)) (\<lambda>wire.
              send_to S N d n wire (''Sent channel_announcement scid='' @ ca_scid_str ann @
                '' to '' @ pk_display S pk @ nl))))))"

text \<open>The two node secrets, the one with the lesser public key first.\<close>

definition ordered_node_secrets :: "('pk, 'sk, 'sig) secp \<Rightarrow> panic + 'sk \<times> 'sk" where
  "ordered_node_secrets S =
     and_then (node_secret S) (\<lambda>sk_a.
     and_then (node_secret_2 S) (\<lambda>sk_b.
     Inr (if pk_less S (pk_of_sk S sk_a) (pk_of_sk S sk_b) then (sk_a, sk_b) else (sk_b, sk_a))))"

definition cmd_send_channel_announcement_2 ::
    "('pk, 'sk, 'sig) secp \<Rightarrow> noise_lib \<Rightarrow> hex_lib \<Rightarrow> ('pk, 'sk, 'w) world \<Rightarrow> 'pk daemon \<Rightarrow>
     string list \<Rightarrow> panic + string \<times> 'pk daemon" where
  "cmd_send_channel_announcement_2 S N H W d parts =
     (if length parts \<noteq> 2 then Inr (''Usage: sendchannelannouncement2 <pubkey_hex>'' @ nl, d)
      else case parse_pubkey S H (parts ! 1) of
        None \<Rightarrow> Inr (''Invalid pubkey'' @ nl, d)
      | Some pk \<Rightarrow> (case d_peers d pk of
          None \<Rightarrow> Inr (not_connected S pk, d)
        | Some n \<Rightarrow> (case mine_to_funding S (bitcoind W) 6 (chain W) of
            Inr (Inl e, _) \<Rightarrow> Inr (''Funding failed: '' @ sim_error_str e @ nl, d)
          | Inl p \<Rightarrow> Inr (''Task failed: '' @ join_error W p @ nl, d)
          | Inr (Inr (_, funding, scid), _) \<Rightarrow>
              and_then (ordered_node_secrets S) (\<lambda>(node_sk_1, node_sk_2).
              let ann = ca_new_signed S [] REGTEST_CHAIN_HASH scid node_sk_1 node_sk_2
                    (fk_sk1 funding) (fk_sk2 funding) in
              and_then (encode_message S (ChannelAnnouncement ann)) (\<lambda>wire.
              send_to S N d n wire (''Sent channel_announcement (distinct node IDs) scid='' @
                ca_scid_str ann @ '' to '' @ pk_display S pk @ nl))))))"

definition cmd_send_channel_update ::
    "('pk, 'sk, 'sig) secp \<Rightarrow> noise_lib \<Rightarrow> hex_lib \<Rightarrow> 'pk daemon \<Rightarrow> string list \<Rightarrow>
     panic + string \<times> 'pk daemon" where
  "cmd_send_channel_update S N H d parts =
     (if length parts \<noteq> 3 then Inr (''Usage: sendchannelupdate <pubkey_hex> <scid>'' @ nl, d)
      else case parse_pubkey S H (parts ! 1) of
        None \<Rightarrow> Inr (''Invalid pubkey'' @ nl, d)
      | Some pk \<Rightarrow> (case parse_scid (parts ! 2) of
          None \<Rightarrow> Inr (''Invalid scid (expected block x tx x output)'' @ nl, d)
        | Some scid \<Rightarrow> (case d_peers d pk of
            None \<Rightarrow> Inr (not_connected S pk, d)
          | Some n \<Rightarrow>
              and_then (ordered_node_secrets S) (\<lambda>(node_sk_1, _).
              let update = cu_new_signed S REGTEST_CHAIN_HASH scid 0 1 0 40 1 1000 1 4294967295
                    node_sk_1 in
              and_then (encode_message S (ChannelUpdate update)) (\<lambda>wire.
              send_to S N d n wire (''Sent channel_update scid='' @ cu_scid_str update @
                '' to '' @ pk_display S pk @ nl))))))"

definition cmd_send_node_announcement ::
    "('pk, 'sk, 'sig) secp \<Rightarrow> noise_lib \<Rightarrow> hex_lib \<Rightarrow> 'pk daemon \<Rightarrow> string list \<Rightarrow>
     panic + string \<times> 'pk daemon" where
  "cmd_send_node_announcement S N H d parts =
     (if length parts \<noteq> 2 then Inr (''Usage: sendnodeannouncement <pubkey_hex>'' @ nl, d)
      else case parse_pubkey S H (parts ! 1) of
        None \<Rightarrow> Inr (''Invalid pubkey'' @ nl, d)
      | Some pk \<Rightarrow> (case d_peers d pk of
          None \<Rightarrow> Inr (not_connected S pk, d)
        | Some n \<Rightarrow>
            and_then (ordered_node_secrets S) (\<lambda>(node_sk_1, _).
            let ann = na_default_signed S node_sk_1 in
            and_then (encode_message S (NodeAnnouncement ann)) (\<lambda>wire.
            send_to S N d n wire (''Sent node_announcement node_id='' @
              pk_display S (na_node_id ann) @ '' to '' @ pk_display S pk @ nl)))))"

definition unknown_type_text :: "u16 \<Rightarrow> string" where
  "unknown_type_text t = ''Unknown message type '' @ string_of_nat (unat t) @
     '': add the corresponding codec for it'' @ nl"

definition cmd_send_message ::
    "('pk, 'sk, 'sig) secp \<Rightarrow> noise_lib \<Rightarrow> hex_lib \<Rightarrow> 'pk daemon \<Rightarrow> string list \<Rightarrow>
     panic + string \<times> 'pk daemon" where
  "cmd_send_message S N H d parts =
     (if length parts \<noteq> 3 then Inr (''Usage: sendmessage <pubkey_hex> <message_hex>'' @ nl, d)
      else case parse_pubkey S H (parts ! 1) of
        None \<Rightarrow> Inr (''Invalid pubkey'' @ nl, d)
      | Some pk \<Rightarrow> (case hex_decode H (parts ! 2) of
          None \<Rightarrow> Inr (''Invalid message hex'' @ nl, d)
        | Some bs \<Rightarrow> (case decode_message S bs of
            Inr (Unknown t _) \<Rightarrow> Inr (unknown_type_text t, d)
          | Inl (UnknownEvenType t) \<Rightarrow> Inr (unknown_type_text t, d)
          | Inl e \<Rightarrow> Inr (''Decode failed: '' @ bolt_error_str H e @ nl, d)
          | Inr m \<Rightarrow>
              and_then (encode_message S m) (\<lambda>wire.
              case d_peers d pk of
                None \<Rightarrow> Inr (not_connected S pk, d)
              | Some n \<Rightarrow>
                  and_then (writer_send N (d_writers d n) wire) (\<lambda>(res, w).
                  let d = set_writer n w d in
                  case res of
                    Inl e \<Rightarrow> Inr (''Send failed: '' @ noise_error_str e @ nl, d)
                  | Inr _ \<Rightarrow>
                      and_then (u16_of_first_two wire) (\<lambda>t.
                      Inr (''Sent message type '' @ string_of_nat (unat t) @ '' to '' @
                        pk_display S pk @ nl, d)))))))"

definition cmd_peers ::
    "('pk, 'sk, 'sig) secp \<Rightarrow> ('pk, 'sk, 'w) world \<Rightarrow> 'pk daemon \<Rightarrow> string" where
  "cmd_peers S W d =
     (let pks = listing W (d_peers d) in
      if pks = [] then ''No connected peers'' @ nl
      else concat (map (\<lambda>pk. pk_display S pk @ nl) pks))"

definition cmd_info ::
    "('pk, 'sk, 'sig) secp \<Rightarrow> ('pk, 'sk, 'w) world \<Rightarrow> 'pk daemon \<Rightarrow> string" where
  "cmd_info S W d =
     (let (blocks, w) = block_count (bitcoind W) (chain W);
          (hash, w) = best_block_hash (bitcoind W) w;
          (bal, w) = balance (bitcoind W) w in
      if \<not> info_joined W then ''Failed to query bitcoind'' @ nl
      else ''[LN] node='' @ pk_display S (d_node_id d) @ '' peers='' @
        string_of_nat (length (listing W (d_peers d))) @ nl @
        ''[Bitcoin] chain=regtest blocks='' @ string_of_nat (unat blocks) @ '' best='' @ hash @
        '' balance='' @ bal @ nl)"

definition cmd_mine ::
    "('pk, 'sk, 'sig) secp \<Rightarrow> ('pk, 'sk, 'w) world \<Rightarrow> string list \<Rightarrow> string" where
  "cmd_mine S W parts =
     (if length parts < 2 then ''Usage: mine <blocks>'' @ nl
      else case parse_u64 (parts ! 1) of
        None \<Rightarrow> ''Usage: mine <blocks>'' @ nl
      | Some n \<Rightarrow> (case mine S (bitcoind W) (unat n) (chain W) of
          Inl p \<Rightarrow> ''Task failed: '' @ join_error W p @ nl
        | Inr (out, _) \<Rightarrow> out))"

text \<open>\<open>handle_command\<close> on the words of the line.\<close>

definition handle_command ::
    "('pk, 'sk, 'sig) secp \<Rightarrow> noise_lib \<Rightarrow> hex_lib \<Rightarrow> ('pk, 'sk, 'w) world \<Rightarrow> 'pk daemon \<Rightarrow>
     string list \<Rightarrow> panic + string \<times> 'pk daemon" where
  "handle_command S N H W d parts =
     (case parts of
        [] \<Rightarrow> Inr ([], d)
      | cmd # _ \<Rightarrow>
          if cmd = ''connect'' then cmd_connect S N H W d parts
          else if cmd = ''disconnect'' then Inr (cmd_disconnect S H d parts)
          else if cmd = ''sendchannelannouncement''
            then cmd_send_channel_announcement S N H W d parts
          else if cmd = ''sendchannelannouncement2''
            then cmd_send_channel_announcement_2 S N H W d parts
          else if cmd = ''sendchannelupdate'' then cmd_send_channel_update S N H d parts
          else if cmd = ''sendnodeannouncement'' then cmd_send_node_announcement S N H d parts
          else if cmd = ''sendmessage'' then cmd_send_message S N H d parts
          else if cmd = ''peers'' then Inr (cmd_peers S W d, d)
          else if cmd = ''info'' then Inr (cmd_info S W d, d)
          else if cmd = ''mine'' then Inr (cmd_mine S W parts, d)
          else if cmd = ''stop'' then Inr (''Stopping daemon'' @ nl, shutdown d)
          else Inr (''Unknown command: '' @ cmd @ nl, d))"

section \<open>What a successful command does\<close>

text \<open>One packet with the message is appended to the stream of connection \<open>n\<close>; nothing else changes.\<close>

definition delivers ::
    "noise_lib \<Rightarrow> 'pk daemon \<Rightarrow> nat \<Rightarrow> bytes \<Rightarrow> 'pk daemon \<Rightarrow> bool" where
  "delivers N d n wire d' \<longleftrightarrow>
     (\<exists>pkt w'. send_encrypt N (nw_cipher (d_writers d n)) wire = Inr (pkt, nw_cipher w') \<and>
        nw_stream w' = (nw_stream (d_writers d n))\<lparr>tx := tx (nw_stream (d_writers d n)) @ pkt\<rparr> \<and>
        d' = set_writer n w' d)"

lemma writer_send_delivers:
  assumes "noise_lawful N" and "length wire \<le> 65535"
    and "tx_room (nw_stream (d_writers d n)) = None"
  shows "\<exists>w'. writer_send N (d_writers d n) wire = Inr (Inr (), w') \<and>
    delivers N d n wire (set_writer n w' d)"
proof -
  obtain pkt c where pkt: "send_encrypt N (nw_cipher (d_writers d n)) wire = Inr (pkt, c)"
    using send_encrypt_size [OF assms(1,2)] by blast
  let ?w = "\<lparr>nw_stream = (nw_stream (d_writers d n))\<lparr>tx := tx (nw_stream (d_writers d n)) @ pkt\<rparr>,
      nw_cipher = c\<rparr>"
  have "delivers N d n wire (set_writer n ?w d)"
    unfolding delivers_def using pkt by (intro exI [of _ pkt] exI [of _ ?w]) simp
  then show ?thesis using writer_send_ok [OF assms(2,3) pkt] by blast
qed

lemma send_to_delivers:
  assumes "noise_lawful N" and "length wire \<le> 65535"
    and "tx_room (nw_stream (d_writers d n)) = None"
  shows "\<exists>d'. send_to S N d n wire sent = Inr (sent, d') \<and> delivers N d n wire d'"
  using writer_send_delivers [OF assms] by (auto simp: send_to_def)

lemma cmd_send_channel_announcement_ok:
  assumes "length parts = 2" and "parse_pubkey S H (parts ! 1) = Some pk" and "d_peers d pk = Some n"
    and "mine_to_funding S (bitcoind W) 6 (chain W) = Inr (Inr (msg, fk, scid), w')"
    and "node_secret S = Inr sk"
  shows "cmd_send_channel_announcement S N H W d parts =
    (let ann = ca_new_signed S [] REGTEST_CHAIN_HASH scid sk sk (fk_sk1 fk) (fk_sk2 fk) in
     and_then (encode_message S (ChannelAnnouncement ann)) (\<lambda>wire.
     send_to S N d n wire (''Sent channel_announcement scid='' @ ca_scid_str ann @
       '' to '' @ pk_display S pk @ nl)))"
  using assms by (simp add: cmd_send_channel_announcement_def)

lemma cmd_send_channel_announcement_2_ok:
  assumes "length parts = 2" and "parse_pubkey S H (parts ! 1) = Some pk" and "d_peers d pk = Some n"
    and "mine_to_funding S (bitcoind W) 6 (chain W) = Inr (Inr (msg, fk, scid), w')"
    and "ordered_node_secrets S = Inr (sk1, sk2)"
  shows "cmd_send_channel_announcement_2 S N H W d parts =
    (let ann = ca_new_signed S [] REGTEST_CHAIN_HASH scid sk1 sk2 (fk_sk1 fk) (fk_sk2 fk) in
     and_then (encode_message S (ChannelAnnouncement ann)) (\<lambda>wire.
     send_to S N d n wire (''Sent channel_announcement (distinct node IDs) scid='' @
       ca_scid_str ann @ '' to '' @ pk_display S pk @ nl)))"
  using assms by (simp add: cmd_send_channel_announcement_2_def)

section \<open>Interleaving\<close>

text \<open>
  The steps between two \<open>await\<close> points: \<open>cmd_connect\<close> spawning a task and, later, inserting
  its entry; a task taking one branch of its \<open>select!\<close>, where a tick may cancel a receive;
  a task that left the loop removing the entry of its peer; a disconnect; a command sending
  on a writer it looked up; the order to stop.
\<close>

inductive daemon_step ::
    "('pk, 'sk, 'sig) secp \<Rightarrow> noise_lib \<Rightarrow> 'pk daemon \<Rightarrow> 'pk daemon \<Rightarrow> bool"
  for S :: "('pk, 'sk, 'sig) secp" and N :: noise_lib where
  step_spawn: "daemon_step S N d (spawn_task pk w r d)"
| step_insert: "d_opening d n = Some pk \<Longrightarrow> daemon_step S N d (insert_peer n pk d)"
| step_recv: "d_tasks d n = Some (pk, r) \<Longrightarrow>
    task_recv S N r (d_writers d n) = Inr (go, r', w') \<Longrightarrow>
    daemon_step S N d (task_done n pk go r' w' d)"
| step_tick: "d_tasks d n = Some (pk, r) \<Longrightarrow> recv_cancelled N r r' \<Longrightarrow>
    task_tick S N (d_writers d n) = Inr (go, w') \<Longrightarrow>
    daemon_step S N d (task_done n pk go r' w' d)"
| step_remove: "d_ending d n = Some pk \<Longrightarrow> daemon_step S N d (remove_peer n pk d)"
| step_disconnect: "d_peers d pk = Some n \<Longrightarrow>
    daemon_step S N d (abort_task n (d\<lparr>d_peers := (d_peers d)(pk := None)\<rparr>))"
| step_send: "n < d_next d \<Longrightarrow> writer_send N (d_writers d n) msg = Inr (res, w') \<Longrightarrow>
    daemon_step S N d (set_writer n w' d)"
| step_stop: "daemon_step S N d (shutdown d)"

inductive_cases daemon_stepE: "daemon_step S N d d'"

section \<open>The invariant\<close>

text \<open>
  \<open>owner\<close> says that whatever refers to connection \<open>n\<close> does so for one peer; connections that
  are referred to have been opened; a task is in its loop or has left it, not both.
\<close>

definition refers :: "'pk daemon \<Rightarrow> nat \<Rightarrow> 'pk \<Rightarrow> bool" where
  "refers d n pk \<longleftrightarrow>
     d_peers d pk = Some n \<or> (\<exists>r. d_tasks d n = Some (pk, r)) \<or> d_ending d n = Some pk \<or>
     d_opening d n = Some pk"

definition daemon_inv :: "'pk daemon \<Rightarrow> bool" where
  "daemon_inv d \<longleftrightarrow>
     (\<forall>n pk. refers d n pk \<longrightarrow> n < d_next d) \<and>
     (\<forall>n pk pk'. refers d n pk \<longrightarrow> refers d n pk' \<longrightarrow> pk = pk') \<and>
     (\<forall>n. d_tasks d n = None \<or> d_ending d n = None)"

lemma daemon_newE:
  assumes "daemon_new S w = Inr d"
  obtains own_id where "d = daemon_start own_id w"
  using assms by (auto simp: daemon_new_def)

lemma daemon_inv_new: "daemon_new S w = Inr d \<Longrightarrow> daemon_inv d"
  by (auto elim!: daemon_newE simp: daemon_inv_def refers_def daemon_start_def)

lemma daemon_inv_subset:
  assumes "daemon_inv d" and "\<And>n pk. refers d' n pk \<Longrightarrow> refers d n pk" and "d_next d' = d_next d"
    and "\<And>n. d_tasks d' n = None \<or> d_ending d' n = None"
  shows "daemon_inv d'"
  using assms unfolding daemon_inv_def by metis

lemma disjoint_tasks: "daemon_inv d \<Longrightarrow> d_tasks d n = None \<or> d_ending d n = None"
  by (simp add: daemon_inv_def)

lemmas daemon_op_defs = insert_peer_def remove_peer_def abort_task_def set_writer_def task_done_def
  shutdown_def

lemma daemon_inv_ops:
  assumes "daemon_inv d"
  shows "d_opening d n = Some pk \<Longrightarrow> daemon_inv (insert_peer n pk d)"
    and "daemon_inv (remove_peer n pk d)" and "daemon_inv (set_writer n w d)"
    and "daemon_inv (abort_task n (d\<lparr>d_peers := (d_peers d)(pk := None)\<rparr>))"
    and "d_tasks d n = Some (pk, r) \<Longrightarrow> daemon_inv (task_done n pk go r' w d)"
    and "daemon_inv (shutdown d)"
  by (rule daemon_inv_subset [OF assms];
      use disjoint_tasks [OF assms] disjoint_tasks [OF assms, of n] in
        \<open>auto simp: daemon_op_defs refers_def split: if_splits\<close>)+

lemma daemon_inv_spawn:
  assumes "daemon_inv d"
  shows "daemon_inv (spawn_task pk w r d)"
proof -
  let ?d = "spawn_task pk w r d"
  have inv: "refers d n q \<Longrightarrow> n < d_next d" "refers d n q \<Longrightarrow> refers d n q' \<Longrightarrow> q = q'" for n q q'
    using assms unfolding daemon_inv_def by blast+
  have sub: "n = d_next d \<and> q = pk \<or> n < d_next d \<and> refers d n q" if "refers ?d n q" for n q
  proof (cases "n = d_next d")
    case True
    then have "\<not> refers d n q" using inv(1) by blast
    then show ?thesis using that True by (auto simp: refers_def spawn_task_def)
  next
    case False
    then have "refers d n q" using that by (simp add: refers_def spawn_task_def)
    then show ?thesis using inv(1) by blast
  qed
  have "d_ending d (d_next d) = None"
    using inv(1) [of "d_next d"] by (cases "d_ending d (d_next d)") (auto simp: refers_def)
  then have "d_tasks ?d n = None \<or> d_ending ?d n = None" for n
    using disjoint_tasks [OF assms, of n] by (simp add: spawn_task_def)
  moreover have "refers ?d n q \<Longrightarrow> n < d_next ?d" for n q
    using sub by (fastforce simp: spawn_task_def)
  moreover have "refers ?d n q \<Longrightarrow> refers ?d n q' \<Longrightarrow> q = q'" for n q q'
    using sub [of n q] sub [of n q'] inv(2) by auto
  ultimately show ?thesis unfolding daemon_inv_def by blast
qed

lemma daemon_inv_step: "daemon_inv d \<Longrightarrow> daemon_step S N d d' \<Longrightarrow> daemon_inv d'"
  by (erule daemon_stepE) (auto intro: daemon_inv_ops daemon_inv_spawn)

lemma daemon_step_next: "daemon_step S N d d' \<Longrightarrow> d_next d \<le> d_next d'"
  by (erule daemon_stepE) (auto simp: daemon_op_defs spawn_task_def)

interpretation daemon_run: step_system "daemon_step S N" daemon_inv d_next
  for S :: "('pk, 'sk, 'sig) secp" and N :: noise_lib
  by unfold_locales (auto intro: daemon_inv_step daemon_step_next)

section \<open>Commands are sequences of steps\<close>

lemma listed_known: "daemon_inv d \<Longrightarrow> d_peers d pk = Some n \<Longrightarrow> n < d_next d"
  unfolding daemon_inv_def refers_def by blast

lemma send_is_step:
  assumes "daemon_inv d" and "d_peers d pk = Some n"
    and "writer_send N (d_writers d n) wire = Inr (res, w')"
  shows "(daemon_step S N)\<^sup>*\<^sup>* d (set_writer n w' d)"
  using step_send [OF listed_known [OF assms(1,2)] assms(3)] by blast

lemma send_to_is_step:
  assumes "daemon_inv d" and "d_peers d pk = Some n" and "send_to S N d n wire sent = Inr (out, d')"
  shows "(daemon_step S N)\<^sup>*\<^sup>* d d'"
  using assms(3) send_is_step [OF assms(1,2)] by (auto simp: send_to_def)

lemma connect_is_steps: "(daemon_step S N)\<^sup>*\<^sup>* d (insert_peer (d_next d) pk (spawn_task pk w r d))"
proof -
  have "(daemon_step S N)\<^sup>*\<^sup>* d (spawn_task pk w r d)" by (rule r_into_rtranclp, rule step_spawn)
  also have "daemon_step S N (spawn_task pk w r d) (insert_peer (d_next d) pk (spawn_task pk w r d))"
    by (rule step_insert) (simp add: spawn_task_def)
  finally show ?thesis .
qed

lemma cmd_connect_steps:
  fixes d :: "'pk daemon"
  shows "cmd_connect S N H W d parts = Inr (out, d') \<Longrightarrow> (daemon_step S N)\<^sup>*\<^sup>* d d'"
proof -
  assume cmd: "cmd_connect S N H W d parts = Inr (out, d')"
  show ?thesis
  proof (cases "length parts = 3 \<and> (\<exists>pk tcp. parse_pubkey S H (parts ! 1) = Some pk \<and>
      dial W (parts ! 2) = Some tcp)")
    case True
    then obtain pk tcp sk res x where "connect S N H (new_ephemeral W) tcp pk sk = Inr (res, x)"
      and "(case res of
          Inl e \<Rightarrow> Inr (''Connection failed: '' @ noise_error_str e @ nl, d)
        | Inr (w, r, _) \<Rightarrow> Inr (''Connected to '' @ pk_display S pk @ nl,
            insert_peer (d_next d) pk (spawn_task pk w r d))) = (Inr (out, d') :: panic + string \<times> 'pk daemon)"
      using cmd by (auto simp: cmd_connect_def)
    then show ?thesis by (cases res) (auto simp: connect_is_steps)
  next
    case False
    then show ?thesis using cmd
      by (auto simp: cmd_connect_def split: if_splits option.splits)
  qed
qed

lemma cmd_disconnect_steps:
  "cmd_disconnect S H d parts = (out, d') \<Longrightarrow> (daemon_step S N)\<^sup>*\<^sup>* d d'"
  by (auto simp: cmd_disconnect_def intro: step_disconnect split: if_splits option.splits)

lemma cmd_gossip_steps:
  assumes "daemon_inv d"
  shows "cmd_send_channel_announcement S N H W d parts = Inr (out, d') \<Longrightarrow> (daemon_step S N)\<^sup>*\<^sup>* d d'"
    and "cmd_send_channel_announcement_2 S N H W d parts = Inr (out, d') \<Longrightarrow> (daemon_step S N)\<^sup>*\<^sup>* d d'"
    and "cmd_send_channel_update S N H d parts = Inr (out, d') \<Longrightarrow> (daemon_step S N)\<^sup>*\<^sup>* d d'"
    and "cmd_send_node_announcement S N H d parts = Inr (out, d') \<Longrightarrow> (daemon_step S N)\<^sup>*\<^sup>* d d'"
  by (auto simp: cmd_send_channel_announcement_def cmd_send_channel_announcement_2_def
      cmd_send_channel_update_def cmd_send_node_announcement_def Let_def
      dest: send_to_is_step [OF assms] split: if_splits option.splits sum.splits prod.splits)

lemma cmd_send_message_forwards:
  assumes "length parts = 3" and "parse_pubkey S H (parts ! 1) = Some pk"
    and "hex_decode H (parts ! 2) = Some bs" and "decode_message S bs = Inr m"
    and "\<nexists>t p. m = Unknown t p"
  shows "cmd_send_message S N H d parts =
    and_then (encode_message S m) (\<lambda>wire.
      case d_peers d pk of
        None \<Rightarrow> Inr (not_connected S pk, d)
      | Some n \<Rightarrow>
          and_then (writer_send N (d_writers d n) wire) (\<lambda>(res, w).
          let d = set_writer n w d in
          case res of
            Inl e \<Rightarrow> Inr (''Send failed: '' @ noise_error_str e @ nl, d)
          | Inr _ \<Rightarrow>
              and_then (u16_of_first_two wire) (\<lambda>t.
              Inr (''Sent message type '' @ string_of_nat (unat t) @ '' to '' @
                pk_display S pk @ nl, d))))"
  using assms by (cases m) (simp_all add: cmd_send_message_def)

lemma cmd_send_message_steps:
  assumes "daemon_inv d" and cmd: "cmd_send_message S N H d parts = Inr (out, d')"
  shows "(daemon_step S N)\<^sup>*\<^sup>* d d'"
proof (cases "length parts = 3 \<and> (\<exists>pk bs m. parse_pubkey S H (parts ! 1) = Some pk \<and>
    hex_decode H (parts ! 2) = Some bs \<and> decode_message S bs = Inr m \<and> (\<nexists>t p. m = Unknown t p))")
  case True
  then obtain pk bs m where m: "length parts = 3" "parse_pubkey S H (parts ! 1) = Some pk"
    "hex_decode H (parts ! 2) = Some bs" "decode_message S bs = Inr m" "\<nexists>t p. m = Unknown t p"
    by blast
  note fwd = cmd [unfolded cmd_send_message_forwards [OF m]]
  show ?thesis
  proof (cases "d_peers d pk")
    case None
    then show ?thesis using fwd by auto
  next
    case (Some n)
    from fwd [unfolded and_then_Inr_iff Some option.case] obtain wire x where
      x: "writer_send N (d_writers d n) wire = Inr x"
      and rest: "(case x of (res, w) \<Rightarrow> let d = set_writer n w d in case res of
            Inl e \<Rightarrow> Inr (''Send failed: '' @ noise_error_str e @ nl, d)
          | Inr _ \<Rightarrow> and_then (u16_of_first_two wire) (\<lambda>t.
              Inr (''Sent message type '' @ string_of_nat (unat t) @ '' to '' @
                pk_display S pk @ nl, d))) = Inr (out, d')"
      by blast
    obtain res w where rw: "x = (res, w)" by fastforce
    have "d' = set_writer n w d" using rest unfolding rw by (cases res) auto
    then show ?thesis using send_is_step [OF assms(1) Some x [unfolded rw]] by simp
  qed
next
  case False
  then have "d' = d" using cmd
    by (auto simp: cmd_send_message_def
        split: if_splits option.splits sum.splits message.splits bolt_error.splits)
  then show ?thesis by simp
qed

lemma handle_command_steps:
  assumes "daemon_inv d" and "handle_command S N H W d parts = Inr (out, d')"
  shows "(daemon_step S N)\<^sup>*\<^sup>* d d'"
  using assms(2) cmd_gossip_steps [OF assms(1)] cmd_send_message_steps [OF assms(1)]
  by (auto simp: handle_command_def intro: cmd_connect_steps cmd_disconnect_steps step_stop
      split: list.splits if_splits)

end
