(* ===== verification/Daemon_Instances.thy ===== *)
theory Daemon_Instances
  imports Daemon Instances
begin

text \<open>
  A node and a daemon that the properties of the daemon are applied to. In every block of the
  node, the second transaction pays to the one address its wallet derives; the daemon is
  connected to the peer with key 17.
\<close>

section \<open>A node\<close>

definition toy_rpc :: "(u8, nat) bitcoind_rpc" where
  "toy_rpc =
     \<lparr>rpc_connect = (\<lambda>url w. (Inr (), w)), chain_name = (\<lambda>w. (Inr (Some ''regtest''), w)),
      load_wallet = (\<lambda>name w. (Inl ''wallet already loaded'', w)),
      create_wallet = (\<lambda>name w. (Inr (), w)), get_block_count = (\<lambda>w. (Inr (word_of_nat w), w)),
      get_best_hash = (\<lambda>w. (Inr ''h'', w)), get_balance = (\<lambda>w. (Inr ''50 BTC'', w)),
      generate_key = (\<lambda>w. (word_of_nat w + 3, Suc w)), to_wif = (\<lambda>k. string_of_nat (unat k)),
      descriptor_checksum = (\<lambda>desc w. (Inr (Some ''c''), w)),
      derived_address = (\<lambda>desc w. (Inr (Some ''bcrt1''), w)), parse_address = Inr,
      import_descriptor = (\<lambda>desc w. (Inr (Some True, ''null''), w)),
      generate_to_address = (\<lambda>n addr w. (Inr (replicate n ''h''), w)),
      get_block = (\<lambda>h w. (Inr (Some 539268, Some [Some ''t0'', Some ''t1'']), w)),
      get_raw_tx = (\<lambda>txid h w.
        (Inr (Some (if txid = ''t1'' then [None, Some ''bcrt1''] else [None])), w))\<rparr>"

definition toy_world :: "(u8, u8, nat) world" where
  "toy_world =
     \<lparr>dial = (\<lambda>_. None), new_ephemeral = 2, bitcoind = toy_rpc, chain = 0,
      join_error = (\<lambda>p. case p of Panic msg \<Rightarrow> ''task panicked: '' @ msg), info_joined = True,
      listing = (\<lambda>_. [])\<rparr>"

lemma toy_funding:
  "new_funding_address toy_secp toy_rpc 0 =
     Inr (Inr \<lparr>fk_address = ''bcrt1'', fk_sk1 = 3, fk_sk2 = 4, fk_pk1 = 3, fk_pk2 = 4\<rparr>, 2)"
  by code_simp

lemma toy_mined:
  "mine_to_funding toy_secp toy_rpc 6 0 =
     Inr (Inr (mined_text 6 ''bcrt1'',
       \<lparr>fk_address = ''bcrt1'', fk_sk1 = 3, fk_sk2 = 4, fk_pk1 = 3, fk_pk2 = 4\<rparr>,
       make_scid 539268 1 1), 2)"
  by code_simp

section \<open>A daemon for the applications\<close>

definition toy_daemon :: "u8 daemon" where
  "toy_daemon = daemon_start 17 toy_writer"

lemma toy_daemon_new: "daemon_new toy_secp toy_writer = Inr toy_daemon"
  by (simp add: daemon_new_def node_id_def node_secret_def SEED_def toy_secp_def toy_daemon_def)

definition toy_connected :: "u8 daemon" where
  "toy_connected = insert_peer 0 17 (spawn_task 17 toy_writer (toy_reader []) toy_daemon)"

lemma toy_connected:
  "d_peers toy_connected = [17 \<mapsto> 0]" "d_writers toy_connected = (\<lambda>_. toy_writer)"
  by (simp_all add: toy_connected_def insert_peer_def spawn_task_def toy_daemon_def daemon_start_def
      fun_upd_idem)

definition toy_key :: string where
  "toy_key = hex_encode toy_hex (pad_to 33 17)"

lemma toy_key: "parse_pubkey toy_secp toy_hex toy_key = Some 17"
  by code_simp

lemma toy_asym: "pk_less toy_secp x y \<Longrightarrow> \<not> pk_less toy_secp y x"
  by (simp add: toy_secp_def)

end
