(* ===== verification/Bitcoind_Theorems.thy ===== *)
theory Bitcoind_Theorems
  imports Daemon_Instances
begin

text \<open>
  The properties of the Bitcoin Core client: where the short channel id of a funding output
  comes from, when mining panics and what becomes of it, and the check of the chain.
\<close>

section \<open>Funding outputs\<close>

text \<open>
  C12: The short channel id that \<open>mine_to_funding\<close> returns locates an output paying to the
  funding address: the height of the first block mined, the first transaction of that block
  with such an output and its first such output. Within 24, 24 and 16 bits, the id gives back
  the three numbers as text.
\<close>

theorem mined_scid_locates_funding:
  assumes "mine_to_funding S R blocks w = Inr (Inr (msg, fk, scid), w')"
  shows "\<exists>hash hashes height txids ti oi vout.
    (\<exists>u u'. generate_to_address R blocks (fk_address fk) u = (Inr (hash # hashes), u')) \<and>
    (\<exists>u u'. get_block R hash u = (Inr (Some height, Some txids), u')) \<and>
    ti < length txids \<and> outputs_of R hash (txids ! ti) vout \<and>
    oi < length vout \<and> vout ! oi = Some (fk_address fk) \<and>
    (\<forall>j < oi. vout ! j \<noteq> Some (fk_address fk)) \<and>
    (\<forall>k < ti. \<exists>out. outputs_of R hash (txids ! k) out \<and> Some (fk_address fk) \<notin> set out) \<and>
    scid = make_scid height (word_of_nat ti) (word_of_nat oi) \<and>
    (height \<le> 0xFFFFFF \<longrightarrow> ti \<le> 0xFFFFFF \<longrightarrow> oi \<le> 0xFFFF \<longrightarrow>
      scid_str scid = string_of_nat (unat height) @ ''x'' @ string_of_nat ti @ ''x'' @
        string_of_nat oi)"
proof -
  from mine_to_funding_ok [OF assms] obtain hash hashes height txids t out v u v' where
    gen: "generate_to_address R blocks (fk_address fk) u = (Inr (hash # hashes), v)"
    and block: "get_block R hash v = (Inr (Some height, Some txids), v')"
    and find: "find_output R hash (fk_address fk) 0 txids v' = Inr (Inr (Some (t, out)), w')"
    and scid: "scid = make_scid height t out"
    by blast
  from find_output_ok [OF find] obtain ti oi vout where
    ti: "ti < length txids" "t = word_of_nat ti" "out = word_of_nat oi"
    "outputs_of R hash (txids ! ti) vout" "oi < length vout" "vout ! oi = Some (fk_address fk)"
    "\<forall>j < oi. vout ! j \<noteq> Some (fk_address fk)"
    "\<forall>k < ti. \<exists>vout. outputs_of R hash (txids ! k) vout \<and> Some (fk_address fk) \<notin> set vout"
    by auto
  have shown: "scid_str scid = string_of_nat (unat height) @ ''x'' @ string_of_nat ti @ ''x'' @
        string_of_nat oi" if "height \<le> 0xFFFFFF" "ti \<le> 0xFFFFFF" "oi \<le> 0xFFFF"
  proof -
    have "unat (word_of_nat ti :: u64) = ti" "unat (word_of_nat oi :: u64) = oi"
      using that by (simp_all add: unat_of_nat)
    moreover have "(word_of_nat ti :: u64) \<le> 0xFFFFFF" "(word_of_nat oi :: u64) \<le> 0xFFFF"
      using that by (simp_all add: word_le_nat_alt unat_of_nat)
    ultimately show ?thesis
      using that unfolding scid ti by (simp add: scid_str_def Let_def fields_make_scid)
  qed
  show ?thesis
  proof (intro exI conjI impI)
    show "generate_to_address R blocks (fk_address fk) u = (Inr (hash # hashes), v)" by (rule gen)
    show "get_block R hash v = (Inr (Some height, Some txids), v')" by (rule block)
    show "ti < length txids" "outputs_of R hash (txids ! ti) vout" "oi < length vout"
      "vout ! oi = Some (fk_address fk)" by (rule ti)+
    show "\<forall>j < oi. vout ! j \<noteq> Some (fk_address fk)" by (rule ti)
    show "\<forall>k < ti. \<exists>out. outputs_of R hash (txids ! k) out \<and> Some (fk_address fk) \<notin> set out"
      by (rule ti)
    show "scid = make_scid height (word_of_nat ti) (word_of_nat oi)" using scid ti(2,3) by simp
  qed (rule shown)
qed

theorem mined_scid_locates_funding_witness:
  "\<exists>hash hashes height txids ti oi vout.
    (\<exists>u u'. generate_to_address toy_rpc 6 ''bcrt1'' u = (Inr (hash # hashes), u')) \<and>
    (\<exists>u u'. get_block toy_rpc hash u = (Inr (Some height, Some txids), u')) \<and>
    ti < length txids \<and> outputs_of toy_rpc hash (txids ! ti) vout \<and>
    oi < length vout \<and> vout ! oi = Some ''bcrt1'' \<and>
    make_scid 539268 1 1 = make_scid height (word_of_nat ti) (word_of_nat oi)"
  using mined_scid_locates_funding [OF toy_mined] by (simp only: funding_keys.select_convs) blast

text \<open>
  The two keys of a funding address are in the order of BOLT 3, each public key is that of
  its secret key, and the address is the one the node derives from the 2-of-2 descriptor over
  the secret keys in that order, which the wallet has not refused to import.
\<close>

theorem funding_keys_sorted:
  assumes "new_funding_address S R w = Inr (Inr fk, w')"
    and "\<And>x y. pk_less S x y \<Longrightarrow> \<not> pk_less S y x"
  shows "\<not> pk_less S (fk_pk2 fk) (fk_pk1 fk) \<and> fk_pk1 fk = pk_of_sk S (fk_sk1 fk) \<and>
    fk_pk2 fk = pk_of_sk S (fk_sk2 fk) \<and>
    (\<exists>checksum text v v' u u' success error.
      derived_address R (funding_descriptor R (fk_sk1 fk) (fk_sk2 fk) @ ''#'' @ checksum) v =
        (Inr (Some text), v') \<and> parse_address R text = Inr (fk_address fk) \<and>
      import_descriptor R (funding_descriptor R (fk_sk1 fk) (fk_sk2 fk) @ ''#'' @ checksum) u =
        (Inr (success, error), u') \<and> success \<noteq> Some False)"
proof -
  note ok = new_funding_address_ok [OF assms(1)]
  then obtain sk1 sk2 where "(fk_sk1 fk, fk_sk2 fk) = sort_keys S sk1 sk2"
    and pk: "fk_pk1 fk = pk_of_sk S (fk_sk1 fk)" "fk_pk2 fk = pk_of_sk S (fk_sk2 fk)"
    by blast
  then have "\<not> pk_less S (fk_pk2 fk) (fk_pk1 fk)"
    using assms(2) by (auto simp: sort_keys_def split: if_splits)
  then show ?thesis using ok pk by auto
qed

theorem funding_keys_sorted_witness:
  "\<not> pk_less toy_secp 4 3 \<and> (3 :: u8) = pk_of_sk toy_secp 3 \<and> (4 :: u8) = pk_of_sk toy_secp 4"
  using funding_keys_sorted [OF toy_funding] by (simp add: toy_secp_def)

section \<open>Mining no block\<close>

text \<open>
  C40: \<open>mine_to_funding\<close> panics exactly when the node mines no block, on the index of the first
  hash; \<open>mine\<close> then answers with the error of its task instead of a count of 0.
\<close>

theorem mining_no_block_panics:
  fixes k :: u64
  shows "(mine_to_funding S (bitcoind W) n (chain W) = Inl p \<longleftrightarrow>
     p = Panic ''index out of bounds: the len is 0 but the index is 0'' \<and>
     (\<exists>fk v v'. new_funding_address S (bitcoind W) (chain W) = Inr (Inr fk, v) \<and>
        generate_to_address (bitcoind W) n (fk_address fk) v = (Inr [], v'))) \<and>
   (mine_to_funding S (bitcoind W) (unat k) (chain W) = Inl p \<longrightarrow>
     cmd_mine S W [''mine'', string_of_nat (unat k)] = ''Task failed: '' @ join_error W p @ nl)"
proof (intro conjI impI mine_to_funding_panics)
  have "parse_u64 (string_of_nat (unat k)) = Some k"
    using parse_string_of_nat [of "unat k"] unsigned_less [of k] by simp
  moreover assume "mine_to_funding S (bitcoind W) (unat k) (chain W) = Inl p"
  ultimately show "cmd_mine S W [''mine'', string_of_nat (unat k)] =
      ''Task failed: '' @ join_error W p @ nl"
    by (simp add: cmd_mine_def mine_def)
qed

theorem mining_no_block_panics_witness:
  "cmd_mine toy_secp toy_world [''mine'', string_of_nat 0] =
     ''Task failed: '' @
       ''task panicked: index out of bounds: the len is 0 but the index is 0'' @ nl"
proof -
  let ?p = "Panic ''index out of bounds: the len is 0 but the index is 0''"
  have "generate_to_address toy_rpc 0 ''bcrt1'' 2 = (Inr [], 2)" by (simp add: toy_rpc_def)
  then have "mine_to_funding toy_secp (bitcoind toy_world) 0 (chain toy_world) = Inl ?p"
    using mining_no_block_panics [of toy_secp toy_world 0 ?p] toy_funding
    by (auto simp: toy_world_def)
  then show ?thesis
    using mining_no_block_panics [of toy_secp toy_world 0 ?p 0] by (simp add: toy_world_def)
qed

section \<open>Connecting\<close>

text \<open>
  The client only works on regtest: for a node on another chain \<open>new\<close> returns that chain
  in its error, before it touches the wallet. On regtest a wallet that is already loaded is
  left as it is, and one that cannot be loaded is created.
\<close>

theorem client_requires_regtest:
  assumes "rpc_connect R url w = (Inr (), w1)" and "chain_name R w1 = (Inr (Some c), w2)"
    and "load_wallet R WALLET_NAME w2 = (Inl msg, w3)"
  shows "client_new R url w =
    (if c \<noteq> ''regtest'' then Inr (Inl (Chain (''expected regtest, got '' @ c)), w2)
     else try_then
       (if contains msg ''already loaded'' then Inr (Inr (), w3)
        else rpc (create_wallet R WALLET_NAME) (\<lambda>e. Rpc (''create wallet: '' @ e)) w3)
       (\<lambda>_. rpc (rpc_connect R (trim_end CHR ''/'' url @ ''/wallet/ln-gossip-sim'')) Rpc))"
  using assms by (simp add: client_new_def ensure_wallet_def rpc_def need_def WALLET_NAME_def)

theorem client_requires_regtest_witness:
  "client_new toy_rpc ''http://localhost/'' 0 = Inr (Inr (), 0)"
proof -
  have "contains ''wallet already loaded'' ''already loaded''" by code_simp
  then show ?thesis
    using client_requires_regtest [of toy_rpc "''http://localhost/''" 0 0 "''regtest''" 0
        "''wallet already loaded''" 0]
    by (simp add: toy_rpc_def rpc_def)
qed

end
