(* ===== verification/Peer_Table.thy ===== *)
theory Peer_Table
  imports Daemon
begin

text \<open>
  When the table of peers of the daemon follows its connections: if a peer is only connected to
  while nothing refers to it, and no connection breaks before its entry is inserted. Under any
  such interleaving, a peer is listed exactly while its one connection is open.
\<close>

section \<open>Careful use\<close>

definition careful_step ::
    "('pk, 'sk, 'sig) secp \<Rightarrow> noise_lib \<Rightarrow> 'pk daemon \<Rightarrow> 'pk daemon \<Rightarrow> bool" where
  "careful_step S N d d' \<longleftrightarrow>
     daemon_step S N d d' \<and>
     (\<forall>n pk. d_opening d n = None \<longrightarrow> d_opening d' n = Some pk \<longrightarrow> (\<forall>m. \<not> refers d m pk)) \<and>
     (\<forall>n. d_ending d n = None \<longrightarrow> d_ending d' n \<noteq> None \<longrightarrow> d_opening d n = None)"

text \<open>The task of connection \<open>n\<close> serves the peer, or has left its loop and will remove the entry.\<close>

definition serves :: "'pk daemon \<Rightarrow> nat \<Rightarrow> 'pk \<Rightarrow> bool" where
  "serves d n pk \<longleftrightarrow> (\<exists>r. d_tasks d n = Some (pk, r)) \<or> d_ending d n = Some pk"

definition table_inv :: "'pk daemon \<Rightarrow> bool" where
  "table_inv d \<longleftrightarrow>
     daemon_inv d \<and>
     (\<forall>pk n. d_peers d pk = Some n \<longleftrightarrow> d_opening d n = None \<and> serves d n pk) \<and>
     (\<forall>pk n m. refers d n pk \<longrightarrow> refers d m pk \<longrightarrow> n = m) \<and>
     (\<forall>n pk. d_opening d n = Some pk \<longrightarrow> (\<exists>r. d_tasks d n = Some (pk, r)))"

lemma table_invD:
  assumes "table_inv d"
  shows "daemon_inv d" and "d_peers d pk = Some n \<longleftrightarrow> d_opening d n = None \<and> serves d n pk"
    and "refers d n pk \<Longrightarrow> refers d m pk \<Longrightarrow> n = m"
    and "d_opening d n = Some pk \<Longrightarrow> \<exists>r. d_tasks d n = Some (pk, r)"
    and "refers d n pk \<Longrightarrow> refers d n pk' \<Longrightarrow> pk = pk'"
    and "refers d n pk \<Longrightarrow> n < d_next d"
    and "d_tasks d n = None \<or> d_ending d n = None"
proof -
  note t = assms [unfolded table_inv_def]
  note t1 = conjunct1 [OF t] and t2 = conjunct1 [OF conjunct2 [OF t]]
    and t34 = conjunct2 [OF conjunct2 [OF t]]
  note i = t1 [unfolded daemon_inv_def]
  show "daemon_inv d" by (rule t1)
  show "d_peers d pk = Some n \<longleftrightarrow> d_opening d n = None \<and> serves d n pk" using t2 by simp
  show "refers d n pk \<Longrightarrow> refers d m pk \<Longrightarrow> n = m" using conjunct1 [OF t34] by blast
  show "d_opening d n = Some pk \<Longrightarrow> \<exists>r. d_tasks d n = Some (pk, r)" using conjunct2 [OF t34] by blast
  show "refers d n pk \<Longrightarrow> refers d n pk' \<Longrightarrow> pk = pk'" "refers d n pk \<Longrightarrow> n < d_next d" using i by blast+
  show "d_tasks d n = None \<or> d_ending d n = None" by (rule disjoint_tasks [OF t1])
qed

lemma serves_refers: "serves d n pk \<Longrightarrow> refers d n pk"
  by (auto simp: serves_def refers_def)

lemma one_connection:
  assumes "table_inv d" and "serves d n pk"
  shows "serves d m pk \<Longrightarrow> m = n" and "serves d n q \<Longrightarrow> q = pk"
  using table_invD(3) [OF assms(1) serves_refers serves_refers [OF assms(2)]]
    table_invD(5) [OF assms(1) serves_refers serves_refers [OF assms(2)]] by blast+

lemma table_inv_new: "daemon_new S w = Inr d \<Longrightarrow> table_inv d"
  using daemon_inv_new [of S w d]
  by (auto elim!: daemon_newE simp: table_inv_def serves_def refers_def daemon_start_def)

section \<open>Every careful step keeps it\<close>

lemma table_inv_spawn:
  assumes inv: "table_inv d" and new: "\<forall>m. \<not> refers d m pk"
  shows "table_inv (spawn_task pk w r d)"
proof -
  let ?d = "spawn_task pk w r d" and ?n = "d_next d"
  have fresh: "\<not> refers d ?n q" for q using table_invD(6) [OF inv, of ?n q] by blast
  then have none: "d_peers d q \<noteq> Some ?n" "d_opening d ?n = None" "d_ending d ?n = None" for q
    by (cases "d_opening d ?n"; cases "d_ending d ?n"; auto simp: refers_def)+
  have serves: "serves ?d n q \<longleftrightarrow> (if n = ?n then q = pk else serves d n q)" for n q
    using none by (auto simp: serves_def spawn_task_def)
  have refers: "refers ?d n q \<longleftrightarrow> (if n = ?n then q = pk else refers d n q)" for n q
    using none by (auto simp: refers_def spawn_task_def)
  have fields: "d_peers ?d = d_peers d" "d_opening ?d n = (if n = ?n then Some pk else d_opening d n)"
    for n by (simp_all add: spawn_task_def)
  have "d_peers ?d q = Some n \<longleftrightarrow> d_opening ?d n = None \<and> serves ?d n q" for q n
    using table_invD(2) [OF inv, of q n] none by (auto simp: fields serves)
  moreover have "refers ?d n q \<Longrightarrow> refers ?d m q \<Longrightarrow> n = m" for q n m
    using table_invD(3) [OF inv, of n q m] new by (auto simp: refers split: if_splits)
  moreover have "d_opening ?d n = Some q \<Longrightarrow> \<exists>r. d_tasks ?d n = Some (q, r)" for n q
    using table_invD(4) [OF inv, of n q] by (auto simp: spawn_task_def split: if_splits)
  ultimately show ?thesis
    using daemon_inv_spawn [OF table_invD(1) [OF inv]] unfolding table_inv_def by blast
qed

lemma table_inv_insert:
  assumes inv: "table_inv d" and open_n: "d_opening d n = Some pk"
  shows "table_inv (insert_peer n pk d)"
proof -
  let ?d = "insert_peer n pk d"
  have serves: "serves ?d m q = serves d m q" for m q by (simp add: serves_def insert_peer_def)
  have pk: "serves d n pk" using table_invD(4) [OF inv open_n] by (auto simp: serves_def)
  note one = one_connection [OF inv pk]
  have "d_peers ?d q = Some m \<longleftrightarrow> d_opening ?d m = None \<and> serves ?d m q" for q m
  proof (cases "q = pk")
    case True
    have "serves d m pk \<longleftrightarrow> m = n" using pk one(1) by blast
    then show ?thesis unfolding serves True by (auto simp: insert_peer_def)
  next
    case False
    then have "\<not> serves d n q" using one(2) by blast
    then show ?thesis using False table_invD(2) [OF inv, of q m] open_n unfolding serves
      by (cases "m = n") (simp_all add: insert_peer_def)
  qed
  moreover have "refers ?d m q \<Longrightarrow> refers d m q" for m q
    using open_n by (auto simp: refers_def insert_peer_def split: if_splits)
  then have "refers ?d m q \<Longrightarrow> refers ?d k q \<Longrightarrow> m = k" for m k q
    using table_invD(3) [OF inv] by blast
  moreover have "d_opening ?d m = Some q \<Longrightarrow> \<exists>r. d_tasks ?d m = Some (q, r)" for m q
    using table_invD(4) [OF inv, of m q] by (auto simp: insert_peer_def split: if_splits)
  ultimately show ?thesis
    using daemon_inv_ops(1) [OF table_invD(1) [OF inv] open_n] unfolding table_inv_def by blast
qed

text \<open>A step that keeps table and openings, and only moves or updates the task of one connection.\<close>

lemma table_inv_task:
  assumes inv: "table_inv d" and task: "d_tasks d n = Some (pk, r)"
    and safe: "go \<or> d_opening d n = None"
  shows "table_inv (task_done n pk go r' w d)"
proof -
  let ?d = "task_done n pk go r' w d"
  have "d_ending d n = None" using table_invD(7) [OF inv, of n] task by auto
  then have serves: "serves ?d m q = serves d m q" and refers: "refers ?d m q = refers d m q" for m q
    using task by (auto simp: serves_def refers_def task_done_def set_writer_def)
  have fields: "d_peers ?d = d_peers d" "d_opening ?d = d_opening d"
    by (simp_all add: task_done_def set_writer_def)
  have "d_opening ?d m = Some q \<Longrightarrow> \<exists>r. d_tasks ?d m = Some (q, r)" for m q
    using table_invD(4) [OF inv, of m q] task safe
    by (auto simp: task_done_def set_writer_def split: if_splits)
  then show ?thesis
    using daemon_inv_ops(5) [OF table_invD(1) [OF inv] task] inv
    unfolding table_inv_def fields serves refers by blast
qed

text \<open>A connection that is listed goes, with its entry: the end of a task, or a disconnect.\<close>

lemma table_inv_gone:
  assumes inv: "table_inv d" and n: "serves d n pk" "d_opening d n = None"
    and d': "daemon_inv d'" "d_peers d' = (d_peers d)(pk := None)" "d_opening d' = d_opening d"
      "\<And>m q. serves d' m q \<longleftrightarrow> m \<noteq> n \<and> serves d m q"
      "\<And>m. m \<noteq> n \<Longrightarrow> d_tasks d' m = d_tasks d m"
  shows "table_inv d'"
proof -
  note one = one_connection [OF inv n(1)]
  have "d_peers d' q = Some m \<longleftrightarrow> d_opening d' m = None \<and> serves d' m q" for q m
  proof (cases "q = pk")
    case True
    then show ?thesis using one(1) [of m] unfolding d' by auto
  next
    case False
    then have "\<not> serves d n q" using one(2) by blast
    then show ?thesis using False table_invD(2) [OF inv, of q m] unfolding d'
      by (cases "m = n") simp_all
  qed
  moreover have "refers d' m q \<Longrightarrow> refers d m q" for m q
    using d'(2,3) d'(4) [of m q]
    by (auto simp: refers_def serves_def fun_upd_apply split: if_splits)
  then have "refers d' m q \<Longrightarrow> refers d' k q \<Longrightarrow> m = k" for m k q
    using table_invD(3) [OF inv] by blast
  moreover have "d_opening d' m = Some q \<Longrightarrow> \<exists>r. d_tasks d' m = Some (q, r)" for m q
    using table_invD(4) [OF inv, of m q] d'(3,5) n(2) by (cases "m = n") auto
  ultimately show ?thesis using d'(1) unfolding table_inv_def by blast
qed

lemma table_inv_send:
  assumes inv: "table_inv d"
  shows "table_inv (set_writer n w d)"
proof -
  have "serves (set_writer n w d) = serves d" "refers (set_writer n w d) = refers d"
    by (simp_all add: fun_eq_iff serves_def refers_def set_writer_def)
  then show ?thesis
    using inv daemon_inv_ops(3) [OF table_invD(1) [OF inv]]
    by (simp add: table_inv_def) (simp add: set_writer_def)
qed

lemma table_inv_stop:
  assumes inv: "table_inv d"
  shows "table_inv (shutdown d)"
proof -
  have "serves (shutdown d) = serves d" "refers (shutdown d) = refers d"
    by (simp_all add: fun_eq_iff serves_def refers_def shutdown_def)
  then show ?thesis
    using inv daemon_inv_ops(6) [OF table_invD(1) [OF inv]]
    by (simp add: table_inv_def) (simp add: shutdown_def)
qed

section \<open>The invariant\<close>

lemma table_inv_remove:
  assumes inv: "table_inv d" and ending: "d_ending d n = Some pk" and listed: "d_opening d n = None"
  shows "table_inv (remove_peer n pk d)"
proof (rule table_inv_gone [OF inv])
  have "d_tasks d n = None" using table_invD(7) [OF inv, of n] ending by auto
  then show "serves (remove_peer n pk d) m q \<longleftrightarrow> m \<noteq> n \<and> serves d m q" for m q
    by (auto simp: serves_def remove_peer_def)
qed (use listed ending daemon_inv_ops(2) [OF table_invD(1) [OF inv]] in
    \<open>simp_all add: serves_def remove_peer_def\<close>)

lemma table_inv_abort:
  assumes inv: "table_inv d" and peer: "d_peers d pk = Some n"
  shows "table_inv (abort_task n (d\<lparr>d_peers := (d_peers d)(pk := None)\<rparr>))"
proof (rule table_inv_gone [OF inv])
  show "serves d n pk" "d_opening d n = None" using table_invD(2) [OF inv] peer by blast+
qed (use daemon_inv_ops(4) [OF table_invD(1) [OF inv]] in
    \<open>auto simp: serves_def abort_task_def\<close>)

lemma ending_is_listed:
  assumes "table_inv d" and "d_ending d n = Some pk"
  shows "d_opening d n = None"
proof (cases "d_opening d n")
  case (Some q)
  then obtain r where "d_tasks d n = Some (q, r)" using table_invD(4) [OF assms(1)] by blast
  then show ?thesis using table_invD(7) [OF assms(1), of n] assms(2) by simp
qed

lemma table_inv_step:
  assumes inv: "table_inv d" and step: "careful_step S N d d'"
  shows "table_inv d'"
proof -
  have new: "d_opening d n = None \<Longrightarrow> d_opening d' n = Some pk \<Longrightarrow> \<not> refers d m pk"
    and safe: "d_ending d n = None \<Longrightarrow> d_ending d' n \<noteq> None \<Longrightarrow> d_opening d n = None" for n m pk
    using step unfolding careful_step_def by blast+
  have "daemon_step S N d d'" using step unfolding careful_step_def by blast
  then show ?thesis
  proof (cases rule: daemon_stepE
      [consumes 1, case_names step_spawn step_insert step_recv step_tick step_remove step_disconnect step_send
       step_stop])
    case (step_spawn pk w r)
    have "d_opening d (d_next d) = None"
      using table_invD(6) [OF inv, of "d_next d"]
      by (cases "d_opening d (d_next d)") (auto simp: refers_def)
    then have "\<not> refers d m pk" for m
      using new [of "d_next d" pk m] by (simp add: step_spawn spawn_task_def)
    then show ?thesis unfolding step_spawn using table_inv_spawn [OF inv] by blast
  next
    case (step_insert n pk)
    then show ?thesis using table_inv_insert [OF inv] by simp
  next
    case (step_recv n pk r go r' w')
    have "d_ending d n = None" using table_invD(7) [OF inv, of n] step_recv(2) by auto
    moreover have "\<not> go \<Longrightarrow> d_ending d' n \<noteq> None"
      by (simp add: step_recv(1) task_done_def set_writer_def)
    ultimately have "go \<or> d_opening d n = None" using safe [of n] by meson
    then show ?thesis unfolding step_recv(1) by (rule table_inv_task [OF inv step_recv(2)])
  next
    case (step_tick n pk r r' go w')
    have "d_ending d n = None" using table_invD(7) [OF inv, of n] step_tick(2) by auto
    moreover have "\<not> go \<Longrightarrow> d_ending d' n \<noteq> None"
      by (simp add: step_tick(1) task_done_def set_writer_def)
    ultimately have "go \<or> d_opening d n = None" using safe [of n] by meson
    then show ?thesis unfolding step_tick(1) by (rule table_inv_task [OF inv step_tick(2)])
  next
    case (step_remove n pk)
    then show ?thesis using table_inv_remove [OF inv] ending_is_listed [OF inv] by simp
  next
    case (step_disconnect pk n)
    then show ?thesis using table_inv_abort [OF inv] by simp
  next
    case (step_send n msg res w')
    then show ?thesis using table_inv_send [OF inv] by simp
  next
    case step_stop
    then show ?thesis using table_inv_stop [OF inv] by simp
  qed
qed

interpretation careful_run: step_system "careful_step S N" table_inv d_next
  for S :: "('pk, 'sk, 'sig) secp" and N :: noise_lib
  by unfold_locales (auto simp: careful_step_def intro: table_inv_step daemon_step_next)

end
