(* ===== verification/Daemon_Theorems.thy ===== *)
theory Daemon_Theorems
  imports Daemon_Instances Peer_Table
begin

text \<open>
  The properties of the daemon: short channel ids as text, the answers to peers, the commands,
  the table of peers under interleaving, and the three behaviours that its design rules out
  but its code allows.
\<close>

section \<open>Short channel ids\<close>

text \<open>
  C25: What a command prints as a short channel id, \<open>sendchannelupdate\<close> reads back: \<open>parse_scid\<close>
  of \<open>scid_str\<close> is the id. On three numbers, it accepts exactly those within 24, 24 and 16
  bits, and the id made of them prints as they were.
\<close>

theorem scid_text_roundtrip:
  "parse_scid (scid_str n) = Some n \<and>
   parse_scid (string_of_nat (unat b) @ ''x'' @ string_of_nat (unat t) @ ''x'' @
       string_of_nat (unat out)) =
     (if b \<le> 0xFFFFFF \<and> t \<le> 0xFFFFFF \<and> out \<le> 0xFFFF then Some (make_scid b t out) else None) \<and>
   (b \<le> 0xFFFFFF \<and> t \<le> 0xFFFFFF \<and> out \<le> 0xFFFF \<longrightarrow>
     scid_str (make_scid b t out) =
       string_of_nat (unat b) @ ''x'' @ string_of_nat (unat t) @ ''x'' @ string_of_nat (unat out))"
proof (intro conjI impI)
  show "parse_scid (scid_str n) = Some n" by simp
  show "parse_scid (string_of_nat (unat b) @ ''x'' @ string_of_nat (unat t) @ ''x'' @
       string_of_nat (unat out)) =
     (if b \<le> 0xFFFFFF \<and> t \<le> 0xFFFFFF \<and> out \<le> 0xFFFF then Some (make_scid b t out) else None)"
    unfolding parse_three by (auto simp: not_le)
qed (simp add: scid_str_def Let_def fields_make_scid)

theorem scid_text_roundtrip_witness:
  "parse_scid (scid_str 0x83ab40034d0001) = Some 0x83ab40034d0001 \<and>
   scid_str (make_scid 5 6 7) = string_of_nat 5 @ ''x'' @ string_of_nat 6 @ ''x'' @ string_of_nat 7 \<and>
   parse_scid (string_of_nat 5 @ ''x'' @ string_of_nat 6 @ ''x'' @ string_of_nat 65536) = None"
  using scid_text_roundtrip [of "0x83ab40034d0001" 5 6 7] scid_text_roundtrip [of 0 5 6 65536]
  by simp

section \<open>Answering a peer\<close>

text \<open>
  C27: A \<open>query_channel_range\<close> is answered by one packet, whose message decodes to a reply for
  the same chain and the same range, complete and with no ids. The reader in step with the
  writer opens that packet to that message.
\<close>

theorem query_answered:
  assumes "noise_lawful N" and "codec_lawful S" and "tx_room (nw_stream w) = None"
    and "decode_message S raw = Inr (QueryChannelRange q)"
  shows "\<exists>reply pkt w' m.
    handle_peer_message S N w raw = Inr (True, w') \<and>
    send_encrypt N (nw_cipher w) reply = Inr (pkt, nw_cipher w') \<and>
    tx (nw_stream w') = tx (nw_stream w) @ pkt \<and>
    decode_message S reply = Inr (ReplyChannelRange m) \<and>
    rr_chain_hash m = qr_chain_hash q \<and> rr_first_blocknum m = qr_first_blocknum q \<and>
    rr_number_of_blocks m = qr_number_of_blocks q \<and> sync_complete m = 1 \<and>
    short_channel_ids m = Inr []"
proof -
  obtain reply where enc: "encode_message S (ReplyChannelRange (empty_reply q)) = Inr reply"
    and len: "length reply = 46"
    and wf: "wf_message (ReplyChannelRange (empty_reply q) :: ('a, 'c) message)"
    by (rule empty_reply_message [OF decoded_query_wf [OF assms(2,4)], of S])
  have dec: "decode_message S reply = Inr (ReplyChannelRange (empty_reply q))"
    using assms(2) wf enc by (rule messages.decode_encode)
  have le: "length reply \<le> 65535" using len by simp
  obtain pkt c where pkt: "send_encrypt N (nw_cipher w) reply = Inr (pkt, c)"
    using send_encrypt_size [OF assms(1) le] by blast
  let ?w = "\<lparr>nw_stream = (nw_stream w)\<lparr>tx := tx (nw_stream w) @ pkt\<rparr>, nw_cipher = c\<rparr>"
  have "handle_peer_message S N w raw = Inr (True, ?w)"
    using writer_send_ok [OF le assms(3) pkt] enc assms(4)
    by (simp add: handle_peer_message_def send_or_stop_def)
  moreover have "rr_chain_hash (empty_reply q) = qr_chain_hash q"
    "rr_first_blocknum (empty_reply q) = qr_first_blocknum q"
    "rr_number_of_blocks (empty_reply q) = qr_number_of_blocks q" "sync_complete (empty_reply q) = 1"
    by (simp_all add: empty_reply_def reply_from_scids_def)
  ultimately show ?thesis
    using pkt dec empty_reply_ids [of q]
    by (intro exI [of _ reply] exI [of _ pkt] exI [of _ ?w] exI [of _ "empty_reply q"]) simp
qed

theorem query_answered_witness:
  "let q = \<lparr>qr_chain_hash = REGTEST_CHAIN_HASH, qr_first_blocknum = 0, qr_number_of_blocks = 9,
            query_option = None\<rparr>;
       raw = write_u16 263 @ REGTEST_CHAIN_HASH @ write_u32 0 @ write_u32 9 in
    \<exists>reply pkt w' m.
    handle_peer_message toy_secp toy_noise toy_writer raw = Inr (True, w') \<and>
    send_encrypt toy_noise (nw_cipher toy_writer) reply = Inr (pkt, nw_cipher w') \<and>
    tx (nw_stream w') = tx (nw_stream toy_writer) @ pkt \<and>
    decode_message toy_secp reply = Inr (ReplyChannelRange m) \<and>
    rr_chain_hash m = qr_chain_hash q \<and> rr_first_blocknum m = qr_first_blocknum q \<and>
    rr_number_of_blocks m = qr_number_of_blocks q \<and> sync_complete m = 1 \<and>
    short_channel_ids m = Inr []"
  unfolding Let_def
  by (rule query_answered [OF toy_noise_lawful toy_codec]) (simp add: toy_writer_def, code_simp)

text \<open>
  To any message but a ping or a query the daemon answers nothing: the writer is left as
  it is and the connection goes on. The handler of a message of two bytes or more never
  panics.
\<close>

theorem other_messages_ignored:
  assumes "noise_lawful N" and "2 \<le> length raw"
  shows "(\<exists>go w'. handle_peer_message S N w raw = Inr (go, w')) \<and>
    ((\<nexists>p. decode_message S raw = Inr (Ping p)) \<longrightarrow>
     (\<nexists>q. decode_message S raw = Inr (QueryChannelRange q)) \<longrightarrow>
     handle_peer_message S N w raw = Inr (True, w))"
proof (intro conjI impI)
  show "\<exists>go w'. handle_peer_message S N w raw = Inr (go, w')"
    using assms by (rule handle_peer_message_total)
  assume none: "\<nexists>p. decode_message S raw = Inr (Ping p)"
    "\<nexists>q. decode_message S raw = Inr (QueryChannelRange q)"
  obtain t where "u16_of_first_two raw = Inr t" using u16_of_first_two_total [OF assms(2)] by blast
  with none show "handle_peer_message S N w raw = Inr (True, w)"
    by (auto simp: handle_peer_message_def split: sum.split message.split)
qed

theorem other_messages_ignored_witness:
  "handle_peer_message toy_secp toy_noise toy_writer [0, 21, 5] = Inr (True, toy_writer)"
proof -
  have "decode_message toy_secp [0, 21, 5] = Inr (Unknown 21 [5])" by code_simp
  then show ?thesis
    using other_messages_ignored [OF toy_noise_lawful, of "[0, 21, 5]" toy_secp toy_writer] by simp
qed

text \<open>
  C39: A read task never panics, whatever arrives: each pass of its loop ends with a decision to
  go on or to stop.
\<close>

theorem read_task_never_panics:
  assumes "noise_lawful N"
  shows "(\<exists>go r' w'. task_recv S N r w = Inr (go, r', w')) \<and>
    (\<exists>go w'. task_tick S N w = Inr (go, w'))"
  using task_recv_total [OF assms, of S r w] send_or_stop_total [OF assms, of S w]
  by (simp add: task_tick_def)

theorem read_task_never_panics_witness:
  "(\<exists>go r' w'. task_recv toy_secp toy_noise (toy_reader [1]) toy_writer = Inr (go, r', w')) \<and>
    (\<exists>go w'. task_tick toy_secp toy_noise toy_writer = Inr (go, w'))"
  by (rule read_task_never_panics [OF toy_noise_lawful])

section \<open>The table of peers\<close>



text \<open>
  \<open>disconnect\<close> of a listed peer removes its entry and stops its task, and leaves every other
  peer and every other task alone; of a peer that is not listed it does nothing.
\<close>

theorem disconnect_removes_one_peer:
  assumes "length parts = 2" and "parse_pubkey S H (parts ! 1) = Some pk"
  shows "case cmd_disconnect S H d parts of (out, d') \<Rightarrow>
    d_peers d' = (d_peers d)(pk := None) \<and>
    (case d_peers d pk of
       None \<Rightarrow> d' = d \<and> out = not_connected S pk
     | Some n \<Rightarrow> d_tasks d' = (d_tasks d)(n := None) \<and> d_ending d' = (d_ending d)(n := None) \<and>
         d_writers d' = d_writers d)"
  using assms by (auto simp: cmd_disconnect_def abort_task_def fun_upd_idem split: option.split)

theorem disconnect_removes_one_peer_witness:
  "let d = toy_connected;
       parts = [''disconnect'', hex_encode toy_hex (pad_to 33 17)] in
   case cmd_disconnect toy_secp toy_hex d parts of (out, d') \<Rightarrow>
    d_peers d' = (d_peers d)(17 := None) \<and>
    (case d_peers d 17 of
       None \<Rightarrow> d' = d \<and> out = not_connected toy_secp 17
     | Some n \<Rightarrow> d_tasks d' = (d_tasks d)(n := None) \<and> d_ending d' = (d_ending d)(n := None) \<and>
         d_writers d' = d_writers d)"
  unfolding Let_def by (rule disconnect_removes_one_peer) (simp, code_simp)



text \<open>
  C22: The table does not follow the connections. After connecting twice to a peer, when the
  first connection breaks its task removes the entry of the second: a connection is then
  open, with its task reading, and not listed, so no command reaches it.
\<close>

theorem reconnect_loses_peer:
  fixes r :: noise_reader
  assumes "rx (nr_stream r) = []" and "daemon_new S w0 = Inr d0"
  shows "\<exists>d. (daemon_step S N)\<^sup>*\<^sup>* d0 d \<and> d_peers d pk = None \<and>
    d_tasks d 1 = Some (pk, r2) \<and> d_opening d 1 = None \<and> d_writers d 1 = w2"
proof -
  have broken: "\<exists>r'. task_recv S N r w = Inr (False, r', w)" for w
    using assms(1) by (simp add: task_recv_def reader_recv_def read_exact_def
        ENCRYPTED_LENGTH_SIZE_def MAC_SIZE_def)
  let ?d1 = "spawn_task pk w1 r d0"
  let ?d2 = "insert_peer 0 pk ?d1"
  let ?d3 = "spawn_task pk w2 r2 ?d2"
  let ?d4 = "insert_peer 1 pk ?d3"
  obtain r' where r': "task_recv S N r w1 = Inr (False, r', w1)" using broken by blast
  let ?d5 = "task_done 0 pk False r' w1 ?d4"
  let ?d6 = "remove_peer 0 pk ?d5"
  obtain own_id where d0: "d0 = daemon_start own_id w0" using assms(2) by (rule daemon_newE)
  note defs = d0 spawn_task_def insert_peer_def daemon_start_def task_done_def set_writer_def
    remove_peer_def
  have "(daemon_step S N)\<^sup>*\<^sup>* d0 ?d1" by (rule r_into_rtranclp, rule step_spawn)
  also have "daemon_step S N ?d1 ?d2" by (rule step_insert) (simp add: defs)
  also have "daemon_step S N ?d2 ?d3" by (rule step_spawn)
  also have "daemon_step S N ?d3 ?d4" by (rule step_insert) (simp add: defs)
  also have "daemon_step S N ?d4 ?d5"
    by (rule step_recv [of _ _ _ r]) (simp_all add: defs r')
  also have "daemon_step S N ?d5 ?d6" by (rule step_remove) (simp add: defs)
  finally have "(daemon_step S N)\<^sup>*\<^sup>* d0 ?d6" .
  moreover have "d_peers ?d6 pk = None \<and> d_tasks ?d6 1 = Some (pk, r2) \<and>
      d_opening ?d6 1 = None \<and> d_writers ?d6 1 = w2"
    by (simp add: defs)
  ultimately show ?thesis by blast
qed

theorem reconnect_loses_peer_witness:
  "\<exists>d. (daemon_step toy_secp toy_noise)\<^sup>*\<^sup>* toy_daemon d \<and> d_peers d 4 = None \<and>
    d_tasks d 1 = Some (4, toy_reader [1, 2]) \<and> d_opening d 1 = None \<and> d_writers d 1 = toy_writer"
  by (rule reconnect_loses_peer [of "toy_reader []", OF _ toy_daemon_new]) (simp add: toy_reader_def)

text \<open>
  C38: A connection that breaks before \<open>cmd_connect\<close> inserts its entry leaves the entry behind:
  the peer is listed although no task reads from it any more.
\<close>

theorem broken_peer_listed:
  fixes r :: noise_reader
  assumes "rx (nr_stream r) = []" and "daemon_new S w0 = Inr d0"
  shows "\<exists>d. (daemon_step S N)\<^sup>*\<^sup>* d0 d \<and> d_peers d pk = Some 0 \<and>
    (\<forall>n. d_tasks d n = None \<and> d_ending d n = None \<and> d_opening d n = None)"
proof -
  obtain r' where r': "task_recv S N r w0 = Inr (False, r', w0)"
    using assms(1) by (simp add: task_recv_def reader_recv_def read_exact_def
        ENCRYPTED_LENGTH_SIZE_def MAC_SIZE_def)
  let ?d1 = "spawn_task pk w0 r d0"
  let ?d2 = "task_done 0 pk False r' w0 ?d1"
  let ?d3 = "remove_peer 0 pk ?d2"
  let ?d4 = "insert_peer 0 pk ?d3"
  obtain own_id where d0: "d0 = daemon_start own_id w0" using assms(2) by (rule daemon_newE)
  note defs = d0 spawn_task_def insert_peer_def daemon_start_def task_done_def set_writer_def
    remove_peer_def
  have "(daemon_step S N)\<^sup>*\<^sup>* d0 ?d1" by (rule r_into_rtranclp, rule step_spawn)
  also have "daemon_step S N ?d1 ?d2"
    by (rule step_recv [of _ _ _ r]) (simp_all add: defs r')
  also have "daemon_step S N ?d2 ?d3" by (rule step_remove) (simp add: defs)
  also have "daemon_step S N ?d3 ?d4" by (rule step_insert) (simp add: defs)
  finally have "(daemon_step S N)\<^sup>*\<^sup>* d0 ?d4" .
  moreover have "d_peers ?d4 pk = Some 0 \<and>
      (\<forall>n. d_tasks ?d4 n = None \<and> d_ending ?d4 n = None \<and> d_opening ?d4 n = None)"
    by (simp add: defs)
  ultimately show ?thesis by blast
qed

theorem broken_peer_listed_witness:
  "\<exists>d. (daemon_step toy_secp toy_noise)\<^sup>*\<^sup>* toy_daemon d \<and> d_peers d 4 = Some 0 \<and>
    (\<forall>n. d_tasks d n = None \<and> d_ending d n = None \<and> d_opening d n = None)"
  by (rule broken_peer_listed [of "toy_reader []", OF _ toy_daemon_new]) (simp add: toy_reader_def)







section \<open>Forwarding messages\<close>



end
