(* ===== verification/Gossip_Theorems.thy ===== *)
theory Gossip_Theorems
  imports Daemon_Instances
begin

text \<open>
  What the gossip commands send, from the funding output on the chain to the bytes on the
  stream of the peer: properties across the Bitcoin Core client, the messages with their
  signatures, the transport and the daemon.
\<close>

section \<open>The messages on the wire\<close>

lemma announcement_on_wire:
  assumes "codec_lawful S" and "length chain_hash = 32"
  shows "\<exists>wire. encode_message S (ChannelAnnouncement
      (ca_new_signed S [] chain_hash scid n1 n2 b1 b2)) = Inr wire \<and> length wire \<le> 65535 \<and>
    decode_message S wire = Inr (ChannelAnnouncement (ca_new_signed S [] chain_hash scid n1 n2 b1 b2)) \<and>
    drop 2 wire = encode_channel_announcement S (ca_new_signed S [] chain_hash scid n1 n2 b1 b2)"
proof -
  let ?a = "ca_new_signed S [] chain_hash scid n1 n2 b1 b2"
  have wf: "wf_channel_announcement ?a" "ca_features ?a = []"
    using assms(2) by (simp_all add: ca_new_signed_def Let_def wf_channel_announcement_def
        fits_u16_def CHAIN_HASH_SIZE_def)
  have enc: "encode_message S (ChannelAnnouncement ?a) =
      Inr (write_u16 CHANNEL_ANNOUNCEMENT @ encode_channel_announcement S ?a)"
    by (simp add: encode_message_def encode_body_def msg_type_def)
  moreover have "decode_message S (write_u16 CHANNEL_ANNOUNCEMENT @ encode_channel_announcement S ?a) =
      Inr (ChannelAnnouncement ?a)"
    using messages.decode_encode [OF assms(1) _ enc] wf(1) by (simp add: wf_message_def)
  ultimately show ?thesis
    using announcement_lengths(1) [OF assms(1) wf(1)] wf(2) by (simp add: width_simps)
qed

lemma update_on_wire:
  assumes "codec_lawful S" and "length chain_hash = 32"
    and "u = cu_new_signed S chain_hash scid ts mf cf cltv hmin fbase fprop hmax sk"
  shows "\<exists>wire. encode_message S (ChannelUpdate u) = Inr wire \<and> length wire \<le> 65535 \<and>
    decode_message S wire = Inr (ChannelUpdate u)"
proof -
  have wf: "wf_channel_update u"
    using assms(2,3) by (simp add: cu_new_signed_def Let_def wf_channel_update_def CHAIN_HASH_SIZE_def)
  have enc: "encode_message S (ChannelUpdate u) =
      Inr (write_u16 CHANNEL_UPDATE @ encode_channel_update S u)"
    by (simp add: encode_message_def encode_body_def msg_type_def)
  moreover have "decode_message S (write_u16 CHANNEL_UPDATE @ encode_channel_update S u) =
      Inr (ChannelUpdate u)"
    using messages.decode_encode [OF assms(1) _ enc] wf by (simp add: wf_message_def)
  ultimately show ?thesis
    using announcement_lengths(3) [OF assms(1) wf] by (simp add: width_simps)
qed

lemma node_on_wire:
  assumes "codec_lawful S"
  shows "\<exists>wire. encode_message S (NodeAnnouncement (na_default_signed S sk)) = Inr wire \<and>
    length wire \<le> 65535 \<and>
    decode_message S wire = Inr (NodeAnnouncement (na_default_signed S sk))"
proof -
  let ?n = "na_default_signed S sk"
  have wf: "wf_node_announcement ?n" "na_features ?n = []" "addresses ?n = []"
    by (simp_all add: na_default_signed_def na_new_signed_def Let_def wf_node_announcement_def
        fits_u16_def)
  have enc: "encode_message S (NodeAnnouncement ?n) =
      Inr (write_u16 NODE_ANNOUNCEMENT @ encode_node_announcement S ?n)"
    by (simp add: encode_message_def encode_body_def msg_type_def)
  moreover have "decode_message S (write_u16 NODE_ANNOUNCEMENT @ encode_node_announcement S ?n) =
      Inr (NodeAnnouncement ?n)"
    using messages.decode_encode [OF assms(1) _ enc] wf(1) by (simp add: wf_message_def)
  ultimately show ?thesis
    using announcement_lengths(2) [OF assms(1) wf(1)] wf(2,3) by (simp add: width_simps)
qed

lemma regtest_size: "length REGTEST_CHAIN_HASH = 32"
  by (simp add: REGTEST_CHAIN_HASH_def)

lemma delivers_room:
  assumes "delivers N d n wire d'"
  shows "d_peers d' = d_peers d" and
    "tx_room (nw_stream (d_writers d' n)) = tx_room (nw_stream (d_writers d n))"
  using assms by (auto simp: delivers_def set_writer_def)

section \<open>Announcing a channel\<close>

text \<open>
  C10: \<open>sendchannelannouncement\<close> to a listed peer sends one packet, whose content decodes to an
  announcement of the channel just funded: its short channel id, the regtest chain, our node
  key on both sides and the funding keys, with four signatures that verify over the bytes
  sent. The id it prints is one that \<open>sendchannelupdate\<close> parses back.
\<close>

theorem funded_channel_announced:
  assumes "noise_lawful N" and "codec_lawful S" and "sign_lawful S"
    and "length parts = 2" and "parse_pubkey S H (parts ! 1) = Some pk" and "d_peers d pk = Some n"
    and "tx_room (nw_stream (d_writers d n)) = None"
    and "mine_to_funding S (bitcoind W) 6 (chain W) = Inr (Inr (msg, fk, scid), w')"
    and "node_secret S = Inr sk"
  shows "\<exists>ann wire d'.
    cmd_send_channel_announcement S N H W d parts =
      Inr (''Sent channel_announcement scid='' @ scid_str scid @ '' to '' @ pk_display S pk @ nl, d') \<and>
    delivers N d n wire d' \<and> decode_message S wire = Inr (ChannelAnnouncement ann) \<and>
    ca_short_channel_id ann = scid \<and> parse_scid (scid_str scid) = Some scid \<and>
    ca_chain_hash ann = REGTEST_CHAIN_HASH \<and>
    node_id_1 ann = pk_of_sk S sk \<and> node_id_2 ann = pk_of_sk S sk \<and>
    bitcoin_key_1 ann = pk_of_sk S (fk_sk1 fk) \<and> bitcoin_key_2 ann = pk_of_sk S (fk_sk2 fk) \<and>
    (let digest = sha256d S (drop 258 wire) in
     verify_ecdsa S digest (node_signature_1 ann) (node_id_1 ann) \<and>
     verify_ecdsa S digest (node_signature_2 ann) (node_id_2 ann) \<and>
     verify_ecdsa S digest (bitcoin_signature_1 ann) (bitcoin_key_1 ann) \<and>
     verify_ecdsa S digest (bitcoin_signature_2 ann) (bitcoin_key_2 ann))"
proof -
  let ?a = "ca_new_signed S [] REGTEST_CHAIN_HASH scid sk sk (fk_sk1 fk) (fk_sk2 fk)"
  let ?out = "''Sent channel_announcement scid='' @ scid_str scid @ '' to '' @ pk_display S pk @ nl"
  obtain wire where wire: "encode_message S (ChannelAnnouncement ?a) = Inr wire"
    "length wire \<le> 65535" "decode_message S wire = Inr (ChannelAnnouncement ?a)"
    "drop 2 wire = encode_channel_announcement S ?a"
    using announcement_on_wire [OF assms(2) regtest_size] by blast
  have scid: "ca_scid_str ?a = scid_str scid" by (simp add: ca_scid_str_def ca_new_signed_def Let_def)
  obtain d' where d': "send_to S N d n wire ?out = Inr (?out, d')" "delivers N d n wire d'"
    using send_to_delivers [OF assms(1) wire(2) assms(7)] by blast
  have cmd: "cmd_send_channel_announcement S N H W d parts = Inr (?out, d')"
    using cmd_send_channel_announcement_ok [OF assms(4,5,6,8,9), of N] wire(1) d'(1)
    by (simp add: scid Let_def)
  have "drop 258 wire = drop 256 (encode_channel_announcement S ?a)"
    unfolding wire(4) [symmetric] by simp
  then have digest: "sha256d S (drop 258 wire) = ca_signature_hash S ?a"
    using ca_hash_covers [OF codec_lawfulD(2) [OF assms(2)], of ?a] by simp
  show ?thesis
    unfolding Let_def using cmd d'(2) wire(3) digest
    by (intro exI [of _ ?a] exI [of _ wire] exI [of _ d'])
      (simp add: ca_new_signed_def Let_def ca_signature_hash_def sign_law [OF assms(3)])
qed

theorem funded_channel_announced_witness:
  "\<exists>ann wire d' out.
    cmd_send_channel_announcement toy_secp toy_noise toy_hex toy_world toy_connected
      [''sendchannelannouncement'', toy_key] = Inr (out, d') \<and>
    delivers toy_noise toy_connected 0 wire d' \<and>
    decode_message toy_secp wire = Inr (ChannelAnnouncement ann) \<and>
    ca_short_channel_id ann = make_scid 539268 1 1 \<and> bitcoin_key_2 ann = 4"
proof -
  have "node_secret toy_secp = Inr 17"
    by (simp add: node_secret_def SEED_def toy_secp_def)
  moreover have "mine_to_funding toy_secp (bitcoind toy_world) 6 (chain toy_world) =
     Inr (Inr (mined_text 6 ''bcrt1'',
       \<lparr>fk_address = ''bcrt1'', fk_sk1 = 3, fk_sk2 = 4, fk_pk1 = 3, fk_pk2 = 4\<rparr>,
       make_scid 539268 1 1), 2)"
    using toy_mined by (simp add: toy_world_def)
  moreover have "tx_room (nw_stream (d_writers toy_connected 0)) = None"
    by (simp add: toy_connected toy_writer_def)
  moreover have "parse_pubkey toy_secp toy_hex ([''sendchannelannouncement'', toy_key] ! 1) = Some 17"
    using toy_key by simp
  moreover have "pk_of_sk toy_secp 4 = 4" by (simp add: toy_secp_def)
  ultimately show ?thesis
    using funded_channel_announced [OF toy_noise_lawful toy_codec toy_sign, where
        parts = "[''sendchannelannouncement'', toy_key]" and pk = 17 and n = 0 and
        d = toy_connected and W = toy_world]
    by (simp add: toy_connected) blast
qed

section \<open>The three gossip commands together\<close>

text \<open>
  C11: After \<open>sendchannelannouncement2\<close>, \<open>sendchannelupdate\<close> with the id it printed and
  \<open>sendnodeannouncement\<close>, the peer has three packets whose contents fit together: one channel,
  its node ids not in descending order, an update whose direction bit names the first node
  and whose signature verifies under that node's key, and an announcement of that node that
  verifies.
\<close>

theorem gossip_commands_agree:
  assumes "noise_lawful N" and "codec_lawful S" and "sign_lawful S"
    and "\<And>x y. pk_less S x y \<Longrightarrow> \<not> pk_less S y x" and "ordered_node_secrets S = Inr (sk1, sk2)"
    and "parse_pubkey S H key = Some pk" and "d_peers d pk = Some n"
    and "tx_room (nw_stream (d_writers d n)) = None"
    and "mine_to_funding S (bitcoind W) 6 (chain W) = Inr (Inr (msg, fk, scid), w')"
  shows "\<exists>ann update node w1 w2 w3 d1 d2 d3 out2 out3.
    cmd_send_channel_announcement_2 S N H W d [cmd1, key] =
      Inr (''Sent channel_announcement (distinct node IDs) scid='' @ scid_str scid @ '' to '' @
        pk_display S pk @ nl, d1) \<and>
    cmd_send_channel_update S N H d1 [cmd2, key, scid_str scid] = Inr (out2, d2) \<and>
    cmd_send_node_announcement S N H d2 [cmd3, key] = Inr (out3, d3) \<and>
    delivers N d n w1 d1 \<and> decode_message S w1 = Inr (ChannelAnnouncement ann) \<and>
    delivers N d1 n w2 d2 \<and> decode_message S w2 = Inr (ChannelUpdate update) \<and>
    delivers N d2 n w3 d3 \<and> decode_message S w3 = Inr (NodeAnnouncement node) \<and>
    ca_short_channel_id ann = scid \<and> cu_short_channel_id update = scid \<and>
    cu_chain_hash update = ca_chain_hash ann \<and>
    \<not> pk_less S (node_id_2 ann) (node_id_1 ann) \<and> cu_channel_flags update AND 1 = 0 \<and>
    verify_ecdsa S (cu_signature_hash S update) (cu_signature update) (node_id_1 ann) \<and>
    na_node_id node = node_id_1 ann \<and> na_verify S node"
proof -
  let ?ann = "ca_new_signed S [] REGTEST_CHAIN_HASH scid sk1 sk2 (fk_sk1 fk) (fk_sk2 fk)"
  let ?upd = "cu_new_signed S REGTEST_CHAIN_HASH scid 0 1 0 40 1 1000 1 4294967295 sk1"
  let ?node = "na_default_signed S sk1"
  obtain w1 where w1: "encode_message S (ChannelAnnouncement ?ann) = Inr w1" "length w1 \<le> 65535"
    "decode_message S w1 = Inr (ChannelAnnouncement ?ann)"
    using announcement_on_wire [OF assms(2) regtest_size] by blast
  obtain w2 where w2: "encode_message S (ChannelUpdate ?upd) = Inr w2" "length w2 \<le> 65535"
    "decode_message S w2 = Inr (ChannelUpdate ?upd)"
    using update_on_wire [OF assms(2) regtest_size refl] by blast
  obtain w3 where w3: "encode_message S (NodeAnnouncement ?node) = Inr w3" "length w3 \<le> 65535"
    "decode_message S w3 = Inr (NodeAnnouncement ?node)"
    using node_on_wire [OF assms(2)] by blast
  let ?out1 = "''Sent channel_announcement (distinct node IDs) scid='' @ scid_str scid @ '' to '' @
    pk_display S pk @ nl"
  let ?out2 = "''Sent channel_update scid='' @ cu_scid_str ?upd @ '' to '' @ pk_display S pk @ nl"
  let ?out3 = "''Sent node_announcement node_id='' @ pk_display S (na_node_id ?node) @ '' to '' @
    pk_display S pk @ nl"
  obtain d1 where d1: "send_to S N d n w1 ?out1 = Inr (?out1, d1)" "delivers N d n w1 d1"
    using send_to_delivers [OF assms(1) w1(2) assms(8)] by blast
  note room1 = delivers_room [OF d1(2)]
  obtain d2 where d2: "send_to S N d1 n w2 ?out2 = Inr (?out2, d2)" "delivers N d1 n w2 d2"
    using send_to_delivers [OF assms(1) w2(2), of d1 n] room1(2) assms(8) by auto
  note room2 = delivers_room [OF d2(2)]
  obtain d3 where d3: "send_to S N d2 n w3 ?out3 = Inr (?out3, d3)" "delivers N d2 n w3 d3"
    using send_to_delivers [OF assms(1) w3(2), of d2 n] room2(2) room1(2) assms(8) by auto
  have scid: "ca_scid_str ?ann = scid_str scid" by (simp add: ca_scid_str_def ca_new_signed_def Let_def)
  have "cmd_send_channel_announcement_2 S N H W d [cmd1, key] = Inr (?out1, d1)"
    using cmd_send_channel_announcement_2_ok [of "[cmd1, key]", OF _ _ assms(7,9,5)] assms(6) w1(1) d1(1)
    by (simp add: scid Let_def)
  moreover have "cmd_send_channel_update S N H d1 [cmd2, key, scid_str scid] = Inr (?out2, d2)"
    using assms(5-7) w2(1) d2(1) room1(1) by (simp add: cmd_send_channel_update_def Let_def)
  moreover have "cmd_send_node_announcement S N H d2 [cmd3, key] = Inr (?out3, d3)"
    using assms(5-7) w3(1) d3(1) room1(1) room2(1) by (simp add: cmd_send_node_announcement_def Let_def)
  moreover have "\<not> pk_less S (pk_of_sk S sk2) (pk_of_sk S sk1)"
    using assms(4,5) by (auto simp: ordered_node_secrets_def split: if_splits)
  then have "ca_short_channel_id ?ann = scid \<and> cu_short_channel_id ?upd = scid \<and>
    cu_chain_hash ?upd = ca_chain_hash ?ann \<and>
    \<not> pk_less S (node_id_2 ?ann) (node_id_1 ?ann) \<and> cu_channel_flags ?upd AND 1 = 0 \<and>
    verify_ecdsa S (cu_signature_hash S ?upd) (cu_signature ?upd) (node_id_1 ?ann) \<and>
    na_node_id ?node = node_id_1 ?ann \<and> na_verify S ?node"
    by (simp add: Let_def ca_new_signed_def cu_new_signed_def na_default_signed_def
        na_new_signed_def na_verify_def cu_signature_hash_def na_signature_hash_def
        sign_law [OF assms(3)])
  ultimately show ?thesis using d1(2) d2(2) d3(2) w1(3) w2(3) w3(3) by blast
qed

theorem gossip_commands_agree_witness:
  "\<exists>ann update d1 d2 out1 out2.
    cmd_send_channel_announcement_2 toy_secp toy_noise toy_hex toy_world toy_connected
      [''sendchannelannouncement2'', toy_key] = Inr (out1, d1) \<and>
    cmd_send_channel_update toy_secp toy_noise toy_hex d1
      [''sendchannelupdate'', toy_key, scid_str (make_scid 539268 1 1)] = Inr (out2, d2) \<and>
    ca_short_channel_id ann = make_scid 539268 1 1 \<and>
    cu_short_channel_id update = make_scid 539268 1 1 \<and>
    verify_ecdsa toy_secp (cu_signature_hash toy_secp update) (cu_signature update)
      (node_id_1 (ann :: (u8, u8) channel_announcement))"
proof -
  have keys: "ordered_node_secrets toy_secp = Inr (17, 34)"
    by (simp add: ordered_node_secrets_def node_secret_def node_secret_2_def SEED_def SEED_2_def
        toy_secp_def)
  have funds: "mine_to_funding toy_secp (bitcoind toy_world) 6 (chain toy_world) =
     Inr (Inr (mined_text 6 ''bcrt1'',
       \<lparr>fk_address = ''bcrt1'', fk_sk1 = 3, fk_sk2 = 4, fk_pk1 = 3, fk_pk2 = 4\<rparr>,
       make_scid 539268 1 1), 2)"
    using toy_mined by (simp add: toy_world_def)
  have room: "tx_room (nw_stream (d_writers toy_connected 0)) = None"
    and peer: "d_peers toy_connected 17 = Some 0"
    by (simp_all add: toy_connected toy_writer_def)
  from gossip_commands_agree [OF toy_noise_lawful toy_codec toy_sign toy_asym keys toy_key peer room
      funds, of "''sendchannelannouncement2''" "''sendchannelupdate''" "''sendnodeannouncement''"]
  show ?thesis by blast
qed

end
