(* ===== verification/Unit_Test.thy ===== *)
theory Unit_Test
  imports Message "HOL-Library.Code_Target_Nat"
begin

text \<open>
  The assertions of the unit tests of the repository. A test is a truth value of the same
  operations as in the source: \<open>unwrap\<close> fails the test on an error, \<open>should_panic\<close> is the
  attribute of that name. Where a test makes keys and signatures, the crates are the parameter
  of the model, and \<open>crates_ok\<close> is what the tests rely on of them beside their laws.
\<close>

definition unwrap :: "'e + 'a \<Rightarrow> ('a \<Rightarrow> bool) \<Rightarrow> bool" where
  "unwrap r test = (case r of Inl _ \<Rightarrow> False | Inr x \<Rightarrow> test x)"

definition unwrap_option :: "'a option \<Rightarrow> ('a \<Rightarrow> bool) \<Rightarrow> bool" where
  "unwrap_option r test = (case r of None \<Rightarrow> False | Some x \<Rightarrow> test x)"

definition should_panic :: "string \<Rightarrow> panic + 'a \<Rightarrow> bool" where
  "should_panic msg r = (case r of Inl (Panic m) \<Rightarrow> contains m msg | Inr _ \<Rightarrow> False)"

text \<open>\<open>bytes[at..at + new.len()].copy_from_slice(new)\<close>, within the bounds.\<close>

definition copy_from_slice :: "nat \<Rightarrow> bytes \<Rightarrow> bytes \<Rightarrow> bytes" where
  "copy_from_slice at new bytes = take at bytes @ new @ drop (at + length new) bytes"

text \<open>A call on \<open>&mut self\<close> with \<open>expect\<close> or \<open>expect_err\<close>, and the rest of the test after it.\<close>

definition expect_call :: "('e, 'a, 's) outcome \<Rightarrow> ('a \<Rightarrow> 's \<Rightarrow> bool) \<Rightarrow> bool" where
  "expect_call r test = (case r of Inr (Inr x, s) \<Rightarrow> test x s | _ \<Rightarrow> False)"

definition expect_err_call :: "('e, 'a, 's) outcome \<Rightarrow> ('e \<Rightarrow> 's \<Rightarrow> bool) \<Rightarrow> bool" where
  "expect_err_call r test = (case r of Inr (Inl e, s) \<Rightarrow> test e s | _ \<Rightarrow> False)"

text \<open>\<open>matches!(result, Err(BoltError::Truncated { .. }))\<close>\<close>

definition is_truncated :: "bolt_error + 'a \<Rightarrow> bool" where
  "is_truncated r = (case r of Inl (Truncated _ _) \<Rightarrow> True | _ \<Rightarrow> False)"

lemma unwrap_simps [simp]:
  "\<not> unwrap (Inl e) t" "unwrap (Inr x) t = t x"
  "\<not> unwrap_option None t'" "unwrap_option (Some y) t' = t' y"
  by (simp_all add: unwrap_def unwrap_option_def)

lemma expect_simps [simp]:
  "expect_call (Inr (Inr x, s)) t = t x s"
  "expect_err_call (Inr (Inl e, s)) t' = t' e s"
  by (simp_all add: expect_call_def expect_err_call_def)

text \<open>
  A string of 32 equal bytes, not zero and not the greatest, and a string of zeros but for the
  last byte are secret keys; no point of the curve has only zeros for its compressed form; a
  signature of zeros is parsed but never verifies, and one with numbers above the order of
  the curve is not parsed.
\<close>

definition crates_ok :: "('pk, 'sk, 'sig) secp \<Rightarrow> bool" where
  "crates_ok S \<longleftrightarrow>
     codec_lawful S \<and> sign_lawful S \<and>
     (\<forall>b. b \<noteq> 0 \<longrightarrow> b \<noteq> 255 \<longrightarrow> sk_from_slice S (replicate 32 b) \<noteq> None) \<and>
     (\<forall>b. b \<noteq> 0 \<longrightarrow> sk_from_slice S (replicate 31 0 @ [b]) \<noteq> None) \<and>
     (\<exists>z. sig_from_compact S (replicate 64 0) = Some z \<and> (\<forall>m k. \<not> verify_ecdsa S m z k)) \<and>
     pk_from_slice S (replicate 33 0) = None \<and> sig_from_compact S (replicate 64 0xff) = None"

section \<open>Evaluation\<close>

named_theorems test_simps \<open>readers and writers, as equations that evaluate them\<close>

lemma be_of_nat_numeral [test_simps]:
  "be_of_nat (numeral k) x = be_of_nat (pred_numeral k) (x div 256) @ [word_of_nat x]"
  by (subst numeral_eq_Suc, subst be_of_nat.simps, rule refl)

lemma replicate_numeral [test_simps]:
  "replicate (numeral k) x = x # replicate (pred_numeral k) x"
  by (subst numeral_eq_Suc, subst replicate_Suc, rule refl)

lemma minus_one_u64 [test_simps]:
  "unat (- 1 :: u64) = 18446744073709551615" "ucast (- 1 :: u64) = (255 :: u8)"
  by code_simp+

lemmas [test_simps] = to_be_bytes_def from_be_bytes_def nat_of_be_def read_array_def write_array_def
  read_int_def write_int_def read_i64_def write_i64_def read_bigsize_def write_bigsize_def
  bigsize_len_def and_then_def map_err_def size_defs Let_def

lemma crates_okD:
  assumes "crates_ok S"
  shows "keys_lawful S" and "sigs_lawful S" and "codec_lawful S" and "sign_lawful S"
    and "b \<noteq> 0 \<Longrightarrow> b \<noteq> 255 \<Longrightarrow> \<exists>sk. sk_from_slice S (replicate 32 b) = Some sk"
    and "pk_from_slice S (replicate 33 0) = None" and "sig_from_compact S (replicate 64 0xff) = None"
    and "b \<noteq> 0 \<Longrightarrow> \<exists>sk. sk_from_slice S (replicate 31 0 @ [b]) = Some sk"
    and "\<exists>z. sig_from_compact S (replicate 64 0) = Some z \<and> (\<forall>m k. \<not> verify_ecdsa S m z k)"
  using assms by (auto simp: crates_ok_def codec_lawful_def)

text \<open>Readers at the end of the input, and on bytes that are no key or signature.\<close>

lemma read_short:
  "length data < 33 \<Longrightarrow> read_pubkey S data = Inl (Truncated 33 (length data))"
  "length data < 64 \<Longrightarrow> read_signature S data = Inl (Truncated 64 (length data))"
  "length data < 4 \<Longrightarrow> read_u32 data = Inl (Truncated 4 (length data))"
  "length data < 8 \<Longrightarrow> read_u64 data = Inl (Truncated 8 (length data))"
  "length data < 2 \<Longrightarrow> read_vec data = Inl (Truncated 2 (length data))"
  "length data < n \<Longrightarrow> read_array n data = Inl (Truncated n (length data))"
  "read_u8 [] = Inl (Truncated 1 0)"
  by (simp_all add: read_pubkey_def read_signature_def read_vec_def read_array_def read_int_def
      size_defs)

lemma read_invalid:
  assumes "crates_ok S"
  shows "read_pubkey S (replicate 33 0 @ data) = Inl (InvalidPublicKey (replicate 33 0))"
    and "read_signature S (replicate 64 0xff @ data) = Inl (InvalidSignature (replicate 64 0xff))"
  using crates_okD(6,7) [OF assms]
  by (simp_all add: read_pubkey_def read_signature_def read_array_def size_defs ok_or_def)

end
