(* ===== verification/Wire_Tests.thy ===== *)
theory Wire_Tests
  imports Unit_Test
begin

text \<open>The unit tests of \<open>bolt/src/wire.rs\<close> and \<open>bolt/src/types.rs\<close>, on the model.\<close>

section \<open>Integers\<close>

definition u8_read_valid :: bool where
  "u8_read_valid \<longleftrightarrow>
     unwrap (read_u8 [0x00, 0xff]) (\<lambda>(v, data). v = 0 \<and> data = [0xff] \<and>
     unwrap (read_u8 data) (\<lambda>(v, data). v = 255 \<and> data = []))"

definition u8_read_truncated :: bool where
  "u8_read_truncated \<longleftrightarrow> read_u8 [] = Inl (Truncated 1 0)"

definition u8_write_roundtrip :: bool where
  "u8_write_roundtrip \<longleftrightarrow> list_all (\<lambda>value. let buf = write_u8 value in
     length buf = 1 \<and> unwrap (read_u8 buf) (\<lambda>(v, _). v = value)) [0, 1, 127, 255]"

definition u16_read_valid :: bool where
  "u16_read_valid \<longleftrightarrow>
     unwrap (read_u16 [0x00, 0x00, 0x00, 0x01]) (\<lambda>(v, data). v = 0 \<and> data = [0x00, 0x01] \<and>
     unwrap (read_u16 data) (\<lambda>(v, data). v = 1 \<and> data = []))"

definition u16_read_truncated :: bool where
  "u16_read_truncated \<longleftrightarrow>
     read_u16 [] = Inl (Truncated 2 0) \<and> read_u16 [0x00] = Inl (Truncated 2 1)"

definition u16_write_roundtrip :: bool where
  "u16_write_roundtrip \<longleftrightarrow> list_all (\<lambda>value. let buf = write_u16 value in
     length buf = 2 \<and> unwrap (read_u16 buf) (\<lambda>(v, _). v = value)) [0, 1, 255, 256, 65535]"

definition u32_read_valid :: bool where
  "u32_read_valid \<longleftrightarrow>
     unwrap (read_u32 [0x00, 0x00, 0x00, 0x00, 0x00, 0x00, 0x00, 0x01]) (\<lambda>(v, data).
       v = 0 \<and> data = [0x00, 0x00, 0x00, 0x01] \<and>
     unwrap (read_u32 data) (\<lambda>(v, data). v = 1 \<and> data = []))"

definition u32_read_truncated :: bool where
  "u32_read_truncated \<longleftrightarrow>
     read_u32 [] = Inl (Truncated 4 0) \<and> read_u32 [0x00, 0x01, 0x02] = Inl (Truncated 4 3)"

definition u32_write_roundtrip :: bool where
  "u32_write_roundtrip \<longleftrightarrow> list_all (\<lambda>value. let buf = write_u32 value in
     length buf = 4 \<and> unwrap (read_u32 buf) (\<lambda>(v, _). v = value))
     [0, 1, 65535, 65536, 4294967295]"

definition u64_read_valid :: bool where
  "u64_read_valid \<longleftrightarrow>
     unwrap (read_u64 [0x00, 0x00, 0x00, 0x00, 0x00, 0x00, 0x00, 0x00, 0x00, 0x00, 0x00, 0x00,
       0x00, 0x00, 0x00, 0x01]) (\<lambda>(v, data). v = 0 \<and> length data = 8 \<and>
     unwrap (read_u64 data) (\<lambda>(v, data). v = 1 \<and> data = []))"

definition u64_read_truncated :: bool where
  "u64_read_truncated \<longleftrightarrow>
     read_u64 [] = Inl (Truncated 8 0) \<and> read_u64 (replicate 7 0x00) = Inl (Truncated 8 7)"

definition u64_write_roundtrip :: bool where
  "u64_write_roundtrip \<longleftrightarrow> list_all (\<lambda>value. let buf = write_u64 value in
     length buf = 8 \<and> unwrap (read_u64 buf) (\<lambda>(v, _). v = value))
     [0, 1, 4294967295, 18446744073709551615]"

definition i64_MAX :: int where "i64_MAX = 9223372036854775807"
definition i64_MIN :: int where "i64_MIN = - 9223372036854775808"

definition i64_be_bytes :: "int \<Rightarrow> bytes" where
  "i64_be_bytes v = to_be_bytes (word_of_int v :: u64)"

definition i64_read_valid :: bool where
  "i64_read_valid \<longleftrightarrow>
     unwrap (read_i64 [0x00, 0x00, 0x00, 0x00, 0x00, 0x00, 0x00, 0x00, 0x00, 0x00, 0x00, 0x00,
       0x00, 0x00, 0x00, 0x01]) (\<lambda>(v, data). v = 0 \<and> length data = 8 \<and>
     unwrap (read_i64 data) (\<lambda>(v, data). v = 1 \<and> data = [])) \<and>
     unwrap (read_i64 [0xff, 0xff, 0xff, 0xff, 0xff, 0xff, 0xff, 0xff]) (\<lambda>(v, _). v = - 1) \<and>
     unwrap (read_i64 (i64_be_bytes (- 100000))) (\<lambda>(v, _). v = - 100000) \<and>
     unwrap (read_i64 (i64_be_bytes i64_MAX)) (\<lambda>(v, _). v = i64_MAX) \<and>
     unwrap (read_i64 (i64_be_bytes i64_MIN)) (\<lambda>(v, _). v = i64_MIN)"

definition i64_read_truncated :: bool where
  "i64_read_truncated \<longleftrightarrow>
     read_i64 [] = Inl (Truncated 8 0) \<and> read_i64 (replicate 7 0x00) = Inl (Truncated 8 7)"

definition i64_write_roundtrip :: bool where
  "i64_write_roundtrip \<longleftrightarrow> list_all (\<lambda>value. let buf = write_i64 value in
     length buf = 8 \<and> unwrap (read_i64 buf) (\<lambda>(v, _). v = value))
     [0, 1, - 1, i64_MAX, i64_MIN, - 100000, 500000]"

definition i64_negative_wire_encoding :: bool where
  "i64_negative_wire_encoding \<longleftrightarrow>
     write_i64 (- 1) = replicate 8 0xff \<and>
     write_i64 i64_MIN = [0x80, 0x00, 0x00, 0x00, 0x00, 0x00, 0x00, 0x00]"

lemma integer_tests:
  "u8_read_valid" "u8_read_truncated" "u8_write_roundtrip"
  "u16_read_valid" "u16_read_truncated" "u16_write_roundtrip"
  "u32_read_valid" "u32_read_truncated" "u32_write_roundtrip"
  "u64_read_valid" "u64_read_truncated" "u64_write_roundtrip"
  "i64_read_valid" "i64_read_truncated" "i64_write_roundtrip" "i64_negative_wire_encoding"
  by (simp_all add: test_simps u8_read_valid_def u8_read_truncated_def u8_write_roundtrip_def
      u16_read_valid_def u16_read_truncated_def u16_write_roundtrip_def u32_read_valid_def
      u32_read_truncated_def u32_write_roundtrip_def u64_read_valid_def u64_read_truncated_def
      u64_write_roundtrip_def i64_read_valid_def i64_read_truncated_def i64_write_roundtrip_def
      i64_negative_wire_encoding_def i64_MAX_def i64_MIN_def i64_be_bytes_def)

section \<open>Arrays and keys\<close>

definition byte_array_read_valid :: bool where
  "byte_array_read_valid \<longleftrightarrow>
     unwrap (read_array 3 [0xaa, 0xbb, 0xcc, 0xdd, 0xee]) (\<lambda>(arr, data).
       arr = [0xaa, 0xbb, 0xcc] \<and> data = [0xdd, 0xee])"

definition byte_array_read_truncated :: bool where
  "byte_array_read_truncated \<longleftrightarrow>
     read_array 4 [0xaa, 0xbb] = Inl (Truncated 4 2) \<and> read_array 1 [] = Inl (Truncated 1 0)"

definition byte_array_write_roundtrip :: bool where
  "byte_array_write_roundtrip \<longleftrightarrow>
     (let original = [0x11, 0x22, 0x33, 0x44, 0x55]; buf = write_array original in
      length buf = 5 \<and>
      unwrap (read_array 5 buf) (\<lambda>(decoded, cursor). decoded = original \<and> cursor = []))"

definition pubkey_read_truncated :: "('pk, 'sk, 'sig) secp \<Rightarrow> bool" where
  "pubkey_read_truncated S \<longleftrightarrow>
     read_pubkey S [] = Inl (Truncated PUBLIC_KEY_SIZE 0) \<and>
     read_pubkey S (replicate 20 0x02) = Inl (Truncated PUBLIC_KEY_SIZE 20)"

definition pubkey_read_invalid :: "('pk, 'sk, 'sig) secp \<Rightarrow> bool" where
  "pubkey_read_invalid S \<longleftrightarrow>
     (let invalid = replicate PUBLIC_KEY_SIZE 0x00 in
      read_pubkey S invalid = Inl (InvalidPublicKey invalid))"

definition pubkey_write_roundtrip :: "('pk, 'sk, 'sig) secp \<Rightarrow> bool" where
  "pubkey_write_roundtrip S \<longleftrightarrow>
     unwrap_option (sk_from_slice S (replicate 32 0x22)) (\<lambda>sk.
     let pk = pk_of_sk S sk; buf = write_pubkey S pk in
     length buf = PUBLIC_KEY_SIZE \<and>
     unwrap (read_pubkey S buf) (\<lambda>(decoded, cursor). decoded = pk \<and> cursor = []))"

definition channel_id_write_roundtrip :: bool where
  "channel_id_write_roundtrip \<longleftrightarrow>
     (let original = ChannelId (replicate CHANNEL_ID_SIZE 0xab); buf = write_channel_id original in
      length buf = CHANNEL_ID_SIZE \<and>
      unwrap (read_channel_id buf) (\<lambda>(decoded, cursor). decoded = original \<and> cursor = []))"

definition channel_id_read_truncated :: bool where
  "channel_id_read_truncated \<longleftrightarrow>
     read_channel_id (replicate 20 0x00) = Inl (Truncated CHANNEL_ID_SIZE 20)"

definition channel_id_read_advances_cursor :: bool where
  "channel_id_read_advances_cursor \<longleftrightarrow>
     unwrap (read_channel_id (replicate (CHANNEL_ID_SIZE + 8) 0x11)) (\<lambda>(id, data).
       id = ChannelId (replicate CHANNEL_ID_SIZE 0x11) \<and> length data = 8)"

definition txid_read_truncated :: bool where
  "txid_read_truncated \<longleftrightarrow>
     read_txid [] = Inl (Truncated TXID_SIZE 0) \<and>
     read_txid (replicate 20 0xaa) = Inl (Truncated TXID_SIZE 20)"

definition txid_write_roundtrip :: bool where
  "txid_write_roundtrip \<longleftrightarrow>
     (let txid = replicate TXID_SIZE 0xcc; buf = write_txid txid in
      length buf = TXID_SIZE \<and>
      unwrap (read_txid buf) (\<lambda>(decoded, cursor). decoded = txid \<and> cursor = []))"

definition signature_read_truncated :: "('pk, 'sk, 'sig) secp \<Rightarrow> bool" where
  "signature_read_truncated S \<longleftrightarrow>
     read_signature S [] = Inl (Truncated COMPACT_SIGNATURE_SIZE 0) \<and>
     read_signature S (replicate 30 0xdd) = Inl (Truncated COMPACT_SIGNATURE_SIZE 30)"

definition signature_read_invalid :: "('pk, 'sk, 'sig) secp \<Rightarrow> bool" where
  "signature_read_invalid S \<longleftrightarrow>
     (let invalid = replicate COMPACT_SIGNATURE_SIZE 0xff in
      read_signature S invalid = Inl (InvalidSignature invalid))"

definition signature_write_roundtrip :: "('pk, 'sk, 'sig) secp \<Rightarrow> bool" where
  "signature_write_roundtrip S \<longleftrightarrow>
     unwrap_option (sk_from_slice S (replicate 32 0x11)) (\<lambda>sk.
     let msg = replicate 32 0xaa; sig = sign_ecdsa S msg sk; buf = write_signature S sig in
     length buf = COMPACT_SIGNATURE_SIZE \<and>
     unwrap (read_signature S buf) (\<lambda>(decoded, cursor). decoded = sig \<and> cursor = []))"

lemma array_tests:
  "byte_array_read_valid" "byte_array_read_truncated" "byte_array_write_roundtrip"
  "channel_id_write_roundtrip" "channel_id_read_truncated" "channel_id_read_advances_cursor"
  "txid_read_truncated" "txid_write_roundtrip"
  by code_simp+

lemma key_tests:
  assumes "crates_ok S"
  shows "pubkey_read_truncated S" and "pubkey_read_invalid S" and "pubkey_write_roundtrip S"
    and "signature_read_truncated S" and "signature_read_invalid S"
    and "signature_write_roundtrip S"
proof -
  note ok = crates_okD [OF assms]
  obtain k1 k2 where "sk_from_slice S (replicate 32 0x22) = Some k1"
    "sk_from_slice S (replicate 32 0x11) = Some k2" using crates_okD(5) [OF assms, of "0x22"] crates_okD(5) [OF assms, of "0x11"] by auto
  then show "pubkey_write_roundtrip S" "signature_write_roundtrip S"
    by (simp_all add: pubkey_write_roundtrip_def signature_write_roundtrip_def Let_def
        write_pubkey_def write_signature_def read_pubkey_def read_signature_def read_array_def
        write_array_def and_then_def ok_or_def size_defs pk_laws [OF ok(1)] sig_laws [OF ok(2)])
qed (simp_all add: pubkey_read_truncated_def pubkey_read_invalid_def signature_read_truncated_def
    signature_read_invalid_def read_pubkey_def read_signature_def read_array_def and_then_def
    ok_or_def size_defs crates_okD(6,7) [OF assms])

section \<open>Byte vectors\<close>

definition vec_u8_read_empty_field :: bool where
  "vec_u8_read_empty_field \<longleftrightarrow>
     unwrap (read_vec [0x00, 0x00]) (\<lambda>(result, data). result = [] \<and> data = [])"

definition vec_u8_read_valid :: bool where
  "vec_u8_read_valid \<longleftrightarrow>
     unwrap (read_vec [0x00, 0x03, 0xaa, 0xbb, 0xcc]) (\<lambda>(result, data).
       result = [0xaa, 0xbb, 0xcc] \<and> data = [])"

definition vec_u8_read_truncated_length :: bool where
  "vec_u8_read_truncated_length \<longleftrightarrow> read_vec [0x00] = Inl (Truncated 2 1)"

definition vec_u8_read_truncated_data :: bool where
  "vec_u8_read_truncated_data \<longleftrightarrow> read_vec [0x00, 0x05, 0xaa, 0xbb] = Inl (Truncated 5 2)"

definition vec_u8_read_advances_cursor :: bool where
  "vec_u8_read_advances_cursor \<longleftrightarrow>
     unwrap (read_vec [0x00, 0x02, 0xaa, 0xbb, 0xff, 0xff]) (\<lambda>(result, data).
       result = [0xaa, 0xbb] \<and> data = [0xff, 0xff])"

definition vec_u8_write_roundtrip :: bool where
  "vec_u8_write_roundtrip \<longleftrightarrow>
     (let original = [0xaa, 0xbb]; buf = write_vec original in
      unwrap (read_vec buf) (\<lambda>(decoded, cursor). decoded = original \<and> cursor = []))"

lemma vec_tests:
  "vec_u8_read_empty_field" "vec_u8_read_valid" "vec_u8_read_truncated_length"
  "vec_u8_read_truncated_data" "vec_u8_read_advances_cursor" "vec_u8_write_roundtrip"
  by code_simp+

section \<open>BigSize: the vectors of BOLT 1, appendix A\<close>

definition bigsize_read_valid :: bool where
  "bigsize_read_valid \<longleftrightarrow> list_all (\<lambda>(bytes, expected).
     unwrap (read_bigsize bytes) (\<lambda>(bs, cursor).
       bigsize_value bs = expected \<and> bigsize_len bs = length bytes \<and> cursor = []))
     [([0x00], 0), ([0xfc], 252), ([0xfd, 0x00, 0xfd], 253), ([0xfd, 0xff, 0xff], 65535),
      ([0xfe, 0x00, 0x01, 0x00, 0x00], 65536), ([0xfe, 0xff, 0xff, 0xff, 0xff], 4294967295),
      ([0xff, 0x00, 0x00, 0x00, 0x01, 0x00, 0x00, 0x00, 0x00], 4294967296),
      ([0xff, 0xff, 0xff, 0xff, 0xff, 0xff, 0xff, 0xff, 0xff], 18446744073709551615)]"

definition bigsize_write_valid :: bool where
  "bigsize_write_valid \<longleftrightarrow> list_all (\<lambda>(value, expected). write_bigsize (BigSize value) = expected)
     [(0, [0x00]), (252, [0xfc]), (253, [0xfd, 0x00, 0xfd]), (65535, [0xfd, 0xff, 0xff]),
      (65536, [0xfe, 0x00, 0x01, 0x00, 0x00]), (4294967295, [0xfe, 0xff, 0xff, 0xff, 0xff]),
      (4294967296, [0xff, 0x00, 0x00, 0x00, 0x01, 0x00, 0x00, 0x00, 0x00]),
      (18446744073709551615, [0xff, 0xff, 0xff, 0xff, 0xff, 0xff, 0xff, 0xff, 0xff])]"

definition bigsize_write_roundtrip :: bool where
  "bigsize_write_roundtrip \<longleftrightarrow> list_all (\<lambda>value. let bs = BigSize value; encoded = write_bigsize bs in
     unwrap (read_bigsize encoded) (\<lambda>(decoded, cursor).
       value = bigsize_value decoded \<and> bigsize_len bs = length encoded \<and> cursor = []))
     [0, 1, 252, 253, 254, 65535, 65536, 0xffffffff, 0x100000000, 18446744073709551615]"

definition bigsize_read_not_minimal :: bool where
  "bigsize_read_not_minimal \<longleftrightarrow>
     read_bigsize [0xfd, 0x00, 0xfc] = Inl BigSizeNotMinimal \<and>
     read_bigsize [0xfe, 0x00, 0x00, 0xff, 0xff] = Inl BigSizeNotMinimal \<and>
     read_bigsize [0xff, 0x00, 0x00, 0x00, 0x00, 0xff, 0xff, 0xff, 0xff] = Inl BigSizeNotMinimal"

definition bigsize_read_truncated :: bool where
  "bigsize_read_truncated \<longleftrightarrow>
     read_bigsize [] = Inl BigSizeTruncated \<and>
     read_bigsize [0xfd] = Inl BigSizeTruncated \<and>
     read_bigsize [0xfe] = Inl BigSizeTruncated \<and>
     read_bigsize [0xff] = Inl BigSizeTruncated \<and>
     read_bigsize [0xfd, 0x00] = Inl BigSizeTruncated \<and>
     read_bigsize [0xfe, 0xff, 0xff] = Inl BigSizeTruncated \<and>
     read_bigsize [0xff, 0xff, 0xff, 0xff, 0xff] = Inl BigSizeTruncated"

definition bigsize_len_matches_encode :: bool where
  "bigsize_len_matches_encode \<longleftrightarrow> list_all (\<lambda>value.
     bigsize_len (BigSize value) = length (write_bigsize (BigSize value)))
     [0, 252, 253, 65535, 65536, 0xffffffff, 0x100000000]"

definition bigsize_read_advances_cursor :: bool where
  "bigsize_read_advances_cursor \<longleftrightarrow>
     unwrap (read_bigsize [0x05, 0xff, 0xff]) (\<lambda>(bs, data). bs = BigSize 5 \<and> data = [0xff, 0xff]) \<and>
     unwrap (read_bigsize [0xfd, 0x00, 0xfd, 0xaa]) (\<lambda>(bs, data).
       bs = BigSize 253 \<and> data = [0xaa])"

lemma bigsize_tests:
  "bigsize_read_valid" "bigsize_write_valid" "bigsize_write_roundtrip" "bigsize_read_not_minimal"
  "bigsize_read_truncated" "bigsize_len_matches_encode" "bigsize_read_advances_cursor"
  by (simp_all add: test_simps bigsize_read_valid_def bigsize_write_valid_def
      bigsize_write_roundtrip_def bigsize_read_not_minimal_def bigsize_read_truncated_def
      bigsize_len_matches_encode_def bigsize_read_advances_cursor_def)

section \<open>The types\<close>

definition bigsize_new :: bool where
  "bigsize_new \<longleftrightarrow> (case BigSize 42 of BigSize v \<Rightarrow> v = 42) \<and> bigsize_value (BigSize 42) = 42"

definition bigsize_value_test :: bool where
  "bigsize_value_test \<longleftrightarrow> list_all (\<lambda>v. bigsize_value (BigSize v) = v)
     [0, 1, 252, 253, 65535, 65536, 18446744073709551615]"

definition channel_id_all_is_zeros :: bool where
  "channel_id_all_is_zeros \<longleftrightarrow> as_bytes channel_id_ALL = replicate CHANNEL_ID_SIZE 0"

definition channel_id_new :: bool where
  "channel_id_new \<longleftrightarrow>
     (let bytes = replicate CHANNEL_ID_SIZE 0x42 in as_bytes (ChannelId bytes) = bytes)"

text \<open>The derived \<open>Default\<close> of the array in a \<open>ChannelId\<close>.\<close>

definition channel_id_default :: channel_id where
  "channel_id_default = ChannelId (replicate CHANNEL_ID_SIZE 0)"

definition channel_id_default_is_all :: bool where
  "channel_id_default_is_all \<longleftrightarrow> channel_id_default = channel_id_ALL"

lemma type_tests:
  "bigsize_new" "bigsize_value_test" "channel_id_all_is_zeros" "channel_id_new"
  "channel_id_default_is_all"
  by code_simp+

end
