(* ===== verification/Tlv_Tests.thy ===== *)
theory Tlv_Tests
  imports Unit_Test
begin

text \<open>
  The unit tests of \<open>bolt/src/tlv.rs\<close>, most of them the vectors of BOLT 1, appendix B, on the
  model.
\<close>

section \<open>Basic functionality\<close>

definition tlv_empty_stream :: bool where
  "tlv_empty_stream \<longleftrightarrow> tlv_is_empty tlv_new \<and> tlv_encode tlv_new = []"

definition tlv_single_record :: bool where
  "tlv_single_record \<longleftrightarrow>
     unwrap (tlv_add tlv_new 1 [0xaa, 0xbb]) (\<lambda>stream.
     let encoded = tlv_encode stream in
     encoded = [0x01, 0x02, 0xaa, 0xbb] \<and>
     unwrap (tlv_decode encoded) (\<lambda>decoded. tlv_get decoded 1 = Some [0xaa, 0xbb]))"

definition tlv_multiple_records_sorted :: bool where
  "tlv_multiple_records_sorted \<longleftrightarrow>
     unwrap (tlv_add tlv_new 5 [0x55]) (\<lambda>stream.
     unwrap (tlv_add stream 1 [0x11]) (\<lambda>stream.
     unwrap (tlv_add stream 3 [0x33]) (\<lambda>stream.
     tlv_encode stream = [0x01, 0x01, 0x11, 0x03, 0x01, 0x33, 0x05, 0x01, 0x55])))"

definition tlv_roundtrip :: bool where
  "tlv_roundtrip \<longleftrightarrow>
     unwrap (tlv_add tlv_new 1 [0x01, 0x02, 0x03]) (\<lambda>stream.
     unwrap (tlv_add stream 3 []) (\<lambda>stream.
     unwrap (tlv_add stream 255 (replicate 100 0xff)) (\<lambda>stream.
     unwrap (tlv_decode (tlv_encode stream)) (\<lambda>decoded.
       tlv_get decoded 1 = Some [0x01, 0x02, 0x03] \<and>
       tlv_get decoded 3 = Some [] \<and>
       tlv_get decoded 255 = Some (replicate 100 0xff)))))"

definition tlv_known_even_accepted :: bool where
  "tlv_known_even_accepted \<longleftrightarrow>
     unwrap (tlv_decode_with_known [0x02, 0x01, 0xaa] [2]) (\<lambda>decoded.
       tlv_get decoded 2 = Some [0xaa])"

definition tlv_add_duplicate_panics :: bool where
  "tlv_add_duplicate_panics \<longleftrightarrow>
     should_panic ''duplicate TLV type''
       (and_then (tlv_add tlv_new 1 [0x11]) (\<lambda>stream. tlv_add stream 1 [0x22]))"

lemma tlv_basic_tests:
  "tlv_empty_stream" "tlv_single_record" "tlv_multiple_records_sorted" "tlv_roundtrip"
  "tlv_known_even_accepted" "tlv_add_duplicate_panics"
  by code_simp+

section \<open>Decoding failures in any namespace\<close>

definition bolt_type_truncated :: bool where
  "bolt_type_truncated \<longleftrightarrow>
     tlv_decode [0xfd] = Inl BigSizeTruncated \<and> tlv_decode [0xfd, 0x01] = Inl BigSizeTruncated"

definition bolt_type_not_minimal :: bool where
  "bolt_type_not_minimal \<longleftrightarrow> tlv_decode [0xfd, 0x00, 0x01, 0x00] = Inl BigSizeNotMinimal"

definition bolt_missing_length :: bool where
  "bolt_missing_length \<longleftrightarrow> tlv_decode [0xfd, 0x01, 0x01] = Inl BigSizeTruncated"

definition bolt_length_truncated :: bool where
  "bolt_length_truncated \<longleftrightarrow>
     tlv_decode [0x0f, 0xfd] = Inl BigSizeTruncated \<and>
     tlv_decode [0x0f, 0xfd, 0x26] = Inl BigSizeTruncated"

definition bolt_missing_value :: bool where
  "bolt_missing_value \<longleftrightarrow> tlv_decode [0x0f, 0xfd, 0x26, 0x02] = Inl TlvLengthOverflow"

definition bolt_length_not_minimal :: bool where
  "bolt_length_not_minimal \<longleftrightarrow> tlv_decode [0x0f, 0xfd, 0x00, 0x01, 0x00] = Inl BigSizeNotMinimal"

definition bolt_value_truncated :: bool where
  "bolt_value_truncated \<longleftrightarrow>
     tlv_decode ([0x0f, 0xfd, 0x02, 0x01] @ replicate 256 0x00) = Inl TlvLengthOverflow"

lemma tlv_failure_tests:
  "bolt_type_truncated" "bolt_type_not_minimal" "bolt_missing_length" "bolt_length_truncated"
  "bolt_missing_value" "bolt_length_not_minimal" "bolt_value_truncated"
  by code_simp+

section \<open>Unknown types\<close>

definition N1_N2_KNOWN_EVEN :: "u64 list" where
  "N1_N2_KNOWN_EVEN = [0, 2, 254]"

definition bolt_unknown_even_1byte :: bool where
  "bolt_unknown_even_1byte \<longleftrightarrow>
     tlv_decode_with_known [0x12, 0x00] N1_N2_KNOWN_EVEN = Inl (TlvUnknownEvenType 18)"

definition bolt_unknown_even_2byte :: bool where
  "bolt_unknown_even_2byte \<longleftrightarrow>
     tlv_decode_with_known [0xfd, 0x01, 0x02, 0x00] N1_N2_KNOWN_EVEN =
       Inl (TlvUnknownEvenType 258)"

definition bolt_unknown_even_4byte :: bool where
  "bolt_unknown_even_4byte \<longleftrightarrow>
     tlv_decode_with_known [0xfe, 0x01, 0x00, 0x00, 0x02, 0x00] N1_N2_KNOWN_EVEN =
       Inl (TlvUnknownEvenType 16777218)"

definition bolt_unknown_even_8byte :: bool where
  "bolt_unknown_even_8byte \<longleftrightarrow>
     tlv_decode_with_known [0xff, 0x01, 0x00, 0x00, 0x00, 0x00, 0x00, 0x00, 0x02, 0x00]
       N1_N2_KNOWN_EVEN = Inl (TlvUnknownEvenType 72057594037927938)"

definition bolt_empty_valid :: bool where
  "bolt_empty_valid \<longleftrightarrow> unwrap (tlv_decode []) tlv_is_empty"

definition bolt_unknown_odd_1byte :: bool where
  "bolt_unknown_odd_1byte \<longleftrightarrow>
     unwrap (tlv_decode [0x21, 0x00]) (\<lambda>decoded. tlv_get decoded 33 = Some [])"

definition bolt_unknown_odd_2byte :: bool where
  "bolt_unknown_odd_2byte \<longleftrightarrow>
     unwrap (tlv_decode [0xfd, 0x02, 0x01, 0x00]) (\<lambda>decoded. tlv_get decoded 513 = Some [])"

definition bolt_unknown_odd_type_253 :: bool where
  "bolt_unknown_odd_type_253 \<longleftrightarrow>
     unwrap (tlv_decode [0xfd, 0x00, 0xfd, 0x00]) (\<lambda>decoded. tlv_get decoded 253 = Some [])"

definition bolt_unknown_odd_type_255 :: bool where
  "bolt_unknown_odd_type_255 \<longleftrightarrow>
     unwrap (tlv_decode [0xfd, 0x00, 0xff, 0x00]) (\<lambda>decoded. tlv_get decoded 255 = Some [])"

definition bolt_unknown_odd_4byte :: bool where
  "bolt_unknown_odd_4byte \<longleftrightarrow>
     unwrap (tlv_decode [0xfe, 0x02, 0x00, 0x00, 0x01, 0x00]) (\<lambda>decoded.
       tlv_get decoded 33554433 = Some [])"

definition bolt_unknown_odd_8byte :: bool where
  "bolt_unknown_odd_8byte \<longleftrightarrow>
     unwrap (tlv_decode [0xff, 0x02, 0x00, 0x00, 0x00, 0x00, 0x00, 0x00, 0x01, 0x00]) (\<lambda>decoded.
       tlv_get decoded 144115188075855873 = Some [])"

lemma tlv_unknown_tests:
  "bolt_unknown_even_1byte" "bolt_unknown_even_2byte" "bolt_unknown_even_4byte"
  "bolt_unknown_even_8byte" "bolt_empty_valid" "bolt_unknown_odd_1byte" "bolt_unknown_odd_2byte"
  "bolt_unknown_odd_type_253" "bolt_unknown_odd_type_255" "bolt_unknown_odd_4byte"
  "bolt_unknown_odd_8byte"
  by code_simp+

section \<open>Order\<close>

definition tlv_not_increasing :: bool where
  "tlv_not_increasing \<longleftrightarrow>
     tlv_decode [0x03, 0x01, 0xaa, 0x01, 0x01, 0xbb] = Inl (TlvNotIncreasing 3 1)"

definition tlv_duplicate_type :: bool where
  "tlv_duplicate_type \<longleftrightarrow>
     tlv_decode [0x01, 0x01, 0xaa, 0x01, 0x01, 0xbb] = Inl (TlvNotIncreasing 1 1)"

lemma tlv_order_tests: "tlv_not_increasing" "tlv_duplicate_type"
  by code_simp+

end
