(* ===== verification/Bolt2_Tests.thy ===== *)
theory Bolt2_Tests
  imports Unit_Test
begin

text \<open>
  The unit tests of \<open>open_channel.rs\<close> and \<open>funding_created.rs\<close> of the crate \<open>bolt\<close>, on the model.
  A sample with keys is an option: its \<open>expect\<close> is \<open>None\<close>, which fails the test.
\<close>

section \<open>Samples\<close>

definition open_channel_tlvs_default :: open_channel_tlvs where
  "open_channel_tlvs_default = \<lparr>upfront_shutdown_script = None, channel_type = None\<rparr>"

definition sample_open_channel ::
    "('pk, 'sk, 'sig) secp \<Rightarrow> open_channel_tlvs option \<Rightarrow> 'pk open_channel option" where
  "sample_open_channel S tlvs =
     (let secrets = map (replicate 32) [0x11, 0x22, 0x33, 0x44, 0x55, 0x66] in
      case map (\<lambda>s. map_option (pk_of_sk S) (sk_from_slice S s)) secrets of
        [Some k0, Some k1, Some k2, Some k3, Some k4, Some k5] \<Rightarrow>
          Some \<lparr>oc_chain_hash = replicate CHAIN_HASH_SIZE 0xaa,
            oc_temporary_channel_id = ChannelId (replicate 32 0xbb), funding_satoshis = 100000,
            push_msat = 0, dust_limit_satoshis = 546, max_htlc_value_in_flight_msat = 100000000,
            channel_reserve_satoshis = 10000, oc_htlc_minimum_msat = 1000, feerate_per_kw = 253,
            to_self_delay = 144, max_accepted_htlcs = 483, funding_pubkey = k0,
            revocation_basepoint = k1, payment_basepoint = k2, delayed_payment_basepoint = k3,
            htlc_basepoint = k4, first_per_commitment_point = k5, oc_channel_flags = 0x01,
            oc_tlvs = (case tlvs of None \<Rightarrow> open_channel_tlvs_default | Some t \<Rightarrow> t)\<rparr>
      | _ \<Rightarrow> None)"

text \<open>A test on the bytes of the sample without optional fields.\<close>

definition on_sample :: "('pk, 'sk, 'sig) secp \<Rightarrow> (bytes \<Rightarrow> bool) \<Rightarrow> bool" where
  "on_sample S test \<longleftrightarrow>
     unwrap_option (sample_open_channel S None) (\<lambda>open. unwrap (encode_open_channel S open) test)"

definition FIRST_PUBKEY_OFFSET :: nat where "FIRST_PUBKEY_OFFSET = 120"

section \<open>OpenChannel: fixed fields\<close>

definition encode_fixed_field_size :: "('pk, 'sk, 'sig) secp \<Rightarrow> bool" where
  "encode_fixed_field_size S \<longleftrightarrow> on_sample S (\<lambda>encoded. length encoded = 319)"

definition open_channel_roundtrip :: "('pk, 'sk, 'sig) secp \<Rightarrow> bool" where
  "open_channel_roundtrip S \<longleftrightarrow>
     unwrap_option (sample_open_channel S None) (\<lambda>original.
     unwrap (encode_open_channel S original) (\<lambda>encoded.
     unwrap (decode_open_channel S encoded) (\<lambda>decoded. original = decoded)))"

definition decode_truncated_chain_hash :: "('pk, 'sk, 'sig) secp \<Rightarrow> bool" where
  "decode_truncated_chain_hash S \<longleftrightarrow>
     decode_open_channel S (replicate 20 0x00) = Inl (Truncated 32 20)"

definition decode_truncated_temporary_channel_id :: "('pk, 'sk, 'sig) secp \<Rightarrow> bool" where
  "decode_truncated_temporary_channel_id S \<longleftrightarrow>
     decode_open_channel S (replicate 42 0x00) = Inl (Truncated 32 10)"

definition decode_truncated_scalars :: "('pk, 'sk, 'sig) secp \<Rightarrow> bool" where
  "decode_truncated_scalars S \<longleftrightarrow>
     decode_open_channel S (replicate 64 0x00) = Inl (Truncated 8 0)"

definition decode_truncated_feerate :: "('pk, 'sk, 'sig) secp \<Rightarrow> bool" where
  "decode_truncated_feerate S \<longleftrightarrow>
     decode_open_channel S (replicate 114 0x00) = Inl (Truncated 4 2)"

definition decode_truncated_to_self_delay :: "('pk, 'sk, 'sig) secp \<Rightarrow> bool" where
  "decode_truncated_to_self_delay S \<longleftrightarrow>
     decode_open_channel S (replicate 117 0x00) = Inl (Truncated 2 1)"

definition decode_truncated_funding_pubkey :: "('pk, 'sk, 'sig) secp \<Rightarrow> bool" where
  "decode_truncated_funding_pubkey S \<longleftrightarrow>
     decode_open_channel S (replicate (FIRST_PUBKEY_OFFSET + 10) 0x00) =
       Inl (Truncated PUBLIC_KEY_SIZE 10)"

definition decode_truncated_revocation_basepoint :: "('pk, 'sk, 'sig) secp \<Rightarrow> bool" where
  "decode_truncated_revocation_basepoint S \<longleftrightarrow> on_sample S (\<lambda>encoded.
     decode_open_channel S (take 168 encoded) = Inl (Truncated PUBLIC_KEY_SIZE 15))"

definition decode_truncated_first_per_commitment_point :: "('pk, 'sk, 'sig) secp \<Rightarrow> bool" where
  "decode_truncated_first_per_commitment_point S \<longleftrightarrow> on_sample S (\<lambda>encoded.
     decode_open_channel S (take 305 encoded) = Inl (Truncated PUBLIC_KEY_SIZE 20))"

definition decode_truncated_channel_flags :: "('pk, 'sk, 'sig) secp \<Rightarrow> bool" where
  "decode_truncated_channel_flags S \<longleftrightarrow> on_sample S (\<lambda>encoded.
     decode_open_channel S (take 318 encoded) = Inl (Truncated 1 0))"

text \<open>The six tests that overwrite a key with zeros differ in its offset only.\<close>

definition decode_invalid_key :: "('pk, 'sk, 'sig) secp \<Rightarrow> nat \<Rightarrow> bool" where
  "decode_invalid_key S offset \<longleftrightarrow> on_sample S (\<lambda>encoded.
     let bad_key = replicate PUBLIC_KEY_SIZE 0x00;
         encoded = copy_from_slice offset bad_key encoded in
     decode_open_channel S encoded = Inl (InvalidPublicKey bad_key))"

definition decode_invalid_funding_pubkey :: "('pk, 'sk, 'sig) secp \<Rightarrow> bool" where
  "decode_invalid_funding_pubkey S \<longleftrightarrow> decode_invalid_key S FIRST_PUBKEY_OFFSET"

definition decode_invalid_revocation_basepoint :: "('pk, 'sk, 'sig) secp \<Rightarrow> bool" where
  "decode_invalid_revocation_basepoint S \<longleftrightarrow>
     decode_invalid_key S (FIRST_PUBKEY_OFFSET + PUBLIC_KEY_SIZE)"

definition decode_invalid_payment_basepoint :: "('pk, 'sk, 'sig) secp \<Rightarrow> bool" where
  "decode_invalid_payment_basepoint S \<longleftrightarrow>
     decode_invalid_key S (FIRST_PUBKEY_OFFSET + PUBLIC_KEY_SIZE * 2)"

definition decode_invalid_delayed_payment_basepoint :: "('pk, 'sk, 'sig) secp \<Rightarrow> bool" where
  "decode_invalid_delayed_payment_basepoint S \<longleftrightarrow>
     decode_invalid_key S (FIRST_PUBKEY_OFFSET + PUBLIC_KEY_SIZE * 3)"

definition decode_invalid_htlc_basepoint :: "('pk, 'sk, 'sig) secp \<Rightarrow> bool" where
  "decode_invalid_htlc_basepoint S \<longleftrightarrow>
     decode_invalid_key S (FIRST_PUBKEY_OFFSET + PUBLIC_KEY_SIZE * 4)"

definition decode_invalid_first_per_commitment_point :: "('pk, 'sk, 'sig) secp \<Rightarrow> bool" where
  "decode_invalid_first_per_commitment_point S \<longleftrightarrow>
     decode_invalid_key S (FIRST_PUBKEY_OFFSET + PUBLIC_KEY_SIZE * 5)"

lemma sample_open_channel_ok:
  assumes "crates_ok S"
  obtains m where "sample_open_channel S tlvs = Some m" and "length (oc_chain_hash m) = 32"
    and "wf_channel_id (oc_temporary_channel_id m)"
    and "oc_tlvs m = (case tlvs of None \<Rightarrow> open_channel_tlvs_default | Some t \<Rightarrow> t)"
proof -
  note key = crates_okD(5) [OF assms]
  obtain k0 k1 k2 k3 k4 k5 where "sk_from_slice S (replicate 32 0x11) = Some k0"
    "sk_from_slice S (replicate 32 0x22) = Some k1" "sk_from_slice S (replicate 32 0x33) = Some k2"
    "sk_from_slice S (replicate 32 0x44) = Some k3" "sk_from_slice S (replicate 32 0x55) = Some k4"
    "sk_from_slice S (replicate 32 0x66) = Some k5"
    using key [of "0x11"] key [of "0x22"] key [of "0x33"] key [of "0x44"] key [of "0x55"]
      key [of "0x66"] by auto
  then have "sample_open_channel S tlvs = Some
      \<lparr>oc_chain_hash = replicate 32 0xaa, oc_temporary_channel_id = ChannelId (replicate 32 0xbb),
       funding_satoshis = 100000, push_msat = 0, dust_limit_satoshis = 546,
       max_htlc_value_in_flight_msat = 100000000, channel_reserve_satoshis = 10000,
       oc_htlc_minimum_msat = 1000, feerate_per_kw = 253, to_self_delay = 144,
       max_accepted_htlcs = 483, funding_pubkey = pk_of_sk S k0,
       revocation_basepoint = pk_of_sk S k1, payment_basepoint = pk_of_sk S k2,
       delayed_payment_basepoint = pk_of_sk S k3, htlc_basepoint = pk_of_sk S k4,
       first_per_commitment_point = pk_of_sk S k5, oc_channel_flags = 1,
       oc_tlvs = (case tlvs of None \<Rightarrow> open_channel_tlvs_default | Some t \<Rightarrow> t)\<rparr>"
    by (simp add: sample_open_channel_def size_defs)
  then show thesis by (rule that) (simp_all add: wf_channel_id_def size_defs)
qed

lemma encode_open_channel_default:
  "oc_tlvs m = open_channel_tlvs_default \<Longrightarrow>
     encode_open_channel S m = Inr (open_channel_header S m)"
  by (simp add: encode_open_channel_def open_channel_header_def open_channel_tlvs_default_def
      tlv_add_opt_def tlv_encode_def tlv_new_def)

lemmas open_channel_test_defs = encode_fixed_field_size_def decode_truncated_chain_hash_def
  decode_truncated_temporary_channel_id_def decode_truncated_scalars_def
  decode_truncated_feerate_def decode_truncated_to_self_delay_def
  decode_truncated_funding_pubkey_def

lemma open_channel_short_tests:
  "decode_truncated_chain_hash S" "decode_truncated_temporary_channel_id S"
  "decode_truncated_scalars S" "decode_truncated_feerate S" "decode_truncated_to_self_delay S"
  "decode_truncated_funding_pubkey S"
  by (simp_all add: open_channel_test_defs decode_open_channel_def read_channel_id_def read_int_def
      read_array_def read_pubkey_def size_defs FIRST_PUBKEY_OFFSET_def)

lemma open_channel_sample_tests:
  assumes ok: "crates_ok S"
  shows "encode_fixed_field_size S" and "open_channel_roundtrip S"
    and "decode_truncated_revocation_basepoint S"
    and "decode_truncated_first_per_commitment_point S" and "decode_truncated_channel_flags S"
    and "decode_invalid_funding_pubkey S" and "decode_invalid_revocation_basepoint S"
    and "decode_invalid_payment_basepoint S" and "decode_invalid_delayed_payment_basepoint S"
    and "decode_invalid_htlc_basepoint S" and "decode_invalid_first_per_commitment_point S"
proof -
  note laws = crates_okD [OF ok]
  obtain m where sample: "sample_open_channel S None = Some m"
    and wf: "length (oc_chain_hash m) = 32" "wf_channel_id (oc_temporary_channel_id m)"
    and tlvs: "oc_tlvs m = open_channel_tlvs_default"
    using sample_open_channel_ok [OF ok, of None] by auto
  note enc = encode_open_channel_default [OF tlvs]
  have wf_m: "wf_open_channel m"
    using wf tlvs by (simp add: wf_open_channel_def open_channel_tlvs_default_def size_defs
        opt_fits_u64_def)
  have on: "on_sample S test = test (open_channel_header S m)" for test
    by (simp add: on_sample_def sample enc)
  show "encode_fixed_field_size S"
    using length_open_channel_header [OF laws(1) wf_m] by (simp add: encode_fixed_field_size_def on)
  show "open_channel_roundtrip S"
    using open_channel_codec.decode_encode [OF laws(1) wf_m enc]
    by (simp add: open_channel_roundtrip_def sample enc)
  note eval = on Let_def copy_from_slice_def FIRST_PUBKEY_OFFSET_def decode_open_channel_def
    open_channel_header_def size_defs read_write_simps width_simps wf laws(1) read_short
    read_invalid(1) [OF ok] decode_invalid_key_def
  show "decode_truncated_revocation_basepoint S" "decode_truncated_first_per_commitment_point S"
    "decode_truncated_channel_flags S"
    by (simp_all add: eval decode_truncated_revocation_basepoint_def
        decode_truncated_first_per_commitment_point_def decode_truncated_channel_flags_def)
  show "decode_invalid_funding_pubkey S" "decode_invalid_revocation_basepoint S"
    "decode_invalid_payment_basepoint S" "decode_invalid_delayed_payment_basepoint S"
    "decode_invalid_htlc_basepoint S" "decode_invalid_first_per_commitment_point S"
    by (simp_all add: eval decode_invalid_funding_pubkey_def decode_invalid_revocation_basepoint_def
        decode_invalid_payment_basepoint_def decode_invalid_delayed_payment_basepoint_def
        decode_invalid_htlc_basepoint_def decode_invalid_first_per_commitment_point_def)
qed

section \<open>OpenChannel: optional fields\<close>

definition roundtrip_with_tlvs :: "('pk, 'sk, 'sig) secp \<Rightarrow> bool" where
  "roundtrip_with_tlvs S \<longleftrightarrow>
     unwrap_option (sample_open_channel S (Some
         \<lparr>upfront_shutdown_script = Some (replicate 22 0xab), channel_type = Some [0x01, 0x02]\<rparr>))
       (\<lambda>original.
     unwrap (encode_open_channel S original) (\<lambda>encoded.
     unwrap (decode_open_channel S encoded) (\<lambda>decoded. original = decoded)))"

definition encode_with_channel_type :: "('pk, 'sk, 'sig) secp \<Rightarrow> bool" where
  "encode_with_channel_type S \<longleftrightarrow>
     unwrap_option (sample_open_channel S (Some
         \<lparr>upfront_shutdown_script = None, channel_type = Some [0x01, 0x02]\<rparr>)) (\<lambda>open.
     unwrap (encode_open_channel S open) (\<lambda>encoded.
       length encoded = 319 + 4 \<and>
       unwrap (decode_open_channel S encoded) (\<lambda>decoded.
         channel_type (oc_tlvs decoded) = Some [0x01, 0x02])))"

definition encode_with_both_tlvs :: "('pk, 'sk, 'sig) secp \<Rightarrow> bool" where
  "encode_with_both_tlvs S \<longleftrightarrow>
     (let script = [0x00, 0x14] @ replicate 20 0xab in
      unwrap_option (sample_open_channel S (Some
          \<lparr>upfront_shutdown_script = Some script, channel_type = Some [0x01]\<rparr>)) (\<lambda>open.
      unwrap (encode_open_channel S open) (\<lambda>encoded. length encoded = 319 + 24 + 3)))"

definition decode_empty_tlv_values :: "('pk, 'sk, 'sig) secp \<Rightarrow> bool" where
  "decode_empty_tlv_values S \<longleftrightarrow>
     unwrap_option (sample_open_channel S (Some
         (open_channel_tlvs_default\<lparr>upfront_shutdown_script := Some []\<rparr>))) (\<lambda>open.
     unwrap (encode_open_channel S open) (\<lambda>encoded.
     unwrap (decode_open_channel S encoded) (\<lambda>decoded.
       upfront_shutdown_script (oc_tlvs decoded) = Some [] \<and>
       channel_type (oc_tlvs decoded) = None))) \<and>
     unwrap_option (sample_open_channel S (Some
         (open_channel_tlvs_default\<lparr>channel_type := Some []\<rparr>))) (\<lambda>open.
     unwrap (encode_open_channel S open) (\<lambda>encoded.
     unwrap (decode_open_channel S encoded) (\<lambda>decoded.
       channel_type (oc_tlvs decoded) = Some [] \<and>
       upfront_shutdown_script (oc_tlvs decoded) = None)))"

definition open_channel_unknown_odd_tlv_ignored :: "('pk, 'sk, 'sig) secp \<Rightarrow> bool" where
  "open_channel_unknown_odd_tlv_ignored S \<longleftrightarrow> on_sample S (\<lambda>encoded.
     unwrap (decode_open_channel S (encoded @ [0x03, 0x02, 0xaa, 0xbb])) (\<lambda>decoded.
       upfront_shutdown_script (oc_tlvs decoded) = None \<and> channel_type (oc_tlvs decoded) = None))"

definition default_tlvs_are_none :: bool where
  "default_tlvs_are_none \<longleftrightarrow>
     upfront_shutdown_script open_channel_tlvs_default = None \<and>
     channel_type open_channel_tlvs_default = None"

text \<open>A sample with optional fields that fit decodes from its encoding, whose length they give.\<close>

lemma sample_with_tlvs:
  assumes ok: "crates_ok S" and fits: "opt_fits_u64 (upfront_shutdown_script t)"
    "opt_fits_u64 (channel_type t)"
  obtains m s where "sample_open_channel S (Some t) = Some m" and "oc_tlvs m = t"
    and "encode_open_channel S m = Inr (open_channel_header S m @ tlv_encode s)"
    and "length (open_channel_header S m) = 319"
    and "decode_open_channel S (open_channel_header S m @ tlv_encode s) = Inr m"
    and "and_then (tlv_add_opt tlv_new TLV_UPFRONT_SHUTDOWN_SCRIPT (upfront_shutdown_script t))
        (\<lambda>s. tlv_add_opt s TLV_CHANNEL_TYPE (channel_type t)) = Inr s"
proof -
  note laws = crates_okD [OF ok]
  obtain m where m: "sample_open_channel S (Some t) = Some m" "length (oc_chain_hash m) = 32"
    "wf_channel_id (oc_temporary_channel_id m)" and t: "oc_tlvs m = t"
    using sample_open_channel_ok [OF ok, of "Some t"] by auto
  have wf: "wf_open_channel m" using m fits by (simp add: wf_open_channel_def t size_defs)
  obtain bs where bs: "encode_open_channel S m = Inr bs"
    using open_channel_codec.encode_total by blast
  then obtain s where s: "bs = open_channel_header S m @ tlv_encode s"
    "and_then (tlv_add_opt tlv_new TLV_UPFRONT_SHUTDOWN_SCRIPT (upfront_shutdown_script t))
      (\<lambda>s. tlv_add_opt s TLV_CHANNEL_TYPE (channel_type t)) = Inr s"
    by (auto simp: encode_open_channel_def open_channel_header_def t)
  show thesis
    using that [OF m(1) t _ length_open_channel_header [OF laws(1) wf] _ s(2)] bs
      open_channel_codec.decode_encode [OF laws(1) wf bs] unfolding s(1) by blast
qed

lemma tlv_lengths:
  "and_then (tlv_add_opt tlv_new TLV_UPFRONT_SHUTDOWN_SCRIPT None)
     (\<lambda>s. tlv_add_opt s TLV_CHANNEL_TYPE (Some [0x01, 0x02])) = Inr s \<Longrightarrow>
     length (tlv_encode s) = 4"
  "and_then (tlv_add_opt tlv_new TLV_UPFRONT_SHUTDOWN_SCRIPT (Some ([0x00, 0x14] @ replicate 20 0xab)))
     (\<lambda>s. tlv_add_opt s TLV_CHANNEL_TYPE (Some [0x01])) = Inr s \<Longrightarrow>
     length (tlv_encode s) = 27"
  by (auto simp: tlv_add_opt_def tlv_add_def tlv_new_def vec_insert_def tlv_encode_def
      encode_record_def width_simps bigsize_len_def TLV_UPFRONT_SHUTDOWN_SCRIPT_def
      TLV_CHANNEL_TYPE_def)

lemma open_channel_tlv_tests:
  assumes ok: "crates_ok S"
  shows "roundtrip_with_tlvs S" and "encode_with_channel_type S" and "encode_with_both_tlvs S"
    and "decode_empty_tlv_values S" and "open_channel_unknown_odd_tlv_ignored S"
    and "default_tlvs_are_none"
proof -
  note sample = sample_with_tlvs [OF ok] and fit = opt_fits_u64_def fits_u64_def
  show "roundtrip_with_tlvs S"
    by (rule sample [of "\<lparr>upfront_shutdown_script = Some (replicate 22 0xab),
        channel_type = Some [0x01, 0x02]\<rparr>"]) (simp_all add: roundtrip_with_tlvs_def fit)
  show "encode_with_channel_type S"
    by (rule sample [of "\<lparr>upfront_shutdown_script = None, channel_type = Some [0x01, 0x02]\<rparr>"])
      (simp_all add: encode_with_channel_type_def fit tlv_lengths)
  show "encode_with_both_tlvs S"
    by (rule sample [of "\<lparr>upfront_shutdown_script = Some ([0x00, 0x14] @ replicate 20 0xab),
        channel_type = Some [0x01]\<rparr>"])
      (use tlv_lengths(2) in \<open>simp_all add: encode_with_both_tlvs_def fit\<close>)
  have "unwrap_option (sample_open_channel S (Some t)) (\<lambda>open.
      unwrap (encode_open_channel S open) (\<lambda>encoded.
      unwrap (decode_open_channel S encoded) (\<lambda>decoded. oc_tlvs decoded = t)))"
    if "opt_fits_u64 (upfront_shutdown_script t)" "opt_fits_u64 (channel_type t)" for t
    by (rule sample [OF that]) simp
  from this [of "open_channel_tlvs_default\<lparr>upfront_shutdown_script := Some []\<rparr>"]
    this [of "open_channel_tlvs_default\<lparr>channel_type := Some []\<rparr>"]
  show "decode_empty_tlv_values S"
    by (auto simp: decode_empty_tlv_values_def fit open_channel_tlvs_default_def unwrap_def
        unwrap_option_def split: option.splits sum.splits)
  obtain m where m: "sample_open_channel S None = Some m" "length (oc_chain_hash m) = 32"
    "wf_channel_id (oc_temporary_channel_id m)" "oc_tlvs m = open_channel_tlvs_default"
    using sample_open_channel_ok [OF ok, of None] by auto
  have wf: "wf_open_channel m"
    using m by (simp add: wf_open_channel_def open_channel_tlvs_default_def size_defs fit)
  have "tlv_decode_with_known [0x03, 0x02, 0xaa, 0xbb] [TLV_UPFRONT_SHUTDOWN_SCRIPT] =
      Inr \<lparr>records = [\<lparr>tlv_type = 3, tlv_value = [0xaa, 0xbb]\<rparr>]\<rparr>"
    by code_simp
  then show "open_channel_unknown_odd_tlv_ignored S"
    by (simp add: open_channel_unknown_odd_tlv_ignored_def on_sample_def m
        encode_open_channel_default decode_open_channel_header [OF crates_okD(1) [OF ok] wf]
        open_channel_tlvs_from_stream_def tlv_get_def TLV_UPFRONT_SHUTDOWN_SCRIPT_def
        TLV_CHANNEL_TYPE_def)
  show "default_tlvs_are_none" by code_simp
qed

section \<open>FundingCreated\<close>

definition sample_funding_created :: "('pk, 'sk, 'sig) secp \<Rightarrow> 'sig funding_created option" where
  "sample_funding_created S =
     map_option (\<lambda>sk. \<lparr>fc_temporary_channel_id = ChannelId (replicate CHANNEL_ID_SIZE 0xbb),
         funding_txid = replicate TXID_SIZE 0xcc, funding_output_index = 0,
         fc_signature = sign_ecdsa S (replicate 32 0xaa) sk\<rparr>)
       (sk_from_slice S (replicate 32 0x11))"

definition funding_encode_fixed_field_size :: "('pk, 'sk, 'sig) secp \<Rightarrow> bool" where
  "funding_encode_fixed_field_size S \<longleftrightarrow>
     unwrap_option (sample_funding_created S) (\<lambda>msg.
       length (encode_funding_created S msg) = 130)"

definition funding_roundtrip :: "('pk, 'sk, 'sig) secp \<Rightarrow> bool" where
  "funding_roundtrip S \<longleftrightarrow>
     unwrap_option (sample_funding_created S) (\<lambda>original.
     unwrap (decode_funding_created S (encode_funding_created S original)) (\<lambda>decoded.
       original = decoded))"

definition funding_decode_truncated_temporary_channel_id :: "('pk, 'sk, 'sig) secp \<Rightarrow> bool" where
  "funding_decode_truncated_temporary_channel_id S \<longleftrightarrow>
     decode_funding_created S (replicate 20 0x00) = Inl (Truncated CHANNEL_ID_SIZE 20)"

definition funding_decode_truncated_funding_txid :: "('pk, 'sk, 'sig) secp \<Rightarrow> bool" where
  "funding_decode_truncated_funding_txid S \<longleftrightarrow>
     decode_funding_created S (replicate 42 0x00) = Inl (Truncated TXID_SIZE 10)"

definition funding_decode_truncated_funding_output_index :: "('pk, 'sk, 'sig) secp \<Rightarrow> bool" where
  "funding_decode_truncated_funding_output_index S \<longleftrightarrow>
     decode_funding_created S (replicate 65 0x00) = Inl (Truncated 2 1)"

definition funding_decode_truncated_signature :: "('pk, 'sk, 'sig) secp \<Rightarrow> bool" where
  "funding_decode_truncated_signature S \<longleftrightarrow>
     unwrap_option (sample_funding_created S) (\<lambda>msg.
     let encoded = encode_funding_created S msg in
     decode_funding_created S (take 96 encoded) = Inl (Truncated COMPACT_SIGNATURE_SIZE 30))"

definition funding_decode_invalid_signature :: "('pk, 'sk, 'sig) secp \<Rightarrow> bool" where
  "funding_decode_invalid_signature S \<longleftrightarrow>
     unwrap_option (sample_funding_created S) (\<lambda>msg.
     let encoded = encode_funding_created S msg;
         sig_offset = length encoded - COMPACT_SIGNATURE_SIZE;
         bad_sig = replicate COMPACT_SIGNATURE_SIZE 0xff;
         encoded = copy_from_slice sig_offset bad_sig encoded in
     decode_funding_created S encoded = Inl (InvalidSignature bad_sig))"

lemma funding_created_tests:
  assumes ok: "crates_ok S"
  shows "funding_encode_fixed_field_size S" and "funding_roundtrip S"
    and "funding_decode_truncated_temporary_channel_id S"
    and "funding_decode_truncated_funding_txid S"
    and "funding_decode_truncated_funding_output_index S"
    and "funding_decode_truncated_signature S" and "funding_decode_invalid_signature S"
proof -
  note laws = crates_okD [OF ok]
  obtain sk where sk: "sk_from_slice S (replicate 32 0x11) = Some sk"
    using laws(5) [of "0x11"] by auto
  then obtain m where m: "sample_funding_created S = Some m" "wf_funding_created m"
    by (simp add: sample_funding_created_def wf_funding_created_def wf_channel_id_def)
  then have wf: "wf_channel_id (fc_temporary_channel_id m)" "length (funding_txid m) = 32"
    by (simp_all add: wf_funding_created_def size_defs)
  note eval = m(1) encode_funding_created_def decode_funding_created_def read_write_simps
    width_simps laws(2) wf size_defs read_signature_def read_array_def
  have txid: "read_txid (write_txid (funding_txid m)) = Inr (funding_txid m, [])"
    using read_write_txid [OF wf(2), of "[]"] by simp
  show "funding_encode_fixed_field_size S"
    by (simp add: funding_encode_fixed_field_size_def eval write_txid_def write_array_def)
  show "funding_roundtrip S"
    using funding_created_codec.decode_trailing [OF laws(2) m(2), of "[]"]
    by (simp add: funding_roundtrip_def m(1))
  show "funding_decode_truncated_temporary_channel_id S" "funding_decode_truncated_funding_txid S"
    "funding_decode_truncated_funding_output_index S"
    by (simp_all add: funding_decode_truncated_temporary_channel_id_def
        funding_decode_truncated_funding_txid_def
        funding_decode_truncated_funding_output_index_def decode_funding_created_def
        read_channel_id_def read_txid_def read_int_def read_array_def size_defs)
  show "funding_decode_truncated_signature S"
    by (simp add: funding_decode_truncated_signature_def eval Let_def)
  show "funding_decode_invalid_signature S"
    by (simp add: funding_decode_invalid_signature_def eval Let_def copy_from_slice_def laws(7)
        ok_or_def)
qed

end
