(* ===== verification/Bolt1_Tests.thy ===== *)
theory Bolt1_Tests
  imports Unit_Test
begin

text \<open>
  The unit tests of \<open>warning.rs\<close>, \<open>error.rs\<close>, \<open>ping.rs\<close>, \<open>pong.rs\<close> and \<open>init.rs\<close> of the crate
  \<open>bolt\<close>, on the model. A test with the name of an operation has the suffix \<open>_test\<close>, and one
  with the name of a test of another file the name of its file in front.
\<close>

section \<open>Warning\<close>

definition warning_all_channels_test :: bool where
  "warning_all_channels_test \<longleftrightarrow>
     unwrap (warning_all_channels (ascii ''test warning'')) (\<lambda>m.
       wa_channel_id m = channel_id_ALL \<and> warning_message m = Some (ascii ''test warning''))"

definition warning_for_channel_test :: bool where
  "warning_for_channel_test \<longleftrightarrow>
     (let channel_id = ChannelId (replicate CHANNEL_ID_SIZE 0x42) in
      unwrap (warning_for_channel channel_id (ascii ''channel warning'')) (\<lambda>m.
        wa_channel_id m = channel_id \<and> warning_message m = Some (ascii ''channel warning'')))"

definition warning_encode_test :: bool where
  "warning_encode_test \<longleftrightarrow>
     unwrap (warning_all_channels (ascii ''hi'')) (\<lambda>m. let encoded = encode_warning m in
       length encoded = CHANNEL_ID_SIZE + 2 + 2 \<and>
       take CHANNEL_ID_SIZE encoded = as_bytes channel_id_ALL \<and>
       take 2 (drop CHANNEL_ID_SIZE encoded) = [0x00, 0x02] \<and>
       drop (CHANNEL_ID_SIZE + 2) encoded = ascii ''hi'')"

definition warning_decode_test :: bool where
  "warning_decode_test \<longleftrightarrow>
     unwrap (decode_warning (replicate CHANNEL_ID_SIZE 0x11 @ [0x00, 0x05] @ ascii ''hello'')) (\<lambda>m.
       wa_channel_id m = ChannelId (replicate CHANNEL_ID_SIZE 0x11) \<and>
       warning_message m = Some (ascii ''hello''))"

definition warning_roundtrip :: bool where
  "warning_roundtrip \<longleftrightarrow>
     unwrap (warning_for_channel (ChannelId (replicate CHANNEL_ID_SIZE 0xab))
         (ascii ''roundtrip test'')) (\<lambda>original.
     unwrap (decode_warning (encode_warning original)) (\<lambda>decoded. original = decoded))"

definition warning_decode_truncated_channel_id :: bool where
  "warning_decode_truncated_channel_id \<longleftrightarrow>
     decode_warning (replicate 20 0x00) = Inl (Truncated CHANNEL_ID_SIZE 20)"

definition warning_decode_truncated_len :: bool where
  "warning_decode_truncated_len \<longleftrightarrow>
     decode_warning (replicate CHANNEL_ID_SIZE 0x00 @ [0x00]) = Inl (Truncated 2 1)"

definition warning_decode_truncated_data :: bool where
  "warning_decode_truncated_data \<longleftrightarrow>
     decode_warning (replicate CHANNEL_ID_SIZE 0x00 @ [0x00, 0x10] @ ascii ''short'') =
       Inl (Truncated 16 5)"

definition warning_non_utf8_data :: bool where
  "warning_non_utf8_data \<longleftrightarrow>
     warning_message \<lparr>wa_channel_id = channel_id_ALL, wa_data = [0xff, 0xfe]\<rparr> = None"

definition warning_all_channels_too_long :: bool where
  "warning_all_channels_too_long \<longleftrightarrow>
     should_panic ''warning message exceeds maximum size''
       (warning_all_channels (replicate (MAX_MESSAGE_SIZE + 1) (of_char CHR ''x'')))"

definition warning_for_channel_too_long :: bool where
  "warning_for_channel_too_long \<longleftrightarrow>
     should_panic ''warning message exceeds maximum size''
       (warning_for_channel channel_id_ALL (replicate (MAX_MESSAGE_SIZE + 1) (of_char CHR ''x'')))"

lemma warning_unit_tests:
  "warning_all_channels_test" "warning_for_channel_test" "warning_encode_test" "warning_decode_test"
  "warning_roundtrip" "warning_decode_truncated_channel_id" "warning_decode_truncated_len"
  "warning_decode_truncated_data" "warning_non_utf8_data"
  by code_simp+

lemma warning_panic_tests: "warning_all_channels_too_long" "warning_for_channel_too_long"
proof -
  have "contains ''warning message exceeds maximum size'' ''warning message exceeds maximum size''"
    by code_simp
  then show "warning_all_channels_too_long" "warning_for_channel_too_long"
    by (simp_all add: warning_all_channels_too_long_def warning_for_channel_too_long_def
        should_panic_def warning_all_channels_def warning_for_channel_def del: contains.simps)
qed

section \<open>Error\<close>

definition error_all_channels_test :: bool where
  "error_all_channels_test \<longleftrightarrow>
     unwrap (error_all_channels (ascii ''test error'')) (\<lambda>m.
       er_channel_id m = channel_id_ALL \<and> error_message m = Some (ascii ''test error''))"

definition error_for_channel_test :: bool where
  "error_for_channel_test \<longleftrightarrow>
     (let channel_id = ChannelId (replicate CHANNEL_ID_SIZE 0x42) in
      unwrap (error_for_channel channel_id (ascii ''channel error'')) (\<lambda>m.
        er_channel_id m = channel_id \<and> error_message m = Some (ascii ''channel error'')))"

definition error_encode_test :: bool where
  "error_encode_test \<longleftrightarrow>
     unwrap (error_all_channels (ascii ''hi'')) (\<lambda>m. let encoded = encode_error m in
       length encoded = CHANNEL_ID_SIZE + 2 + 2 \<and>
       take CHANNEL_ID_SIZE encoded = as_bytes channel_id_ALL \<and>
       take 2 (drop CHANNEL_ID_SIZE encoded) = [0x00, 0x02] \<and>
       drop (CHANNEL_ID_SIZE + 2) encoded = ascii ''hi'')"

definition error_decode_test :: bool where
  "error_decode_test \<longleftrightarrow>
     unwrap (decode_error (replicate CHANNEL_ID_SIZE 0x11 @ [0x00, 0x05] @ ascii ''hello'')) (\<lambda>m.
       er_channel_id m = ChannelId (replicate CHANNEL_ID_SIZE 0x11) \<and>
       error_message m = Some (ascii ''hello''))"

definition error_roundtrip :: bool where
  "error_roundtrip \<longleftrightarrow>
     unwrap (error_for_channel (ChannelId (replicate CHANNEL_ID_SIZE 0xab))
         (ascii ''roundtrip test'')) (\<lambda>original.
     unwrap (decode_error (encode_error original)) (\<lambda>decoded. original = decoded))"

definition error_decode_truncated_channel_id :: bool where
  "error_decode_truncated_channel_id \<longleftrightarrow>
     decode_error (replicate 20 0x00) = Inl (Truncated CHANNEL_ID_SIZE 20)"

definition error_decode_truncated_len :: bool where
  "error_decode_truncated_len \<longleftrightarrow>
     decode_error (replicate CHANNEL_ID_SIZE 0x00 @ [0x00]) = Inl (Truncated 2 1)"

definition error_decode_truncated_data :: bool where
  "error_decode_truncated_data \<longleftrightarrow>
     decode_error (replicate CHANNEL_ID_SIZE 0x00 @ [0x00, 0x10] @ ascii ''short'') =
       Inl (Truncated 16 5)"

definition error_non_utf8_data :: bool where
  "error_non_utf8_data \<longleftrightarrow>
     error_message \<lparr>er_channel_id = channel_id_ALL, er_data = [0xff, 0xfe]\<rparr> = None"

definition error_all_channels_too_long :: bool where
  "error_all_channels_too_long \<longleftrightarrow>
     should_panic ''error message exceeds maximum size''
       (error_all_channels (replicate (MAX_MESSAGE_SIZE + 1) (of_char CHR ''x'')))"

definition error_for_channel_too_long :: bool where
  "error_for_channel_too_long \<longleftrightarrow>
     should_panic ''error message exceeds maximum size''
       (error_for_channel channel_id_ALL (replicate (MAX_MESSAGE_SIZE + 1) (of_char CHR ''x'')))"

lemma error_unit_tests:
  "error_all_channels_test" "error_for_channel_test" "error_encode_test" "error_decode_test"
  "error_roundtrip" "error_decode_truncated_channel_id" "error_decode_truncated_len"
  "error_decode_truncated_data" "error_non_utf8_data"
  by code_simp+

lemma error_panic_tests: "error_all_channels_too_long" "error_for_channel_too_long"
proof -
  have "contains ''error message exceeds maximum size'' ''error message exceeds maximum size''"
    by code_simp
  then show "error_all_channels_too_long" "error_for_channel_too_long"
    by (simp_all add: error_all_channels_too_long_def error_for_channel_too_long_def
        should_panic_def error_all_channels_def error_for_channel_def del: contains.simps)
qed

section \<open>Ping\<close>

definition new_creates_empty_padding :: bool where
  "new_creates_empty_padding \<longleftrightarrow> num_pong_bytes (ping_new 4) = 4 \<and> pi_ignored (ping_new 4) = []"

definition with_padding_creates_zeros :: bool where
  "with_padding_creates_zeros \<longleftrightarrow>
     (let ping = ping_with_padding 4 10 in
      num_pong_bytes ping = 4 \<and> length (pi_ignored ping) = 10 \<and>
      list_all (\<lambda>b. b = 0) (pi_ignored ping))"

definition ping_encode_no_padding :: bool where
  "ping_encode_no_padding \<longleftrightarrow> encode_ping (ping_new 4) = [0x00, 0x04, 0x00, 0x00]"

definition ping_encode_with_padding :: bool where
  "ping_encode_with_padding \<longleftrightarrow>
     encode_ping (ping_with_padding 256 3) = [0x01, 0x00, 0x00, 0x03, 0x00, 0x00, 0x00]"

definition ping_decode_no_padding :: bool where
  "ping_decode_no_padding \<longleftrightarrow>
     unwrap (decode_ping [0x00, 0x04, 0x00, 0x00]) (\<lambda>ping.
       num_pong_bytes ping = 4 \<and> pi_ignored ping = [])"

definition ping_decode_with_padding :: bool where
  "ping_decode_with_padding \<longleftrightarrow>
     unwrap (decode_ping [0x01, 0x00, 0x00, 0x03, 0xaa, 0xbb, 0xcc]) (\<lambda>ping.
       num_pong_bytes ping = 256 \<and> pi_ignored ping = [0xaa, 0xbb, 0xcc])"

definition ping_roundtrip :: bool where
  "ping_roundtrip \<longleftrightarrow>
     (let original = \<lparr>num_pong_bytes = 1000, pi_ignored = [0x11, 0x22, 0x33, 0x44, 0x55]\<rparr> in
      unwrap (decode_ping (encode_ping original)) (\<lambda>decoded. original = decoded))"

definition ping_decode_truncated_header :: bool where
  "ping_decode_truncated_header \<longleftrightarrow>
     decode_ping [0x00] = Inl (Truncated 2 1) \<and>
     decode_ping [0x00, 0x04, 0x00] = Inl (Truncated 2 1)"

definition ping_decode_truncated_padding :: bool where
  "ping_decode_truncated_padding \<longleftrightarrow>
     decode_ping [0x00, 0x04, 0x00, 0x05, 0xaa, 0xbb] = Inl (Truncated 5 2)"

definition ping_decode_extra_bytes_ignored :: bool where
  "ping_decode_extra_bytes_ignored \<longleftrightarrow>
     unwrap (decode_ping [0x00, 0x04, 0x00, 0x02, 0xaa, 0xbb, 0xcc, 0xdd]) (\<lambda>ping.
       pi_ignored ping = [0xaa, 0xbb])"

lemma ping_unit_tests:
  "new_creates_empty_padding" "with_padding_creates_zeros" "ping_encode_no_padding"
  "ping_encode_with_padding" "ping_decode_no_padding" "ping_decode_with_padding"
  "ping_roundtrip" "ping_decode_truncated_header" "ping_decode_truncated_padding"
  "ping_decode_extra_bytes_ignored"
  by code_simp+

section \<open>Pong\<close>

definition new_creates_zeros :: bool where
  "new_creates_zeros \<longleftrightarrow>
     length (po_ignored (pong_new 5)) = 5 \<and> list_all (\<lambda>b. b = 0) (po_ignored (pong_new 5))"

definition respond_to_ping :: bool where
  "respond_to_ping \<longleftrightarrow> length (po_ignored (pong_respond_to (ping_new 10))) = 10"

definition pong_encode_empty :: bool where
  "pong_encode_empty \<longleftrightarrow> encode_pong (pong_new 0) = [0x00, 0x00]"

definition pong_encode_with_padding :: bool where
  "pong_encode_with_padding \<longleftrightarrow> encode_pong (pong_new 3) = [0x00, 0x03, 0x00, 0x00, 0x00]"

definition pong_decode_empty :: bool where
  "pong_decode_empty \<longleftrightarrow> unwrap (decode_pong [0x00, 0x00]) (\<lambda>pong. po_ignored pong = [])"

definition pong_decode_with_padding :: bool where
  "pong_decode_with_padding \<longleftrightarrow>
     unwrap (decode_pong [0x00, 0x03, 0xaa, 0xbb, 0xcc]) (\<lambda>pong.
       po_ignored pong = [0xaa, 0xbb, 0xcc])"

definition pong_roundtrip :: bool where
  "pong_roundtrip \<longleftrightarrow>
     (let original = \<lparr>po_ignored = [0x11, 0x22, 0x33, 0x44, 0x55]\<rparr> in
      unwrap (decode_pong (encode_pong original)) (\<lambda>decoded. original = decoded))"

definition pong_decode_truncated_header :: bool where
  "pong_decode_truncated_header \<longleftrightarrow>
     decode_pong [] = Inl (Truncated 2 0) \<and> decode_pong [0x00] = Inl (Truncated 2 1)"

definition pong_decode_truncated_padding :: bool where
  "pong_decode_truncated_padding \<longleftrightarrow>
     decode_pong [0x00, 0x05, 0xaa, 0xbb] = Inl (Truncated 5 2)"

definition pong_decode_extra_bytes_ignored :: bool where
  "pong_decode_extra_bytes_ignored \<longleftrightarrow>
     unwrap (decode_pong [0x00, 0x02, 0xaa, 0xbb, 0xcc, 0xdd]) (\<lambda>pong.
       po_ignored pong = [0xaa, 0xbb])"

lemma pong_unit_tests:
  "new_creates_zeros" "respond_to_ping" "pong_encode_empty" "pong_encode_with_padding"
  "pong_decode_empty" "pong_decode_with_padding" "pong_roundtrip"
  "pong_decode_truncated_header" "pong_decode_truncated_padding"
  "pong_decode_extra_bytes_ignored"
  by code_simp+

section \<open>Init\<close>

definition BITCOIN_MAINNET :: bytes where
  "BITCOIN_MAINNET =
     [0x6f, 0xe2, 0x8c, 0x0a, 0xb6, 0xf1, 0xb3, 0x72, 0xc1, 0xa6, 0xa2, 0x46, 0xae, 0x63, 0xf7,
      0x4f, 0x93, 0x1e, 0x83, 0x65, 0xe1, 0x5a, 0x08, 0x9c, 0x68, 0xd6, 0x19, 0x00, 0x00, 0x00,
      0x00, 0x00]"

definition empty_init :: bool where
  "empty_init \<longleftrightarrow>
     globalfeatures init_empty = [] \<and> in_features init_empty = [] \<and>
     networks (in_tlvs init_empty) = None \<and> remote_addr (in_tlvs init_empty) = None"

definition echo_init :: bool where
  "echo_init \<longleftrightarrow>
     (let received = \<lparr>globalfeatures = [0x01, 0x02], in_features = [0xaa, 0xbb, 0xcc],
            in_tlvs = \<lparr>networks = Some [BITCOIN_MAINNET], remote_addr = Some [0xaa, 0xbb]\<rparr>\<rparr>;
          echoed = init_echo received in
      globalfeatures echoed = globalfeatures received \<and>
      in_features echoed = in_features received \<and>
      networks (in_tlvs echoed) = None \<and> remote_addr (in_tlvs echoed) = None)"

definition init_encode_empty :: bool where
  "init_encode_empty \<longleftrightarrow>
     unwrap (encode_init init_empty) (\<lambda>encoded. encoded = [0x00, 0x00, 0x00, 0x00])"

definition encode_with_features :: bool where
  "encode_with_features \<longleftrightarrow>
     unwrap (encode_init \<lparr>globalfeatures = [0x01], in_features = [0x02, 0x03],
         in_tlvs = init_tlvs_default\<rparr>) (\<lambda>encoded.
       encoded = [0x00, 0x01, 0x01, 0x00, 0x02, 0x02, 0x03])"

definition encode_with_networks_tlv :: bool where
  "encode_with_networks_tlv \<longleftrightarrow>
     unwrap (encode_init \<lparr>globalfeatures = [], in_features = [],
         in_tlvs = \<lparr>networks = Some [BITCOIN_MAINNET], remote_addr = None\<rparr>\<rparr>) (\<lambda>encoded.
       length encoded = 4 + 1 + 1 + CHAIN_HASH_SIZE \<and>
       take 4 encoded = [0x00, 0x00, 0x00, 0x00] \<and>
       encoded ! 4 = ucast TLV_NETWORKS \<and>
       encoded ! 5 = word_of_nat CHAIN_HASH_SIZE \<and>
       drop 6 encoded = BITCOIN_MAINNET)"

definition encode_with_remote_addr_tlv :: bool where
  "encode_with_remote_addr_tlv \<longleftrightarrow>
     (let addr = [0xaa, 0xbb, 0xcc] in
      unwrap (encode_init \<lparr>globalfeatures = [], in_features = [],
          in_tlvs = \<lparr>networks = None, remote_addr = Some addr\<rparr>\<rparr>) (\<lambda>encoded.
        length encoded = 4 + 1 + 1 + length addr \<and>
        take 4 encoded = [0x00, 0x00, 0x00, 0x00] \<and>
        encoded ! 4 = ucast TLV_REMOTE_ADDR \<and>
        encoded ! 5 = word_of_nat (length addr) \<and>
        drop 6 encoded = addr))"

definition init_decode_empty :: bool where
  "init_decode_empty \<longleftrightarrow>
     unwrap (decode_init [0x00, 0x00, 0x00, 0x00]) (\<lambda>init.
       globalfeatures init = [] \<and> in_features init = [] \<and>
       networks (in_tlvs init) = None \<and> remote_addr (in_tlvs init) = None)"

definition decode_with_features :: bool where
  "decode_with_features \<longleftrightarrow>
     unwrap (decode_init [0x00, 0x01, 0xaa, 0x00, 0x02, 0xbb, 0xcc]) (\<lambda>init.
       globalfeatures init = [0xaa] \<and> in_features init = [0xbb, 0xcc])"

definition decode_with_networks_tlv :: bool where
  "decode_with_networks_tlv \<longleftrightarrow>
     unwrap (decode_init ([0x00, 0x00, 0x00, 0x00] @ [ucast TLV_NETWORKS] @
         [word_of_nat CHAIN_HASH_SIZE] @ BITCOIN_MAINNET)) (\<lambda>init.
       networks (in_tlvs init) = Some [BITCOIN_MAINNET])"

definition decode_with_multiple_networks :: bool where
  "decode_with_multiple_networks \<longleftrightarrow>
     (let testnet = replicate CHAIN_HASH_SIZE 0x43 in
      unwrap (decode_init ([0x00, 0x00, 0x00, 0x00] @ [ucast TLV_NETWORKS] @
          [word_of_nat (CHAIN_HASH_SIZE * 2)] @ BITCOIN_MAINNET @ testnet)) (\<lambda>init.
        networks (in_tlvs init) = Some [BITCOIN_MAINNET, testnet]))"

definition decode_with_remote_addr_tlv :: bool where
  "decode_with_remote_addr_tlv \<longleftrightarrow>
     (let addr = [0xaa, 0xbb, 0xcc] in
      unwrap (decode_init ([0x00, 0x00, 0x00, 0x00] @ [ucast TLV_REMOTE_ADDR] @
          [word_of_nat (length addr)] @ addr)) (\<lambda>init.
        remote_addr (in_tlvs init) = Some addr))"

definition init_roundtrip :: bool where
  "init_roundtrip \<longleftrightarrow>
     (let original = \<lparr>globalfeatures = [0x01, 0x02], in_features = [0xaa, 0xbb, 0xcc, 0xdd],
            in_tlvs = \<lparr>networks = Some [BITCOIN_MAINNET],
              remote_addr = Some [0xaa, 0xbb, 0xcc]\<rparr>\<rparr> in
      unwrap (encode_init original) (\<lambda>encoded.
      unwrap (decode_init encoded) (\<lambda>decoded. original = decoded)))"

definition decode_truncated_gflen :: bool where
  "decode_truncated_gflen \<longleftrightarrow> decode_init [0x00] = Inl (Truncated 2 1)"

definition decode_truncated_globalfeatures :: bool where
  "decode_truncated_globalfeatures \<longleftrightarrow>
     decode_init [0x00, 0x05, 0xaa, 0xbb, 0xcc] = Inl (Truncated 5 3)"

definition decode_truncated_flen :: bool where
  "decode_truncated_flen \<longleftrightarrow> decode_init [0x00, 0x00, 0x00] = Inl (Truncated 2 1)"

definition decode_truncated_features :: bool where
  "decode_truncated_features \<longleftrightarrow>
     decode_init [0x00, 0x00, 0x00, 0x05, 0xaa, 0xbb] = Inl (Truncated 5 2)"

definition decode_networks_invalid_length :: bool where
  "decode_networks_invalid_length \<longleftrightarrow>
     decode_init ([0x00, 0x00, 0x00, 0x00] @ [ucast TLV_NETWORKS] @ [33] @ replicate 33 0x00) =
       Inl (Truncated (CHAIN_HASH_SIZE * 2) 33)"

definition init_decode_unknown_odd_tlv_ignored :: bool where
  "init_decode_unknown_odd_tlv_ignored \<longleftrightarrow>
     unwrap (decode_init ([0x00, 0x00, 0x00, 0x00] @ [0x05] @ [0x02] @ [0xaa, 0xbb])) (\<lambda>init.
       networks (in_tlvs init) = None \<and> remote_addr (in_tlvs init) = None)"

definition decode_empty_networks_list :: bool where
  "decode_empty_networks_list \<longleftrightarrow>
     unwrap (decode_init ([0x00, 0x00, 0x00, 0x00] @ [ucast TLV_NETWORKS] @ [0x00])) (\<lambda>init.
       networks (in_tlvs init) = Some [])"

lemma init_unit_tests:
  "empty_init" "echo_init" "init_encode_empty" "encode_with_features"
  "encode_with_networks_tlv" "encode_with_remote_addr_tlv" "init_decode_empty"
  "decode_with_features" "decode_with_networks_tlv" "decode_with_multiple_networks"
  "decode_with_remote_addr_tlv" "init_roundtrip" "decode_truncated_gflen"
  "decode_truncated_globalfeatures" "decode_truncated_flen" "decode_truncated_features"
  "decode_networks_invalid_length" "init_decode_unknown_odd_tlv_ignored"
  "decode_empty_networks_list"
  by code_simp+

end
