(* ===== verification/Bolt7_Tests.thy ===== *)
theory Bolt7_Tests
  imports Bolt1_Tests
begin

text \<open>
  The unit tests of the gossip messages of the crate \<open>bolt\<close>: \<open>channel_announcement.rs\<close>,
  \<open>node_announcement.rs\<close>, \<open>channel_update.rs\<close>, \<open>query_channel_range.rs\<close> and
  \<open>reply_channel_range.rs\<close>, on the model. One is left out: that a signature does not verify
  over a changed body is a statement about the strength of ECDSA.
\<close>

section \<open>ChannelAnnouncement\<close>

definition test_secret :: "('pk, 'sk, 'sig) secp \<Rightarrow> u8 \<Rightarrow> 'sk option" where
  "test_secret S seed = sk_from_slice S ((replicate 32 0)[31 := max seed 1])"

definition test_signature :: "('pk, 'sk, 'sig) secp \<Rightarrow> u8 \<Rightarrow> 'sig option" where
  "test_signature S seed = map_option (sign_ecdsa S (replicate 32 seed)) (test_secret S seed)"

definition test_pubkey :: "('pk, 'sk, 'sig) secp \<Rightarrow> u8 \<Rightarrow> 'pk option" where
  "test_pubkey S seed = map_option (pk_of_sk S) (test_secret S seed)"

definition sample_announcement ::
    "('pk, 'sk, 'sig) secp \<Rightarrow> ('pk, 'sig) channel_announcement option" where
  "sample_announcement S =
     (case (map (test_signature S) [1, 2, 3, 4], map (test_pubkey S) [1, 2, 3, 4]) of
        ([Some s1, Some s2, Some s3, Some s4], [Some k1, Some k2, Some k3, Some k4]) \<Rightarrow>
          Some \<lparr>node_signature_1 = s1, node_signature_2 = s2, bitcoin_signature_1 = s3,
            bitcoin_signature_2 = s4, ca_features = [0x01, 0x02],
            ca_chain_hash = replicate 32 0xab,
            ca_short_channel_id = (push_bit 40 700000 OR push_bit 16 42) OR 1,
            node_id_1 = k1, node_id_2 = k2, bitcoin_key_1 = k3, bitcoin_key_2 = k4\<rparr>
      | _ \<Rightarrow> None)"

definition ca_encode_decode_roundtrip :: "('pk, 'sk, 'sig) secp \<Rightarrow> bool" where
  "ca_encode_decode_roundtrip S \<longleftrightarrow>
     unwrap_option (sample_announcement S) (\<lambda>ann.
     unwrap (decode_channel_announcement S (encode_channel_announcement S ann)) (\<lambda>decoded.
       decoded = ann))"

definition ca_scid_formatting :: "('pk, 'sk, 'sig) secp \<Rightarrow> bool" where
  "ca_scid_formatting S \<longleftrightarrow>
     unwrap_option (sample_announcement S) (\<lambda>ann. ca_scid_str ann = ''700000x42x1'')"

definition ca_decode_truncated :: "('pk, 'sk, 'sig) secp \<Rightarrow> bool" where
  "ca_decode_truncated S \<longleftrightarrow>
     \<not> unwrap (decode_channel_announcement S (replicate 10 0)) (\<lambda>_. True)"

definition features_preserved :: "('pk, 'sk, 'sig) secp \<Rightarrow> bool" where
  "features_preserved S \<longleftrightarrow>
     unwrap_option (sample_announcement S) (\<lambda>ann.
     let ann = ann\<lparr>ca_features := replicate 100 0xff\<rparr> in
     unwrap (decode_channel_announcement S (encode_channel_announcement S ann)) (\<lambda>decoded.
       ca_features decoded = replicate 100 0xff))"

lemma test_secret_ok: "crates_ok S \<Longrightarrow> seed \<noteq> 0 \<Longrightarrow> \<exists>sk. test_secret S seed = Some sk"
proof -
  assume ok: "crates_ok S" and "seed \<noteq> 0"
  then have "1 \<le> seed" by (simp add: word_le_nat_alt Suc_le_eq unat_gt_0)
  then have "max seed 1 = seed" by (rule max_absorb1)
  moreover have "(replicate 32 0)[31 := seed] = replicate 31 0 @ [seed]"
    by (simp add: numeral_eq_Suc)
  ultimately show ?thesis using crates_okD(8) [OF ok \<open>seed \<noteq> 0\<close>] by (simp add: test_secret_def)
qed

lemma sample_scid_text: "scid_str ((push_bit 40 700000 OR push_bit 16 42) OR 1) = ''700000x42x1''"
  by code_simp

lemma channel_announcement_tests:
  assumes ok: "crates_ok S"
  shows "ca_encode_decode_roundtrip S" and "ca_scid_formatting S" and "ca_decode_truncated S"
    and "features_preserved S"
proof -
  note laws = crates_okD [OF ok]
  obtain k1 k2 k3 k4 where "test_secret S 1 = Some k1" "test_secret S 2 = Some k2"
    "test_secret S 3 = Some k3" "test_secret S 4 = Some k4"
    using test_secret_ok [OF ok, of 1] test_secret_ok [OF ok, of 2] test_secret_ok [OF ok, of 3]
      test_secret_ok [OF ok, of 4] by auto
  then obtain m where m: "sample_announcement S = Some m" "wf_channel_announcement m"
    and scid: "ca_short_channel_id m = (push_bit 40 700000 OR push_bit 16 42) OR 1"
    by (simp add: sample_announcement_def test_signature_def test_pubkey_def
        wf_channel_announcement_def fits_u16_def size_defs)
  note dec = channel_announcement_codec.decode_trailing [OF laws(3), of _ "[]", simplified]
  show "ca_encode_decode_roundtrip S"
    by (simp add: ca_encode_decode_roundtrip_def m dec)
  show "ca_scid_formatting S"
    by (simp only: ca_scid_formatting_def m unwrap_simps ca_scid_str_def scid sample_scid_text)
  show "ca_decode_truncated S"
    by (simp add: ca_decode_truncated_def decode_channel_announcement_def read_short)
  have "wf_channel_announcement (m\<lparr>ca_features := replicate 100 0xff\<rparr>)"
    using m(2) by (simp add: wf_channel_announcement_def fits_u16_def)
  then show "features_preserved S"
    by (simp add: features_preserved_def m(1) dec Let_def)
qed

section \<open>ChannelUpdate\<close>

definition SAMPLE_SK_BYTES :: bytes where "SAMPLE_SK_BYTES = replicate 32 0x42"

definition SAMPLE_SCID :: u64 where
  "SAMPLE_SCID = (push_bit 40 539268 OR push_bit 16 845) OR 1"

definition sample_update :: "('pk, 'sk, 'sig) secp \<Rightarrow> 'sig channel_update option" where
  "sample_update S =
     map_option (cu_new_signed S BITCOIN_MAINNET SAMPLE_SCID 1715000000 1 0 144 1000 1000 100
       99000000) (sk_from_slice S SAMPLE_SK_BYTES)"

definition cu_encode_decode_roundtrip :: "('pk, 'sk, 'sig) secp \<Rightarrow> bool" where
  "cu_encode_decode_roundtrip S \<longleftrightarrow>
     unwrap_option (sample_update S) (\<lambda>original.
     unwrap (decode_channel_update S (encode_channel_update S original)) (\<lambda>decoded.
       decoded = original))"

definition cu_scid_formatting :: "('pk, 'sk, 'sig) secp \<Rightarrow> bool" where
  "cu_scid_formatting S \<longleftrightarrow>
     unwrap_option (sample_update S) (\<lambda>msg. cu_scid_str msg = ''539268x845x1'')"

definition cu_decode_truncated_signature :: "('pk, 'sk, 'sig) secp \<Rightarrow> bool" where
  "cu_decode_truncated_signature S \<longleftrightarrow>
     decode_channel_update S (replicate 30 0) = Inl (Truncated COMPACT_SIGNATURE_SIZE 30)"

definition cu_decode_truncated_body :: "('pk, 'sk, 'sig) secp \<Rightarrow> bool" where
  "cu_decode_truncated_body S \<longleftrightarrow>
     unwrap_option (sample_update S) (\<lambda>msg.
     let encoded = encode_channel_update S msg; truncated = take (length encoded - 1) encoded in
     is_truncated (decode_channel_update S truncated))"

definition cu_decode_invalid_signature :: "('pk, 'sk, 'sig) secp \<Rightarrow> bool" where
  "cu_decode_invalid_signature S \<longleftrightarrow>
     unwrap_option (sample_update S) (\<lambda>msg.
     let encoded = copy_from_slice 0 (replicate COMPACT_SIGNATURE_SIZE 0xff)
           (encode_channel_update S msg) in
     (case decode_channel_update S encoded of Inl (InvalidSignature _) \<Rightarrow> True | _ \<Rightarrow> False))"

definition decode_preserves_unknown_flag_bits :: "('pk, 'sk, 'sig) secp \<Rightarrow> bool" where
  "decode_preserves_unknown_flag_bits S \<longleftrightarrow>
     unwrap_option (sample_update S) (\<lambda>msg.
     let msg = msg\<lparr>message_flags := 0xff, cu_channel_flags := 0xff\<rparr> in
     unwrap (decode_channel_update S (encode_channel_update S msg)) (\<lambda>decoded.
       message_flags decoded = 0xff \<and> cu_channel_flags decoded = 0xff))"

lemma channel_update_tests:
  assumes ok: "crates_ok S"
  shows "cu_encode_decode_roundtrip S" and "cu_scid_formatting S"
    and "cu_decode_truncated_signature S" and "cu_decode_truncated_body S"
    and "cu_decode_invalid_signature S" and "decode_preserves_unknown_flag_bits S"
proof -
  note laws = crates_okD [OF ok]
  obtain sk where sk: "sk_from_slice S (replicate 32 0x42) = Some sk"
    using laws(5) [of "0x42"] by auto
  then obtain m where m: "sample_update S = Some m" and chain: "length (cu_chain_hash m) = 32"
    and scid: "cu_short_channel_id m = SAMPLE_SCID"
    by (simp add: sample_update_def SAMPLE_SK_BYTES_def cu_new_signed_def Let_def
        BITCOIN_MAINNET_def)
  have wf: "wf_channel_update m" "wf_channel_update (m\<lparr>message_flags := a, cu_channel_flags := b\<rparr>)"
    for a b using chain by (simp_all add: wf_channel_update_def size_defs)
  note dec = channel_update_codec.decode_trailing [OF laws(2), of _ "[]", simplified]
  show "cu_encode_decode_roundtrip S" by (simp add: cu_encode_decode_roundtrip_def m dec wf)
  have "scid_str SAMPLE_SCID = ''539268x845x1''" by code_simp
  then show "cu_scid_formatting S"
    by (simp only: cu_scid_formatting_def m unwrap_simps cu_scid_str_def scid)
  show "cu_decode_truncated_signature S"
    by (simp add: cu_decode_truncated_signature_def decode_channel_update_def read_short size_defs)
  show "decode_preserves_unknown_flag_bits S"
    by (simp add: decode_preserves_unknown_flag_bits_def m dec wf Let_def)
  note eval = m Let_def encode_channel_update_def decode_channel_update_def read_write_simps
    width_simps laws(2) chain size_defs read_short is_truncated_def copy_from_slice_def
    read_invalid(2) [OF ok]
  show "cu_decode_truncated_body S" by (simp add: cu_decode_truncated_body_def eval)
  show "cu_decode_invalid_signature S" by (simp add: cu_decode_invalid_signature_def eval)
qed

section \<open>NodeAnnouncement\<close>

definition sample_node_announcement ::
    "('pk, 'sk, 'sig) secp \<Rightarrow> ('pk, 'sig) node_announcement option" where
  "sample_node_announcement S =
     Option.bind (sk_from_slice S (replicate 32 0x11)) (\<lambda>sk.
     Option.bind (sig_from_compact S (replicate 64 0)) (\<lambda>placeholder.
     let na = \<lparr>na_signature = placeholder, na_features = [0x01, 0x02], na_timestamp = 1700000000,
           na_node_id = pk_of_sk S sk, rgb_color = [0xaa, 0xbb, 0xcc],
           na_alias = replicate 32 0x42,
           addresses = [0x01, 0x7f, 0x00, 0x00, 0x01, 0x23, 0x45]\<rparr> in
     Some (na\<lparr>na_signature := sign_ecdsa S (na_signature_hash S na) sk\<rparr>)))"

text \<open>A test on the bytes of the sample.\<close>

definition on_node :: "('pk, 'sk, 'sig) secp \<Rightarrow> (bytes \<Rightarrow> bool) \<Rightarrow> bool" where
  "on_node S test \<longleftrightarrow>
     unwrap_option (sample_node_announcement S) (\<lambda>na. test (encode_node_announcement S na))"

definition na_encode_decode_roundtrip :: "('pk, 'sk, 'sig) secp \<Rightarrow> bool" where
  "na_encode_decode_roundtrip S \<longleftrightarrow>
     unwrap_option (sample_node_announcement S) (\<lambda>original.
     unwrap (decode_node_announcement S (encode_node_announcement S original)) (\<lambda>decoded.
       original = decoded))"

definition new_signed_roundtrips_and_verifies :: "('pk, 'sk, 'sig) secp \<Rightarrow> bool" where
  "new_signed_roundtrips_and_verifies S \<longleftrightarrow>
     unwrap_option (sk_from_slice S (replicate 32 0x11)) (\<lambda>sk.
     let na = na_new_signed S [0x01, 0x02] 1700000000 [0xaa, 0xbb, 0xcc] (replicate 32 0x42)
           [0x01, 0x7f, 0x00, 0x00, 0x01, 0x23, 0x45] sk in
     na_verify S na \<and>
     unwrap (decode_node_announcement S (encode_node_announcement S na)) (\<lambda>decoded.
       na = decoded))"

definition default_signed_uses_node_secret_and_verifies :: "('pk, 'sk, 'sig) secp \<Rightarrow> bool" where
  "default_signed_uses_node_secret_and_verifies S \<longleftrightarrow>
     unwrap_option (sk_from_slice S (replicate 32 0x42)) (\<lambda>sk.
     let na = na_default_signed S sk in
     na_node_id na = pk_of_sk S sk \<and> na_timestamp na = 0 \<and> na_features na = [] \<and>
     addresses na = [] \<and> na_verify S na \<and>
     unwrap (decode_node_announcement S (encode_node_announcement S na)) (\<lambda>decoded.
       decoded = na))"

definition verify_succeeds_after_sign :: "('pk, 'sk, 'sig) secp \<Rightarrow> bool" where
  "verify_succeeds_after_sign S \<longleftrightarrow> unwrap_option (sample_node_announcement S) (na_verify S)"

definition verify_fails_on_invalid_signature :: "('pk, 'sk, 'sig) secp \<Rightarrow> bool" where
  "verify_fails_on_invalid_signature S \<longleftrightarrow>
     unwrap_option (sample_node_announcement S) (\<lambda>na.
     unwrap_option (sig_from_compact S (replicate 64 0)) (\<lambda>sig.
       \<not> na_verify S (na\<lparr>na_signature := sig\<rparr>)))"

definition encode_size_with_empty_variable_fields :: "('pk, 'sk, 'sig) secp \<Rightarrow> bool" where
  "encode_size_with_empty_variable_fields S \<longleftrightarrow>
     unwrap_option (sk_from_slice S (replicate 32 0x11)) (\<lambda>sk.
     unwrap_option (sig_from_compact S (replicate 64 0)) (\<lambda>sig.
     let na = \<lparr>na_signature = sig, na_features = [], na_timestamp = 0,
           na_node_id = pk_of_sk S sk, rgb_color = replicate 3 0, na_alias = replicate 32 0,
           addresses = []\<rparr> in
     length (encode_node_announcement S na) = 140))"

definition na_decode_truncated_signature :: "('pk, 'sk, 'sig) secp \<Rightarrow> bool" where
  "na_decode_truncated_signature S \<longleftrightarrow>
     decode_node_announcement S (replicate 20 0) = Inl (Truncated COMPACT_SIGNATURE_SIZE 20)"

definition decode_truncated_features_len :: "('pk, 'sk, 'sig) secp \<Rightarrow> bool" where
  "decode_truncated_features_len S \<longleftrightarrow> on_node S (\<lambda>encoded.
     decode_node_announcement S (take (COMPACT_SIGNATURE_SIZE + 1) encoded) =
       Inl (Truncated 2 1))"

definition decode_truncated_features_data :: "('pk, 'sk, 'sig) secp \<Rightarrow> bool" where
  "decode_truncated_features_data S \<longleftrightarrow> on_node S (\<lambda>encoded.
     decode_node_announcement S (take COMPACT_SIGNATURE_SIZE encoded @ [0x00, 0x05, 0xaa, 0xbb]) =
       Inl (Truncated 5 2))"

definition decode_truncated_timestamp :: "('pk, 'sk, 'sig) secp \<Rightarrow> bool" where
  "decode_truncated_timestamp S \<longleftrightarrow> on_node S (\<lambda>encoded.
     decode_node_announcement S (take (COMPACT_SIGNATURE_SIZE + 4 + 1) encoded) =
       Inl (Truncated 4 1))"

definition decode_truncated_node_id :: "('pk, 'sk, 'sig) secp \<Rightarrow> bool" where
  "decode_truncated_node_id S \<longleftrightarrow> on_node S (\<lambda>encoded.
     decode_node_announcement S (take (COMPACT_SIGNATURE_SIZE + 4 + 4 + 10) encoded) =
       Inl (Truncated PUBLIC_KEY_SIZE 10))"

definition decode_truncated_rgb_color :: "('pk, 'sk, 'sig) secp \<Rightarrow> bool" where
  "decode_truncated_rgb_color S \<longleftrightarrow> on_node S (\<lambda>encoded.
     decode_node_announcement S
       (take (COMPACT_SIGNATURE_SIZE + 4 + 4 + PUBLIC_KEY_SIZE + 2) encoded) =
       Inl (Truncated 3 2))"

definition decode_truncated_alias :: "('pk, 'sk, 'sig) secp \<Rightarrow> bool" where
  "decode_truncated_alias S \<longleftrightarrow> on_node S (\<lambda>encoded.
     decode_node_announcement S
       (take (COMPACT_SIGNATURE_SIZE + 4 + 4 + PUBLIC_KEY_SIZE + 3 + 10) encoded) =
       Inl (Truncated 32 10))"

definition decode_truncated_addresses_len :: "('pk, 'sk, 'sig) secp \<Rightarrow> bool" where
  "decode_truncated_addresses_len S \<longleftrightarrow> on_node S (\<lambda>encoded.
     decode_node_announcement S
       (take (COMPACT_SIGNATURE_SIZE + 4 + 4 + PUBLIC_KEY_SIZE + 3 + 32 + 1) encoded) =
       Inl (Truncated 2 1))"

definition decode_truncated_addresses_data :: "('pk, 'sk, 'sig) secp \<Rightarrow> bool" where
  "decode_truncated_addresses_data S \<longleftrightarrow> on_node S (\<lambda>encoded.
     let prefix_end = COMPACT_SIGNATURE_SIZE + 4 + 4 + PUBLIC_KEY_SIZE + 3 + 32 in
     decode_node_announcement S (take prefix_end encoded @ [0x00, 0x05, 0xaa, 0xbb]) =
       Inl (Truncated 5 2))"

definition na_decode_invalid_signature :: "('pk, 'sk, 'sig) secp \<Rightarrow> bool" where
  "na_decode_invalid_signature S \<longleftrightarrow> on_node S (\<lambda>encoded.
     let bad_sig = replicate COMPACT_SIGNATURE_SIZE 0xff;
         encoded = copy_from_slice 0 bad_sig encoded in
     decode_node_announcement S encoded = Inl (InvalidSignature bad_sig))"

definition decode_invalid_node_id :: "('pk, 'sk, 'sig) secp \<Rightarrow> bool" where
  "decode_invalid_node_id S \<longleftrightarrow> on_node S (\<lambda>encoded.
     let bad_pubkey = replicate PUBLIC_KEY_SIZE 0;
         node_id_offset = COMPACT_SIGNATURE_SIZE + 4 + 4;
         encoded = copy_from_slice node_id_offset bad_pubkey encoded in
     decode_node_announcement S encoded = Inl (InvalidPublicKey bad_pubkey))"

definition decode_ignores_trailing_bytes :: "('pk, 'sk, 'sig) secp \<Rightarrow> bool" where
  "decode_ignores_trailing_bytes S \<longleftrightarrow>
     unwrap_option (sample_node_announcement S) (\<lambda>original.
     unwrap (decode_node_announcement S (encode_node_announcement S original @ [0x42, 0x42]))
       (\<lambda>decoded. decoded = original))"

lemma vec_5_of_2: "read_vec [0x00, 0x05, 0xaa, 0xbb] = Inl (Truncated 5 2)"
  by code_simp

lemma node_announcement_tests:
  assumes ok: "crates_ok S"
  shows "na_encode_decode_roundtrip S" and "verify_succeeds_after_sign S"
    and "verify_fails_on_invalid_signature S" and "decode_ignores_trailing_bytes S"
    and "na_decode_truncated_signature S" and "decode_truncated_features_len S"
    and "decode_truncated_features_data S" and "decode_truncated_timestamp S"
    and "decode_truncated_node_id S" and "decode_truncated_rgb_color S"
    and "decode_truncated_alias S" and "decode_truncated_addresses_len S"
    and "decode_truncated_addresses_data S" and "na_decode_invalid_signature S"
    and "decode_invalid_node_id S"
proof -
  note laws = crates_okD [OF ok]
  obtain sk z where sk: "sk_from_slice S (replicate 32 0x11) = Some sk"
    and z: "sig_from_compact S (replicate 64 0) = Some z" "\<And>m k. \<not> verify_ecdsa S m z k"
    using laws(5) [of "0x11"] laws(9) by auto
  then obtain m where m: "sample_node_announcement S = Some m" and verifies: "na_verify S m"
    and fields: "length (na_features m) = 2" "length (rgb_color m) = 3" "length (na_alias m) = 32"
      "length (addresses m) = 7"
    by (simp add: sample_node_announcement_def Let_def na_verify_def na_signature_hash_def
        sign_law [OF laws(4)])
  have wf: "wf_node_announcement m" "fits_u16 (na_features m)" "fits_u16 (addresses m)"
    using fields by (simp_all add: wf_node_announcement_def fits_u16_def)
  note dec = node_announcement_codec.decode_trailing [OF laws(3) wf(1)]
  show "na_encode_decode_roundtrip S"
    using dec [of "[]"] by (simp add: na_encode_decode_roundtrip_def m)
  show "decode_ignores_trailing_bytes S" by (simp add: decode_ignores_trailing_bytes_def m dec)
  show "verify_succeeds_after_sign S" by (simp add: verify_succeeds_after_sign_def m verifies)
  show "verify_fails_on_invalid_signature S"
    by (simp add: verify_fails_on_invalid_signature_def m z na_verify_def)
  note eval = on_node_def m Let_def encode_node_announcement_def decode_node_announcement_def
    read_write_simps width_simps laws(1,2) fields wf(2,3) size_defs read_short vec_5_of_2
    copy_from_slice_def read_invalid [OF ok]
  show "na_decode_truncated_signature S" "decode_truncated_features_len S"
    "decode_truncated_features_data S" "decode_truncated_timestamp S" "decode_truncated_node_id S"
    "decode_truncated_rgb_color S" "decode_truncated_alias S" "decode_truncated_addresses_len S"
    "decode_truncated_addresses_data S" "na_decode_invalid_signature S" "decode_invalid_node_id S"
    by (simp_all add: eval na_decode_truncated_signature_def decode_truncated_features_len_def
        decode_truncated_features_data_def decode_truncated_timestamp_def
        decode_truncated_node_id_def decode_truncated_rgb_color_def decode_truncated_alias_def
        decode_truncated_addresses_len_def decode_truncated_addresses_data_def
        na_decode_invalid_signature_def decode_invalid_node_id_def)
qed

lemma node_announcement_signed_tests:
  assumes ok: "crates_ok S"
  shows "new_signed_roundtrips_and_verifies S" and "default_signed_uses_node_secret_and_verifies S"
    and "encode_size_with_empty_variable_fields S"
proof -
  note laws = crates_okD [OF ok]
  obtain sk sk' z where sk: "sk_from_slice S (replicate 32 0x11) = Some sk"
    "sk_from_slice S (replicate 32 0x42) = Some sk'"
    and z: "sig_from_compact S (replicate 64 0) = Some z"
    using laws(5) [of "0x11"] laws(5) [of "0x42"] laws(9) by auto
  note dec = node_announcement_codec.decode_trailing [OF laws(3), of _ "[]", simplified]
  note signed = na_default_signed_def na_new_signed_def Let_def
  have signs: "na_verify S (na_new_signed S f t c al ad k)" for f t c al ad k
    by (simp add: signed na_verify_def na_signature_hash_def sign_law [OF laws(4)])
  have wf: "wf_node_announcement (na_new_signed S f t c al ad k)"
    if "length f \<le> 10" "length c = 3" "length al = 32" "length ad \<le> 10" for f t c al ad k
    using that by (simp add: signed wf_node_announcement_def fits_u16_def)
  show "new_signed_roundtrips_and_verifies S"
    using dec [OF wf] by (simp add: new_signed_roundtrips_and_verifies_def sk signs)
  show "default_signed_uses_node_secret_and_verifies S"
    using dec [OF wf]
    by (simp add: default_signed_uses_node_secret_and_verifies_def sk signs na_default_signed_def)
      (simp add: na_new_signed_def Let_def)
  show "encode_size_with_empty_variable_fields S"
    by (simp add: encode_size_with_empty_variable_fields_def sk z encode_node_announcement_def
        width_simps laws(1,2))
qed

end
