(* ===== verification/Query_Tests.thy ===== *)
theory Query_Tests
  imports Bolt1_Tests
begin

text \<open>
  The unit tests of \<open>query_channel_range.rs\<close>, \<open>reply_channel_range.rs\<close> and \<open>lib.rs\<close> of the crate
  \<open>bolt\<close>, on the model.
\<close>

section \<open>QueryChannelRange\<close>

definition sample_query :: query_channel_range where
  "sample_query =
     \<lparr>qr_chain_hash = BITCOIN_MAINNET, qr_first_blocknum = 500000, qr_number_of_blocks = 1000,
      query_option = None\<rparr>"

definition query_encode_decode_roundtrip :: bool where
  "query_encode_decode_roundtrip \<longleftrightarrow>
     unwrap (encode_query_channel_range sample_query) (\<lambda>encoded.
     unwrap (decode_query_channel_range encoded) (\<lambda>decoded. decoded = sample_query))"

definition encode_without_tlv_is_fixed_length :: bool where
  "encode_without_tlv_is_fixed_length \<longleftrightarrow>
     unwrap (encode_query_channel_range sample_query) (\<lambda>encoded.
       length encoded = CHAIN_HASH_SIZE + 4 + 4)"

definition query_option_roundtrip :: bool where
  "query_option_roundtrip \<longleftrightarrow>
     (let msg = sample_query\<lparr>query_option :=
            Some (QUERY_OPTION_WANT_TIMESTAMPS OR QUERY_OPTION_WANT_CHECKSUMS)\<rparr> in
      unwrap (encode_query_channel_range msg) (\<lambda>encoded.
      unwrap (decode_query_channel_range encoded) (\<lambda>decoded.
        query_option decoded = Some 3)))"

definition query_option_large_flags_use_bigsize :: bool where
  "query_option_large_flags_use_bigsize \<longleftrightarrow>
     (let msg = sample_query\<lparr>query_option := Some 300\<rparr> in
      unwrap (encode_query_channel_range msg) (\<lambda>encoded.
      unwrap (decode_query_channel_range encoded) (\<lambda>decoded.
        query_option decoded = Some 300)))"

definition query_decode_truncated :: bool where
  "query_decode_truncated \<longleftrightarrow> is_truncated (decode_query_channel_range (replicate 10 0))"

definition query_decode_unknown_odd_tlv_ignored :: bool where
  "query_decode_unknown_odd_tlv_ignored \<longleftrightarrow>
     unwrap (encode_query_channel_range sample_query) (\<lambda>encoded.
     unwrap (decode_query_channel_range (encoded @ [0x05] @ [0x01] @ [0xaa])) (\<lambda>decoded.
       query_option decoded = None))"

lemma query_unit_tests:
  "query_encode_decode_roundtrip" "encode_without_tlv_is_fixed_length" "query_option_roundtrip"
  "query_option_large_flags_use_bigsize" "query_decode_truncated"
  "query_decode_unknown_odd_tlv_ignored"
  by code_simp+

section \<open>ReplyChannelRange\<close>

definition SCIDS :: "u64 list" where
  "SCIDS = [push_bit 40 500000, (push_bit 40 500100 OR push_bit 16 7) OR 2,
     (push_bit 40 500999 OR push_bit 16 3) OR 1]"

definition sample_reply :: reply_channel_range where
  "sample_reply = reply_from_scids BITCOIN_MAINNET 500000 1000 True SCIDS"

definition reply_encode_decode_roundtrip :: bool where
  "reply_encode_decode_roundtrip \<longleftrightarrow>
     unwrap (encode_reply_channel_range sample_reply) (\<lambda>encoded.
     unwrap (decode_reply_channel_range encoded) (\<lambda>decoded. decoded = sample_reply))"

definition from_scids_sets_sync_complete :: bool where
  "from_scids_sets_sync_complete \<longleftrightarrow>
     sync_complete sample_reply = 1 \<and>
     sync_complete (reply_from_scids BITCOIN_MAINNET 0 10 False SCIDS) = 0"

definition short_channel_ids_roundtrip :: bool where
  "short_channel_ids_roundtrip \<longleftrightarrow>
     unwrap (short_channel_ids sample_reply) (\<lambda>scids. scids = SCIDS)"

definition short_channel_ids_empty_list :: bool where
  "short_channel_ids_empty_list \<longleftrightarrow>
     unwrap (short_channel_ids (reply_from_scids BITCOIN_MAINNET 0 10 True [])) (\<lambda>scids.
       scids = [])"

definition short_channel_ids_unknown_encoding :: bool where
  "short_channel_ids_unknown_encoding \<longleftrightarrow>
     (let reply = sample_reply\<lparr>encoded_short_ids := (encoded_short_ids sample_reply)[0 := 1]\<rparr> in
      short_channel_ids reply = Inl (UnknownEncoding 1))"

definition short_channel_ids_misaligned :: bool where
  "short_channel_ids_misaligned \<longleftrightarrow>
     (let reply = sample_reply\<lparr>encoded_short_ids := encoded_short_ids sample_reply @ [0xff]\<rparr> in
      is_truncated (short_channel_ids reply))"

definition short_channel_ids_empty_payload :: bool where
  "short_channel_ids_empty_payload \<longleftrightarrow>
     is_truncated (short_channel_ids (sample_reply\<lparr>encoded_short_ids := []\<rparr>))"

definition tlvs_roundtrip :: bool where
  "tlvs_roundtrip \<longleftrightarrow>
     (let reply = sample_reply\<lparr>rr_tlvs := \<lparr>timestamps = Some [0x00, 0xde, 0xad, 0xbe, 0xef],
            checksums = Some [0x01, 0x02, 0x03, 0x04]\<rparr>\<rparr> in
      unwrap (encode_reply_channel_range reply) (\<lambda>encoded.
      unwrap (decode_reply_channel_range encoded) (\<lambda>decoded.
        timestamps (rr_tlvs decoded) = timestamps (rr_tlvs reply) \<and>
        checksums (rr_tlvs decoded) = checksums (rr_tlvs reply))))"

definition reply_decode_truncated :: bool where
  "reply_decode_truncated \<longleftrightarrow> is_truncated (decode_reply_channel_range (replicate 10 0))"

lemma wf_sample_reply:
  "opt_fits_u64 a \<Longrightarrow> opt_fits_u64 b \<Longrightarrow>
     wf_reply_channel_range (sample_reply\<lparr>rr_tlvs := \<lparr>timestamps = a, checksums = b\<rparr>\<rparr>)"
  by (simp add: wf_reply_channel_range_def sample_reply_def reply_from_scids_def BITCOIN_MAINNET_def
      size_defs fits_u16_def width_simps SCIDS_def)

lemma reply_roundtrip:
  assumes "wf_reply_channel_range m"
  shows "unwrap (encode_reply_channel_range m) (\<lambda>encoded.
    unwrap (decode_reply_channel_range encoded) (\<lambda>decoded. decoded = m))"
proof -
  obtain bs where "encode_reply_channel_range m = Inr bs"
    using reply_channel_range_codec.encode_total by blast
  then show ?thesis
    using reply_channel_range_codec.decode_encode [OF TrueI assms, of bs] by simp
qed

lemma reply_unit_tests:
  "reply_encode_decode_roundtrip" "tlvs_roundtrip" "from_scids_sets_sync_complete"
  "short_channel_ids_roundtrip" "short_channel_ids_empty_list" "short_channel_ids_empty_payload"
  "reply_decode_truncated" "short_channel_ids_unknown_encoding" "short_channel_ids_misaligned"
proof -
  have "sample_reply = sample_reply\<lparr>rr_tlvs := \<lparr>timestamps = None, checksums = None\<rparr>\<rparr>"
    by (simp add: sample_reply_def reply_from_scids_def)
  then show "reply_encode_decode_roundtrip"
    unfolding reply_encode_decode_roundtrip_def
    using reply_roundtrip [OF wf_sample_reply [of None None]] by (simp add: opt_fits_u64_def)
  have "opt_fits_u64 (Some v)" if "length v \<le> 10" for v
    using that by (simp add: opt_fits_u64_def fits_u64_def)
  then show "tlvs_roundtrip"
    unfolding tlvs_roundtrip_def Let_def
    using reply_roundtrip [OF wf_sample_reply, of "Some [0x00, 0xde, 0xad, 0xbe, 0xef]"
        "Some [0x01, 0x02, 0x03, 0x04]"]
    by (auto simp: unwrap_def split: sum.splits)
  show "from_scids_sets_sync_complete" "short_channel_ids_roundtrip" "short_channel_ids_empty_list"
    by (simp_all add: from_scids_sets_sync_complete_def short_channel_ids_roundtrip_def
        short_channel_ids_empty_list_def sample_reply_def short_channel_ids_from_scids)
      (simp_all add: reply_from_scids_def)
  show "short_channel_ids_empty_payload" "reply_decode_truncated"
    by (simp_all add: short_channel_ids_empty_payload_def reply_decode_truncated_def
        short_channel_ids_def decode_reply_channel_range_def read_int_def read_array_def
        is_truncated_def size_defs)
  have "write_u8 0 = [0]" by code_simp
  then have ids: "encoded_short_ids sample_reply = 0 # concat (map write_u64 SCIDS)"
    by (simp add: sample_reply_def reply_from_scids_def ENCODING_UNCOMPRESSED_def)
  have u8: "read_u8 (b # data) = Inr (b, data)" for b data
    by (simp add: read_int_def read_array_def from_be_bytes_def nat_of_be_def)
  show "short_channel_ids_unknown_encoding"
    by (simp add: short_channel_ids_unknown_encoding_def short_channel_ids_def ids u8
        ENCODING_UNCOMPRESSED_def Let_def)
  have "length (concat (map write_u64 SCIDS)) = 24"
    unfolding length_concat_u64 by (simp add: SCIDS_def)
  then show "short_channel_ids_misaligned"
    by (simp add: short_channel_ids_misaligned_def short_channel_ids_def ids u8 as_chunks_def
        is_truncated_def ENCODING_UNCOMPRESSED_def SCID_SIZE_def Let_def)
qed

end
