(* ===== verification/Message_Tests.thy ===== *)
theory Message_Tests
  imports Wire_Tests Tlv_Tests Bolt2_Tests Bolt7_Tests Query_Tests
begin

text \<open>
  The unit tests of \<open>bolt/src/lib.rs\<close> on the model, and all the tests of the crate together.
\<close>

section \<open>Message\<close>

definition message_init_roundtrip :: "('pk, 'sk, 'sig) secp \<Rightarrow> bool" where
  "message_init_roundtrip S \<longleftrightarrow>
     unwrap (encode_message S (Init init_empty)) (\<lambda>encoded.
     unwrap (decode_message S encoded) (\<lambda>decoded. decoded = Init init_empty))"

definition message_ping_roundtrip :: "('pk, 'sk, 'sig) secp \<Rightarrow> bool" where
  "message_ping_roundtrip S \<longleftrightarrow>
     (let ping = ping_new 10 in
      unwrap (encode_message S (Ping ping)) (\<lambda>encoded.
      unwrap (decode_message S encoded) (\<lambda>decoded. decoded = Ping ping)))"

definition message_pong_roundtrip :: "('pk, 'sk, 'sig) secp \<Rightarrow> bool" where
  "message_pong_roundtrip S \<longleftrightarrow>
     (let pong = pong_new 5 in
      unwrap (encode_message S (Pong pong)) (\<lambda>encoded.
      unwrap (decode_message S encoded) (\<lambda>decoded. decoded = Pong pong)))"

text \<open>The end of the tests that also look at the type number.\<close>

definition message_roundtrip_as ::
    "('pk, 'sk, 'sig) secp \<Rightarrow> u16 \<Rightarrow> ('pk, 'sig) message \<Rightarrow> bool" where
  "message_roundtrip_as S type_number msg \<longleftrightarrow>
     unwrap (encode_message S msg) (\<lambda>encoded.
       take 2 encoded = to_be_bytes type_number \<and>
       unwrap (decode_message S encoded) (\<lambda>decoded. decoded = msg))"

text \<open>The open_channel of this test is the sample of \<open>open_channel.rs\<close>.\<close>

definition message_open_channel_roundtrip :: "('pk, 'sk, 'sig) secp \<Rightarrow> bool" where
  "message_open_channel_roundtrip S \<longleftrightarrow>
     unwrap_option (sample_open_channel S None) (\<lambda>open.
       message_roundtrip_as S OPEN_CHANNEL (OpenChannel open))"

definition message_funding_created_roundtrip :: "('pk, 'sk, 'sig) secp \<Rightarrow> bool" where
  "message_funding_created_roundtrip S \<longleftrightarrow>
     unwrap_option (sk_from_slice S (replicate 32 0x11)) (\<lambda>sk.
     let funding = \<lparr>fc_temporary_channel_id = ChannelId (replicate 32 0xbb),
           funding_txid = replicate 32 0xcc, funding_output_index = 0,
           fc_signature = sign_ecdsa S (replicate 32 0xaa) sk\<rparr> in
     message_roundtrip_as S FUNDING_CREATED (FundingCreated funding))"

definition message_channel_update_roundtrip :: "('pk, 'sk, 'sig) secp \<Rightarrow> bool" where
  "message_channel_update_roundtrip S \<longleftrightarrow>
     unwrap_option (sk_from_slice S (replicate 32 0x42)) (\<lambda>sk.
     let update = cu_new_signed S (replicate 32 0xab)
           ((push_bit 40 539268 OR push_bit 16 845) OR 1) 1715000000 1 0 40 1 1000 1 4294967295 sk in
     message_roundtrip_as S CHANNEL_UPDATE (ChannelUpdate update))"

definition message_query_channel_range_roundtrip :: "('pk, 'sk, 'sig) secp \<Rightarrow> bool" where
  "message_query_channel_range_roundtrip S \<longleftrightarrow>
     (let query = \<lparr>qr_chain_hash = replicate 32 0xab, qr_first_blocknum = 500000,
            qr_number_of_blocks = 1000, query_option = Some QUERY_OPTION_WANT_TIMESTAMPS\<rparr> in
      message_roundtrip_as S QUERY_CHANNEL_RANGE (QueryChannelRange query))"

definition message_reply_channel_range_roundtrip :: "('pk, 'sk, 'sig) secp \<Rightarrow> bool" where
  "message_reply_channel_range_roundtrip S \<longleftrightarrow>
     (let reply = reply_from_scids (replicate 32 0xab) 500000 1000 True
            [push_bit 40 500000 OR push_bit 16 1] in
      message_roundtrip_as S REPLY_CHANNEL_RANGE (ReplyChannelRange reply))"

definition message_unknown_odd_accepted :: "('pk, 'sk, 'sig) secp \<Rightarrow> bool" where
  "message_unknown_odd_accepted S \<longleftrightarrow>
     unwrap (decode_message S (raw_message 99 [0xaa, 0xbb])) (\<lambda>msg.
       msg = Unknown 99 [0xaa, 0xbb])"

definition message_unknown_even_rejected :: "('pk, 'sk, 'sig) secp \<Rightarrow> bool" where
  "message_unknown_even_rejected S \<longleftrightarrow>
     decode_message S (raw_message 100 [0xaa, 0xbb]) = Inl (UnknownEvenType 100)"

definition message_decode_truncated :: "('pk, 'sk, 'sig) secp \<Rightarrow> bool" where
  "message_decode_truncated S \<longleftrightarrow> decode_message S [0x00] = Inl (Truncated 2 1)"

lemma message_roundtrip_asI:
  assumes "codec_lawful S" and "wf_message m" and "msg_type m = t"
  shows "message_roundtrip_as S t m"
proof -
  obtain body where body: "encode_body S m = Inr body"
    and enc: "encode_message S m = Inr (write_u16 t @ body)"
    using messages.encode_total [of S m] assms(3) by (auto simp: encode_message_def)
  moreover have "write_u16 t = to_be_bytes t" by (simp add: write_int_def write_array_def)
  then have "take 2 (write_u16 t @ body) = to_be_bytes t" by (simp add: width_ints [symmetric])
  ultimately show ?thesis
    using messages.decode_encode [OF assms(1,2) enc] by (simp add: message_roundtrip_as_def)
qed

lemma message_tests:
  assumes ok: "crates_ok S"
  shows "message_init_roundtrip S" and "message_ping_roundtrip S" and "message_pong_roundtrip S"
    and "message_open_channel_roundtrip S" and "message_funding_created_roundtrip S"
    and "message_channel_update_roundtrip S" and "message_query_channel_range_roundtrip S"
    and "message_reply_channel_range_roundtrip S" and "message_unknown_odd_accepted S"
    and "message_unknown_even_rejected S" and "message_decode_truncated S"
proof -
  note laws = crates_okD [OF ok]
  note trip = message_roundtrip_asI [OF laws(3)]
  note wf = wf_message_def msg_type_def size_defs fits_u16_def opt_fits_u64_def
  have plain: "unwrap (encode_message S m) (\<lambda>encoded.
      unwrap (decode_message S encoded) (\<lambda>decoded. decoded = m))" if "wf_message m" for m
    using trip [OF that refl] by (auto simp: message_roundtrip_as_def unwrap_def split: sum.splits)
  show "message_init_roundtrip S" "message_ping_roundtrip S" "message_pong_roundtrip S"
    unfolding message_init_roundtrip_def message_ping_roundtrip_def message_pong_roundtrip_def Let_def
    by (rule plain; simp add: wf wf_init_def init_empty_def init_tlvs_default_def wf_init_tlvs_def
        wf_ping_def ping_new_def wf_pong_def pong_new_def)+
  obtain m where m: "sample_open_channel S None = Some m" "length (oc_chain_hash m) = 32"
    "wf_channel_id (oc_temporary_channel_id m)" "oc_tlvs m = open_channel_tlvs_default"
    using sample_open_channel_ok [OF ok, of None] by auto
  then show "message_open_channel_roundtrip S"
    by (simp add: message_open_channel_roundtrip_def)
      (rule trip, simp_all add: wf wf_open_channel_def open_channel_tlvs_default_def)
  obtain sk sk' where sk: "sk_from_slice S (replicate 32 0x11) = Some sk"
    "sk_from_slice S (replicate 32 0x42) = Some sk'"
    using laws(5) [of "0x11"] laws(5) [of "0x42"] by auto
  show "message_funding_created_roundtrip S"
    by (simp add: message_funding_created_roundtrip_def sk Let_def)
      (rule trip, simp_all add: wf wf_funding_created_def wf_channel_id_def)
  show "message_channel_update_roundtrip S"
    by (simp add: message_channel_update_roundtrip_def sk Let_def)
      (rule trip, simp_all add: wf wf_channel_update_def cu_new_signed_def Let_def)
  show "message_query_channel_range_roundtrip S" "message_reply_channel_range_roundtrip S"
    unfolding message_query_channel_range_roundtrip_def message_reply_channel_range_roundtrip_def
      Let_def
    by (rule trip; simp add: wf wf_query_channel_range_def wf_reply_channel_range_def
        reply_from_scids_def width_simps)+
  have unknown: "decode_message S (raw_message t p) = decode_body S t p" for t p
    by (simp add: decode_message_def raw_message_def read_write_simps)
  have "(99 :: u16) \<notin> set known_types" "(100 :: u16) \<notin> set known_types" by code_simp+
  then show "message_unknown_odd_accepted S" "message_unknown_even_rejected S"
    by (simp_all add: message_unknown_odd_accepted_def message_unknown_even_rejected_def unknown
        decode_body_unknown)
  show "message_decode_truncated S"
    by (simp add: message_decode_truncated_def decode_message_def read_int_def read_array_def)
qed

end
