(* ===== verification/Test_Theorems.thy ===== *)
theory Test_Theorems
  imports Message_Tests Instances
begin

text \<open>
  All unit tests of the crate \<open>bolt\<close> that say nothing about the strength of the cryptography
  hold of the model, for every crate \<open>secp256k1\<close> with the properties they rely on; and a small
  instance with these properties.
\<close>

section \<open>The tests of each file\<close>








section \<open>They hold\<close>








section \<open>An instance\<close>





section \<open>The property\<close>



end
