(* ===== verification/Noise_Vectors.thy ===== *)
theory Noise_Vectors
  imports Instances "HOL-Library.Code_Target_Nat"
begin

text \<open>
  The vectors of BOLT 8, Appendix A, on which the tests of the crate \<open>noise\<close> rest: what SHA-256,
  HKDF, ChaCha20-Poly1305 and the curve give at the points that a handshake with the fixed keys
  and the messages after it reach. \<open>bolt8_lib\<close> and \<open>bolt8_keys\<close> say that the crates give these
  values; they are hypotheses about third-party code, and an instance that looks them up in
  tables shows that they can be met together with the laws of \<open>External\<close>.
\<close>

section \<open>The values\<close>

text \<open>Public keys: static and ephemeral of the initiator and of the responder.\<close>

definition v_si_pub :: bytes where
  "v_si_pub =
     [0x03, 0x4f, 0x35, 0x5b, 0xdc, 0xb7, 0xcc, 0x0a, 0xf7, 0x28, 0xef, 0x3c, 0xce, 0xb9, 0x61, 0x5d,
      0x90, 0x68, 0x4b, 0xb5, 0xb2, 0xca, 0x5f, 0x85, 0x9a, 0xb0, 0xf0, 0xb7, 0x04, 0x07, 0x58, 0x71,
      0xaa]"
definition v_ei_pub :: bytes where
  "v_ei_pub =
     [0x03, 0x63, 0x60, 0xe8, 0x56, 0x31, 0x0c, 0xe5, 0xd2, 0x94, 0xe8, 0xbe, 0x33, 0xfc, 0x80, 0x70,
      0x77, 0xdc, 0x56, 0xac, 0x80, 0xd9, 0x5d, 0x9c, 0xd4, 0xdd, 0xbd, 0x21, 0x32, 0x5e, 0xff, 0x73,
      0xf7]"
definition v_sr_pub :: bytes where
  "v_sr_pub =
     [0x02, 0x8d, 0x75, 0x00, 0xdd, 0x4c, 0x12, 0x68, 0x5d, 0x1f, 0x56, 0x8b, 0x4c, 0x2b, 0x50, 0x48,
      0xe8, 0x53, 0x4b, 0x87, 0x33, 0x19, 0xf3, 0xa8, 0xda, 0xa6, 0x12, 0xb4, 0x69, 0x13, 0x2e, 0xc7,
      0xf7]"
definition v_er_pub :: bytes where
  "v_er_pub =
     [0x02, 0x46, 0x6d, 0x7f, 0xca, 0xe5, 0x63, 0xe5, 0xcb, 0x09, 0xa0, 0xd1, 0x87, 0x0b, 0xb5, 0x80,
      0x34, 0x48, 0x04, 0x61, 0x78, 0x79, 0xa1, 0x49, 0x49, 0xcf, 0x22, 0x28, 0x5f, 0x1b, 0xae, 0x3f,
      0x27]"

text \<open>Shared secrets of the three acts.\<close>

definition v_es :: bytes where
  "v_es =
     [0x1e, 0x2f, 0xb3, 0xc8, 0xfe, 0x8f, 0xb9, 0xf2, 0x62, 0xf6, 0x49, 0xf6, 0x4d, 0x26, 0xec, 0xf0,
      0xf2, 0xc0, 0xa8, 0x05, 0xa7, 0x67, 0xcf, 0x02, 0xdc, 0x2d, 0x77, 0xa6, 0xef, 0x1f, 0xdc, 0xc3]"
definition v_ee :: bytes where
  "v_ee =
     [0xc0, 0x63, 0x63, 0xd6, 0xcc, 0x54, 0x9b, 0xcb, 0x79, 0x13, 0xdb, 0xb9, 0xac, 0x1c, 0x33, 0xfc,
      0x11, 0x58, 0x68, 0x0c, 0x89, 0xe9, 0x72, 0x00, 0x0e, 0xcd, 0x06, 0xb3, 0x6c, 0x47, 0x2e, 0x47]"
definition v_se :: bytes where
  "v_se =
     [0xb3, 0x6b, 0x6d, 0x19, 0x59, 0x82, 0xc5, 0xbe, 0x87, 0x4d, 0x6d, 0x54, 0x2d, 0xc2, 0x68, 0x23,
      0x43, 0x79, 0xe1, 0xae, 0x4f, 0xf1, 0x70, 0x94, 0x02, 0x13, 0x5b, 0x7d, 0xe5, 0xcf, 0x07, 0x66]"

text \<open>The handshake hash, from the protocol name on.\<close>

definition v_h0 :: bytes where
  "v_h0 =
     [0x26, 0x40, 0xf5, 0x2e, 0xeb, 0xcd, 0x9e, 0x88, 0x29, 0x58, 0x95, 0x1c, 0x79, 0x42, 0x50, 0xee,
      0xdb, 0x28, 0x00, 0x2c, 0x05, 0xd7, 0xdc, 0x2e, 0xa0, 0xf1, 0x95, 0x40, 0x60, 0x42, 0xca, 0xf1]"
definition v_h1 :: bytes where
  "v_h1 =
     [0xd1, 0xfb, 0xf6, 0xde, 0xe4, 0xf6, 0x86, 0xf1, 0x32, 0xfd, 0x70, 0x2c, 0x4a, 0xbf, 0x8f, 0xba,
      0x4b, 0xb4, 0x20, 0xd8, 0x9d, 0x2a, 0x04, 0x8a, 0x3c, 0x4f, 0x4c, 0x09, 0x2e, 0x37, 0xb6, 0x76]"
definition v_h2 :: bytes where
  "v_h2 =
     [0x84, 0x01, 0xb3, 0xfd, 0xca, 0xaa, 0x71, 0x0b, 0x54, 0x05, 0x40, 0x05, 0x36, 0xa3, 0xd5, 0xfd,
      0x77, 0x92, 0xfe, 0x8e, 0x7f, 0xe2, 0x9c, 0xd8, 0xb6, 0x87, 0x21, 0x6f, 0xe3, 0x23, 0xec, 0xbd]"
definition v_h3 :: bytes where
  "v_h3 =
     [0x9e, 0x0e, 0x7d, 0xe8, 0xbb, 0x75, 0x55, 0x4f, 0x21, 0xdb, 0x03, 0x46, 0x33, 0xde, 0x04, 0xbe,
      0x41, 0xa2, 0xb8, 0xa1, 0x8d, 0xa7, 0xa3, 0x19, 0xa0, 0x3c, 0x80, 0x3b, 0xf0, 0x2b, 0x39, 0x6c]"
definition v_h4 :: bytes where
  "v_h4 =
     [0x9d, 0x1f, 0xfb, 0xb6, 0x39, 0xe7, 0xe2, 0x00, 0x21, 0xd9, 0x25, 0x94, 0x91, 0xdc, 0x7b, 0x16,
      0x0a, 0xab, 0x27, 0x0f, 0xb1, 0x33, 0x9e, 0xf1, 0x35, 0x05, 0x3f, 0x6f, 0x2c, 0xeb, 0xe9, 0xce]"
definition v_h5 :: bytes where
  "v_h5 =
     [0x38, 0x12, 0x2f, 0x66, 0x98, 0x19, 0xf9, 0x06, 0x00, 0x06, 0x21, 0xa1, 0x40, 0x71, 0x80, 0x2f,
      0x93, 0xf2, 0xef, 0x97, 0xdf, 0x10, 0x00, 0x97, 0xbc, 0xac, 0x3a, 0xe7, 0x6c, 0x6d, 0xc0, 0xbf]"
definition v_h6 :: bytes where
  "v_h6 =
     [0x90, 0x57, 0x8e, 0x24, 0x7e, 0x98, 0x67, 0x4e, 0x66, 0x10, 0x13, 0xda, 0x3c, 0x5c, 0x1c, 0xa6,
      0xa8, 0xc8, 0xf4, 0x8c, 0x90, 0xb4, 0x85, 0xc0, 0xdf, 0xa1, 0x49, 0x4e, 0x23, 0xd5, 0x6d, 0x72]"
definition v_h7 :: bytes where
  "v_h7 =
     [0x5d, 0xcb, 0x5e, 0xa9, 0xb4, 0xcc, 0xc7, 0x55, 0xe0, 0xe3, 0x45, 0x6a, 0xf3, 0x99, 0x06, 0x41,
      0x27, 0x6e, 0x1d, 0x5d, 0xc9, 0xaf, 0xd8, 0x2f, 0x97, 0x4d, 0x90, 0xa4, 0x7c, 0x91, 0x86, 0x60]"

text \<open>Chaining keys, temporary keys and the two transport keys, then two rotations.\<close>

definition v_ck1 :: bytes where
  "v_ck1 =
     [0xb6, 0x1e, 0xc1, 0x19, 0x13, 0x26, 0xfa, 0x24, 0x0d, 0xec, 0xc9, 0x56, 0x43, 0x69, 0xdb, 0xb3,
      0xae, 0x2b, 0x34, 0x34, 0x1d, 0x1e, 0x11, 0xad, 0x64, 0xed, 0x89, 0xf8, 0x91, 0x80, 0x58, 0x2f]"
definition v_temp_k1 :: bytes where
  "v_temp_k1 =
     [0xe6, 0x8f, 0x69, 0xb7, 0xf0, 0x96, 0xd7, 0x91, 0x72, 0x45, 0xf5, 0xe5, 0xcf, 0x8a, 0xe1, 0x59,
      0x5f, 0xeb, 0xe4, 0xd4, 0x64, 0x43, 0x33, 0xc9, 0x9f, 0x9c, 0x4a, 0x12, 0x82, 0x03, 0x1c, 0x9f]"
definition v_ck2 :: bytes where
  "v_ck2 =
     [0xe8, 0x9d, 0x31, 0x03, 0x3a, 0x1b, 0x6b, 0xf6, 0x8c, 0x07, 0xd2, 0x2e, 0x08, 0xea, 0x4d, 0x78,
      0x84, 0x64, 0x6c, 0x4b, 0x60, 0xa9, 0x52, 0x85, 0x98, 0xcc, 0xb4, 0xee, 0x2c, 0x8f, 0x56, 0xba]"
definition v_temp_k2 :: bytes where
  "v_temp_k2 =
     [0x90, 0x8b, 0x16, 0x65, 0x35, 0xc0, 0x1a, 0x93, 0x5c, 0xf1, 0xe1, 0x30, 0xa5, 0xfe, 0x89, 0x5a,
      0xb4, 0xe6, 0xf3, 0xef, 0x88, 0x55, 0xd8, 0x7e, 0x9b, 0x75, 0x81, 0xc4, 0xab, 0x66, 0x3d, 0xdc]"
definition v_ck3 :: bytes where
  "v_ck3 =
     [0x91, 0x92, 0x19, 0xdb, 0xb2, 0x92, 0x0a, 0xfa, 0x8d, 0xb8, 0x0f, 0x9a, 0x51, 0x78, 0x7a, 0x84,
      0x0b, 0xcf, 0x11, 0x1e, 0xd8, 0xd5, 0x88, 0xca, 0xf9, 0xab, 0x4b, 0xe7, 0x16, 0xe4, 0x2b, 0x01]"
definition v_temp_k3 :: bytes where
  "v_temp_k3 =
     [0x98, 0x1a, 0x46, 0xc8, 0x20, 0xfb, 0x7a, 0x24, 0x1b, 0xc8, 0x18, 0x4b, 0xa4, 0xbb, 0x1f, 0x01,
      0xbc, 0xdf, 0xaf, 0xb0, 0x0d, 0xde, 0x80, 0x09, 0x8c, 0xb8, 0xc3, 0x8d, 0xb9, 0x14, 0x15, 0x20]"
definition v_sk :: bytes where
  "v_sk =
     [0x96, 0x9a, 0xb3, 0x1b, 0x4d, 0x28, 0x8c, 0xed, 0xf6, 0x21, 0x88, 0x39, 0xb2, 0x7a, 0x3e, 0x21,
      0x40, 0x82, 0x70, 0x47, 0xf2, 0xc0, 0xf0, 0x1b, 0xf5, 0xc0, 0x44, 0x35, 0xd4, 0x35, 0x11, 0xa9]"
definition v_rk :: bytes where
  "v_rk =
     [0xbb, 0x90, 0x20, 0xb8, 0x96, 0x5f, 0x4d, 0xf0, 0x47, 0xe0, 0x7f, 0x95, 0x5f, 0x3c, 0x4b, 0x88,
      0x41, 0x89, 0x84, 0xaa, 0xdc, 0x5c, 0xdb, 0x35, 0x09, 0x6b, 0x9e, 0xa8, 0xfa, 0x5c, 0x34, 0x42]"
definition v_ck4 :: bytes where
  "v_ck4 =
     [0xcc, 0x2c, 0x6e, 0x46, 0x7e, 0xfc, 0x80, 0x67, 0x72, 0x0c, 0x2d, 0x09, 0xc1, 0x39, 0xd1, 0xf7,
      0x77, 0x31, 0x89, 0x3a, 0xad, 0x1d, 0xef, 0xa1, 0x4f, 0x9b, 0xf3, 0xc4, 0x8d, 0x3f, 0x1d, 0x31]"
definition v_sk1 :: bytes where
  "v_sk1 =
     [0x3f, 0xbd, 0xc1, 0x01, 0xab, 0xd1, 0x13, 0x2c, 0xa3, 0xa0, 0xae, 0x34, 0xa6, 0x69, 0xd8, 0xd9,
      0xba, 0x69, 0xa5, 0x87, 0xe0, 0xbb, 0x4d, 0xdd, 0x59, 0x52, 0x45, 0x41, 0xcf, 0x48, 0x13, 0xd8]"
definition v_ck5 :: bytes where
  "v_ck5 =
     [0x72, 0x83, 0x66, 0xed, 0x68, 0x56, 0x5d, 0xc1, 0x7c, 0xf6, 0xdd, 0x97, 0x33, 0x0a, 0x85, 0x9a,
      0x6a, 0x56, 0xe8, 0x7e, 0x2b, 0xee, 0xf3, 0xbd, 0x82, 0x8a, 0x4c, 0x4a, 0x54, 0xd8, 0xdf, 0x06]"
definition v_sk2 :: bytes where
  "v_sk2 =
     [0x9e, 0x04, 0x77, 0xf9, 0x85, 0x0d, 0xca, 0x41, 0xe4, 0x2d, 0xb0, 0xe4, 0xd1, 0x54, 0xe3, 0xa0,
      0x98, 0xe5, 0xa0, 0x00, 0xd9, 0x95, 0xe4, 0x21, 0x84, 0x9f, 0xcd, 0x5d, 0xf2, 0x78, 0x82, 0xbd]"

text \<open>Authentication tags of the acts, the encrypted static key, and those of an act that hides no key.\<close>

definition v_tag1 :: bytes where
  "v_tag1 =
     [0x0d, 0xf6, 0x08, 0x65, 0x51, 0x15, 0x1f, 0x58, 0xb8, 0xaf, 0xe6, 0xc1, 0x95, 0x78, 0x2c, 0x6a]"
definition v_tag2 :: bytes where
  "v_tag2 =
     [0x6e, 0x24, 0x70, 0xb9, 0x3a, 0xac, 0x58, 0x3c, 0x9e, 0xf6, 0xea, 0xfc, 0xa3, 0xf7, 0x30, 0xae]"
definition v_c3 :: bytes where
  "v_c3 =
     [0xb9, 0xe3, 0xa7, 0x02, 0xe9, 0x3e, 0x3a, 0x99, 0x48, 0xc2, 0xed, 0x6e, 0x5f, 0xd7, 0x59, 0x0a,
      0x6e, 0x1c, 0x3a, 0x03, 0x44, 0xcf, 0xc9, 0xd5, 0xb5, 0x73, 0x57, 0x04, 0x9a, 0xa2, 0x23, 0x55,
      0x36, 0x1a, 0xa0, 0x2e, 0x55, 0xa8, 0xfc, 0x28, 0xfe, 0xf5, 0xbd, 0x6d, 0x71, 0xad, 0x0c, 0x38,
      0x22]"
definition v_tag3 :: bytes where
  "v_tag3 =
     [0x8d, 0xc6, 0x8b, 0x1c, 0x46, 0x62, 0x63, 0xb4, 0x7f, 0xdf, 0x31, 0xe5, 0x60, 0xe1, 0x39, 0xba]"
definition v_bad_key :: bytes where
  "v_bad_key =
     [0x05, 0x4f, 0x35, 0x5b, 0xdc, 0xb7, 0xcc, 0x0a, 0xf7, 0x28, 0xef, 0x3c, 0xce, 0xb9, 0x61, 0x5d,
      0x90, 0x68, 0x4b, 0xb5, 0xb2, 0xca, 0x5f, 0x85, 0x9a, 0xb0, 0xf0, 0xb7, 0x04, 0x07, 0x58, 0x71,
      0xaa]"
definition v_bad_c3 :: bytes where
  "v_bad_c3 =
     [0xbf, 0xe3, 0xa7, 0x02, 0xe9, 0x3e, 0x3a, 0x99, 0x48, 0xc2, 0xed, 0x6e, 0x5f, 0xd7, 0x59, 0x0a,
      0x6e, 0x1c, 0x3a, 0x03, 0x44, 0xcf, 0xc9, 0xd5, 0xb5, 0x73, 0x57, 0x04, 0x9a, 0xa2, 0x23, 0x55,
      0x36, 0xad, 0x09, 0xa8, 0xee, 0x35, 0x18, 0x70, 0xc2, 0xbb, 0x7f, 0x78, 0xb7, 0x54, 0xa2, 0x6c,
      0x6c]"
definition v_bad_tag3 :: bytes where
  "v_bad_tag3 =
     [0xef, 0x79, 0xa9, 0x8d, 0x25, 0x13, 0x9c, 0x85, 0x6d, 0x7e, 0xfd, 0x25, 0x2c, 0x2a, 0xe7, 0x3c]"

text \<open>Nonces, and the packets of the message \<open>hello\<close>: header and body, with key and nonce.\<close>

definition v_n0 :: bytes where
  "v_n0 =
     [0x00, 0x00, 0x00, 0x00, 0x00, 0x00, 0x00, 0x00, 0x00, 0x00, 0x00, 0x00]"
definition v_n1 :: bytes where
  "v_n1 =
     [0x00, 0x00, 0x00, 0x00, 0x01, 0x00, 0x00, 0x00, 0x00, 0x00, 0x00, 0x00]"
definition v_n2 :: bytes where
  "v_n2 =
     [0x00, 0x00, 0x00, 0x00, 0x02, 0x00, 0x00, 0x00, 0x00, 0x00, 0x00, 0x00]"
definition v_n3 :: bytes where
  "v_n3 =
     [0x00, 0x00, 0x00, 0x00, 0x03, 0x00, 0x00, 0x00, 0x00, 0x00, 0x00, 0x00]"
definition v_hello :: bytes where
  "v_hello = ascii ''hello''"
definition v_hdr0 :: bytes where
  "v_hdr0 =
     [0xcf, 0x2b, 0x30, 0xdd, 0xf0, 0xcf, 0x3f, 0x80, 0xe7, 0xc3, 0x5a, 0x6e, 0x67, 0x30, 0xb5, 0x9f,
      0xe8, 0x02]"
definition v_msg0 :: bytes where
  "v_msg0 =
     [0x47, 0x31, 0x80, 0xf3, 0x96, 0xd8, 0x8a, 0x8f, 0xb0, 0xdb, 0x8c, 0xbc, 0xf2, 0x5d, 0x2f, 0x21,
      0x4c, 0xf9, 0xea, 0x1d, 0x95]"
definition v_hdr1 :: bytes where
  "v_hdr1 =
     [0x72, 0x88, 0x70, 0x22, 0x10, 0x1f, 0x0b, 0x67, 0x53, 0xe0, 0xc7, 0xde, 0x21, 0x65, 0x7d, 0x35,
      0xa4, 0xcb]"
definition v_msg1 :: bytes where
  "v_msg1 =
     [0x2a, 0x1f, 0x5c, 0xde, 0x26, 0x50, 0x52, 0x8b, 0xbc, 0x8f, 0x83, 0x7d, 0x0f, 0x0d, 0x7a, 0xd8,
      0x33, 0xb1, 0xa2, 0x56, 0xa1]"
definition v_hdr500 :: bytes where
  "v_hdr500 =
     [0x17, 0x8c, 0xb9, 0xd7, 0x38, 0x71, 0x90, 0xfa, 0x34, 0xdb, 0x9c, 0x2d, 0x50, 0x02, 0x7d, 0x21,
      0x79, 0x3c]"
definition v_msg500 :: bytes where
  "v_msg500 =
     [0x9b, 0xc2, 0xd4, 0x0b, 0x1e, 0x14, 0xdc, 0xf3, 0x0e, 0xbe, 0xee, 0xb2, 0x20, 0xf4, 0x83, 0x64,
      0xf7, 0xa4, 0xc6, 0x8b, 0xf8]"
definition v_hdr501 :: bytes where
  "v_hdr501 =
     [0x1b, 0x18, 0x6c, 0x57, 0xd4, 0x4e, 0xb6, 0xde, 0x4c, 0x05, 0x7c, 0x49, 0x94, 0x0d, 0x79, 0xbb,
      0x83, 0x8a]"
definition v_msg501 :: bytes where
  "v_msg501 =
     [0x14, 0x5c, 0xb5, 0x28, 0xd6, 0xe8, 0xfd, 0x26, 0xdb, 0xe5, 0x0a, 0x60, 0xca, 0x2c, 0x10, 0x4b,
      0x56, 0xb6, 0x0e, 0x45, 0xbd]"
definition v_hdr1000 :: bytes where
  "v_hdr1000 =
     [0x4a, 0x2f, 0x3c, 0xc3, 0xb5, 0xe7, 0x8d, 0xdb, 0x83, 0xdc, 0xb4, 0x26, 0xd9, 0x86, 0x3d, 0x9d,
      0x9a, 0x72]"
definition v_msg1000 :: bytes where
  "v_msg1000 =
     [0x3b, 0x03, 0x37, 0xc8, 0x9d, 0xd0, 0xb0, 0x05, 0xd8, 0x9f, 0x8d, 0x3c, 0x05, 0xc5, 0x2b, 0x76,
      0xb2, 0x9b, 0x74, 0x0f, 0x09]"
definition v_hdr1001 :: bytes where
  "v_hdr1001 =
     [0x2e, 0xcd, 0x8c, 0x8a, 0x56, 0x29, 0xd0, 0xd0, 0x2a, 0xb4, 0x57, 0xa0, 0xfd, 0xd0, 0xf7, 0xb9,
      0x0a, 0x19]"
definition v_msg1001 :: bytes where
  "v_msg1001 =
     [0x2c, 0xd4, 0x6b, 0xe5, 0xec, 0xb6, 0xca, 0x57, 0x0b, 0xfc, 0x5e, 0x26, 0x83, 0x38, 0xb1, 0xa1,
      0x6c, 0xf4, 0xef, 0x2d, 0x36]"

section \<open>The tables\<close>

text \<open>Input and digest.\<close>

definition sha256_vectors :: "(bytes \<times> bytes) list" where
  "sha256_vectors =
     [(ascii PROTOCOL_NAME, v_h0), (v_h0 @ ascii PROLOGUE, v_h1), (v_h1 @ v_sr_pub, v_h2),
      (v_h2 @ v_ei_pub, v_h3), (v_h3 @ v_tag1, v_h4), (v_h4 @ v_er_pub, v_h5),
      (v_h5 @ v_tag2, v_h6), (v_h6 @ v_c3, v_h7)]"

text \<open>Salt, input key material and the two halves of the output.\<close>

definition hkdf_vectors :: "((bytes \<times> bytes) \<times> bytes \<times> bytes) list" where
  "hkdf_vectors =
     [((v_h0, v_es), v_ck1, v_temp_k1), ((v_ck1, v_ee), v_ck2, v_temp_k2),
      ((v_ck2, v_se), v_ck3, v_temp_k3), ((v_ck3, []), v_sk, v_rk),
      ((v_ck3, v_sk), v_ck4, v_sk1), ((v_ck4, v_sk1), v_ck5, v_sk2)]"

text \<open>Key, nonce, associated data and plaintext, and the ciphertext with its tag.\<close>

definition aead_vectors :: "((bytes \<times> bytes \<times> bytes \<times> bytes) \<times> bytes) list" where
  "aead_vectors =
     [((v_temp_k1, v_n0, v_h3, []), v_tag1), ((v_temp_k2, v_n0, v_h5, []), v_tag2),
      ((v_temp_k2, v_n1, v_h6, v_si_pub), v_c3), ((v_temp_k2, v_n1, v_h6, v_bad_key), v_bad_c3),
      ((v_temp_k3, v_n0, v_h7, []), v_tag3),
      ((v_sk, v_n0, [], [0, 5]), v_hdr0), ((v_sk, v_n1, [], v_hello), v_msg0),
      ((v_sk, v_n2, [], [0, 5]), v_hdr1), ((v_sk, v_n3, [], v_hello), v_msg1),
      ((v_sk1, v_n0, [], [0, 5]), v_hdr500), ((v_sk1, v_n1, [], v_hello), v_msg500),
      ((v_sk1, v_n2, [], [0, 5]), v_hdr501), ((v_sk1, v_n3, [], v_hello), v_msg501),
      ((v_sk2, v_n0, [], [0, 5]), v_hdr1000), ((v_sk2, v_n1, [], v_hello), v_msg1000),
      ((v_sk2, v_n2, [], [0, 5]), v_hdr1001), ((v_sk2, v_n3, [], v_hello), v_msg1001)]"

text \<open>What must not decrypt: a byte of a tag or of a ciphertext changed, another nonce.\<close>

definition flip_first :: "bytes \<Rightarrow> u8 \<Rightarrow> bytes" where
  "flip_first c b = (hd c XOR b) # tl c"

definition flip_last :: "bytes \<Rightarrow> u8 \<Rightarrow> bytes" where
  "flip_last c b = butlast c @ [last c XOR b]"

definition aead_forged :: "(bytes \<times> bytes \<times> bytes \<times> bytes) list" where
  "aead_forged =
     [(v_temp_k1, v_n0, v_h3, flip_last v_tag1 1), (v_temp_k2, v_n0, v_h5, flip_last v_tag2 1),
      (v_temp_k2, v_n1, v_h6, flip_first v_c3 0x70), (v_temp_k3, v_n0, v_h7, flip_last v_tag3 1),
      (v_sk, v_n0, [], flip_first v_hdr0 1), (v_sk, v_n1, [], v_hdr0)]"

section \<open>What the crates give\<close>

definition bolt8_lib :: "noise_lib \<Rightarrow> bool" where
  "bolt8_lib N \<longleftrightarrow>
     noise_lawful N \<and>
     list_all (\<lambda>(m, d). sha256 N m = d) sha256_vectors \<and>
     list_all (\<lambda>((salt, ikm), a, b). hkdf_expand N salt ikm 64 = Some (a @ b)) hkdf_vectors \<and>
     list_all (\<lambda>((k, n, ad, p), c). aead_encrypt N k n ad p = Some c) aead_vectors \<and>
     list_all (\<lambda>(k, n, ad, c). aead_decrypt N k n ad c = None) aead_forged"

definition has_key :: "('pk, 'sk, 'sig) secp \<Rightarrow> u8 \<Rightarrow> 'sk \<Rightarrow> bytes \<Rightarrow> bool" where
  "has_key S b sk pub \<longleftrightarrow>
     sk_from_slice S (replicate 32 b) = Some sk \<and> pk_serialize S (pk_of_sk S sk) = pub"

text \<open>A compressed public key starts with 2 or 3.\<close>

definition bolt8_keys ::
    "('pk, 'sk, 'sig) secp \<Rightarrow> 'sk \<Rightarrow> 'sk \<Rightarrow> 'sk \<Rightarrow> 'sk \<Rightarrow> bool" where
  "bolt8_keys S si ei sr er \<longleftrightarrow>
     keys_lawful S \<and> ecdh_lawful S \<and>
     has_key S 0x11 si v_si_pub \<and> has_key S 0x12 ei v_ei_pub \<and>
     has_key S 0x21 sr v_sr_pub \<and> has_key S 0x22 er v_er_pub \<and>
     shared_secret S (pk_of_sk S sr) ei = v_es \<and> shared_secret S (pk_of_sk S er) ei = v_ee \<and>
     shared_secret S (pk_of_sk S er) si = v_se \<and>
     (\<forall>b rest. b \<noteq> 2 \<longrightarrow> b \<noteq> 3 \<longrightarrow> length rest = 32 \<longrightarrow> pk_from_slice S (b # rest) = None)"

section \<open>The values at the points of the protocol\<close>

lemma bolt8_libD:
  assumes "bolt8_lib N"
  shows "noise_lawful N"
    and "(m, d) \<in> set sha256_vectors \<Longrightarrow> sha256 N m = d"
    and "((salt, ikm), a, b) \<in> set hkdf_vectors \<Longrightarrow> hkdf_expand N salt ikm 64 = Some (a @ b)"
    and "((k, n, ad, p), c) \<in> set aead_vectors \<Longrightarrow> aead_encrypt N k n ad p = Some c"
    and "(k, n, ad, c) \<in> set aead_forged \<Longrightarrow> aead_decrypt N k n ad c = None"
  using assms by (auto simp: bolt8_lib_def list_all_iff)

lemma v_lengths:
  "length v_ck1 = 32" "length v_ck2 = 32" "length v_ck3 = 32" "length v_ck4 = 32"
  "length v_ck5 = 32" "length v_sk = 32" "length v_ei_pub = 33" "length v_er_pub = 33"
  "length v_tag1 = 16" "length v_tag2 = 16" "length v_tag3 = 16" "length v_c3 = 49"
  "length v_si_pub = 33" "length v_bad_key = 33" "length v_hello = 5"
  by code_simp+

lemma v_nonces:
  "encode_nonce 0 = v_n0" "encode_nonce 1 = v_n1" "encode_nonce 2 = v_n2" "encode_nonce 3 = v_n3"
  by code_simp+

lemma sha_values:
  assumes "bolt8_lib N"
  shows "sha256 N (ascii PROTOCOL_NAME) = v_h0" and "sha256 N (v_h0 @ ascii PROLOGUE) = v_h1"
    and "sha256 N (v_h1 @ v_sr_pub) = v_h2" and "sha256 N (v_h2 @ v_ei_pub) = v_h3"
    and "sha256 N (v_h3 @ v_tag1) = v_h4" and "sha256 N (v_h4 @ v_er_pub) = v_h5"
    and "sha256 N (v_h5 @ v_tag2) = v_h6" and "sha256 N (v_h6 @ v_c3) = v_h7"
  by (rule bolt8_libD(2) [OF assms], simp add: sha256_vectors_def)+

lemma hkdf_value:
  "bolt8_lib N \<Longrightarrow> ((salt, ikm), a, b) \<in> set hkdf_vectors \<Longrightarrow> length a = 32 \<Longrightarrow>
     hkdf_two_keys N salt ikm = Inr (a, b)"
  by (simp add: hkdf_two_keys_def bolt8_libD(3))

lemma hkdf_values:
  assumes "bolt8_lib N"
  shows "hkdf_two_keys N v_h0 v_es = Inr (v_ck1, v_temp_k1)"
    and "hkdf_two_keys N v_ck1 v_ee = Inr (v_ck2, v_temp_k2)"
    and "hkdf_two_keys N v_ck2 v_se = Inr (v_ck3, v_temp_k3)"
    and "hkdf_two_keys N v_ck3 [] = Inr (v_sk, v_rk)"
    and "hkdf_two_keys N v_ck3 v_sk = Inr (v_ck4, v_sk1)"
    and "hkdf_two_keys N v_ck4 v_sk1 = Inr (v_ck5, v_sk2)"
  by (rule hkdf_value [OF assms], simp add: hkdf_vectors_def, simp add: v_lengths)+

lemma aead_value:
  assumes "bolt8_lib N" and "encode_nonce n = nonce" and "((k, nonce, ad, p), c) \<in> set aead_vectors"
  shows "encrypt_with_ad N k n ad p = Inr c"
    and "length p \<le> 65535 \<Longrightarrow> decrypt_with_ad N k n ad c = Inr p"
proof -
  note e = bolt8_libD(4) [OF assms(1,3)]
  then show "encrypt_with_ad N k n ad p = Inr c" by (simp add: encrypt_with_ad_def assms(2))
  assume "length p \<le> 65535"
  then obtain c' where "encrypt_with_ad N k n ad p = Inr c'" and "decrypt_with_ad N k n ad c' = Inr p"
    by (rule encrypt_decrypt [OF bolt8_libD(1) [OF assms(1)]])
  with e show "decrypt_with_ad N k n ad c = Inr p" by (simp add: encrypt_with_ad_def assms(2))
qed

text \<open>
  A row of the table, found by its constants: at the acts of the handshake, and for the
  messages whose packets are listed.
\<close>

lemmas vector_row = aead_vectors_def aead_forged_def list.set insert_iff simp_thms

lemma aead_act_values:
  assumes "bolt8_lib N"
  shows "encrypt_with_ad N v_temp_k1 0 v_h3 [] = Inr v_tag1"
    and "encrypt_with_ad N v_temp_k2 0 v_h5 [] = Inr v_tag2"
    and "encrypt_with_ad N v_temp_k2 1 v_h6 v_si_pub = Inr v_c3"
    and "encrypt_with_ad N v_temp_k3 0 v_h7 [] = Inr v_tag3"
  by (rule aead_value(1) [OF assms], rule v_nonces, simp only: vector_row)+

lemma aead_act_opened:
  assumes "bolt8_lib N"
  shows "decrypt_with_ad N v_temp_k1 0 v_h3 v_tag1 = Inr []"
    and "decrypt_with_ad N v_temp_k2 0 v_h5 v_tag2 = Inr []"
    and "decrypt_with_ad N v_temp_k2 1 v_h6 v_c3 = Inr v_si_pub"
    and "decrypt_with_ad N v_temp_k2 1 v_h6 v_bad_c3 = Inr v_bad_key"
    and "decrypt_with_ad N v_temp_k3 0 v_h7 v_tag3 = Inr []"
  by (rule aead_value(2) [OF assms], rule v_nonces, simp only: vector_row, simp add: v_lengths)+

lemma aead_message_values:
  assumes "bolt8_lib N"
  shows "encrypt_with_ad N v_sk 0 [] [0, 5] = Inr v_hdr0"
    and "encrypt_with_ad N v_sk 1 [] v_hello = Inr v_msg0"
    and "encrypt_with_ad N v_sk 2 [] [0, 5] = Inr v_hdr1"
    and "encrypt_with_ad N v_sk 3 [] v_hello = Inr v_msg1"
    and "encrypt_with_ad N v_sk1 0 [] [0, 5] = Inr v_hdr500"
    and "encrypt_with_ad N v_sk1 1 [] v_hello = Inr v_msg500"
    and "encrypt_with_ad N v_sk1 2 [] [0, 5] = Inr v_hdr501"
    and "encrypt_with_ad N v_sk1 3 [] v_hello = Inr v_msg501"
    and "encrypt_with_ad N v_sk2 0 [] [0, 5] = Inr v_hdr1000"
    and "encrypt_with_ad N v_sk2 1 [] v_hello = Inr v_msg1000"
    and "encrypt_with_ad N v_sk2 2 [] [0, 5] = Inr v_hdr1001"
    and "encrypt_with_ad N v_sk2 3 [] v_hello = Inr v_msg1001"
  by (rule aead_value(1) [OF assms], rule v_nonces, simp only: vector_row)+

lemma aead_message_opened:
  assumes "bolt8_lib N"
  shows "decrypt_with_ad N v_sk 0 [] v_hdr0 = Inr [0, 5]"
    and "decrypt_with_ad N v_sk 1 [] v_msg0 = Inr v_hello"
    and "decrypt_with_ad N v_sk 2 [] v_hdr1 = Inr [0, 5]"
    and "decrypt_with_ad N v_sk 3 [] v_msg1 = Inr v_hello"
  by (rule aead_value(2) [OF assms], rule v_nonces, simp only: vector_row, simp add: v_lengths)+

lemma aead_forged_value:
  "bolt8_lib N \<Longrightarrow> encode_nonce n = nonce \<Longrightarrow> (k, nonce, ad, c) \<in> set aead_forged \<Longrightarrow>
     decrypt_with_ad N k n ad c = Inl DecryptionFailed"
  by (simp add: decrypt_with_ad_def bolt8_libD(5))

lemma aead_forged_values:
  assumes "bolt8_lib N"
  shows "decrypt_with_ad N v_temp_k1 0 v_h3 (flip_last v_tag1 1) = Inl DecryptionFailed"
    and "decrypt_with_ad N v_temp_k2 0 v_h5 (flip_last v_tag2 1) = Inl DecryptionFailed"
    and "decrypt_with_ad N v_temp_k2 1 v_h6 (flip_first v_c3 0x70) = Inl DecryptionFailed"
    and "decrypt_with_ad N v_temp_k3 0 v_h7 (flip_last v_tag3 1) = Inl DecryptionFailed"
    and "decrypt_with_ad N v_sk 0 [] (flip_first v_hdr0 1) = Inl DecryptionFailed"
    and "decrypt_with_ad N v_sk 1 [] v_hdr0 = Inl DecryptionFailed"
  by (rule aead_forged_value [OF assms], rule v_nonces, simp only: vector_row)+

section \<open>The handshake, act by act\<close>

text \<open>The five states it goes through.\<close>

definition run_i1 :: "('pk, 'sk, 'sig) secp \<Rightarrow> 'sk \<Rightarrow> 'sk \<Rightarrow> 'sk \<Rightarrow> ('pk, 'sk) noise_handshake" where
  "run_i1 S si ei sr =
     \<lparr>hs_role = Initiator, hs_state = InitiatorAwaitingActTwo, hs_ck = v_ck1, hs_h = v_h4,
      local_static = si, local_ephemeral = ei, remote_static = Some (pk_of_sk S sr),
      remote_ephemeral = None, temp_k2 = None\<rparr>"

definition run_i2 ::
    "('pk, 'sk, 'sig) secp \<Rightarrow> 'sk \<Rightarrow> 'sk \<Rightarrow> 'sk \<Rightarrow> 'sk \<Rightarrow> ('pk, 'sk) noise_handshake" where
  "run_i2 S si ei sr er =
     \<lparr>hs_role = Initiator, hs_state = Complete, hs_ck = v_ck3, hs_h = v_h7,
      local_static = si, local_ephemeral = ei, remote_static = Some (pk_of_sk S sr),
      remote_ephemeral = Some (pk_of_sk S er), temp_k2 = Some v_temp_k2\<rparr>"

definition run_r1 :: "('pk, 'sk, 'sig) secp \<Rightarrow> 'sk \<Rightarrow> 'sk \<Rightarrow> 'sk \<Rightarrow> ('pk, 'sk) noise_handshake" where
  "run_r1 S ei sr er =
     \<lparr>hs_role = Responder, hs_state = ResponderAwaitingActThree, hs_ck = v_ck2, hs_h = v_h6,
      local_static = sr, local_ephemeral = er, remote_static = None,
      remote_ephemeral = Some (pk_of_sk S ei), temp_k2 = Some v_temp_k2\<rparr>"

definition run_r2 ::
    "('pk, 'sk, 'sig) secp \<Rightarrow> 'sk \<Rightarrow> 'sk \<Rightarrow> 'sk \<Rightarrow> 'sk \<Rightarrow> ('pk, 'sk) noise_handshake" where
  "run_r2 S si ei sr er =
     \<lparr>hs_role = Responder, hs_state = Complete, hs_ck = v_ck3, hs_h = v_h7,
      local_static = sr, local_ephemeral = er, remote_static = Some (pk_of_sk S si),
      remote_ephemeral = Some (pk_of_sk S ei), temp_k2 = Some v_temp_k2\<rparr>"

lemma bolt8_keysD:
  assumes "bolt8_keys S si ei sr er"
  shows "pk_serialize S (pk_of_sk S si) = v_si_pub" and "pk_serialize S (pk_of_sk S ei) = v_ei_pub"
    and "pk_serialize S (pk_of_sk S sr) = v_sr_pub" and "pk_serialize S (pk_of_sk S er) = v_er_pub"
    and "pk_from_slice S v_si_pub = Some (pk_of_sk S si)"
    and "pk_from_slice S v_ei_pub = Some (pk_of_sk S ei)"
    and "pk_from_slice S v_sr_pub = Some (pk_of_sk S sr)"
    and "pk_from_slice S v_er_pub = Some (pk_of_sk S er)"
    and "sk_from_slice S (replicate 32 0x11) = Some si"
    and "sk_from_slice S (replicate 32 0x12) = Some ei"
    and "sk_from_slice S (replicate 32 0x21) = Some sr"
    and "sk_from_slice S (replicate 32 0x22) = Some er"
    and "keys_lawful S" and "ecdh_lawful S"
proof -
  note a = assms [unfolded bolt8_keys_def has_key_def]
  then show "keys_lawful S" "ecdh_lawful S" "sk_from_slice S (replicate 32 0x11) = Some si"
    "sk_from_slice S (replicate 32 0x12) = Some ei" "sk_from_slice S (replicate 32 0x21) = Some sr"
    "sk_from_slice S (replicate 32 0x22) = Some er" by blast+
  show p: "pk_serialize S (pk_of_sk S si) = v_si_pub" "pk_serialize S (pk_of_sk S ei) = v_ei_pub"
    "pk_serialize S (pk_of_sk S sr) = v_sr_pub" "pk_serialize S (pk_of_sk S er) = v_er_pub"
    using a by blast+
  show "pk_from_slice S v_si_pub = Some (pk_of_sk S si)"
    "pk_from_slice S v_ei_pub = Some (pk_of_sk S ei)"
    "pk_from_slice S v_sr_pub = Some (pk_of_sk S sr)"
    "pk_from_slice S v_er_pub = Some (pk_of_sk S er)"
    unfolding p [symmetric] by (rule pk_laws(2), use a in blast)+
qed

lemma no_key:
  "bolt8_keys S si ei sr er \<Longrightarrow> b \<noteq> 2 \<Longrightarrow> b \<noteq> 3 \<Longrightarrow> length rest = 32 \<Longrightarrow>
     pk_from_slice S (b # rest) = None"
  by (simp add: bolt8_keys_def)

lemma shared_values:
  assumes "bolt8_keys S si ei sr er"
  shows "ecdh S ei (pk_of_sk S sr) = v_es" and "ecdh S sr (pk_of_sk S ei) = v_es"
    and "ecdh S ei (pk_of_sk S er) = v_ee" and "ecdh S er (pk_of_sk S ei) = v_ee"
    and "ecdh S si (pk_of_sk S er) = v_se" and "ecdh S er (pk_of_sk S si) = v_se"
  using assms ecdh_law [of S] by (auto simp: bolt8_keys_def ecdh_def)

lemmas run_defs = run_i1_def run_i2_def run_r1_def run_r2_def new_initiator_def new_responder_def
  initialize_state_def mix_hash_def copy_from_slice_def VERSION_def

lemma run_act_one:
  assumes "bolt8_lib N" and "bolt8_keys S si ei sr er"
  shows "get_act_one S N (new_initiator S N si ei (pk_of_sk S sr)) =
      Inr (Inr (0 # v_ei_pub @ v_tag1), run_i1 S si ei sr)"
  by (simp add: get_act_one_def run_defs Let_def sha_values [OF assms(1)] hkdf_values [OF assms(1)]
      aead_act_values [OF assms(1)] aead_act_opened [OF assms(1)] bolt8_keysD [OF assms(2)] shared_values [OF assms(2)] v_lengths)

lemma run_process_one:
  assumes "bolt8_lib N" and "bolt8_keys S si ei sr er"
  shows "process_act_one S N (new_responder S N sr er) (0 # v_ei_pub @ v_tag1) =
      Inr (Inr (0 # v_er_pub @ v_tag2), run_r1 S ei sr er)"
  by (simp add: process_act_one_def build_act_two_def run_defs Let_def sha_values [OF assms(1)]
      hkdf_values [OF assms(1)] aead_act_values [OF assms(1)] aead_act_opened [OF assms(1)] bolt8_keysD [OF assms(2)]
      shared_values [OF assms(2)] v_lengths)

lemma run_process_two:
  assumes "bolt8_lib N" and "bolt8_keys S si ei sr er"
  shows "process_act_two S N (run_i1 S si ei sr) (0 # v_er_pub @ v_tag2) =
      Inr (Inr (0 # v_c3 @ v_tag3), run_i2 S si ei sr er)"
  by (simp add: process_act_two_def build_act_three_def run_defs Let_def sha_values [OF assms(1)]
      hkdf_values [OF assms(1)] aead_act_values [OF assms(1)] aead_act_opened [OF assms(1)] bolt8_keysD [OF assms(2)]
      shared_values [OF assms(2)] v_lengths)

lemma run_process_three:
  assumes "bolt8_lib N" and "bolt8_keys S si ei sr er"
  shows "process_act_three S N (run_r1 S ei sr er) (0 # v_c3 @ v_tag3) =
      Inr (Inr (pk_of_sk S si), run_r2 S si ei sr er)"
  by (simp add: process_act_three_def run_defs Let_def sha_values [OF assms(1)]
      hkdf_values [OF assms(1)] aead_act_values [OF assms(1)] aead_act_opened [OF assms(1)] bolt8_keysD [OF assms(2)]
      shared_values [OF assms(2)] v_lengths)

lemma run_final_keys:
  assumes "bolt8_lib N"
  shows "get_final_keys N (run_i2 S si ei sr er) = Inr (Inr (v_sk, v_rk))"
    and "get_final_keys N (run_r2 S si ei sr er) = Inr (Inr (v_rk, v_sk))"
    and "into_cipher N (run_i2 S si ei sr er) = Inr (Inr (cipher_new v_sk v_rk v_ck3))"
    and "into_cipher N (run_r2 S si ei sr er) = Inr (Inr (cipher_new v_rk v_sk v_ck3))"
  by (simp_all add: into_cipher_def get_final_keys_def run_i2_def run_r2_def hkdf_values [OF assms])

end
