(* ===== verification/Noise_Tests.thy ===== *)
theory Noise_Tests
  imports Unit_Test Noise_Vectors
begin

text \<open>
  The unit tests of \<open>noise/src/tests.rs\<close> and \<open>noise/src/cipher.rs\<close>, with the crates as parameters:
  the vectors of BOLT 8 for the two sides of the handshake and for the messages with their key
  rotations, and the run of both sides against each other. That they hold of crates that give
  the values of \<open>Noise_Vectors\<close> is proved in \<open>Noise_Test_Theorems\<close>.
\<close>

section \<open>Helpers\<close>

text \<open>\<open>s.strip_prefix("0x").unwrap_or(s)\<close>; the helpers fail the test where they panic.\<close>

definition strip_0x :: "string \<Rightarrow> string" where
  "strip_0x s = (if take 2 s = ''0x'' then drop 2 s else s)"

definition hex_to_array :: "hex_lib \<Rightarrow> nat \<Rightarrow> string \<Rightarrow> (bytes \<Rightarrow> bool) \<Rightarrow> bool" where
  "hex_to_array H n s test =
     unwrap_option (hex_decode H (strip_0x s)) (\<lambda>bytes. length bytes = n \<and> test bytes)"

definition hex_to_vec :: "hex_lib \<Rightarrow> string \<Rightarrow> (bytes \<Rightarrow> bool) \<Rightarrow> bool" where
  "hex_to_vec H s test = unwrap_option (hex_decode H (strip_0x s)) test"

definition secret_key ::
    "('pk, 'sk, 'sig) secp \<Rightarrow> hex_lib \<Rightarrow> string \<Rightarrow> ('sk \<Rightarrow> bool) \<Rightarrow> bool" where
  "secret_key S H hex test =
     hex_to_vec H hex (\<lambda>bytes. unwrap_option (sk_from_slice S bytes) test)"

definition public_key ::
    "('pk, 'sk, 'sig) secp \<Rightarrow> hex_lib \<Rightarrow> string \<Rightarrow> ('pk \<Rightarrow> bool) \<Rightarrow> bool" where
  "public_key S H hex test =
     hex_to_vec H hex (\<lambda>bytes. unwrap_option (pk_from_slice S bytes) test)"

text \<open>A key of 32 bytes from its digits: \<open>key.copy_from_slice(&hex::decode(s).unwrap())\<close>.\<close>

definition decode_key :: "hex_lib \<Rightarrow> string \<Rightarrow> (bytes \<Rightarrow> bool) \<Rightarrow> bool" where
  "decode_key H s test = unwrap_option (hex_decode H s) (\<lambda>bytes. length bytes = 32 \<and> test bytes)"

text \<open>\<open>for _ in a..b { let _ = cipher.encrypt(p); }\<close> with \<open>n = b - a\<close> rounds.\<close>

fun encrypt_rounds :: "noise_lib \<Rightarrow> nat \<Rightarrow> noise_cipher \<Rightarrow> bytes \<Rightarrow> panic + noise_cipher" where
  "encrypt_rounds N 0 cipher p = Inr cipher"
| "encrypt_rounds N (Suc n) cipher p =
     and_then (cipher_encrypt N cipher p) (\<lambda>(_, cipher). encrypt_rounds N n cipher p)"

section \<open>The initiator\<close>

definition initiator_successful_handshake :: "('pk, 'sk, 'sig) secp \<Rightarrow> noise_lib \<Rightarrow> hex_lib \<Rightarrow> bool" where
  "initiator_successful_handshake S N H \<longleftrightarrow>
     public_key S H ''028d7500dd4c12685d1f568b4c2b5048e8534b873319f3a8daa612b469132ec7f7'' (\<lambda>rs_pub.
     secret_key S H ''1111111111111111111111111111111111111111111111111111111111111111'' (\<lambda>ls_priv.
     secret_key S H ''1212121212121212121212121212121212121212121212121212121212121212'' (\<lambda>e_priv.
     let initiator = new_initiator S N ls_priv e_priv rs_pub in
     expect_call (get_act_one S N initiator) (\<lambda>act_one initiator.
     hex_to_vec H ''00036360e856310ce5d294e8be33fc807077dc56ac80d95d9cd4ddbd21325eff73f70df6086551151f58b8afe6c195782c6a'' (\<lambda>expected_act_one.
     act_one = expected_act_one \<and>
     hex_to_array H ACT_TWO_SIZE ''0002466d7fcae563e5cb09a0d1870bb580344804617879a14949cf22285f1bae3f276e2470b93aac583c9ef6eafca3f730ae'' (\<lambda>act_two.
     expect_call (process_act_two S N initiator act_two) (\<lambda>act_three initiator.
     hex_to_vec H ''00b9e3a702e93e3a9948c2ed6e5fd7590a6e1c3a0344cfc9d5b57357049aa22355361aa02e55a8fc28fef5bd6d71ad0c38228dc68b1c466263b47fdf31e560e139ba'' (\<lambda>expected_act_three.
     act_three = expected_act_three \<and>
     unwrap (get_final_keys N initiator) (\<lambda>keys. unwrap keys (\<lambda>(send_key, recv_key).
     hex_to_vec H ''969ab31b4d288cedf6218839b27a3e2140827047f2c0f01bf5c04435d43511a9'' (\<lambda>expected_send.
     hex_to_vec H ''bb9020b8965f4df047e07f955f3c4b88418984aadc5cdb35096b9ea8fa5c3442'' (\<lambda>expected_recv.
     send_key = expected_send \<and> recv_key = expected_recv))))))))))))"

definition initiator_act2_bad_version :: "('pk, 'sk, 'sig) secp \<Rightarrow> noise_lib \<Rightarrow> hex_lib \<Rightarrow> bool" where
  "initiator_act2_bad_version S N H \<longleftrightarrow>
     public_key S H ''028d7500dd4c12685d1f568b4c2b5048e8534b873319f3a8daa612b469132ec7f7'' (\<lambda>rs_pub.
     secret_key S H ''1111111111111111111111111111111111111111111111111111111111111111'' (\<lambda>ls_priv.
     secret_key S H ''1212121212121212121212121212121212121212121212121212121212121212'' (\<lambda>e_priv.
     let initiator = new_initiator S N ls_priv e_priv rs_pub in
     expect_call (get_act_one S N initiator) (\<lambda>_ initiator.
     hex_to_array H ACT_TWO_SIZE ''0102466d7fcae563e5cb09a0d1870bb580344804617879a14949cf22285f1bae3f276e2470b93aac583c9ef6eafca3f730ae'' (\<lambda>act_two.
     expect_err_call (process_act_two S N initiator act_two) (\<lambda>err _.
     noise_error_str err = ''ACT2_BAD_VERSION 1''))))))"

definition initiator_act2_bad_pubkey :: "('pk, 'sk, 'sig) secp \<Rightarrow> noise_lib \<Rightarrow> hex_lib \<Rightarrow> bool" where
  "initiator_act2_bad_pubkey S N H \<longleftrightarrow>
     public_key S H ''028d7500dd4c12685d1f568b4c2b5048e8534b873319f3a8daa612b469132ec7f7'' (\<lambda>rs_pub.
     secret_key S H ''1111111111111111111111111111111111111111111111111111111111111111'' (\<lambda>ls_priv.
     secret_key S H ''1212121212121212121212121212121212121212121212121212121212121212'' (\<lambda>e_priv.
     let initiator = new_initiator S N ls_priv e_priv rs_pub in
     expect_call (get_act_one S N initiator) (\<lambda>_ initiator.
     hex_to_array H ACT_TWO_SIZE ''0004466d7fcae563e5cb09a0d1870bb580344804617879a14949cf22285f1bae3f276e2470b93aac583c9ef6eafca3f730ae'' (\<lambda>act_two.
     expect_err_call (process_act_two S N initiator act_two) (\<lambda>err _.
     noise_error_str err = ''ACT2_BAD_PUBKEY''))))))"

definition initiator_act2_bad_mac :: "('pk, 'sk, 'sig) secp \<Rightarrow> noise_lib \<Rightarrow> hex_lib \<Rightarrow> bool" where
  "initiator_act2_bad_mac S N H \<longleftrightarrow>
     public_key S H ''028d7500dd4c12685d1f568b4c2b5048e8534b873319f3a8daa612b469132ec7f7'' (\<lambda>rs_pub.
     secret_key S H ''1111111111111111111111111111111111111111111111111111111111111111'' (\<lambda>ls_priv.
     secret_key S H ''1212121212121212121212121212121212121212121212121212121212121212'' (\<lambda>e_priv.
     let initiator = new_initiator S N ls_priv e_priv rs_pub in
     expect_call (get_act_one S N initiator) (\<lambda>_ initiator.
     hex_to_array H ACT_TWO_SIZE ''0002466d7fcae563e5cb09a0d1870bb580344804617879a14949cf22285f1bae3f276e2470b93aac583c9ef6eafca3f730af'' (\<lambda>act_two.
     expect_err_call (process_act_two S N initiator act_two) (\<lambda>err _.
     noise_error_str err = ''ACT2_BAD_TAG''))))))"

section \<open>The responder\<close>

definition responder_successful_handshake :: "('pk, 'sk, 'sig) secp \<Rightarrow> noise_lib \<Rightarrow> hex_lib \<Rightarrow> bool" where
  "responder_successful_handshake S N H \<longleftrightarrow>
     secret_key S H ''2121212121212121212121212121212121212121212121212121212121212121'' (\<lambda>ls_priv.
     secret_key S H ''2222222222222222222222222222222222222222222222222222222222222222'' (\<lambda>e_priv.
     let responder = new_responder S N ls_priv e_priv in
     hex_to_array H ACT_ONE_SIZE ''00036360e856310ce5d294e8be33fc807077dc56ac80d95d9cd4ddbd21325eff73f70df6086551151f58b8afe6c195782c6a'' (\<lambda>act_one.
     expect_call (process_act_one S N responder act_one) (\<lambda>act_two responder.
     hex_to_vec H ''0002466d7fcae563e5cb09a0d1870bb580344804617879a14949cf22285f1bae3f276e2470b93aac583c9ef6eafca3f730ae'' (\<lambda>expected_act_two.
     act_two = expected_act_two \<and>
     hex_to_array H ACT_THREE_SIZE ''00b9e3a702e93e3a9948c2ed6e5fd7590a6e1c3a0344cfc9d5b57357049aa22355361aa02e55a8fc28fef5bd6d71ad0c38228dc68b1c466263b47fdf31e560e139ba'' (\<lambda>act_three.
     expect_call (process_act_three S N responder act_three) (\<lambda>remote_static responder.
     public_key S H ''034f355bdcb7cc0af728ef3cceb9615d90684bb5b2ca5f859ab0f0b704075871aa'' (\<lambda>expected_remote.
     remote_static = expected_remote \<and>
     unwrap (get_final_keys N responder) (\<lambda>keys. unwrap keys (\<lambda>(send_key, recv_key).
     hex_to_vec H ''969ab31b4d288cedf6218839b27a3e2140827047f2c0f01bf5c04435d43511a9'' (\<lambda>expected_recv.
     hex_to_vec H ''bb9020b8965f4df047e07f955f3c4b88418984aadc5cdb35096b9ea8fa5c3442'' (\<lambda>expected_send.
     send_key = expected_send \<and> recv_key = expected_recv))))))))))))"

definition responder_act1_bad_version :: "('pk, 'sk, 'sig) secp \<Rightarrow> noise_lib \<Rightarrow> hex_lib \<Rightarrow> bool" where
  "responder_act1_bad_version S N H \<longleftrightarrow>
     secret_key S H ''2121212121212121212121212121212121212121212121212121212121212121'' (\<lambda>ls_priv.
     secret_key S H ''2222222222222222222222222222222222222222222222222222222222222222'' (\<lambda>e_priv.
     let responder = new_responder S N ls_priv e_priv in
     hex_to_array H ACT_ONE_SIZE ''01036360e856310ce5d294e8be33fc807077dc56ac80d95d9cd4ddbd21325eff73f70df6086551151f58b8afe6c195782c6a'' (\<lambda>act_one.
     expect_err_call (process_act_one S N responder act_one) (\<lambda>err _.
     noise_error_str err = ''ACT1_BAD_VERSION 1''))))"

definition responder_act1_bad_pubkey :: "('pk, 'sk, 'sig) secp \<Rightarrow> noise_lib \<Rightarrow> hex_lib \<Rightarrow> bool" where
  "responder_act1_bad_pubkey S N H \<longleftrightarrow>
     secret_key S H ''2121212121212121212121212121212121212121212121212121212121212121'' (\<lambda>ls_priv.
     secret_key S H ''2222222222222222222222222222222222222222222222222222222222222222'' (\<lambda>e_priv.
     let responder = new_responder S N ls_priv e_priv in
     hex_to_array H ACT_ONE_SIZE ''00046360e856310ce5d294e8be33fc807077dc56ac80d95d9cd4ddbd21325eff73f70df6086551151f58b8afe6c195782c6a'' (\<lambda>act_one.
     expect_err_call (process_act_one S N responder act_one) (\<lambda>err _.
     noise_error_str err = ''ACT1_BAD_PUBKEY''))))"

definition responder_act1_bad_mac :: "('pk, 'sk, 'sig) secp \<Rightarrow> noise_lib \<Rightarrow> hex_lib \<Rightarrow> bool" where
  "responder_act1_bad_mac S N H \<longleftrightarrow>
     secret_key S H ''2121212121212121212121212121212121212121212121212121212121212121'' (\<lambda>ls_priv.
     secret_key S H ''2222222222222222222222222222222222222222222222222222222222222222'' (\<lambda>e_priv.
     let responder = new_responder S N ls_priv e_priv in
     hex_to_array H ACT_ONE_SIZE ''00036360e856310ce5d294e8be33fc807077dc56ac80d95d9cd4ddbd21325eff73f70df6086551151f58b8afe6c195782c6b'' (\<lambda>act_one.
     expect_err_call (process_act_one S N responder act_one) (\<lambda>err _.
     noise_error_str err = ''ACT1_BAD_TAG''))))"

definition responder_act3_bad_version :: "('pk, 'sk, 'sig) secp \<Rightarrow> noise_lib \<Rightarrow> hex_lib \<Rightarrow> bool" where
  "responder_act3_bad_version S N H \<longleftrightarrow>
     secret_key S H ''2121212121212121212121212121212121212121212121212121212121212121'' (\<lambda>ls_priv.
     secret_key S H ''2222222222222222222222222222222222222222222222222222222222222222'' (\<lambda>e_priv.
     let responder = new_responder S N ls_priv e_priv in
     hex_to_array H ACT_ONE_SIZE ''00036360e856310ce5d294e8be33fc807077dc56ac80d95d9cd4ddbd21325eff73f70df6086551151f58b8afe6c195782c6a'' (\<lambda>act_one.
     expect_call (process_act_one S N responder act_one) (\<lambda>_ responder.
     hex_to_array H ACT_THREE_SIZE ''01b9e3a702e93e3a9948c2ed6e5fd7590a6e1c3a0344cfc9d5b57357049aa22355361aa02e55a8fc28fef5bd6d71ad0c38228dc68b1c466263b47fdf31e560e139ba'' (\<lambda>act_three.
     expect_err_call (process_act_three S N responder act_three) (\<lambda>err _.
     noise_error_str err = ''ACT3_BAD_VERSION 1''))))))"

definition responder_act3_bad_ciphertext :: "('pk, 'sk, 'sig) secp \<Rightarrow> noise_lib \<Rightarrow> hex_lib \<Rightarrow> bool" where
  "responder_act3_bad_ciphertext S N H \<longleftrightarrow>
     secret_key S H ''2121212121212121212121212121212121212121212121212121212121212121'' (\<lambda>ls_priv.
     secret_key S H ''2222222222222222222222222222222222222222222222222222222222222222'' (\<lambda>e_priv.
     let responder = new_responder S N ls_priv e_priv in
     hex_to_array H ACT_ONE_SIZE ''00036360e856310ce5d294e8be33fc807077dc56ac80d95d9cd4ddbd21325eff73f70df6086551151f58b8afe6c195782c6a'' (\<lambda>act_one.
     expect_call (process_act_one S N responder act_one) (\<lambda>_ responder.
     hex_to_array H ACT_THREE_SIZE ''00c9e3a702e93e3a9948c2ed6e5fd7590a6e1c3a0344cfc9d5b57357049aa22355361aa02e55a8fc28fef5bd6d71ad0c38228dc68b1c466263b47fdf31e560e139ba'' (\<lambda>act_three.
     expect_err_call (process_act_three S N responder act_three) (\<lambda>err _.
     noise_error_str err = ''ACT3_BAD_CIPHERTEXT''))))))"

definition responder_act3_bad_pubkey :: "('pk, 'sk, 'sig) secp \<Rightarrow> noise_lib \<Rightarrow> hex_lib \<Rightarrow> bool" where
  "responder_act3_bad_pubkey S N H \<longleftrightarrow>
     secret_key S H ''2121212121212121212121212121212121212121212121212121212121212121'' (\<lambda>ls_priv.
     secret_key S H ''2222222222222222222222222222222222222222222222222222222222222222'' (\<lambda>e_priv.
     let responder = new_responder S N ls_priv e_priv in
     hex_to_array H ACT_ONE_SIZE ''00036360e856310ce5d294e8be33fc807077dc56ac80d95d9cd4ddbd21325eff73f70df6086551151f58b8afe6c195782c6a'' (\<lambda>act_one.
     expect_call (process_act_one S N responder act_one) (\<lambda>_ responder.
     hex_to_array H ACT_THREE_SIZE ''00bfe3a702e93e3a9948c2ed6e5fd7590a6e1c3a0344cfc9d5b57357049aa2235536ad09a8ee351870c2bb7f78b754a26c6cef79a98d25139c856d7efd252c2ae73c'' (\<lambda>act_three.
     expect_err_call (process_act_three S N responder act_three) (\<lambda>err _.
     noise_error_str err = ''ACT3_BAD_PUBKEY''))))))"

definition responder_act3_bad_mac :: "('pk, 'sk, 'sig) secp \<Rightarrow> noise_lib \<Rightarrow> hex_lib \<Rightarrow> bool" where
  "responder_act3_bad_mac S N H \<longleftrightarrow>
     secret_key S H ''2121212121212121212121212121212121212121212121212121212121212121'' (\<lambda>ls_priv.
     secret_key S H ''2222222222222222222222222222222222222222222222222222222222222222'' (\<lambda>e_priv.
     let responder = new_responder S N ls_priv e_priv in
     hex_to_array H ACT_ONE_SIZE ''00036360e856310ce5d294e8be33fc807077dc56ac80d95d9cd4ddbd21325eff73f70df6086551151f58b8afe6c195782c6a'' (\<lambda>act_one.
     expect_call (process_act_one S N responder act_one) (\<lambda>_ responder.
     hex_to_array H ACT_THREE_SIZE ''00b9e3a702e93e3a9948c2ed6e5fd7590a6e1c3a0344cfc9d5b57357049aa22355361aa02e55a8fc28fef5bd6d71ad0c38228dc68b1c466263b47fdf31e560e139bb'' (\<lambda>act_three.
     expect_err_call (process_act_three S N responder act_three) (\<lambda>err _.
     noise_error_str err = ''ACT3_BAD_TAG''))))))"

section \<open>Messages\<close>

definition message_encryption :: "noise_lib \<Rightarrow> hex_lib \<Rightarrow> bool" where
  "message_encryption N H \<longleftrightarrow>
     hex_to_array H 32 ''919219dbb2920afa8db80f9a51787a840bcf111ed8d588caf9ab4be716e42b01'' (\<lambda>ck.
     hex_to_array H 32 ''969ab31b4d288cedf6218839b27a3e2140827047f2c0f01bf5c04435d43511a9'' (\<lambda>sk.
     hex_to_array H 32 ''bb9020b8965f4df047e07f955f3c4b88418984aadc5cdb35096b9ea8fa5c3442'' (\<lambda>rk.
     let cipher = cipher_new sk rk ck; hello = ascii ''hello'' in
     unwrap (cipher_encrypt N cipher hello) (\<lambda>(encrypted, cipher).
     hex_to_vec H ''cf2b30ddf0cf3f80e7c35a6e6730b59fe802473180f396d88a8fb0db8cbcf25d2f214cf9ea1d95'' (\<lambda>expected_0.
     encrypted = expected_0 \<and>
     unwrap (cipher_encrypt N cipher hello) (\<lambda>(encrypted, cipher).
     hex_to_vec H ''72887022101f0b6753e0c7de21657d35a4cb2a1f5cde2650528bbc8f837d0f0d7ad833b1a256a1'' (\<lambda>expected_1.
     encrypted = expected_1 \<and>
     unwrap (encrypt_rounds N (500 - 2) cipher hello) (\<lambda>cipher.
     unwrap (cipher_encrypt N cipher hello) (\<lambda>(encrypted, cipher).
     hex_to_vec H ''178cb9d7387190fa34db9c2d50027d21793c9bc2d40b1e14dcf30ebeeeb220f48364f7a4c68bf8'' (\<lambda>expected_500.
     encrypted = expected_500 \<and>
     unwrap (cipher_encrypt N cipher hello) (\<lambda>(encrypted, cipher).
     hex_to_vec H ''1b186c57d44eb6de4c057c49940d79bb838a145cb528d6e8fd26dbe50a60ca2c104b56b60e45bd'' (\<lambda>expected_501.
     encrypted = expected_501 \<and>
     unwrap (encrypt_rounds N (1000 - 502) cipher hello) (\<lambda>cipher.
     unwrap (cipher_encrypt N cipher hello) (\<lambda>(encrypted, cipher).
     hex_to_vec H ''4a2f3cc3b5e78ddb83dcb426d9863d9d9a723b0337c89dd0b005d89f8d3c05c52b76b29b740f09'' (\<lambda>expected_1000.
     encrypted = expected_1000 \<and>
     unwrap (cipher_encrypt N cipher hello) (\<lambda>(encrypted, cipher).
     hex_to_vec H ''2ecd8c8a5629d0d02ab457a0fdd0f7b90a192cd46be5ecb6ca570bfc5e268338b1a16cf4ef2d36'' (\<lambda>expected_1001.
     encrypted = expected_1001)))))))))))))))))"

section \<open>Both sides against each other\<close>

text \<open>One message through the ciphers, as the test cuts it: length, then body.\<close>

definition message_passes ::
    "noise_lib \<Rightarrow> noise_cipher \<Rightarrow> noise_cipher \<Rightarrow> bytes \<Rightarrow>
     (noise_cipher \<Rightarrow> noise_cipher \<Rightarrow> bool) \<Rightarrow> bool" where
  "message_passes N sender receiver msg test \<longleftrightarrow>
     unwrap (cipher_encrypt N sender msg) (\<lambda>(encrypted, sender).
     ENCRYPTED_LENGTH_SIZE \<le> length encrypted \<and>
     expect_call (cipher_decrypt_length N receiver (take ENCRYPTED_LENGTH_SIZE encrypted))
       (\<lambda>len receiver.
     length msg < 2 ^ 16 \<and> len = word_of_nat (length msg) \<and>
     expect_call (cipher_decrypt_message N receiver (drop ENCRYPTED_LENGTH_SIZE encrypted))
       (\<lambda>decrypted receiver.
     decrypted = msg \<and> test sender receiver)))"

definition full_handshake_both_sides :: "('pk, 'sk, 'sig) secp \<Rightarrow> noise_lib \<Rightarrow> hex_lib \<Rightarrow> bool" where
  "full_handshake_both_sides S N H \<longleftrightarrow>
     secret_key S H ''1111111111111111111111111111111111111111111111111111111111111111'' (\<lambda>initiator_static.
     secret_key S H ''1212121212121212121212121212121212121212121212121212121212121212'' (\<lambda>initiator_ephemeral.
     secret_key S H ''2121212121212121212121212121212121212121212121212121212121212121'' (\<lambda>responder_static.
     secret_key S H ''2222222222222222222222222222222222222222222222222222222222222222'' (\<lambda>responder_ephemeral.
     let responder_static_pub = pk_of_sk S responder_static;
         initiator = new_initiator S N initiator_static initiator_ephemeral responder_static_pub;
         responder = new_responder S N responder_static responder_ephemeral in
     expect_call (get_act_one S N initiator) (\<lambda>act_one initiator.
     expect_call (process_act_one S N responder act_one) (\<lambda>act_two responder.
     expect_call (process_act_two S N initiator act_two) (\<lambda>act_three initiator.
     expect_call (process_act_three S N responder act_three) (\<lambda>_ responder.
     unwrap (into_cipher N initiator) (\<lambda>res. unwrap res (\<lambda>initiator_cipher.
     unwrap (into_cipher N responder) (\<lambda>res. unwrap res (\<lambda>responder_cipher.
     message_passes N initiator_cipher responder_cipher (ascii ''hello from initiator'')
       (\<lambda>initiator_cipher responder_cipher.
     message_passes N responder_cipher initiator_cipher (ascii ''hello from responder'')
       (\<lambda>_ _. True))))))))))))))"

text \<open>
  The test over a socket has two threads, each of which runs by itself and blocks where the
  other has not written yet. Each is a function of the bytes that come in: the thread of the
  responder, and the rest of the test, which is the initiator. The test passes when bytes
  exist that each side writes when it reads what the other one writes.
\<close>

definition recv_expect ::
    "noise_lib \<Rightarrow> noise_cipher \<Rightarrow> read_half \<Rightarrow> bytes \<Rightarrow>
     (noise_cipher \<Rightarrow> read_half \<Rightarrow> bool) \<Rightarrow> bool" where
  "recv_expect N cipher r wanted test \<longleftrightarrow>
     (case read_exact r ENCRYPTED_LENGTH_SIZE of (res, r) \<Rightarrow> unwrap res (\<lambda>encrypted_len.
     expect_call (cipher_decrypt_length N cipher encrypted_len) (\<lambda>msg_len cipher.
     (case read_exact r (unat msg_len + MAC_SIZE) of (res, r) \<Rightarrow> unwrap res (\<lambda>encrypted_msg.
     expect_call (cipher_decrypt_message N cipher encrypted_msg) (\<lambda>msg cipher.
     msg = wanted \<and> test cipher r))))))"

definition responder_thread ::
    "('pk, 'sk, 'sig) secp \<Rightarrow> noise_lib \<Rightarrow> 'sk \<Rightarrow> 'sk \<Rightarrow> write_half \<times> read_half \<Rightarrow>
     (write_half \<Rightarrow> bool) \<Rightarrow> bool" where
  "responder_thread S N responder_static responder_ephemeral stream test \<longleftrightarrow>
     (let (w, r) = stream; handshake = new_responder S N responder_static responder_ephemeral in
     case read_exact r ACT_ONE_SIZE of (res, r) \<Rightarrow> unwrap res (\<lambda>act_one.
     expect_call (process_act_one S N handshake act_one) (\<lambda>act_two handshake.
     case write_all w act_two of (res, w) \<Rightarrow> unwrap res (\<lambda>_.
     case read_exact r ACT_THREE_SIZE of (res, r) \<Rightarrow> unwrap res (\<lambda>act_three.
     expect_call (process_act_three S N handshake act_three) (\<lambda>_ handshake.
     unwrap (into_cipher N handshake) (\<lambda>res. unwrap res (\<lambda>cipher.
     recv_expect N cipher r (ascii ''hello from initiator'') (\<lambda>cipher r.
     unwrap (cipher_encrypt N cipher (ascii ''hello from responder'')) (\<lambda>(response, cipher).
     case write_all w response of (res, w) \<Rightarrow> unwrap res (\<lambda>_.
     recv_expect N cipher r (ascii ''goodbye'') (\<lambda>_ _. test w))))))))))))"

definition initiator_main ::
    "('pk, 'sk, 'sig) secp \<Rightarrow> noise_lib \<Rightarrow> 'pk \<Rightarrow> 'sk \<Rightarrow> 'sk \<Rightarrow> write_half \<times> read_half \<Rightarrow>
     (write_half \<Rightarrow> bool) \<Rightarrow> bool" where
  "initiator_main S N responder_pubkey initiator_static initiator_ephemeral stream test \<longleftrightarrow>
     unwrap (conn_connect S N (Inr stream) responder_pubkey initiator_static initiator_ephemeral)
       (\<lambda>res. unwrap res (\<lambda>conn.
     expect_call (conn_send_message N conn (ascii ''hello from initiator'')) (\<lambda>_ conn.
     expect_call (conn_recv_message N conn) (\<lambda>response conn.
     response = ascii ''hello from responder'' \<and>
     expect_call (conn_send_message N conn (ascii ''goodbye'')) (\<lambda>_ conn.
     test (fst (nc_stream conn)))))))"

definition stream_on :: "bytes \<Rightarrow> write_half \<times> read_half" where
  "stream_on bytes =
     (\<lparr>tx = [], tx_room = None, tx_err = ''broken pipe''\<rparr>, \<lparr>rx = bytes, rx_err = ''early eof''\<rparr>)"

definition noise_connection_handshake_and_messages :: "('pk, 'sk, 'sig) secp \<Rightarrow> noise_lib \<Rightarrow> hex_lib \<Rightarrow> bytes \<Rightarrow> bytes \<Rightarrow> bool" where
  "noise_connection_handshake_and_messages S N H to_responder to_initiator \<longleftrightarrow>
     secret_key S H ''1111111111111111111111111111111111111111111111111111111111111111'' (\<lambda>initiator_static.
     secret_key S H ''1212121212121212121212121212121212121212121212121212121212121212'' (\<lambda>initiator_ephemeral.
     secret_key S H ''2121212121212121212121212121212121212121212121212121212121212121'' (\<lambda>responder_static.
     secret_key S H ''2222222222222222222222222222222222222222222222222222222222222222'' (\<lambda>responder_ephemeral.
     let responder_pubkey = pk_of_sk S responder_static in
     responder_thread S N responder_static responder_ephemeral (stream_on to_responder)
       (\<lambda>w. tx w = to_initiator) \<and>
     initiator_main S N responder_pubkey initiator_static initiator_ephemeral
       (stream_on to_initiator) (\<lambda>w. tx w = to_responder)))))"

section \<open>The tests of the ciphers\<close>

definition test_nonce_encoding :: bool where
  "test_nonce_encoding \<longleftrightarrow>
     encode_nonce 0 = [0, 0, 0, 0, 0, 0, 0, 0, 0, 0, 0, 0] \<and>
     encode_nonce 1 = [0, 0, 0, 0, 1, 0, 0, 0, 0, 0, 0, 0] \<and>
     encode_nonce 256 = [0, 0, 0, 0, 0, 1, 0, 0, 0, 0, 0, 0]"

definition test_hkdf_two_keys :: "noise_lib \<Rightarrow> hex_lib \<Rightarrow> bool" where
  "test_hkdf_two_keys N H \<longleftrightarrow>
     decode_key H ''919219dbb2920afa8db80f9a51787a840bcf111ed8d588caf9ab4be716e42b01'' (\<lambda>salt.
     let ikm = [] in
     unwrap (hkdf_two_keys N salt ikm) (\<lambda>(key1, key2).
     unwrap_option (hex_decode H ''969ab31b4d288cedf6218839b27a3e2140827047f2c0f01bf5c04435d43511a9'') (\<lambda>expected_key1.
     unwrap_option (hex_decode H ''bb9020b8965f4df047e07f955f3c4b88418984aadc5cdb35096b9ea8fa5c3442'') (\<lambda>expected_key2.
     key1 = expected_key1 \<and> key2 = expected_key2))))"

definition test_encrypt_with_ad :: "noise_lib \<Rightarrow> hex_lib \<Rightarrow> bool" where
  "test_encrypt_with_ad N H \<longleftrightarrow>
     decode_key H ''969ab31b4d288cedf6218839b27a3e2140827047f2c0f01bf5c04435d43511a9'' (\<lambda>key.
     unwrap_option (hex_decode H ''0005'') (\<lambda>plaintext.
     unwrap (encrypt_with_ad N key 0 [] plaintext) (\<lambda>ciphertext.
     unwrap_option (hex_decode H ''cf2b30ddf0cf3f80e7c35a6e6730b59fe802'') (\<lambda>expected.
     ciphertext = expected \<and>
     unwrap_option (hex_decode H ''68656c6c6f'') (\<lambda>plaintext.
     unwrap (encrypt_with_ad N key 1 [] plaintext) (\<lambda>ciphertext.
     unwrap_option (hex_decode H ''473180f396d88a8fb0db8cbcf25d2f214cf9ea1d95'') (\<lambda>expected.
     ciphertext = expected \<and>
     unwrap_option (hex_decode H ''0005'') (\<lambda>plaintext.
     unwrap (encrypt_with_ad N key 2 [] plaintext) (\<lambda>ciphertext.
     unwrap_option (hex_decode H ''72887022101f0b6753e0c7de21657d35a4cb'') (\<lambda>expected.
     ciphertext = expected \<and>
     unwrap_option (hex_decode H ''68656c6c6f'') (\<lambda>plaintext.
     unwrap (encrypt_with_ad N key 3 [] plaintext) (\<lambda>ciphertext.
     unwrap_option (hex_decode H ''2a1f5cde2650528bbc8f837d0f0d7ad833b1a256a1'') (\<lambda>expected.
     ciphertext = expected)))))))))))))"

definition test_decrypt_with_ad :: "noise_lib \<Rightarrow> hex_lib \<Rightarrow> bool" where
  "test_decrypt_with_ad N H \<longleftrightarrow>
     decode_key H ''969ab31b4d288cedf6218839b27a3e2140827047f2c0f01bf5c04435d43511a9'' (\<lambda>key.
     unwrap_option (hex_decode H ''cf2b30ddf0cf3f80e7c35a6e6730b59fe802'') (\<lambda>ciphertext.
     unwrap (decrypt_with_ad N key 0 [] ciphertext) (\<lambda>plaintext.
     unwrap_option (hex_decode H ''0005'') (\<lambda>expected.
     plaintext = expected \<and>
     unwrap_option (hex_decode H ''473180f396d88a8fb0db8cbcf25d2f214cf9ea1d95'') (\<lambda>ciphertext.
     unwrap (decrypt_with_ad N key 1 [] ciphertext) (\<lambda>plaintext.
     unwrap_option (hex_decode H ''68656c6c6f'') (\<lambda>expected.
     plaintext = expected \<and>
     unwrap_option (hex_decode H ''72887022101f0b6753e0c7de21657d35a4cb'') (\<lambda>ciphertext.
     unwrap (decrypt_with_ad N key 2 [] ciphertext) (\<lambda>plaintext.
     unwrap_option (hex_decode H ''0005'') (\<lambda>expected.
     plaintext = expected \<and>
     unwrap_option (hex_decode H ''2a1f5cde2650528bbc8f837d0f0d7ad833b1a256a1'') (\<lambda>ciphertext.
     unwrap (decrypt_with_ad N key 3 [] ciphertext) (\<lambda>plaintext.
     unwrap_option (hex_decode H ''68656c6c6f'') (\<lambda>expected.
     plaintext = expected)))))))))))))"

definition test_decrypt_with_ad_bad_mac :: "noise_lib \<Rightarrow> hex_lib \<Rightarrow> bool" where
  "test_decrypt_with_ad_bad_mac N H \<longleftrightarrow>
     decode_key H ''969ab31b4d288cedf6218839b27a3e2140827047f2c0f01bf5c04435d43511a9'' (\<lambda>key.
     unwrap_option (hex_decode H ''cf2b30ddf0cf3f80e7c35a6e6730b59fe802'') (\<lambda>ciphertext.
     0 < length ciphertext \<and>
     (let ciphertext = ciphertext[0 := ciphertext ! 0 XOR 0x01] in
      decrypt_with_ad N key 0 [] ciphertext = Inl DecryptionFailed)))"

definition test_decrypt_with_ad_wrong_nonce :: "noise_lib \<Rightarrow> hex_lib \<Rightarrow> bool" where
  "test_decrypt_with_ad_wrong_nonce N H \<longleftrightarrow>
     decode_key H ''969ab31b4d288cedf6218839b27a3e2140827047f2c0f01bf5c04435d43511a9'' (\<lambda>key.
     unwrap_option (hex_decode H ''cf2b30ddf0cf3f80e7c35a6e6730b59fe802'') (\<lambda>ciphertext.
     decrypt_with_ad N key 1 [] ciphertext = Inl DecryptionFailed))"

end
