(* ===== verification/Noise_Test_Theorems.thy ===== *)
theory Noise_Test_Theorems
  imports Noise_Tests
begin

text \<open>
  The unit tests of the crate \<open>noise\<close> hold of the model, for all crates that keep their laws and
  give the values of \<open>Noise_Vectors\<close>; and an instance, made of the tables of these values.
\<close>

section \<open>The literals of the tests\<close>

text \<open>C6: \<open>hex::decode\<close> reads two digits a byte, in either case.\<close>

definition hex_lawful :: "hex_lib \<Rightarrow> bool" where
  "hex_lawful H \<longleftrightarrow> (\<forall>s. hex_decode H s = hex_bytes s)"

definition literal :: "string \<Rightarrow> bytes \<Rightarrow> bool" where
  "literal s bs \<longleftrightarrow> take 2 s \<noteq> ''0x'' \<and> hex_bytes s = Some bs"

lemma literalD:
  assumes "literal s bs" and "hex_lawful H"
  shows "hex_decode H s = Some bs" and "hex_decode H (strip_0x s) = Some bs"
  using assms by (simp_all add: literal_def hex_lawful_def strip_0x_def)

text \<open>Keys; the acts and what is changed in them; packets and their parts.\<close>

lemma key_literals:
  "literal ''1111111111111111111111111111111111111111111111111111111111111111'' (replicate 32 0x11)"
  "literal ''1212121212121212121212121212121212121212121212121212121212121212'' (replicate 32 0x12)"
  "literal ''2121212121212121212121212121212121212121212121212121212121212121'' (replicate 32 0x21)"
  "literal ''2222222222222222222222222222222222222222222222222222222222222222'' (replicate 32 0x22)"
  "literal ''028d7500dd4c12685d1f568b4c2b5048e8534b873319f3a8daa612b469132ec7f7'' (v_sr_pub)"
  "literal ''034f355bdcb7cc0af728ef3cceb9615d90684bb5b2ca5f859ab0f0b704075871aa'' (v_si_pub)"
  "literal ''919219dbb2920afa8db80f9a51787a840bcf111ed8d588caf9ab4be716e42b01'' (v_ck3)"
  "literal ''969ab31b4d288cedf6218839b27a3e2140827047f2c0f01bf5c04435d43511a9'' (v_sk)"
  "literal ''bb9020b8965f4df047e07f955f3c4b88418984aadc5cdb35096b9ea8fa5c3442'' (v_rk)"
  by code_simp+

lemma act_literals:
  "literal ''00036360e856310ce5d294e8be33fc807077dc56ac80d95d9cd4ddbd21325eff73f70df6086551151f58b8afe6c195782c6a'' (0 # v_ei_pub @ v_tag1)"
  "literal ''0002466d7fcae563e5cb09a0d1870bb580344804617879a14949cf22285f1bae3f276e2470b93aac583c9ef6eafca3f730ae'' (0 # v_er_pub @ v_tag2)"
  "literal ''00b9e3a702e93e3a9948c2ed6e5fd7590a6e1c3a0344cfc9d5b57357049aa22355361aa02e55a8fc28fef5bd6d71ad0c38228dc68b1c466263b47fdf31e560e139ba'' (0 # v_c3 @ v_tag3)"
  by code_simp+

lemma bad_act_literals:
  "literal ''01036360e856310ce5d294e8be33fc807077dc56ac80d95d9cd4ddbd21325eff73f70df6086551151f58b8afe6c195782c6a'' (1 # v_ei_pub @ v_tag1)"
  "literal ''00046360e856310ce5d294e8be33fc807077dc56ac80d95d9cd4ddbd21325eff73f70df6086551151f58b8afe6c195782c6a'' (0 # 4 # tl v_ei_pub @ v_tag1)"
  "literal ''00036360e856310ce5d294e8be33fc807077dc56ac80d95d9cd4ddbd21325eff73f70df6086551151f58b8afe6c195782c6b'' (0 # v_ei_pub @ flip_last v_tag1 1)"
  "literal ''0102466d7fcae563e5cb09a0d1870bb580344804617879a14949cf22285f1bae3f276e2470b93aac583c9ef6eafca3f730ae'' (1 # v_er_pub @ v_tag2)"
  "literal ''0004466d7fcae563e5cb09a0d1870bb580344804617879a14949cf22285f1bae3f276e2470b93aac583c9ef6eafca3f730ae'' (0 # 4 # tl v_er_pub @ v_tag2)"
  "literal ''0002466d7fcae563e5cb09a0d1870bb580344804617879a14949cf22285f1bae3f276e2470b93aac583c9ef6eafca3f730af'' (0 # v_er_pub @ flip_last v_tag2 1)"
  "literal ''01b9e3a702e93e3a9948c2ed6e5fd7590a6e1c3a0344cfc9d5b57357049aa22355361aa02e55a8fc28fef5bd6d71ad0c38228dc68b1c466263b47fdf31e560e139ba'' (1 # v_c3 @ v_tag3)"
  "literal ''00c9e3a702e93e3a9948c2ed6e5fd7590a6e1c3a0344cfc9d5b57357049aa22355361aa02e55a8fc28fef5bd6d71ad0c38228dc68b1c466263b47fdf31e560e139ba'' (0 # flip_first v_c3 0x70 @ v_tag3)"
  "literal ''00b9e3a702e93e3a9948c2ed6e5fd7590a6e1c3a0344cfc9d5b57357049aa22355361aa02e55a8fc28fef5bd6d71ad0c38228dc68b1c466263b47fdf31e560e139bb'' (0 # v_c3 @ flip_last v_tag3 1)"
  "literal ''00bfe3a702e93e3a9948c2ed6e5fd7590a6e1c3a0344cfc9d5b57357049aa2235536ad09a8ee351870c2bb7f78b754a26c6cef79a98d25139c856d7efd252c2ae73c'' (0 # v_bad_c3 @ v_bad_tag3)"
  by code_simp+

lemma packet_literals:
  "literal ''cf2b30ddf0cf3f80e7c35a6e6730b59fe802473180f396d88a8fb0db8cbcf25d2f214cf9ea1d95'' (v_hdr0 @ v_msg0)"
  "literal ''72887022101f0b6753e0c7de21657d35a4cb2a1f5cde2650528bbc8f837d0f0d7ad833b1a256a1'' (v_hdr1 @ v_msg1)"
  "literal ''178cb9d7387190fa34db9c2d50027d21793c9bc2d40b1e14dcf30ebeeeb220f48364f7a4c68bf8'' (v_hdr500 @ v_msg500)"
  "literal ''1b186c57d44eb6de4c057c49940d79bb838a145cb528d6e8fd26dbe50a60ca2c104b56b60e45bd'' (v_hdr501 @ v_msg501)"
  "literal ''4a2f3cc3b5e78ddb83dcb426d9863d9d9a723b0337c89dd0b005d89f8d3c05c52b76b29b740f09'' (v_hdr1000 @ v_msg1000)"
  "literal ''2ecd8c8a5629d0d02ab457a0fdd0f7b90a192cd46be5ecb6ca570bfc5e268338b1a16cf4ef2d36'' (v_hdr1001 @ v_msg1001)"
  "literal ''cf2b30ddf0cf3f80e7c35a6e6730b59fe802'' (v_hdr0)"
  "literal ''473180f396d88a8fb0db8cbcf25d2f214cf9ea1d95'' (v_msg0)"
  "literal ''72887022101f0b6753e0c7de21657d35a4cb'' (v_hdr1)"
  "literal ''2a1f5cde2650528bbc8f837d0f0d7ad833b1a256a1'' (v_msg1)"
  "literal ''0005'' ([0, 5])"
  "literal ''68656c6c6f'' (v_hello)"
  by code_simp+

lemmas test_literals = key_literals act_literals bad_act_literals packet_literals

lemma helper_simps:
  assumes "literal s bs" and "hex_lawful H"
  shows "hex_decode H s = Some bs" and "hex_to_vec H s t = t bs"
    and "hex_to_array H n s t \<longleftrightarrow> length bs = n \<and> t bs"
    and "decode_key H s t \<longleftrightarrow> length bs = 32 \<and> t bs"
  by (simp_all add: hex_to_vec_def hex_to_array_def decode_key_def literalD [OF assms])

lemma key_simps:
  assumes "hex_lawful H" and "bolt8_keys S si ei sr er"
  shows "secret_key S H ''1111111111111111111111111111111111111111111111111111111111111111'' t1 = t1 si"
    and "secret_key S H ''1212121212121212121212121212121212121212121212121212121212121212'' t2 = t2 ei"
    and "secret_key S H ''2121212121212121212121212121212121212121212121212121212121212121'' t3 = t3 sr"
    and "secret_key S H ''2222222222222222222222222222222222222222222222222222222222222222'' t4 = t4 er"
    and "public_key S H ''028d7500dd4c12685d1f568b4c2b5048e8534b873319f3a8daa612b469132ec7f7'' t5 =
      t5 (pk_of_sk S sr)"
    and "public_key S H ''034f355bdcb7cc0af728ef3cceb9615d90684bb5b2ca5f859ab0f0b704075871aa'' t6 =
      t6 (pk_of_sk S si)"
  by (simp_all only: secret_key_def public_key_def helper_simps(2) [OF key_literals(1) assms(1)]
      helper_simps(2) [OF key_literals(2) assms(1)] helper_simps(2) [OF key_literals(3) assms(1)]
      helper_simps(2) [OF key_literals(4) assms(1)] helper_simps(2) [OF key_literals(5) assms(1)]
      helper_simps(2) [OF key_literals(6) assms(1)] bolt8_keysD [OF assms(2)] unwrap_simps)

section \<open>The handshake\<close>

lemma one_digit: "string_of_nat 1 = ''1''" "string_of_nat (Suc 0) = ''1''"
  by code_simp+

lemma flip_lengths:
  "length (flip_last v_tag1 1) = 16" "length (flip_last v_tag2 1) = 16"
  "length (flip_last v_tag3 1) = 16" "length (flip_first v_c3 0x70) = 49"
  "length (tl v_ei_pub) = 32" "length (tl v_er_pub) = 32" "length v_bad_c3 = 49"
  by code_simp+

text \<open>What an act that is changed leads to.\<close>

lemma bad_acts:
  assumes "bolt8_lib N" and "bolt8_keys S si ei sr er"
  shows "\<exists>hs. process_act_one S N (new_responder S N sr er) (1 # a) = Inr (Inl (ActOneBadVersion 1), hs)"
    and "\<exists>hs. process_act_one S N (new_responder S N sr er) (0 # 4 # tl v_ei_pub @ v_tag1) =
      Inr (Inl ActOneBadPubkey, hs)"
    and "\<exists>hs. process_act_one S N (new_responder S N sr er) (0 # v_ei_pub @ flip_last v_tag1 1) =
      Inr (Inl ActOneBadTag, hs)"
    and "\<exists>hs. process_act_two S N (run_i1 S si ei sr) (1 # a) = Inr (Inl (ActTwoBadVersion 1), hs)"
    and "\<exists>hs. process_act_two S N (run_i1 S si ei sr) (0 # 4 # tl v_er_pub @ v_tag2) =
      Inr (Inl ActTwoBadPubkey, hs)"
    and "\<exists>hs. process_act_two S N (run_i1 S si ei sr) (0 # v_er_pub @ flip_last v_tag2 1) =
      Inr (Inl ActTwoBadTag, hs)"
    and "\<exists>hs. process_act_three S N (run_r1 S ei sr er) (1 # a) = Inr (Inl (ActThreeBadVersion 1), hs)"
    and "\<exists>hs. process_act_three S N (run_r1 S ei sr er) (0 # flip_first v_c3 0x70 @ v_tag3) =
      Inr (Inl ActThreeBadCiphertext, hs)"
    and "\<exists>hs. process_act_three S N (run_r1 S ei sr er) (0 # v_bad_c3 @ a) =
      Inr (Inl ActThreeBadPubkey, hs)"
    and "\<exists>hs. process_act_three S N (run_r1 S ei sr er) (0 # v_c3 @ flip_last v_tag3 1) =
      Inr (Inl ActThreeBadTag, hs)"
proof -
  have "v_bad_key = 5 # tl v_bad_key" "length (tl v_bad_key) = 32" by code_simp+
  then have bad: "pk_from_slice S v_bad_key = None"
    using no_key [OF assms(2), of 5 "tl v_bad_key"] by simp
  note facts = run_defs Let_def sha_values [OF assms(1)] hkdf_values [OF assms(1)]
    aead_act_opened [OF assms(1)] aead_forged_values [OF assms(1)] bolt8_keysD [OF assms(2)]
    shared_values [OF assms(2)] v_lengths flip_lengths no_key [OF assms(2)] bad
  show "\<exists>hs. process_act_one S N (new_responder S N sr er) (1 # a) = Inr (Inl (ActOneBadVersion 1), hs)"
    "\<exists>hs. process_act_one S N (new_responder S N sr er) (0 # 4 # tl v_ei_pub @ v_tag1) =
      Inr (Inl ActOneBadPubkey, hs)"
    "\<exists>hs. process_act_one S N (new_responder S N sr er) (0 # v_ei_pub @ flip_last v_tag1 1) =
      Inr (Inl ActOneBadTag, hs)"
    by (simp_all add: process_act_one_def facts)
  show "\<exists>hs. process_act_two S N (run_i1 S si ei sr) (1 # a) = Inr (Inl (ActTwoBadVersion 1), hs)"
    "\<exists>hs. process_act_two S N (run_i1 S si ei sr) (0 # 4 # tl v_er_pub @ v_tag2) =
      Inr (Inl ActTwoBadPubkey, hs)"
    "\<exists>hs. process_act_two S N (run_i1 S si ei sr) (0 # v_er_pub @ flip_last v_tag2 1) =
      Inr (Inl ActTwoBadTag, hs)"
    by (simp_all add: process_act_two_def facts)
  show "\<exists>hs. process_act_three S N (run_r1 S ei sr er) (1 # a) = Inr (Inl (ActThreeBadVersion 1), hs)"
    "\<exists>hs. process_act_three S N (run_r1 S ei sr er) (0 # flip_first v_c3 0x70 @ v_tag3) =
      Inr (Inl ActThreeBadCiphertext, hs)"
    "\<exists>hs. process_act_three S N (run_r1 S ei sr er) (0 # v_bad_c3 @ a) =
      Inr (Inl ActThreeBadPubkey, hs)"
    "\<exists>hs. process_act_three S N (run_r1 S ei sr er) (0 # v_c3 @ flip_last v_tag3 1) =
      Inr (Inl ActThreeBadTag, hs)"
    by (simp_all add: process_act_three_def facts)
qed

lemma expect_err_ex:
  "\<exists>s. r = Inr (Inl e, s) \<Longrightarrow> \<forall>s. t e s \<Longrightarrow> expect_err_call r t"
  by auto

lemmas act_sizes = ACT_ONE_SIZE_def ACT_TWO_SIZE_def ACT_THREE_SIZE_def

lemma initiator_tests:
  assumes "bolt8_lib N" and "bolt8_keys S si ei sr er" and "hex_lawful H"
  shows "initiator_successful_handshake S N H" and "initiator_act2_bad_version S N H"
    and "initiator_act2_bad_pubkey S N H" and "initiator_act2_bad_mac S N H"
proof -
  note facts = key_simps [OF assms(3,2)] test_literals [THEN helper_simps(2), OF assms(3)]
    test_literals [THEN helper_simps(3), OF assms(3)] run_act_one [OF assms(1,2)]
    run_process_two [OF assms(1,2)] run_final_keys [OF assms(1)] v_lengths flip_lengths act_sizes
  note bad = bad_acts(4-6) [OF assms(1,2), THEN expect_err_ex]
  show "initiator_successful_handshake S N H"
    by (simp add: initiator_successful_handshake_def facts)
  show "initiator_act2_bad_version S N H"
    by (simp add: initiator_act2_bad_version_def facts bad(1) one_digit)
  show "initiator_act2_bad_pubkey S N H"
    by (simp add: initiator_act2_bad_pubkey_def facts bad(2))
  show "initiator_act2_bad_mac S N H"
    by (simp add: initiator_act2_bad_mac_def facts bad(3))
qed

lemma responder_tests:
  assumes "bolt8_lib N" and "bolt8_keys S si ei sr er" and "hex_lawful H"
  shows "responder_successful_handshake S N H" and "responder_act1_bad_version S N H"
    and "responder_act1_bad_pubkey S N H" and "responder_act1_bad_mac S N H"
    and "responder_act3_bad_version S N H" and "responder_act3_bad_ciphertext S N H"
    and "responder_act3_bad_pubkey S N H" and "responder_act3_bad_mac S N H"
proof -
  have tail: "length v_bad_tag3 = 16"
    by code_simp
  note facts = key_simps [OF assms(3,2)] test_literals [THEN helper_simps(2), OF assms(3)]
    test_literals [THEN helper_simps(3), OF assms(3)] run_process_one [OF assms(1,2)]
    run_process_three [OF assms(1,2)] run_final_keys [OF assms(1)] v_lengths flip_lengths
    act_sizes one_digit tail
  note bad = bad_acts(1-3,7-10) [OF assms(1,2), THEN expect_err_ex]
  show "responder_successful_handshake S N H"
    by (simp add: responder_successful_handshake_def facts)
  show "responder_act1_bad_version S N H"
    by (simp add: responder_act1_bad_version_def facts bad(1))
  show "responder_act1_bad_pubkey S N H"
    by (simp add: responder_act1_bad_pubkey_def facts bad(2))
  show "responder_act1_bad_mac S N H"
    by (simp add: responder_act1_bad_mac_def facts bad(3))
  show "responder_act3_bad_version S N H"
    by (simp add: responder_act3_bad_version_def facts bad(4))
  show "responder_act3_bad_ciphertext S N H"
    by (simp add: responder_act3_bad_ciphertext_def facts bad(5))
  show "responder_act3_bad_pubkey S N H"
    by (simp add: responder_act3_bad_pubkey_def facts bad(6))
  show "responder_act3_bad_mac S N H"
    by (simp add: responder_act3_bad_mac_def facts bad(7))
qed

section \<open>The ciphers\<close>

lemma cipher_tests:
  assumes "bolt8_lib N" and "hex_lawful H"
  shows "test_nonce_encoding" and "test_hkdf_two_keys N H" and "test_encrypt_with_ad N H"
    and "test_decrypt_with_ad N H" and "test_decrypt_with_ad_bad_mac N H"
    and "test_decrypt_with_ad_wrong_nonce N H"
proof -
  have hdr: "v_hdr0[0 := v_hdr0 ! 0 XOR 1] = flip_first v_hdr0 1" and "0 < length v_hdr0"
    by code_simp+
  note facts = this test_literals [THEN helper_simps(1), OF assms(2)]
    test_literals [THEN helper_simps(4), OF assms(2)] hkdf_values [OF assms(1)]
    aead_message_values [OF assms(1)] aead_message_opened [OF assms(1)]
    aead_forged_values [OF assms(1)] v_lengths
  show "test_nonce_encoding" by code_simp
  show "test_hkdf_two_keys N H" by (simp add: test_hkdf_two_keys_def facts)
  show "test_encrypt_with_ad N H" by (simp add: test_encrypt_with_ad_def facts)
  show "test_decrypt_with_ad N H" by (simp add: test_decrypt_with_ad_def facts)
  show "test_decrypt_with_ad_bad_mac N H"
    by (simp only: test_decrypt_with_ad_bad_mac_def Let_def facts unwrap_simps v_lengths simp_thms)
  show "test_decrypt_with_ad_wrong_nonce N H"
    by (simp add: test_decrypt_with_ad_wrong_nonce_def facts)
qed

section \<open>Messages and their key rotations\<close>

text \<open>The cipher of the test before its message \<open>m\<close>: the receiving half is not used.\<close>

definition before_message :: "noise_lib \<Rightarrow> nat \<Rightarrow> noise_cipher \<Rightarrow> bool" where
  "before_message N m c \<longleftrightarrow>
     (\<exists>s r. c = cipher_join s r \<and> after_uses N v_ck3 v_sk (2 * m) s)"

lemma cipher_new_join:
  "cipher_new a b ck =
     cipher_join \<lparr>sc_key = a, sc_nonce = 0, sc_ck = ck\<rparr> \<lparr>rc_key = b, rc_nonce = 0, rc_ck = ck\<rparr>"
  by (simp add: cipher_new_def cipher_join_def)

lemma before_first: "before_message N 0 (cipher_new v_sk v_rk v_ck3)"
  unfolding before_message_def cipher_new_join by (auto simp: after_uses_def)

lemma encrypt_message:
  assumes "noise_lawful N" and "before_message N m c"
  shows "\<exists>pkt c'. cipher_encrypt N c v_hello = Inr (pkt, c') \<and>
    scheduled_packet N v_ck3 v_sk m v_hello = Inr pkt \<and> before_message N (Suc m) c'"
proof -
  obtain s r where c: "c = cipher_join s r" "after_uses N v_ck3 v_sk (2 * m) s"
    using assms(2) by (auto simp: before_message_def)
  have "length v_hello \<le> 65535" by (simp add: v_lengths)
  then obtain pkt s' where "send_encrypt N s v_hello = Inr (pkt, s')"
    and "scheduled_packet N v_ck3 v_sk m v_hello = Inr pkt" and "after_uses N v_ck3 v_sk (2 * Suc m) s'"
    by (rule send_encrypt_schedule [OF assms(1) c(2)])
  then show ?thesis unfolding before_message_def by (auto simp: c(1) cipher_encrypt_join)
qed

lemma encrypt_many:
  assumes "noise_lawful N"
  shows "before_message N m c \<Longrightarrow>
    \<exists>c'. encrypt_rounds N n c v_hello = Inr c' \<and> before_message N (m + n) c'"
proof (induction n arbitrary: m c)
  case (Suc n)
  then obtain pkt c1 where "cipher_encrypt N c v_hello = Inr (pkt, c1)" "before_message N (Suc m) c1"
    using encrypt_message [OF assms] by blast
  then show ?case using Suc.IH [of "Suc m" c1] by simp
qed simp

text \<open>The packets whose bytes are listed.\<close>

lemma hello_length: "to_be_bytes (5 :: u16) = [0, 5]"
  by code_simp

lemma listed_packets:
  assumes "bolt8_lib N"
  shows "scheduled_packet N v_ck3 v_sk 0 v_hello = Inr (v_hdr0 @ v_msg0)"
    and "scheduled_packet N v_ck3 v_sk 1 v_hello = Inr (v_hdr1 @ v_msg1)"
    and "scheduled_packet N v_ck3 v_sk 500 v_hello = Inr (v_hdr500 @ v_msg500)"
    and "scheduled_packet N v_ck3 v_sk 501 v_hello = Inr (v_hdr501 @ v_msg501)"
    and "scheduled_packet N v_ck3 v_sk 1000 v_hello = Inr (v_hdr1000 @ v_msg1000)"
    and "scheduled_packet N v_ck3 v_sk 1001 v_hello = Inr (v_hdr1001 @ v_msg1001)"
proof -
  have epochs: "epoch_keys N v_ck3 v_sk 1 = Inr (v_ck4, v_sk1)"
    "epoch_keys N v_ck3 v_sk (Suc 0) = Inr (v_ck4, v_sk1)"
    "epoch_keys N v_ck3 v_sk 2 = Inr (v_ck5, v_sk2)"
    by (simp_all add: numeral_2_eq_2 hkdf_values [OF assms])
  note facts = scheduled_packet_def epochs v_lengths hello_length aead_message_values [OF assms]
    hkdf_values [OF assms]
  show "scheduled_packet N v_ck3 v_sk 0 v_hello = Inr (v_hdr0 @ v_msg0)"
    "scheduled_packet N v_ck3 v_sk 1 v_hello = Inr (v_hdr1 @ v_msg1)"
    "scheduled_packet N v_ck3 v_sk 500 v_hello = Inr (v_hdr500 @ v_msg500)"
    "scheduled_packet N v_ck3 v_sk 501 v_hello = Inr (v_hdr501 @ v_msg501)"
    "scheduled_packet N v_ck3 v_sk 1000 v_hello = Inr (v_hdr1000 @ v_msg1000)"
    "scheduled_packet N v_ck3 v_sk 1001 v_hello = Inr (v_hdr1001 @ v_msg1001)"
    by (simp_all add: facts)
qed

lemma message_test:
  assumes "bolt8_lib N" and "hex_lawful H"
  shows "message_encryption N H"
proof -
  note law = bolt8_libD(1) [OF assms(1)] and listed = listed_packets [OF assms(1)]
  have step: "\<exists>c'. cipher_encrypt N c v_hello = Inr (pkt, c') \<and> before_message N (Suc m) c'"
    if "before_message N m c" "scheduled_packet N v_ck3 v_sk m v_hello = Inr pkt" for m c pkt
    using encrypt_message [OF law that(1)] that(2) by auto
  obtain c1 where 1: "cipher_encrypt N (cipher_new v_sk v_rk v_ck3) v_hello = Inr (v_hdr0 @ v_msg0, c1)"
    "before_message N 1 c1" using step [OF before_first listed(1)] by auto
  obtain c2 where 2: "cipher_encrypt N c1 v_hello = Inr (v_hdr1 @ v_msg1, c2)"
    "before_message N 2 c2" using step [OF 1(2) listed(2)] by (auto simp: numeral_2_eq_2)
  obtain c3 where 3: "encrypt_rounds N 498 c2 v_hello = Inr c3" "before_message N 500 c3"
    using encrypt_many [OF law 2(2), of 498] by auto
  obtain c4 where 4: "cipher_encrypt N c3 v_hello = Inr (v_hdr500 @ v_msg500, c4)"
    "before_message N 501 c4" using step [OF 3(2) listed(3)] by auto
  obtain c5 where 5: "cipher_encrypt N c4 v_hello = Inr (v_hdr501 @ v_msg501, c5)"
    "before_message N 502 c5" using step [OF 4(2) listed(4)] by auto
  obtain c6 where 6: "encrypt_rounds N 498 c5 v_hello = Inr c6" "before_message N 1000 c6"
    using encrypt_many [OF law 5(2), of 498] by auto
  obtain c7 where 7: "cipher_encrypt N c6 v_hello = Inr (v_hdr1000 @ v_msg1000, c7)"
    "before_message N 1001 c7" using step [OF 6(2) listed(5)] by auto
  obtain c8 where 8: "cipher_encrypt N c7 v_hello = Inr (v_hdr1001 @ v_msg1001, c8)"
    using step [OF 7(2) listed(6)] by auto
  have key: "length v_rk = 32" by code_simp
  show ?thesis
    unfolding message_encryption_def
    by (simp add: v_hello_def [symmetric] test_literals [THEN helper_simps(2), OF assms(2)]
        test_literals [THEN helper_simps(3), OF assms(2)] v_lengths key 1 2 3 4 5 6 7 8)
qed

section \<open>Both sides\<close>

text \<open>A packet from \<open>s\<close> to \<open>r\<close>, and the tests' ways of sending and receiving it.\<close>

definition carried ::
    "noise_lib \<Rightarrow> send_cipher \<Rightarrow> recv_cipher \<Rightarrow> bytes \<Rightarrow> bytes \<Rightarrow> send_cipher \<Rightarrow> recv_cipher \<Rightarrow> bool" where
  "carried N s r p pkt s' r' \<longleftrightarrow>
     length p \<le> 65535 \<and> send_encrypt N s p = Inr (pkt, s') \<and> length pkt = length p + 34 \<and>
     (\<exists>r1. recv_decrypt_length N r (take 18 pkt) = Inr (Inr (word_of_nat (length p)), r1) \<and>
           recv_decrypt_message N r1 (drop 18 pkt) = Inr (Inr p, r')) \<and>
     in_step s' r'"

lemma carriedI:
  assumes "noise_lawful N" and "in_step s r" and "length p \<le> 65535"
  shows "\<exists>pkt s' r'. carried N s r p pkt s' r'"
  by (rule split_channel.seal_open_packet [OF assms]) (use assms(3) in \<open>auto simp: carried_def\<close>)

lemma carried_next: "carried N s r p pkt s' r' \<Longrightarrow> in_step s' r'"
  by (simp add: carried_def)

lemmas recv_sizes = ENCRYPTED_LENGTH_SIZE_def MAC_SIZE_def NOISE_MAX_MESSAGE_SIZE_def

lemma carried_send:
  assumes "carried N s r p pkt s' r'"
  shows "cipher_encrypt N (cipher_join s ra) p = Inr (pkt, cipher_join s' ra)"
  using assms by (simp add: carried_def cipher_encrypt_join)

lemma carried_passes:
  assumes "carried N s r p pkt s' r'"
  shows "message_passes N (cipher_join s ra) (cipher_join sb r) p t \<longleftrightarrow>
    t (cipher_join s' ra) (cipher_join sb r')"
  using assms by (auto simp: message_passes_def carried_def cipher_encrypt_join
      cipher_decrypt_length_join cipher_decrypt_message_join recv_sizes)

lemma carried_cut:
  assumes "carried N s r p pkt s' r'" and "rx st = pkt @ rest"
  shows "read_exact st 18 = (Inr (take 18 pkt), st\<lparr>rx := drop 18 pkt @ rest\<rparr>)"
    and "read_exact (st\<lparr>rx := drop 18 pkt @ rest\<rparr>) (unat (word_of_nat (length p) :: u16) + 16) =
      (Inr (drop 18 pkt), st\<lparr>rx := rest\<rparr>)"
proof -
  have "length pkt = length p + 34" and "length p \<le> 65535"
    using assms(1) by (simp_all add: carried_def)
  moreover have "unat (word_of_nat (length p) :: u16) = length p"
    using calculation(2) by (simp add: unsigned_of_nat take_bit_nat_eq_self)
  ultimately show "read_exact st 18 = (Inr (take 18 pkt), st\<lparr>rx := drop 18 pkt @ rest\<rparr>)"
    "read_exact (st\<lparr>rx := drop 18 pkt @ rest\<rparr>) (unat (word_of_nat (length p) :: u16) + 16) =
      (Inr (drop 18 pkt), st\<lparr>rx := rest\<rparr>)"
    using assms(2) by (simp_all add: read_exact_def)
qed

lemma carried_recv:
  assumes "carried N s r p pkt s' r'" and "rx st = pkt @ rest"
  shows "recv_expect N (cipher_join sb r) st p t \<longleftrightarrow> t (cipher_join sb r') (st\<lparr>rx := rest\<rparr>)"
    and "conn_recv_message N \<lparr>nc_stream = (w, st), nc_cipher = cipher_join sb r\<rparr> =
      Inr (Inr p, \<lparr>nc_stream = (w, st\<lparr>rx := rest\<rparr>), nc_cipher = cipher_join sb r'\<rparr>)"
proof -
  obtain r1 where "recv_decrypt_length N r (take 18 pkt) = Inr (Inr (word_of_nat (length p)), r1)"
    and "recv_decrypt_message N r1 (drop 18 pkt) = Inr (Inr p, r')"
    using assms(1) by (auto simp: carried_def)
  with carried_cut [OF assms]
  show "recv_expect N (cipher_join sb r) st p t \<longleftrightarrow> t (cipher_join sb r') (st\<lparr>rx := rest\<rparr>)"
    "conn_recv_message N \<lparr>nc_stream = (w, st), nc_cipher = cipher_join sb r\<rparr> =
      Inr (Inr p, \<lparr>nc_stream = (w, st\<lparr>rx := rest\<rparr>), nc_cipher = cipher_join sb r'\<rparr>)"
    by (simp_all add: recv_expect_def conn_recv_message_def recv_sizes cipher_decrypt_length_join
        cipher_decrypt_message_join)
qed

lemma carried_conn_send:
  assumes "carried N s r p pkt s' r'" and "tx_room w = None"
  shows "conn_send_message N \<lparr>nc_stream = (w, st), nc_cipher = cipher_join s ra\<rparr> p =
    Inr (Inr (), \<lparr>nc_stream = (w\<lparr>tx := tx w @ pkt\<rparr>, st), nc_cipher = cipher_join s' ra\<rparr>)"
proof -
  have "length p \<le> 65535" using assms(1) by (simp add: carried_def)
  then show ?thesis
    using carried_send [OF assms(1), of ra] assms(2) by (simp add: conn_send_message_def recv_sizes)
qed

lemma final_ciphers:
  assumes "noise_lawful N" and "\<forall>p \<in> {a, b, c}. length p \<le> 65535"
  obtains s1 s2 s3 r1 r2 r3 pa pb pc si ri sr rr where
    "cipher_new v_sk v_rk v_ck3 = cipher_join si ri" and "cipher_new v_rk v_sk v_ck3 = cipher_join sr rr"
    and "carried N si rr a pa s1 r1" and "carried N sr ri b pb s2 r2" and "carried N s1 r1 c pc s3 r3"
proof -
  let ?s = "\<lambda>k. \<lparr>sc_key = k, sc_nonce = 0, sc_ck = v_ck3\<rparr>"
  let ?r = "\<lambda>k. \<lparr>rc_key = k, rc_nonce = 0, rc_ck = v_ck3\<rparr>"
  have sync: "in_step (?s k) (?r k)" for k by (simp add: in_step_def)
  obtain pa s1 r1 where 1: "carried N (?s v_sk) (?r v_sk) a pa s1 r1"
    using carriedI [OF assms(1) sync] assms(2) by blast
  obtain pb s2 r2 where 2: "carried N (?s v_rk) (?r v_rk) b pb s2 r2"
    using carriedI [OF assms(1) sync] assms(2) by blast
  obtain pc s3 r3 where "carried N s1 r1 c pc s3 r3"
    using carriedI [OF assms(1) carried_next [OF 1]] assms(2) by blast
  then show thesis by (rule that [OF cipher_new_join cipher_new_join 1 2])
qed

lemma both_sides_test:
  assumes "bolt8_lib N" and "bolt8_keys S si ei sr er" and "hex_lawful H"
  shows "full_handshake_both_sides S N H"
proof -
  obtain s1 s2 s3 r1 r2 r3 pa pb pc si' ri sr' rr where
    c: "cipher_new v_sk v_rk v_ck3 = cipher_join si' ri" "cipher_new v_rk v_sk v_ck3 = cipher_join sr' rr"
    "carried N si' rr (ascii ''hello from initiator'') pa s1 r1"
    "carried N sr' ri (ascii ''hello from responder'') pb s2 r2"
    "carried N s1 r1 [] pc s3 r3"
    by (rule final_ciphers [OF bolt8_libD(1) [OF assms(1)],
          of "ascii ''hello from initiator''" "ascii ''hello from responder''" "[]"])
      (simp add: ascii_def)
  show ?thesis
    unfolding full_handshake_both_sides_def
    by (simp only: key_simps [OF assms(3,2)] run_act_one [OF assms(1,2)] run_process_one [OF assms(1,2)]
        run_process_two [OF assms(1,2)] run_process_three [OF assms(1,2)] run_final_keys [OF assms(1)]
        Let_def expect_simps unwrap_simps c(1,2) carried_passes [OF c(3)] carried_passes [OF c(4)])
qed

lemma connection_test:
  assumes "bolt8_lib N" and "bolt8_keys S si ei sr er" and "hex_lawful H"
  shows "\<exists>to_responder to_initiator.
    noise_connection_handshake_and_messages S N H to_responder to_initiator"
proof -
  obtain s1 s2 s3 r1 r2 r3 pa pb pc si' ri sr' rr where
    c: "cipher_new v_sk v_rk v_ck3 = cipher_join si' ri" "cipher_new v_rk v_sk v_ck3 = cipher_join sr' rr"
    "carried N si' rr (ascii ''hello from initiator'') pa s1 r1"
    "carried N sr' ri (ascii ''hello from responder'') pb s2 r2"
    "carried N s1 r1 (ascii ''goodbye'') pc s3 r3"
    by (rule final_ciphers [OF bolt8_libD(1) [OF assms(1)],
          of "ascii ''hello from initiator''" "ascii ''hello from responder''" "ascii ''goodbye''"])
      (simp add: ascii_def)
  let ?act1 = "0 # v_ei_pub @ v_tag1" and ?act2 = "0 # v_er_pub @ v_tag2"
    and ?act3 = "0 # v_c3 @ v_tag3"
  note runs = run_act_one [OF assms(1,2)] run_process_one [OF assms(1,2)] run_process_two [OF assms(1,2)]
    run_process_three [OF assms(1,2)] run_final_keys [OF assms(1)] c(1,2) act_sizes v_lengths
  have "responder_thread S N sr er (stream_on (?act1 @ ?act3 @ pa @ pc)) (\<lambda>w. tx w = ?act2 @ pb)"
    by (simp add: responder_thread_def stream_on_def runs read_exact_def carried_recv(1) [OF c(3)]
        carried_send [OF c(4)] carried_recv(1) [OF c(5), where rest = "[]"])
  moreover have "initiator_main S N (pk_of_sk S sr) si ei (stream_on (?act2 @ pb))
      (\<lambda>w. tx w = ?act1 @ ?act3 @ pa @ pc)"
    by (simp add: initiator_main_def stream_on_def conn_connect_def perform_handshake_def runs
        read_exact_def carried_conn_send [OF c(3)] carried_recv(2) [OF c(4), where rest = "[]"]
        carried_conn_send [OF c(5)])
  ultimately show ?thesis
    unfolding noise_connection_handshake_and_messages_def key_simps [OF assms(3,2)] Let_def
    by blast
qed

section \<open>An instance made of the tables\<close>

text \<open>Keys are bytes; four of them have the serialization and the secrets of the vectors.\<close>

definition vector_keys :: "(u8 \<times> bytes) list" where
  "vector_keys = [(0x11, v_si_pub), (0x12, v_ei_pub), (0x21, v_sr_pub), (0x22, v_er_pub)]"

definition vector_serialize :: "u8 \<Rightarrow> bytes" where
  "vector_serialize k = (case map_of vector_keys k of Some bs \<Rightarrow> bs | None \<Rightarrow> 2 # pad_to 32 k)"

definition vector_parse :: "bytes \<Rightarrow> u8 option" where
  "vector_parse bs =
     (case find (\<lambda>(_, pub). pub = bs) vector_keys of
        Some (k, _) \<Rightarrow> Some k
      | None \<Rightarrow>
          (case bs of
             [] \<Rightarrow> None
           | b # rest \<Rightarrow>
               if b \<noteq> 2 then None
               else (case unpad 32 rest of
                       Some k \<Rightarrow> if map_of vector_keys k = None then Some k else None
                     | None \<Rightarrow> None)))"

definition vector_secret :: "u8 \<Rightarrow> u8 \<Rightarrow> bytes" where
  "vector_secret a b =
     (if {a, b} = {0x21, 0x12} then v_es else if {a, b} = {0x22, 0x12} then v_ee
      else if {a, b} = {0x22, 0x11} then v_se else replicate 32 0)"

definition vector_secp :: "(u8, u8, u8) secp" where
  "vector_secp = toy_secp
     \<lparr>pk_from_slice := vector_parse, pk_serialize := vector_serialize,
      sk_from_slice := (\<lambda>bs. if bs = replicate 32 (hd bs) then Some (hd bs) else None),
      shared_secret := vector_secret\<rparr>"

lemma vector_keys_evaluated:
  "list_all (\<lambda>(k, pub). length pub = 33 \<and> hd pub \<in> {2, 3} \<and> pub ! 5 \<noteq> 0) vector_keys"
  "distinct (map snd vector_keys)"
  by code_simp+

lemma vector_parse_serialize: "vector_parse (vector_serialize k) = Some k"
proof (cases "map_of vector_keys k")
  case None
  have "(2 # pad_to 32 k) ! 5 = 0" by (simp add: pad_to_def)
  then have "find (\<lambda>(_, pub). pub = 2 # pad_to 32 k) vector_keys = None"
    using vector_keys_evaluated(1) by (auto simp: find_None_iff list_all_iff)
  with None show ?thesis by (simp add: vector_serialize_def vector_parse_def)
next
  case (Some pub)
  with vector_keys_evaluated(2) show ?thesis
    by (auto simp: vector_serialize_def vector_parse_def vector_keys_def split: if_splits)
qed

lemma vector_parse_Some: "vector_parse bs = Some k \<Longrightarrow> bs = vector_serialize k"
proof (cases "find (\<lambda>(_, pub). pub = bs) vector_keys")
  case None
  then show "vector_parse bs = Some k \<Longrightarrow> bs = vector_serialize k"
    by (auto simp: vector_parse_def vector_serialize_def dest: unpad_Some
        split: list.splits if_splits option.splits)
next
  case (Some x)
  then show "vector_parse bs = Some k \<Longrightarrow> bs = vector_serialize k"
    by (auto simp: vector_parse_def vector_serialize_def vector_keys_def split: if_splits)
qed

lemma vector_bolt8_keys: "bolt8_keys vector_secp 0x11 0x12 0x21 0x22"
proof -
  have len: "length (vector_serialize k) = 33" for k
    using vector_keys_evaluated(1)
    by (cases "map_of vector_keys k") (auto simp: vector_serialize_def list_all_iff dest: map_of_SomeD)
  have "keys_lawful vector_secp"
    by (simp add: keys_lawful_def vector_secp_def len vector_parse_serialize vector_parse_Some)
  moreover have "ecdh_lawful vector_secp"
    by (simp add: ecdh_lawful_def vector_secp_def toy_secp_def vector_secret_def insert_commute)
  moreover have "has_key vector_secp 0x11 0x11 v_si_pub" "has_key vector_secp 0x12 0x12 v_ei_pub"
    "has_key vector_secp 0x21 0x21 v_sr_pub" "has_key vector_secp 0x22 0x22 v_er_pub"
    by (simp_all add: has_key_def vector_secp_def toy_secp_def vector_serialize_def vector_keys_def)
  moreover have "vector_parse (b # rest) = None" if "b \<noteq> 2" "b \<noteq> 3" for b rest
  proof -
    have "find (\<lambda>(_, pub). pub = b # rest) vector_keys = None"
      using vector_keys_evaluated(1) that by (auto simp: find_None_iff list_all_iff)
    with that show ?thesis by (simp add: vector_parse_def)
  qed
  ultimately show ?thesis
    by (simp add: bolt8_keys_def)
      (simp add: vector_secp_def toy_secp_def vector_secret_def doubleton_eq_iff)
qed

text \<open>A cipher that looks its tables up and else appends a fixed tag.\<close>

definition spare_tag :: bytes where
  "spare_tag = replicate 16 0xff"

definition opened_vectors :: "((bytes \<times> bytes \<times> bytes \<times> bytes) \<times> bytes) list" where
  "opened_vectors = map (\<lambda>((k, n, ad, p), c). ((k, n, ad, c), p)) aead_vectors"

definition vector_open :: "bytes \<Rightarrow> bytes \<Rightarrow> bytes \<Rightarrow> bytes \<Rightarrow> bytes option" where
  "vector_open k n ad c =
     (case map_of opened_vectors (k, n, ad, c) of
        Some p \<Rightarrow> Some p
      | None \<Rightarrow>
          if 16 \<le> length c \<and> drop (length c - 16) c = spare_tag
          then Some (take (length c - 16) c) else None)"

definition vector_noise :: noise_lib where
  "vector_noise =
     \<lparr>aead_encrypt = (\<lambda>k n ad p. case map_of aead_vectors (k, n, ad, p) of
        Some c \<Rightarrow> Some c | None \<Rightarrow> Some (p @ spare_tag)),
      aead_decrypt = vector_open,
      hkdf_expand = (\<lambda>salt ikm n. case map_of hkdf_vectors (salt, ikm) of
        Some (a, b) \<Rightarrow> Some (take n (a @ b @ replicate n 0)) | None \<Rightarrow> Some (replicate n 0)),
      sha256 = (\<lambda>m. case map_of sha256_vectors m of Some d \<Rightarrow> d | None \<Rightarrow> replicate 32 0)\<rparr>"

text \<open>The keys, the nonces and the ciphertexts that the rows differ in.\<close>

lemma row_keys:
  "distinct [v_temp_k1, v_temp_k2, v_temp_k3, v_sk, v_sk1, v_sk2]"
  "distinct [v_n0, v_n1, v_n2, v_n3]" "distinct [v_si_pub, v_bad_key]" "distinct [v_c3, v_bad_c3]"
  "distinct [v_h0, v_ck1, v_ck2, v_ck3, v_ck4]" "distinct [[], v_sk]"
  by code_simp+

lemma row_keys_rev:
  "distinct [v_sk2, v_sk1, v_sk, v_temp_k3, v_temp_k2, v_temp_k1]"
  "distinct [v_n3, v_n2, v_n1, v_n0]" "distinct [v_bad_key, v_si_pub]" "distinct [v_bad_c3, v_c3]"
  "distinct [v_ck4, v_ck3, v_ck2, v_ck1, v_h0]" "distinct [v_sk, []]"
  using row_keys by auto

lemmas row_facts = row_keys [simplified] row_keys_rev [simplified]

lemma digest_rows: "distinct (map fst sha256_vectors)"
  by code_simp

lemma table_rows:
  "distinct (map fst hkdf_vectors)" "distinct (map fst aead_vectors)"
  "distinct (map fst opened_vectors)"
  by (simp_all add: hkdf_vectors_def aead_vectors_def opened_vectors_def row_facts)

lemma table_lengths:
  "list_all (\<lambda>(_, a, b). length a = 32 \<and> length b = 32) hkdf_vectors"
  "list_all (\<lambda>((k, n, ad, p), c). length c = length p + 16 \<and> drop (length c - 16) c \<noteq> spare_tag)
    aead_vectors"
  by code_simp+

lemma forged_tags:
  "list_all (\<lambda>(k, n, ad, c). drop (length c - 16) c \<noteq> spare_tag) aead_forged"
  by code_simp

lemma forged_rows:
  "list_all (\<lambda>(k, n, ad, c). map_of opened_vectors (k, n, ad, c) = None) aead_forged"
proof -
  have "flip_last v_tag1 1 \<noteq> v_tag1" "flip_last v_tag2 1 \<noteq> v_tag2" "flip_last v_tag3 1 \<noteq> v_tag3"
    "flip_first v_c3 0x70 \<noteq> v_c3" "flip_first v_c3 0x70 \<noteq> v_bad_c3" "flip_first v_hdr0 1 \<noteq> v_hdr0"
    "v_hdr0 \<noteq> v_msg0"
    by code_simp+
  then show ?thesis
    by (simp add: aead_forged_def opened_vectors_def aead_vectors_def row_facts)
qed

lemma vector_noise_lawful: "noise_lawful vector_noise"
proof -
  have tag: "length spare_tag = 16" by (simp add: spare_tag_def)
  have row: "length c = length p + 16 \<and> drop (length c - 16) c \<noteq> spare_tag \<and>
      map_of opened_vectors (k, n, ad, c) = Some p"
    if "((k, n, ad, p), c) \<in> set aead_vectors" for k n ad p c
  proof -
    have "((k, n, ad, c), p) \<in> set opened_vectors"
      using that by (force simp: opened_vectors_def)
    then show ?thesis using that table_lengths(2) table_rows(3) by (auto simp: list_all_iff)
  qed
  have opened: "((k, n, ad, p), c) \<in> set aead_vectors"
    if "map_of opened_vectors (k, n, ad, c) = Some p" for k n ad p c
    using map_of_SomeD [OF that] by (auto simp: opened_vectors_def)
  have spare: "map_of opened_vectors (k, n, ad, p @ spare_tag) = None" for k n ad p
  proof (rule ccontr)
    assume "map_of opened_vectors (k, n, ad, p @ spare_tag) \<noteq> None"
    then obtain q where "map_of opened_vectors (k, n, ad, p @ spare_tag) = Some q" by auto
    then have "((k, n, ad, q), p @ spare_tag) \<in> set aead_vectors" by (rule opened)
    then show False using row tag by fastforce
  qed
  have "\<exists>c. aead_encrypt vector_noise k n ad p = Some c \<and> length c = length p + 16 \<and>
      aead_decrypt vector_noise k n ad c = Some p" for k n ad p
  proof (cases "map_of aead_vectors (k, n, ad, p)")
    case None
    then show ?thesis by (simp add: vector_noise_def vector_open_def spare tag)
  next
    case (Some c)
    then show ?thesis using row [OF map_of_SomeD [OF Some]]
      by (simp add: vector_noise_def vector_open_def)
  qed
  moreover have "length c = length p + 16" if "aead_decrypt vector_noise k n ad c = Some p" for k n ad c p
    using that row [OF opened] by (auto simp: vector_noise_def vector_open_def split: option.splits if_splits)
  ultimately show ?thesis
    by (auto simp: noise_lawful_def vector_noise_def split: option.split)
qed

lemma vector_bolt8_lib: "bolt8_lib vector_noise"
proof -
  have "list_all (\<lambda>(m, d). sha256 vector_noise m = d) sha256_vectors"
    using digest_rows by (auto simp: list_all_iff vector_noise_def)
  moreover have "list_all (\<lambda>((salt, ikm), a, b). hkdf_expand vector_noise salt ikm 64 = Some (a @ b))
      hkdf_vectors"
    using table_rows(1) table_lengths(1) by (fastforce simp: list_all_iff vector_noise_def)
  moreover have "list_all (\<lambda>((k, n, ad, p), c). aead_encrypt vector_noise k n ad p = Some c)
      aead_vectors"
    using table_rows(2) by (auto simp: list_all_iff vector_noise_def)
  moreover have "list_all (\<lambda>(k, n, ad, c). aead_decrypt vector_noise k n ad c = None) aead_forged"
    using forged_rows forged_tags by (auto simp: list_all_iff vector_noise_def vector_open_def)
  ultimately show ?thesis by (simp add: bolt8_lib_def vector_noise_lawful)
qed

section \<open>The property\<close>

text \<open>\<open>tests.rs\<close> and the tests of \<open>cipher.rs\<close>.\<close>

definition handshake_tests :: "('pk, 'sk, 'sig) secp \<Rightarrow> noise_lib \<Rightarrow> hex_lib \<Rightarrow> bool" where
  "handshake_tests S N H \<longleftrightarrow>
     initiator_successful_handshake S N H \<and> initiator_act2_bad_version S N H \<and>
     initiator_act2_bad_pubkey S N H \<and> initiator_act2_bad_mac S N H \<and>
     responder_successful_handshake S N H \<and> responder_act1_bad_version S N H \<and>
     responder_act1_bad_pubkey S N H \<and> responder_act1_bad_mac S N H \<and>
     responder_act3_bad_version S N H \<and> responder_act3_bad_ciphertext S N H \<and>
     responder_act3_bad_pubkey S N H \<and> responder_act3_bad_mac S N H"

definition transport_tests :: "('pk, 'sk, 'sig) secp \<Rightarrow> noise_lib \<Rightarrow> hex_lib \<Rightarrow> bool" where
  "transport_tests S N H \<longleftrightarrow>
     message_encryption N H \<and> full_handshake_both_sides S N H \<and>
     (\<exists>to_responder to_initiator.
        noise_connection_handshake_and_messages S N H to_responder to_initiator) \<and>
     test_nonce_encoding \<and> test_hkdf_two_keys N H \<and> test_encrypt_with_ad N H \<and>
     test_decrypt_with_ad N H \<and> test_decrypt_with_ad_bad_mac N H \<and>
     test_decrypt_with_ad_wrong_nonce N H"

text \<open>
  C41: On the keys of BOLT 8, Appendix A, the model produces the acts, the transport keys and the
  packets of its test vectors, through two key rotations, and rejects the acts that the vectors
  make wrong, each with the error it must have: the unit tests of the crate \<open>noise\<close> hold, whatever the
  crates of the primitives are, as long as they give the primitive values listed there.
\<close>

theorem bolt8_tests_hold:
  assumes "bolt8_lib N" and "bolt8_keys S si ei sr er" and "hex_lawful H"
  shows "handshake_tests S N H \<and> transport_tests S N H"
  unfolding handshake_tests_def transport_tests_def
  by (intro conjI initiator_tests [OF assms] responder_tests [OF assms] cipher_tests [OF assms(1,3)]
      message_test [OF assms(1,3)] both_sides_test [OF assms] connection_test [OF assms])

theorem bolt8_tests_hold_witness:
  "handshake_tests vector_secp vector_noise toy_hex \<and> transport_tests vector_secp vector_noise toy_hex"
  by (rule bolt8_tests_hold [OF vector_bolt8_lib vector_bolt8_keys])
    (simp add: hex_lawful_def toy_hex_def)

end
