(* ===== verification/Cli.thy ===== *)
theory Cli
  imports Daemon
begin

text \<open>
  The command line client \<open>ln-gossip-sim/src/bin/cli.rs\<close> and the other end of its socket, the
  connection loop in \<open>main\<close> of \<open>simd.rs\<close>: the request a command makes, and how the daemon takes
  it apart again. A character stands for a code point below 256.
\<close>

section \<open>The client\<close>

datatype command =
    Connect string string
  | Disconnect string
  | Peers
  | Info
  | Mine u64
  | SendChannelAnnouncement string
  | SendChannelAnnouncement2 string
  | SendChannelUpdate string string
  | SendNodeAnnouncement string
  | SendMessage string string
  | Stop

fun command_line :: "command \<Rightarrow> string" where
  "command_line (Connect pubkey addr) = ''connect '' @ pubkey @ '' '' @ addr"
| "command_line (Disconnect pubkey) = ''disconnect '' @ pubkey"
| "command_line Peers = ''peers''"
| "command_line Info = ''info''"
| "command_line (Mine blocks) = ''mine '' @ string_of_nat (unat blocks)"
| "command_line (SendChannelAnnouncement pubkey) = ''sendchannelannouncement '' @ pubkey"
| "command_line (SendChannelAnnouncement2 pubkey) = ''sendchannelannouncement2 '' @ pubkey"
| "command_line (SendChannelUpdate pubkey scid) =
     ''sendchannelupdate '' @ pubkey @ '' '' @ scid"
| "command_line (SendNodeAnnouncement pubkey) = ''sendnodeannouncement '' @ pubkey"
| "command_line (SendMessage pubkey message) = ''sendmessage '' @ pubkey @ '' '' @ message"
| "command_line Stop = ''stop''"

text \<open>What the client writes before it shuts the writing side down.\<close>

definition request :: "command \<Rightarrow> string" where
  "request c = command_line c @ nl"

section \<open>The connection loop of the daemon\<close>

text \<open>\<open>lines()\<close>: the last line need not end, and a carriage return before the end is dropped.\<close>

definition is_newline :: "char \<Rightarrow> bool" where
  "is_newline c \<longleftrightarrow> c = CHR 0x0A"

definition strip_cr :: "string \<Rightarrow> string" where
  "strip_cr s = (if s \<noteq> [] \<and> last s = CHR 0x0D then butlast s else s)"

definition lines_of :: "string \<Rightarrow> string list" where
  "lines_of s =
     (let ls = split_where is_newline s in
      map strip_cr (butlast ls) @ (if last ls = [] then [] else [last ls]))"

text \<open>\<open>split_whitespace\<close>.\<close>

definition is_whitespace :: "char \<Rightarrow> bool" where
  "is_whitespace c \<longleftrightarrow> (let n = of_char c :: nat in 9 \<le> n \<and> n \<le> 13 \<or> n \<in> {0x20, 0x85, 0xA0})"

definition split_whitespace :: "string \<Rightarrow> string list" where
  "split_whitespace s = filter (\<lambda>w. w \<noteq> []) (split_where is_whitespace s)"

text \<open>
  Each line of the client is a command; the answers are written back in order. \<open>W i\<close> is the
  world as command \<open>i\<close> finds it.
\<close>

fun serve ::
    "('pk, 'sk, 'sig) secp \<Rightarrow> noise_lib \<Rightarrow> hex_lib \<Rightarrow> (nat \<Rightarrow> ('pk, 'sk, 'w) world) \<Rightarrow>
     'pk daemon \<Rightarrow> string list \<Rightarrow> panic + string \<times> 'pk daemon" where
  "serve S N H W d [] = Inr ([], d)"
| "serve S N H W d (line # lines) =
     and_then (handle_command S N H (W 0) d (split_whitespace line)) (\<lambda>(resp, d).
     and_then (serve S N H (\<lambda>i. W (Suc i)) d lines) (\<lambda>(out, d). Inr (resp @ out, d)))"

section \<open>The whole client\<close>

text \<open>
  Past its arguments: what the client prints on its standard output, or the error it exits with.
  \<open>connected\<close> and \<open>sent\<close> are the outcomes of connecting and of writing the command, \<open>reply\<close> what
  the daemon writes back until it closes the connection.
\<close>

definition print_lines :: "string list \<Rightarrow> string" where
  "print_lines ls = concat (map (\<lambda>l. l @ nl) ls)"

definition cli_main :: "bool \<Rightarrow> string + unit \<Rightarrow> (string \<Rightarrow> string) \<Rightarrow> command \<Rightarrow> string + string" where
  "cli_main connected sent reply c =
     (if \<not> connected then Inl ''Cannot connect to daemon. Is ln-gossip-simd running?''
      else case sent of
        Inl e \<Rightarrow> Inl (''Failed to send command: '' @ e)
      | Inr _ \<Rightarrow> Inr (print_lines (lines_of (reply (request c)))))"

section \<open>Requests are taken apart as they were put together\<close>

text \<open>What a command is meant to do: its handler, on its arguments.\<close>

fun command_words :: "command \<Rightarrow> string list" where
  "command_words (Connect pubkey addr) = [''connect'', pubkey, addr]"
| "command_words (Disconnect pubkey) = [''disconnect'', pubkey]"
| "command_words Peers = [''peers'']"
| "command_words Info = [''info'']"
| "command_words (Mine blocks) = [''mine'', string_of_nat (unat blocks)]"
| "command_words (SendChannelAnnouncement pubkey) = [''sendchannelannouncement'', pubkey]"
| "command_words (SendChannelAnnouncement2 pubkey) = [''sendchannelannouncement2'', pubkey]"
| "command_words (SendChannelUpdate pubkey scid) = [''sendchannelupdate'', pubkey, scid]"
| "command_words (SendNodeAnnouncement pubkey) = [''sendnodeannouncement'', pubkey]"
| "command_words (SendMessage pubkey message) = [''sendmessage'', pubkey, message]"
| "command_words Stop = [''stop'']"

definition word_ok :: "string \<Rightarrow> bool" where
  "word_ok w \<longleftrightarrow> w \<noteq> [] \<and> list_all (\<lambda>c. \<not> is_whitespace c) w"

lemma newline_is_whitespace: "is_newline c \<Longrightarrow> is_whitespace c"
  by (simp add: is_newline_def is_whitespace_def)

lemma split_whitespace_word:
  "word_ok w \<Longrightarrow> is_whitespace c \<Longrightarrow> split_whitespace (w @ c # s) = w # split_whitespace s"
  "word_ok w \<Longrightarrow> split_whitespace w = [w]"
  by (simp_all add: split_whitespace_def split_where_field word_ok_def list_all_iff)

fun unwords :: "string list \<Rightarrow> string" where
  "unwords [] = []"
| "unwords [w] = w"
| "unwords (w # ws) = w @ CHR '' '' # unwords ws"

lemma split_unwords: "list_all word_ok ws \<Longrightarrow> split_whitespace (unwords ws) = ws"
proof (induction ws rule: unwords.induct)
  case 1
  show ?case by (simp add: split_whitespace_def)
qed (simp_all add: split_whitespace_word is_whitespace_def)

lemma unwords_chars:
  "list_all word_ok ws \<Longrightarrow> c \<in> set (unwords ws) \<Longrightarrow> is_whitespace c \<Longrightarrow> c = CHR '' ''"
  by (induction ws rule: unwords.induct) (auto simp: word_ok_def list_all_iff)

lemma line_of_unwords:
  assumes "list_all word_ok ws"
  shows "lines_of (unwords ws @ nl) = [unwords ws]"
proof -
  have "\<forall>c \<in> set (unwords ws). \<not> is_newline c"
    using unwords_chars [OF assms] newline_is_whitespace by (fastforce simp: is_newline_def)
  then have "split_where is_newline (unwords ws @ nl) = [unwords ws, []]"
    by (simp add: nl_def split_where_field is_newline_def)
  moreover have "unwords ws \<noteq> [] \<Longrightarrow> last (unwords ws) \<noteq> CHR 0x0D"
    using unwords_chars [OF assms last_in_set] by (force simp: is_whitespace_def)
  ultimately show ?thesis by (auto simp: lines_of_def strip_cr_def)
qed

text \<open>An answer without carriage returns is printed as it is, its last line ended if it was not.\<close>

lemma split_where_nonempty: "split_where p s \<noteq> []"
  by (induction s) (auto split: list.splits)

lemma print_split:
  "print_lines (split_where is_newline s) = s @ nl"
  by (induction s) (auto simp: print_lines_def is_newline_def nl_def split_where_nonempty split: list.splits)

lemma split_where_chars: "l \<in> set (split_where p s) \<Longrightarrow> set l \<subseteq> set s"
proof (induction s arbitrary: l)
  case (Cons a s)
  then show ?case by (auto split: if_splits list.splits) fastforce+
qed simp

lemma split_where_end:
  "p c \<Longrightarrow> split_where p (s @ [c]) = split_where p s @ [[]]"
  by (induction s) (auto split: list.splits simp: split_where_nonempty)

lemma print_answer:
  assumes "CHR 0x0D \<notin> set s"
  shows "print_lines (lines_of (s @ nl)) = s @ nl"
proof -
  have "strip_cr l = l" if "l \<in> set (split_where is_newline s)" for l
    using split_where_chars [OF that] assms by (metis last_in_set strip_cr_def subsetD)
  then have "lines_of (s @ nl) = split_where is_newline s"
    by (simp add: lines_of_def nl_def split_where_end is_newline_def map_idI)
  then show ?thesis by (simp add: print_split)
qed

lemma command_line_words: "command_line c = unwords (command_words c)"
  by (cases c) simp_all

lemma digits_ok: "word_ok (string_of_nat n)"
  using string_of_nat_digits [of n]
  by (auto simp: word_ok_def list_all_iff is_digit_def is_whitespace_def Let_def)

text \<open>The handler each command is for.\<close>

fun command_effect ::
    "('pk, 'sk, 'sig) secp \<Rightarrow> noise_lib \<Rightarrow> hex_lib \<Rightarrow> ('pk, 'sk, 'w) world \<Rightarrow> 'pk daemon \<Rightarrow>
     command \<Rightarrow> panic + string \<times> 'pk daemon" where
  "command_effect S N H W d (Connect pk addr) = cmd_connect S N H W d [''connect'', pk, addr]"
| "command_effect S N H W d (Disconnect pk) = Inr (cmd_disconnect S H d [''disconnect'', pk])"
| "command_effect S N H W d Peers = Inr (cmd_peers S W d, d)"
| "command_effect S N H W d Info = Inr (cmd_info S W d, d)"
| "command_effect S N H W d (Mine n) = Inr (cmd_mine S W [''mine'', string_of_nat (unat n)], d)"
| "command_effect S N H W d (SendChannelAnnouncement pk) =
     cmd_send_channel_announcement S N H W d [''sendchannelannouncement'', pk]"
| "command_effect S N H W d (SendChannelAnnouncement2 pk) =
     cmd_send_channel_announcement_2 S N H W d [''sendchannelannouncement2'', pk]"
| "command_effect S N H W d (SendChannelUpdate pk scid) =
     cmd_send_channel_update S N H d [''sendchannelupdate'', pk, scid]"
| "command_effect S N H W d (SendNodeAnnouncement pk) =
     cmd_send_node_announcement S N H d [''sendnodeannouncement'', pk]"
| "command_effect S N H W d (SendMessage pk m) = cmd_send_message S N H d [''sendmessage'', pk, m]"
| "command_effect S N H W d Stop = Inr (''Stopping daemon'' @ nl, shutdown d)"

lemma handle_command_words:
  "handle_command S N H W d (command_words c) = command_effect S N H W d c"
  by (cases c) (simp_all add: handle_command_def)

lemma and_then_Inr [simp]: "and_then r Inr = r"
  by (cases r) simp_all

lemma serve_request:
  assumes "list_all word_ok (command_words c)"
  shows "serve S N H W d (lines_of (request c)) = command_effect S N H (W 0) d c"
  unfolding request_def command_line_words line_of_unwords [OF assms]
  by (simp add: split_unwords [OF assms] handle_command_words)

section \<open>A client only makes the daemon take its steps\<close>

lemma serve_steps:
  "daemon_inv d \<Longrightarrow> serve S N H W d ls = Inr (out, d') \<Longrightarrow> (daemon_step S N)\<^sup>*\<^sup>* d d'"
proof (induction ls arbitrary: W d out)
  case (Cons line ls)
  then obtain resp d1 rest where 1: "handle_command S N H (W 0) d (split_whitespace line) = Inr (resp, d1)"
    and 2: "serve S N H (\<lambda>i. W (Suc i)) d1 ls = Inr (rest, d')"
    by auto
  have steps: "(daemon_step S N)\<^sup>*\<^sup>* d d1" using handle_command_steps [OF Cons.prems(1) 1] .
  also have "(daemon_step S N)\<^sup>*\<^sup>* d1 d'"
    using Cons.IH [OF daemon_run.inv_reachable [OF steps Cons.prems(1)] 2] .
  finally show ?case .
qed simp

end
