(* ===== verification/Server.thy ===== *)
theory Server
  imports Cli
begin

text \<open>
  \<open>main\<close> of \<open>ln-gossip-sim/src/bin/simd.rs\<close>: the loop that accepts clients until it is told to
  stop, the task that serves each client line by line, and the tasks of the peers in the
  background. When the loop ends, the process ends, and every task with it.
\<close>

section \<open>State and steps\<close>

text \<open>
  \<open>sv_clients\<close> holds, for each client accepted, the lines it has yet to be served and what has
  been written back to it.
\<close>

record 'pk server =
  sv_running :: bool
  sv_clients :: "(string list \<times> string) list"
  sv_daemon :: "'pk daemon"

definition server_start :: "'pk daemon \<Rightarrow> 'pk server" where
  "server_start d = \<lparr>sv_running = True, sv_clients = [], sv_daemon = d\<rparr>"

text \<open>
  \<open>main\<close> up to the loop: either the process exits with a message, or it listens on its socket.
  \<open>bound\<close> is the outcome of binding the socket.
\<close>

definition main_start ::
    "('pk, 'sk, 'sig) secp \<Rightarrow> ('sk, 'w) bitcoind_rpc \<Rightarrow> string \<Rightarrow> 'w \<Rightarrow> string + unit \<Rightarrow>
     noise_writer \<Rightarrow> (string, 'pk server, 'w) outcome" where
  "main_start S R url w bound writer =
     and_then (client_new R url w) (\<lambda>(res, w). case res of
       Inl e \<Rightarrow> Inr (Inl (''Failed to connect to bitcoind: '' @ sim_error_str e), w)
     | Inr _ \<Rightarrow>
         and_then (daemon_new S writer) (\<lambda>d. case bound of
           Inl e \<Rightarrow> Inr (Inl (''Failed to bind unix socket: '' @ e), w)
         | Inr _ \<Rightarrow> Inr (Inr (server_start d), w)))"

text \<open>
  The branches of the \<open>select!\<close>: a client accepted, which may go on to send any lines, an error
  of \<open>accept\<close>, which is only logged, the interrupt, and the change of the stop flag; then one
  line of one client, in one of the worlds \<open>Ws\<close> it may find, and one step of the daemon. A command
  that is served while the tasks or other commands move is the sequence of its own steps of the
  daemon, with theirs between.
\<close>

inductive server_step ::
    "('pk, 'sk, 'sig) secp \<Rightarrow> noise_lib \<Rightarrow> hex_lib \<Rightarrow> ('pk, 'sk, 'w) world set \<Rightarrow>
     'pk server \<Rightarrow> 'pk server \<Rightarrow> bool"
  for S :: "('pk, 'sk, 'sig) secp" and N :: noise_lib and H :: hex_lib
    and Ws :: "('pk, 'sk, 'w) world set" where
  accepted: "sv_running s \<Longrightarrow>
    server_step S N H Ws s (s\<lparr>sv_clients := sv_clients s @ [(lines, [])]\<rparr>)"
| accept_failed: "sv_running s \<Longrightarrow> server_step S N H Ws s s"
| interrupted: "sv_running s \<Longrightarrow>
    server_step S N H Ws s (s\<lparr>sv_running := False, sv_daemon := shutdown (sv_daemon s)\<rparr>)"
| stop_changed: "sv_running s \<Longrightarrow> d_stop (sv_daemon s) \<Longrightarrow>
    server_step S N H Ws s (s\<lparr>sv_running := False\<rparr>)"
| served: "sv_running s \<Longrightarrow> i < length (sv_clients s) \<Longrightarrow> sv_clients s ! i = (line # rest, out) \<Longrightarrow>
    W \<in> Ws \<Longrightarrow>
    handle_command S N H W (sv_daemon s) (split_whitespace line) = Inr (resp, d') \<Longrightarrow>
    server_step S N H Ws s (s\<lparr>sv_clients := (sv_clients s)[i := (rest, out @ resp)], sv_daemon := d'\<rparr>)"
| background: "sv_running s \<Longrightarrow> daemon_step S N (sv_daemon s) d' \<Longrightarrow>
    server_step S N H Ws s (s\<lparr>sv_daemon := d'\<rparr>)"

inductive_cases server_stepE: "server_step S N H Ws s s'"

section \<open>Runs of the server are runs of the daemon\<close>

definition server_inv :: "'pk server \<Rightarrow> bool" where
  "server_inv s \<longleftrightarrow> daemon_inv (sv_daemon s) \<and> (\<not> sv_running s \<longrightarrow> d_stop (sv_daemon s))"

lemma server_step_daemon:
  assumes "server_inv s" and "server_step S N H Ws s s'"
  shows "(daemon_step S N)\<^sup>*\<^sup>* (sv_daemon s) (sv_daemon s')"
  using assms(2)
proof (cases rule: server_stepE [consumes 1, case_names accepted failed interrupted changed served background])
  case interrupted
  then show ?thesis using step_stop by auto
next
  case (served i line rest out W resp d')
  have "(daemon_step S N)\<^sup>*\<^sup>* (sv_daemon s) d'"
    using handle_command_steps [OF _ served(6)] assms(1) by (simp add: server_inv_def)
  then show ?thesis using served(1) by simp
next
  case (background d')
  then show ?thesis by auto
qed simp_all

lemma server_step_running:
  assumes "server_step S N H Ws s s'"
  shows "sv_running s" and "\<not> sv_running s' \<Longrightarrow> d_stop (sv_daemon s')"
  using assms by (auto elim!: server_stepE simp: shutdown_def)

lemma server_inv_step:
  assumes "server_inv s" and "server_step S N H Ws s s'"
  shows "server_inv s'"
  using daemon_run.inv_reachable [OF server_step_daemon [OF assms]] assms(1)
    server_step_running(2) [OF assms(2)]
  unfolding server_inv_def by blast

lemma server_step_next:
  assumes "server_inv s" and "server_step S N H Ws s s'"
  shows "d_next (sv_daemon s) \<le> d_next (sv_daemon s')"
  using daemon_run.rank_reachable [OF server_step_daemon [OF assms]] assms(1)
  by (simp add: server_inv_def)

interpretation server_run:
  step_system "server_step S N H Ws" server_inv "\<lambda>s. d_next (sv_daemon s)"
  for S :: "('pk, 'sk, 'sig) secp" and N :: noise_lib and H :: hex_lib
    and Ws :: "('pk, 'sk, 'w) world set"
  by (rule step_system.intro; erule (1) server_inv_step server_step_next)

lemma server_steps_daemon:
  assumes "server_inv s" and "(server_step S N H Ws)\<^sup>*\<^sup>* s s'"
  shows "(daemon_step S N)\<^sup>*\<^sup>* (sv_daemon s) (sv_daemon s')"
  using assms(2)
proof (induction rule: rtranclp_induct)
  case (step t u)
  then show ?case
    using server_step_daemon [OF server_run.inv_reachable [OF step.hyps(1) assms(1)] step.hyps(2)]
    by (rule_tac rtranclp_trans)
qed simp

lemma main_startE:
  assumes "main_start S R url w bound writer = Inr (Inr s, w')"
  obtains d where "daemon_new S writer = Inr d" and "s = server_start d"
proof (cases "client_new R url w")
  case (Inr p)
  obtain res w1 where "p = (res, w1)" by (cases p)
  then show ?thesis using assms Inr
    by (cases res; cases bound) (auto simp: main_start_def intro: that)
qed (use assms in \<open>simp add: main_start_def\<close>)

lemma server_start_inv: "daemon_inv d \<Longrightarrow> server_inv (server_start d)"
  by (simp add: server_inv_def server_start_def)

section \<open>What is served to one client\<close>

text \<open>
  A client whose lines are served one after the other, with nothing between, is answered as
  \<open>serve\<close> says.
\<close>

lemma server_serves:
  assumes "sv_running s" and "i < length (sv_clients s)" and "sv_clients s ! i = (lines, out)"
    and "range Wf \<subseteq> Ws" and "serve S N H Wf (sv_daemon s) lines = Inr (resp, d')"
  shows "(server_step S N H Ws)\<^sup>*\<^sup>* s
    (s\<lparr>sv_clients := (sv_clients s)[i := ([], out @ resp)], sv_daemon := d'\<rparr>)"
  using assms
proof (induction lines arbitrary: s Wf out resp)
  case Nil
  have "(sv_clients s)[i := ([], out)] = sv_clients s" using Nil.prems(3) by (metis list_update_id)
  then show ?case using Nil.prems(5) by (cases s) auto
next
  case (Cons line rest)
  obtain resp1 d1 resp2 where
    1: "handle_command S N H (Wf 0) (sv_daemon s) (split_whitespace line) = Inr (resp1, d1)" and
    2: "serve S N H (\<lambda>k. Wf (Suc k)) d1 rest = Inr (resp2, d')" and resp: "resp = resp1 @ resp2"
    using Cons.prems(5) by auto
  let ?s = "s\<lparr>sv_clients := (sv_clients s)[i := (rest, out @ resp1)], sv_daemon := d1\<rparr>"
  have "server_step S N H Ws s ?s"
    using served [OF Cons.prems(1-3) _ 1] Cons.prems(4) by blast
  moreover have "(server_step S N H Ws)\<^sup>*\<^sup>* ?s
      (?s\<lparr>sv_clients := (sv_clients ?s)[i := ([], (out @ resp1) @ resp2)], sv_daemon := d'\<rparr>)"
    using Cons.prems(1,2,4) 2 by (intro Cons.IH [where Wf = "\<lambda>k. Wf (Suc k)"]) auto
  ultimately show ?case by (simp add: resp converse_rtranclp_into_rtranclp)
qed

text \<open>A client of the command line: it connects, writes its request and reads the answer.\<close>

lemma server_answers:
  assumes "sv_running s" and "list_all word_ok (command_words c)" and "W \<in> Ws"
    and "command_effect S N H W (sv_daemon s) c = Inr (resp, d')"
  shows "(server_step S N H Ws)\<^sup>*\<^sup>* s
    (s\<lparr>sv_clients := sv_clients s @ [([], resp)], sv_daemon := d'\<rparr>)"
proof -
  let ?lines = "lines_of (request c)"
  let ?s = "s\<lparr>sv_clients := sv_clients s @ [(?lines, [])]\<rparr>"
  have "server_step S N H Ws s ?s" using accepted [OF assms(1)] .
  moreover have "(server_step S N H Ws)\<^sup>*\<^sup>* ?s
      (?s\<lparr>sv_clients := (sv_clients ?s)[length (sv_clients s) := ([], [] @ resp)],
        sv_daemon := d'\<rparr>)"
    using assms serve_request [OF assms(2), of S N H "\<lambda>_. W" "sv_daemon s"]
    by (intro server_serves [where lines = ?lines and Wf = "\<lambda>_. W"]) auto
  ultimately show ?thesis by (simp add: converse_rtranclp_into_rtranclp)
qed

end
