(* ===== verification/Spec2Isabelle.thy ===== *)
theory Spec2Isabelle
  imports Bolt_Theorems Noise_Theorems Bitcoind_Theorems Daemon_Theorems Gossip_Theorems Test_Theorems
    Noise_Test_Theorems Server
begin

text \<open>
  ln-gossip-sim, a Lightning Network gossip simulator: a model of its three crates with the
  theorems that make it correct.

  THE PROGRAM. A daemon (\<open>ln-gossip-sim/src/bin/simd.rs\<close>) keeps encrypted connections to
  Lightning nodes and sends them gossip on command. A client (\<open>bin/cli.rs\<close>) writes one line per
  command to a Unix socket. The crate \<open>bolt\<close> encodes and decodes the messages, the crate
  \<open>noise\<close> is the BOLT 8 transport, \<open>conn.rs\<close> joins both over a TCP stream, and
  \<open>bitcoind.rs\<close> mines funding outputs whose positions become the short channel ids announced.

  THE THEORIES, in the order of import, with the files under src/ they model.
  \<^item> \<open>Prelude\<close>: results and panics as sums (\<open>and_then\<close> is the operator \<open>?\<close>, \<open>outcome\<close> a method
    on \<open>&mut self\<close> that may also panic), big-endian bytes, slices, UTF-8, decimal text, and the
    locale \<open>step_system\<close> of a step relation with an invariant and a rank.
  \<^item> \<open>External\<close>: third-party crates as records of functions, with their documented laws.
  \<^item> \<open>Bolt_Types\<close> (\<open>bolt/src/types.rs\<close>, \<open>BoltError\<close>), \<open>Wire\<close> (\<open>wire.rs\<close>: one locale
    \<open>wire_format\<close> with an interpretation for every implementation of the trait), \<open>Tlv\<close>
    (\<open>tlv.rs\<close>: locale \<open>keyed_store\<close>), \<open>Message_Codec\<close> (the locales \<open>message_codec\<close> and
    \<open>plain_message\<close>, the contract of every message), \<open>Bolt1\<close> (warning, error, ping, pong,
    init), \<open>Bolt2\<close> (open_channel, funding_created), \<open>Bolt7\<close> (the three announcements and the
    two range queries), \<open>Message\<close> (\<open>bolt/src/lib.rs\<close>).
  \<^item> \<open>Cipher\<close> (\<open>noise/src/cipher.rs\<close>, \<open>error.rs\<close>: locale \<open>packet_channel\<close>, interpreted on the
    split halves and on the full cipher), \<open>Handshake\<close> (\<open>handshake.rs\<close>: \<open>hs_step\<close> is a call of
    any method with any input), \<open>Rotation\<close> (the BOLT 8 key schedule as a specification),
    \<open>Conn\<close> (\<open>ln-gossip-sim/src/conn.rs\<close>), \<open>Connection\<close> (\<open>noise/src/connection.rs\<close>).
  \<^item> \<open>Scid\<close> (short channel ids as text), \<open>Peer\<close> (\<open>keys.rs\<close>, the message handler and the
    branches of the read task), \<open>Bitcoind\<close> (\<open>bitcoind.rs\<close>, \<open>error.rs\<close>), \<open>Daemon\<close> (the state of
    the daemon, its commands, and \<open>daemon_step\<close>, the interleaving of commands and tasks at
    their \<open>await\<close> points), \<open>Peer_Table\<close> (when the table follows the connections), \<open>Cli\<close>
    (\<open>bin/cli.rs\<close> and the loop that serves one client), \<open>Server\<close> (\<open>main\<close>: its start, and
    \<open>server_step\<close>, the branches of its loop with the tasks of the clients).
  \<^item> \<open>Unit_Test\<close>, \<open>Wire_Tests\<close>, \<open>Tlv_Tests\<close>, \<open>Bolt1_Tests\<close>, \<open>Bolt2_Tests\<close>, \<open>Bolt7_Tests\<close>, \<open>Query_Tests\<close>,
    \<open>Message_Tests\<close>: the unit tests of the crate \<open>bolt\<close>, evaluated on the model; their names are
    those of the tests, with the file in front where two files share one.
  \<^item> \<open>Noise_Vectors\<close>, \<open>Noise_Tests\<close>, \<open>Noise_Test_Theorems\<close>: the unit tests of the crate \<open>noise\<close>
    (\<open>tests.rs\<close> and those in \<open>cipher.rs\<close>), that is the vectors of BOLT 8, on the model; what the
    primitives give at the points they reach is a hypothesis, met by an instance of tables.
  \<^item> \<open>Instances\<close>, \<open>Daemon_Instances\<close>: concrete functions for the parameters, which satisfy the
    laws, for the applications (\<open>..._witness\<close>) of the properties.
  \<^item> \<open>Bolt_Theorems\<close>, \<open>Noise_Theorems\<close>, \<open>Bitcoind_Theorems\<close>, \<open>Daemon_Theorems\<close>,
    \<open>Gossip_Theorems\<close>, \<open>Test_Theorems\<close> and this theory: the properties.

  CORRESPONDENCE. A struct is a record and an enum a datatype with the fields and variants of
  the source; \<open>u8\<close> to \<open>u64\<close> are words of that width, \<open>usize\<close> a natural number (64 bits), an
  array \<open>[u8; N]\<close> a list whose length the \<open>wf_\<close> predicates fix. A method on \<open>&mut self\<close> returns the
  new state; \<open>Result\<close> is a sum and a panic (\<open>assert!\<close>, \<open>expect\<close>, indexing) an outer sum, so each
  early return and each panic is a branch. A stream is what its operations can return: the
  bytes written and how many more are accepted, the bytes to arrive and the error after them.
  A connection has a number, which stands for the \<open>Arc\<close> of its writer and the handle of its task.

  WHAT THE LEMMAS SHOW. For the messages: decoding inverts encoding and accepts nothing else;
  the odd/even rules; a TLV stream as a finite map; where lengths wrap; the signatures cover the
  bytes sent. For the transport: two honest sides agree, no input makes a method panic, the
  state only moves forward, the key schedule is that of BOLT 8, packets arrive whole and in
  order, the two connection types agree. For the daemon: what each command sends, from the
  funding output to the bytes on the stream; one owner per connection under any interleaving;
  a table that follows the connections under careful use; runs of the program as runs of the daemon;
  the unit tests of the repository, as theorems about the model, with the vectors of BOLT 1 and 8;
  and the behaviours that are defects: a lost table entry, a stale one, a message lost when
  the ticker cancels a receive, a panic on mining no block, wrapping list lengths.

  TERMINATION. No fuel is used. \<open>tlv_loop\<close> and \<open>recv_message\<close> terminate because each pass takes
  bytes off a finite input (\<open>decode_record_consumes\<close>, \<open>reader_recv_consumes\<close>); every other
  recursion is structural. What has arrived on a stream is a finite list, so the loop returns
  with a message or with what ended the stream; a peer that pauses is one whose next bytes have
  not been given yet.

  PARAMETERS. The crates \<open>bitcoin\<close>, \<open>secp256k1\<close>, \<open>chacha20poly1305\<close>, \<open>hkdf\<close>, \<open>sha2\<close>, \<open>hex\<close> and
  \<open>corepc-client\<close> are records of functions; no cryptographic strength is assumed. Parsing and
  dialling an address, random keys, the order in which a hash map is listed and the text of a
  \<open>JoinError\<close> are fields of \<open>world\<close>.

  NOT MODELLED. Logging (\<open>log.rs\<close> and every \<open>log::\<close> call), argument parsing by \<open>clap\<close>, the
  socket file (binding and connecting it are parameters), the cryptography itself, and the one
  test that states its strength (\<open>verify_fails_on_tampered_body\<close>). A command is one step when
  its own effect is stated and is cut at its \<open>await\<close> points in \<open>daemon_step\<close>; the lock of a
  writer is held for one \<open>send\<close>, so sends are atomic.
\<close>

section \<open>From the command line to the handlers\<close>

text \<open>
  C13: What the command line client writes for a command whose arguments are words (not empty,
  no whitespace), the daemon reads as one line and hands, with the same arguments, to the
  handler of that command.
\<close>

theorem cli_reaches_handler:
  assumes "list_all word_ok (command_words c)"
  shows "serve S N H W d (lines_of (request c)) = command_effect S N H (W 0) d c"
  using assms by (rule serve_request)

theorem cli_reaches_handler_witness:
  "serve toy_secp toy_noise toy_hex (\<lambda>_. toy_world) toy_connected
     (lines_of (request (SendChannelUpdate ''0211'' ''539268x1x1''))) =
   cmd_send_channel_update toy_secp toy_noise toy_hex toy_connected
     [''sendchannelupdate'', ''0211'', ''539268x1x1'']"
proof -
  have "list_all word_ok (command_words (SendChannelUpdate ''0211'' ''539268x1x1''))" by code_simp
  from cli_reaches_handler [OF this] show ?thesis by simp
qed

section \<open>The whole program\<close>






end
